(* ===== verification/Bifrost_Prelude.thy ===== *)
theory Bifrost_Prelude
  imports
    Main
    "HOL-Library.Word"
    "HOL-Library.AList"
    "HOL-Library.Char_ord"
    "HOL-Library.List_Lexorder"
    "HOL-Library.Product_Lexorder"
begin

text \<open>
  Vocabulary shared by every component: the machine integers of the Go source as fixed-width words,
  Go strings as byte lists together with the few functions of the packages \<^verbatim>\<open>strings\<close> and
  \<^verbatim>\<open>strconv\<close> that the source calls, Go maps as association lists with distinct keys, the bind of
  fallible code (a sum whose left side is the error), and the interface locale that every keyed
  table of the program satisfies.

  A Go map has no iteration order.  Its model is a list of bindings; the order of the list stands for
  the order in which a \<^verbatim>\<open>range\<close> loop happens to visit the map, so a statement proved for every list
  with distinct keys holds for every iteration order.
\<close>

named_theorems gomap_simps \<open>lookup laws of Go maps\<close>
named_theorems gostring_simps \<open>unfolding of the string helpers\<close>

type_synonym u64 = "64 word"
type_synonym u32 = "32 word"
type_synonym u16 = "16 word"


section \<open>Fallible code\<close>

definition ebind :: "'e + 'a \<Rightarrow> ('a \<Rightarrow> 'e + 'b) \<Rightarrow> 'e + 'b" where
  "ebind r f = (case r of Inl e \<Rightarrow> Inl e | Inr x \<Rightarrow> f x)"

definition ok :: "'e + 'a \<Rightarrow> bool" where
  "ok r = (case r of Inl _ \<Rightarrow> False | Inr _ \<Rightarrow> True)"

definition guard_err :: "bool \<Rightarrow> 'e \<Rightarrow> 'e + unit" where
  "guard_err b e = (if b then Inr () else Inl e)"

fun first_err :: "('a \<Rightarrow> 'e + unit) \<Rightarrow> 'a list \<Rightarrow> 'e + unit" where
  "first_err f [] = Inr ()"
| "first_err f (x # xs) = ebind (f x) (\<lambda>_. first_err f xs)"


section \<open>Strings\<close>

definition HasPrefix :: "string \<Rightarrow> string \<Rightarrow> bool" where
  "HasPrefix s p = (length p \<le> length s \<and> take (length p) s = p)"

definition HasSuffix :: "string \<Rightarrow> string \<Rightarrow> bool" where
  "HasSuffix s p = (length p \<le> length s \<and> drop (length s - length p) s = p)"

definition CutPrefix :: "string \<Rightarrow> string \<Rightarrow> string \<times> bool" where
  "CutPrefix s p = (if HasPrefix s p then (drop (length p) s, True) else (s, False))"

definition TrimPrefix :: "string \<Rightarrow> string \<Rightarrow> string" where
  "TrimPrefix s p = (if HasPrefix s p then drop (length p) s else s)"

definition TrimSuffix :: "string \<Rightarrow> string \<Rightarrow> string" where
  "TrimSuffix s p = (if HasSuffix s p then take (length s - length p) s else s)"

definition is_lower :: "char \<Rightarrow> bool" where
  "is_lower c = (97 \<le> (of_char c :: nat) \<and> (of_char c :: nat) \<le> 122)"

definition is_upper :: "char \<Rightarrow> bool" where
  "is_upper c = (65 \<le> (of_char c :: nat) \<and> (of_char c :: nat) \<le> 90)"

definition is_digit :: "char \<Rightarrow> bool" where
  "is_digit c = (48 \<le> (of_char c :: nat) \<and> (of_char c :: nat) \<le> 57)"

definition digit_char :: "nat \<Rightarrow> char" where
  "digit_char n = char_of (48 + n)"

function nat_digits :: "nat \<Rightarrow> string" where
  "nat_digits n = (if n < 10 then [digit_char n] else nat_digits (n div 10) @ [digit_char (n mod 10)])"
  by pat_completeness auto
termination by (relation "measure id") auto

definition itoa :: "int \<Rightarrow> string" where
  "itoa i = (if i < 0 then CHR ''-'' # nat_digits (nat (- i)) else nat_digits (nat i))"

declare nat_digits.simps [simp del]


section \<open>JSON values\<close>

text \<open>
  The values the package \<^verbatim>\<open>encoding/json\<close> reads and writes, after tokenising: the custom
  \<^verbatim>\<open>MarshalJSON\<close> and \<^verbatim>\<open>UnmarshalJSON\<close> methods of the source are functions between these values and
  the model's types.  \<^verbatim>\<open>JLit\<close> holds the text of a number that is not an integer.  Decoding \<^verbatim>\<open>null\<close>
  into a Go string leaves the string at its zero value.
\<close>

datatype json =
  JNull | JBool bool | JNum int | JStr string | JArr "json list" | JObj "(string \<times> json) list" | JLit string

definition json_to_string :: "'e \<Rightarrow> json \<Rightarrow> 'e + string" where
  "json_to_string e j = (case j of JStr s \<Rightarrow> Inr s | JNull \<Rightarrow> Inr [] | _ \<Rightarrow> Inl e)"

definition enum_unmarshal ::
  "(string \<Rightarrow> 'a) \<Rightarrow> ('a \<Rightarrow> bool) \<Rightarrow> (string \<Rightarrow> 'e) \<Rightarrow> 'e \<Rightarrow> json \<Rightarrow> 'e + 'a" where
  "enum_unmarshal conv valid bad notstr j = ebind (json_to_string notstr j) (\<lambda>s.
     if \<not> valid (conv s) then Inl (bad s) else Inr (conv s))"


section \<open>Go maps\<close>

type_synonym ('k, 'v) gomap = "('k \<times> 'v) list"

definition gget :: "('k, 'v) gomap \<Rightarrow> 'k \<Rightarrow> 'v option" where
  "gget m k = map_of m k"

definition gput :: "'k \<Rightarrow> 'v \<Rightarrow> ('k, 'v) gomap \<Rightarrow> ('k, 'v) gomap" where
  "gput k v m = AList.update k v m"

definition gdel :: "'k \<Rightarrow> ('k, 'v) gomap \<Rightarrow> ('k, 'v) gomap" where
  "gdel k m = AList.delete k m"

definition gkeys :: "('k, 'v) gomap \<Rightarrow> 'k list" where
  "gkeys m = map fst m"

definition gvals :: "('k, 'v) gomap \<Rightarrow> 'v list" where
  "gvals m = map snd m"

definition gwf :: "('k, 'v) gomap \<Rightarrow> bool" where
  "gwf m = distinct (map fst m)"


section \<open>Laws\<close>

lemma ebind_simps [simp]:
  "ebind (Inl e) f = Inl e" "ebind (Inr x) f = f x"
  by (simp_all add: ebind_def)

lemma ebind_Inr_conv: "ebind r f = Inr y \<longleftrightarrow> (\<exists>x. r = Inr x \<and> f x = Inr y)"
  by (cases r) auto

lemma ebind_Inl_conv: "ebind r f = Inl e \<longleftrightarrow> r = Inl e \<or> (\<exists>x. r = Inr x \<and> f x = Inl e)"
  by (cases r) auto

lemma ebind_assoc: "ebind (ebind r f) g = ebind r (\<lambda>x. ebind (f x) g)"
  by (cases r) auto

lemma ok_simps [simp]: "\<not> ok (Inl e)" "ok (Inr x)"
  by (simp_all add: ok_def)

lemma ok_conv: "ok r \<longleftrightarrow> (\<exists>x. r = Inr x)"
  by (cases r) auto

lemma ok_ebind: "ok (ebind r f) \<longleftrightarrow> (\<exists>x. r = Inr x \<and> ok (f x))"
  by (cases r) auto

lemma guard_err_conv [simp]:
  "guard_err b e = Inr u \<longleftrightarrow> b" "guard_err b e = Inl e' \<longleftrightarrow> \<not> b \<and> e' = e"
  by (auto simp: guard_err_def)

lemma ok_guard_err [simp]: "ok (guard_err b e) = b"
  by (simp add: guard_err_def)

lemma first_err_Inr: "first_err f xs = Inr u \<longleftrightarrow> (\<forall>x\<in>set xs. f x = Inr ())"
  by (induction xs) (auto simp: ebind_Inr_conv)

lemma first_err_Inl: "first_err f xs = Inl e \<Longrightarrow> \<exists>x\<in>set xs. f x = Inl e"
  by (induction xs) (auto simp: ebind_Inl_conv)

lemma UN_restrict: "(\<And>r e. e \<in> F r \<Longrightarrow> r \<in> R) \<Longrightarrow> (\<Union>r\<in>R. F r) = (\<Union>r. F r)"
  by blast

lemma HasPrefix_append [simp]: "HasPrefix (p @ s) p"
  by (simp add: HasPrefix_def)

lemma HasPrefix_iff: "HasPrefix s p \<longleftrightarrow> (\<exists>r. s = p @ r)"
  by (metis HasPrefix_append HasPrefix_def append_take_drop_id)

lemma HasSuffix_append [simp]: "HasSuffix (s @ p) p"
  by (simp add: HasSuffix_def)

lemma HasSuffix_iff: "HasSuffix s p \<longleftrightarrow> (\<exists>r. s = r @ p)"
  by (metis HasSuffix_append HasSuffix_def append_take_drop_id)

lemma TrimPrefix_append [simp]: "TrimPrefix (p @ s) p = s"
  by (simp add: TrimPrefix_def)

lemma TrimPrefix_Nil [simp]: "TrimPrefix s [] = s"
  by (simp add: TrimPrefix_def)

lemma TrimSuffix_append [simp]: "TrimSuffix (s @ p) p = s"
  by (simp add: TrimSuffix_def)

lemma digit_char_inj: "m < 10 \<Longrightarrow> n < 10 \<Longrightarrow> digit_char m = digit_char n \<Longrightarrow> m = n"
proof -
  assume mn: "m < 10" "n < 10" and "digit_char m = digit_char n"
  then have "(of_char (char_of (48 + m) :: char) :: nat) = of_char (char_of (48 + n) :: char)"
    by (simp only: digit_char_def)
  with mn show "m = n" by simp
qed

lemma of_char_digit_char [simp]: "n < 10 \<Longrightarrow> (of_char (digit_char n) :: nat) = 48 + n"
  by (simp add: digit_char_def)

lemma nat_digits_not_Nil [simp]: "nat_digits n \<noteq> []"
  by (subst nat_digits.simps) simp

lemma nat_digits_digits: "c \<in> set (nat_digits n) \<Longrightarrow> is_digit c"
  by (induction n rule: nat_digits.induct)
    (subst (asm) (2) nat_digits.simps, auto simp: is_digit_def split: if_splits)

lemma nat_digits_inj: "nat_digits m = nat_digits n \<Longrightarrow> m = n"
proof (induction m arbitrary: n rule: nat_digits.induct)
  case (1 m)
  show ?case
  proof (cases "m < 10 \<or> n < 10")
    case True
    with 1(2) show ?thesis
      by (subst (asm) (1 2) nat_digits.simps)
        (auto split: if_splits dest: digit_char_inj dest!: sym [of "[]"])
  next
    case False
    with 1(2) have "nat_digits (m div 10) = nat_digits (n div 10)"
      and "digit_char (m mod 10) = digit_char (n mod 10)"
      by (subst (asm) (1 2) nat_digits.simps, simp)+
    with 1(1) False have "m div 10 = n div 10" "m mod 10 = n mod 10"
      using digit_char_inj [of "m mod 10" "n mod 10"] by simp_all
    then show ?thesis by (metis div_mult_mod_eq)
  qed
qed


section \<open>Keyed tables\<close>

text \<open>
  The contract of a keyed table: a lookup after a write or a delete, and the invariant both keep.
\<close>

locale kv_table =
  fixes get :: "'s \<Rightarrow> 'k \<Rightarrow> 'v option"
    and put :: "'k \<Rightarrow> 'v \<Rightarrow> 's \<Rightarrow> 's"
    and del :: "'k \<Rightarrow> 's \<Rightarrow> 's"
    and tinv :: "'s \<Rightarrow> bool"
  assumes get_put: "tinv s \<Longrightarrow> get (put k v s) k' = (if k' = k then Some v else get s k')"
    and get_del: "tinv s \<Longrightarrow> get (del k s) k' = (if k' = k then None else get s k')"
    and tinv_put: "tinv s \<Longrightarrow> tinv (put k v s)"
    and tinv_del: "tinv s \<Longrightarrow> tinv (del k s)"
begin

lemma put_frame: "tinv s \<Longrightarrow> k' \<noteq> k \<Longrightarrow> get (put k v s) k' = get s k'"
  by (simp add: get_put)

lemma put_put: "tinv s \<Longrightarrow> get (put k v (put k w s)) = get (put k v s)"
  by (rule ext) (simp add: get_put tinv_put)

lemma put_commute:
  "tinv s \<Longrightarrow> k \<noteq> l \<Longrightarrow> get (put k v (put l w s)) = get (put l w (put k v s))"
  by (rule ext) (simp add: get_put tinv_put)

lemma del_put: "tinv s \<Longrightarrow> get (del k (put k v s)) = get (del k s)"
  by (rule ext) (simp add: get_put get_del tinv_put)

lemma tinv_fold_put: "tinv s \<Longrightarrow> tinv (fold (\<lambda>(k, v). put k v) kvs s)"
  by (induction kvs arbitrary: s) (auto simp: tinv_put)

lemma get_fold_put:
  "tinv s \<Longrightarrow> get (fold (\<lambda>(k, v). put k v) kvs s) k
     = (case map_of (rev kvs) k of Some v \<Rightarrow> Some v | None \<Rightarrow> get s k)"
  by (induction kvs arbitrary: s)
    (auto simp: get_put tinv_put map_add_def split: option.splits)

end

lemma gget_gput [gomap_simps]: "gget (gput k v m) k' = (if k' = k then Some v else gget m k')"
  by (simp add: gget_def gput_def update_conv')

lemma gget_gdel [gomap_simps]: "gget (gdel k m) k' = (if k' = k then None else gget m k')"
  by (simp add: gget_def gdel_def delete_conv')

lemma gget_Nil [gomap_simps]: "gget [] k = None"
  by (simp add: gget_def)

lemma gwf_gput [simp, intro]: "gwf m \<Longrightarrow> gwf (gput k v m)"
  by (simp add: gwf_def gput_def distinct_update)

lemma gwf_gdel [simp, intro]: "gwf m \<Longrightarrow> gwf (gdel k m)"
  by (simp add: gwf_def gdel_def distinct_delete)

lemma gwf_Nil [simp]: "gwf []"
  by (simp add: gwf_def)

lemma gget_None_iff: "gget m k = None \<longleftrightarrow> k \<notin> set (gkeys m)"
  by (simp add: gget_def gkeys_def map_of_eq_None_iff)

lemma gget_SomeD: "gget m k = Some v \<Longrightarrow> (k, v) \<in> set m"
  by (simp add: gget_def map_of_SomeD)

lemma gget_eq_Some: "gwf m \<Longrightarrow> gget m k = Some v \<longleftrightarrow> (k, v) \<in> set m"
  by (simp add: gget_def gwf_def)

lemma gget_eq_iff_set: "gwf m \<Longrightarrow> gwf m' \<Longrightarrow> gget m = gget m' \<longleftrightarrow> set m = set m'"
  by (metis gget_def gwf_def map_of_eq_Some_iff map_of_inject_set ext)

lemma set_gkeys_gput [gomap_simps]: "set (gkeys (gput k v m)) = insert k (set (gkeys m))"
  by (simp add: gkeys_def gput_def dom_update)

lemma set_gkeys_gdel [gomap_simps]: "set (gkeys (gdel k m)) = set (gkeys m) - {k}"
  by (simp add: gkeys_def gdel_def delete_keys)

interpretation gm: kv_table gget gput gdel gwf
  by unfold_locales (auto simp: gomap_simps)


section \<open>String enumerations\<close>

text \<open>
  The enumerations of the domain model are named strings with a validity test and a strict decoder.
  Every decoder accepts exactly the JSON strings of the valid values.
\<close>

locale string_enum =
  fixes conv :: "string \<Rightarrow> 'a"
    and str :: "'a \<Rightarrow> string"
    and valid :: "'a \<Rightarrow> bool"
  assumes str_conv: "str (conv s) = s"
    and conv_str: "valid v \<Longrightarrow> conv (str v) = v"
    and zero_invalid: "\<not> valid (conv [])"
begin

lemma unmarshal_iff:
  "enum_unmarshal conv valid bad notstr j = Inr v \<longleftrightarrow> valid v \<and> j = JStr (str v)"
  by (cases j)
    (auto simp: enum_unmarshal_def json_to_string_def zero_invalid str_conv conv_str)

lemma unmarshal_error:
  "enum_unmarshal conv valid bad notstr (JStr s) = Inl e \<longleftrightarrow> \<not> valid (conv s) \<and> e = bad s"
  by (auto simp: enum_unmarshal_def json_to_string_def)

lemma str_inj: "valid v \<Longrightarrow> valid w \<Longrightarrow> str v = str w \<Longrightarrow> v = w"
  by (metis conv_str)

end

end
