(* ===== verification/Rbac.thy ===== *)
theory Rbac
  imports Bifrost_Prelude
begin

text \<open>
  Roles and permissions, after \<^verbatim>\<open>internal/auth/rbac.go\<close>.  The three enumerations of the source are
  integers there; a value outside the named constants is kept as an extra constructor, since every
  method of the source has a branch for it.  Group lists, role lists and grant lists are lists, and
  each \<^verbatim>\<open>for\<close> loop that searches one is the corresponding bounded quantifier over its elements.

  The lemmas show that a permission is granted exactly when some held role or some covering scoped
  grant grants it, that grants only ever add permissions, that the audit surface is separated from
  the others, and that the grants derived from group membership stay inside the caller's own projects.
\<close>

datatype PermissionType = Read | Write | Delete | Admin | InvalidPermission int

datatype Target =
  TargetJob | TargetCluster | TargetService | TargetPool | TargetAudit | InvalidTarget int

datatype Role =
  RoleViewer | RoleDeveloper | RoleOperator | RoleAdmin | RoleAuditor | InvalidRole int

datatype auth_error = ErrInvalidRole string | ErrNotJSONString | ErrIdentityNotMarshalable

definition PermissionType_AsStr :: "PermissionType \<Rightarrow> string" where
  "PermissionType_AsStr p = (case p of
     Read \<Rightarrow> ''read'' | Write \<Rightarrow> ''write'' | Delete \<Rightarrow> ''delete'' | Admin \<Rightarrow> ''admin''
   | InvalidPermission n \<Rightarrow> ''invalid-permission('' @ itoa n @ '')'')"

definition PermissionType_MarshalJSON :: "PermissionType \<Rightarrow> json" where
  "PermissionType_MarshalJSON p = JStr (PermissionType_AsStr p)"

definition Target_AsStr :: "Target \<Rightarrow> string" where
  "Target_AsStr t = (case t of
     TargetJob \<Rightarrow> ''job'' | TargetCluster \<Rightarrow> ''cluster'' | TargetService \<Rightarrow> ''service''
   | TargetPool \<Rightarrow> ''pool'' | TargetAudit \<Rightarrow> ''audit''
   | InvalidTarget n \<Rightarrow> ''invalid-target('' @ itoa n @ '')'')"

definition Target_MarshalJSON :: "Target \<Rightarrow> json" where
  "Target_MarshalJSON t = JStr (Target_AsStr t)"

definition Grants :: "Role \<Rightarrow> PermissionType \<Rightarrow> Target \<Rightarrow> bool" where
  "Grants r action target = (case r of
     RoleAdmin \<Rightarrow> True
   | RoleViewer \<Rightarrow> (case target of
       TargetAudit \<Rightarrow> False
     | InvalidTarget _ \<Rightarrow> False
     | _ \<Rightarrow> action = Read)
   | RoleAuditor \<Rightarrow> (case target of
       TargetAudit \<Rightarrow> action = Read
     | _ \<Rightarrow> False)
   | RoleDeveloper \<Rightarrow> (case target of
       TargetJob \<Rightarrow> action = Read \<or> action = Write \<or> action = Delete
     | TargetService \<Rightarrow> action = Read \<or> action = Write \<or> action = Delete
     | TargetCluster \<Rightarrow> action = Read
     | TargetPool \<Rightarrow> action = Read
     | _ \<Rightarrow> False)
   | RoleOperator \<Rightarrow> (case target of
       TargetCluster \<Rightarrow> action = Read \<or> action = Write \<or> action = Delete
     | TargetJob \<Rightarrow> action = Read
     | TargetService \<Rightarrow> action = Read
     | TargetPool \<Rightarrow> action = Read
     | _ \<Rightarrow> False)
   | InvalidRole _ \<Rightarrow> False)"

definition Role_AsStr :: "Role \<Rightarrow> string" where
  "Role_AsStr r = (case r of
     RoleViewer \<Rightarrow> ''viewer'' | RoleDeveloper \<Rightarrow> ''developer'' | RoleOperator \<Rightarrow> ''operator''
   | RoleAdmin \<Rightarrow> ''admin'' | RoleAuditor \<Rightarrow> ''auditor''
   | InvalidRole n \<Rightarrow> ''invalid-role('' @ itoa n @ '')'')"

definition Role_MarshalJSON :: "Role \<Rightarrow> json" where
  "Role_MarshalJSON r = JStr (Role_AsStr r)"

definition ParseRole :: "string \<Rightarrow> Role option" where
  "ParseRole s =
     (if s = ''viewer'' then Some RoleViewer
      else if s = ''developer'' then Some RoleDeveloper
      else if s = ''operator'' then Some RoleOperator
      else if s = ''admin'' then Some RoleAdmin
      else if s = ''auditor'' then Some RoleAuditor
      else None)"

definition Role_UnmarshalJSON :: "json \<Rightarrow> auth_error + Role" where
  "Role_UnmarshalJSON data = ebind (json_to_string ErrNotJSONString data) (\<lambda>s.
     case ParseRole s of None \<Rightarrow> Inl (ErrInvalidRole s) | Some v \<Rightarrow> Inr v)"

definition GlobalScope :: string where
  "GlobalScope = ''*''"

definition scope_char :: "char \<Rightarrow> bool" where
  "scope_char c = (is_lower c \<or> is_upper c \<or> is_digit c \<or>
     c = CHR ''-'' \<or> c = CHR ''_'' \<or> c = CHR ''.'' \<or> c = CHR ''/'')"

definition ValidScope :: "string \<Rightarrow> bool" where
  "ValidScope scope =
     (if scope = GlobalScope then True
      else case CutPrefix scope ''project:'' of
        (name, okp) \<Rightarrow>
          if \<not> okp then False
          else if name = [] then False
          else list_all scope_char name)"

definition ScopeCovers :: "string \<Rightarrow> string \<Rightarrow> bool" where
  "ScopeCovers scope project = (scope = GlobalScope \<or> scope = ''project:'' @ project)"

record RoleScope =
  rs_Role :: Role
  rs_Scope :: string

record Identity =
  id_Subject :: string
  id_Username :: "string option"
  id_Email :: "string option"
  id_Groups :: "string list"
  id_Roles :: "Role list"
  id_ProjectRoles :: "RoleScope list"

definition Identity_MarshalJSON :: "Identity \<Rightarrow> auth_error + json" where
  "Identity_MarshalJSON ident = Inl ErrIdentityNotMarshalable"

definition Identity_Owner :: "Identity \<Rightarrow> string" where
  "Identity_Owner ident = (case id_Username ident of Some u \<Rightarrow> u | None \<Rightarrow> id_Subject ident)"

definition Permits :: "Identity \<Rightarrow> PermissionType \<Rightarrow> Target \<Rightarrow> bool" where
  "Permits ident action target = list_ex (\<lambda>r. Grants r action target) (id_Roles ident)"

definition PermitsScoped ::
  "Identity \<Rightarrow> PermissionType \<Rightarrow> Target \<Rightarrow> RoleScope list \<Rightarrow> string \<Rightarrow> bool" where
  "PermitsScoped ident action target assignments project =
     (if Permits ident action target then True
      else list_ex (\<lambda>a. ScopeCovers (rs_Scope a) project \<and> Grants (rs_Role a) action target) assignments)"

definition IsAuthorized :: "Identity \<Rightarrow> bool" where
  "IsAuthorized ident = (0 < length (id_Roles ident))"

record RoleMappings =
  rm_Admin :: "string list"
  rm_Operator :: "string list"
  rm_Developer :: "string list"
  rm_Viewer :: "string list"
  rm_Auditor :: "string list"

definition RoleMappings_MarshalJSON :: "RoleMappings \<Rightarrow> json" where
  "RoleMappings_MarshalJSON m = JObj
     [(''admin'', JArr (map JStr (rm_Admin m))),
      (''operator'', JArr (map JStr (rm_Operator m))),
      (''developer'', JArr (map JStr (rm_Developer m))),
      (''viewer'', JArr (map JStr (rm_Viewer m))),
      (''auditor'', JArr (map JStr (rm_Auditor m)))]"

definition RoleMappings_HasWildcard :: "RoleMappings \<Rightarrow> bool" where
  "RoleMappings_HasWildcard m =
     list_ex (\<lambda>patterns. list_ex (\<lambda>p. p = ''*'') patterns)
       [rm_Admin m, rm_Operator m, rm_Developer m, rm_Viewer m, rm_Auditor m]"

definition RoleMappings_Clone :: "RoleMappings \<Rightarrow> RoleMappings" where
  "RoleMappings_Clone m =
     \<lparr>rm_Admin = rm_Admin m, rm_Operator = rm_Operator m, rm_Developer = rm_Developer m,
      rm_Viewer = rm_Viewer m, rm_Auditor = rm_Auditor m\<rparr>"

definition group_matches :: "string list \<Rightarrow> string list \<Rightarrow> bool" where
  "group_matches groups patterns = list_ex (\<lambda>p. p = ''*'' \<or> list_ex (\<lambda>g. g = p) groups) patterns"

definition RoleMappings_Resolve :: "RoleMappings \<Rightarrow> string list \<Rightarrow> Role list" where
  "RoleMappings_Resolve m groups =
     (let roles = [];
          roles = (if group_matches groups (rm_Admin m) then roles @ [RoleAdmin] else roles);
          roles = (if group_matches groups (rm_Operator m) then roles @ [RoleOperator] else roles);
          roles = (if group_matches groups (rm_Developer m) then roles @ [RoleDeveloper] else roles);
          roles = (if group_matches groups (rm_Viewer m) then roles @ [RoleViewer] else roles);
          roles = (if group_matches groups (rm_Auditor m) then roles @ [RoleAuditor] else roles)
      in roles)"

record ProjectRoleMappings =
  pr_Admin :: "string list"
  pr_Operator :: "string list"
  pr_Developer :: "string list"
  pr_Viewer :: "string list"
  pr_Auditor :: "string list"
  pr_StripPrefix :: string

definition ProjectRoleMappings_IsEmpty :: "ProjectRoleMappings \<Rightarrow> bool" where
  "ProjectRoleMappings_IsEmpty m =
     (length (pr_Admin m) = 0 \<and> length (pr_Operator m) = 0 \<and> length (pr_Developer m) = 0 \<and>
      length (pr_Viewer m) = 0 \<and> length (pr_Auditor m) = 0)"

definition ProjectRoleMappings_HasWildcard :: "ProjectRoleMappings \<Rightarrow> bool" where
  "ProjectRoleMappings_HasWildcard m =
     list_ex (\<lambda>patterns. list_ex (\<lambda>p. p = ''*'') patterns)
       [pr_Admin m, pr_Operator m, pr_Developer m, pr_Viewer m, pr_Auditor m]"

definition resolve_group ::
  "string \<Rightarrow> string list \<Rightarrow> Role \<Rightarrow> string \<Rightarrow> RoleScope list \<Rightarrow> RoleScope list" where
  "resolve_group strip patterns role g out =
     (if \<not> list_ex (\<lambda>p. p = ''*'' \<or> p = g) patterns then out
      else let name = TrimPrefix g strip in
        if name = [] then out
        else let scope = ''project:'' @ name in
          if \<not> ValidScope scope then out
          else let entry = \<lparr>rs_Role = role, rs_Scope = scope\<rparr> in
            if list_ex (\<lambda>e. e = entry) out then out else out @ [entry])"

definition resolve_role ::
  "string \<Rightarrow> string list \<Rightarrow> string list \<times> Role \<Rightarrow> RoleScope list \<Rightarrow> RoleScope list" where
  "resolve_role strip groups rp out =
     (if length (fst rp) = 0 then out
      else fold (resolve_group strip (fst rp) (snd rp)) groups out)"

definition ProjectRoleMappings_Resolve :: "ProjectRoleMappings \<Rightarrow> string list \<Rightarrow> RoleScope list" where
  "ProjectRoleMappings_Resolve m groups =
     fold (resolve_role (pr_StripPrefix m) groups)
       [(pr_Admin m, RoleAdmin), (pr_Operator m, RoleOperator), (pr_Developer m, RoleDeveloper),
        (pr_Viewer m, RoleViewer), (pr_Auditor m, RoleAuditor)] []"

definition pr_patterns :: "ProjectRoleMappings \<Rightarrow> Role \<Rightarrow> string list" where
  "pr_patterns m r = (case r of
     RoleAdmin \<Rightarrow> pr_Admin m | RoleOperator \<Rightarrow> pr_Operator m | RoleDeveloper \<Rightarrow> pr_Developer m
   | RoleViewer \<Rightarrow> pr_Viewer m | RoleAuditor \<Rightarrow> pr_Auditor m | InvalidRole _ \<Rightarrow> [])"

definition rm_patterns :: "RoleMappings \<Rightarrow> Role \<Rightarrow> string list" where
  "rm_patterns m r = (case r of
     RoleAdmin \<Rightarrow> rm_Admin m | RoleOperator \<Rightarrow> rm_Operator m | RoleDeveloper \<Rightarrow> rm_Developer m
   | RoleViewer \<Rightarrow> rm_Viewer m | RoleAuditor \<Rightarrow> rm_Auditor m | InvalidRole _ \<Rightarrow> [])"

definition effective_roles :: "Identity \<Rightarrow> RoleScope list \<Rightarrow> string \<Rightarrow> Role set" where
  "effective_roles ident asg p =
     set (id_Roles ident) \<union> rs_Role ` {g \<in> set asg. ScopeCovers (rs_Scope g) p}"


section \<open>Permission checks\<close>

lemma Permits_iff: "Permits ident a t \<longleftrightarrow> (\<exists>r\<in>set (id_Roles ident). Grants r a t)"
  by (simp add: Permits_def list_ex_iff)

lemma PermitsScoped_iff:
  "PermitsScoped ident a t asg p \<longleftrightarrow>
     (\<exists>r\<in>set (id_Roles ident). Grants r a t) \<or>
     (\<exists>g\<in>set asg. ScopeCovers (rs_Scope g) p \<and> Grants (rs_Role g) a t)"
  by (simp add: PermitsScoped_def Permits_iff list_ex_iff)

lemma PermitsScoped_effective:
  "PermitsScoped ident a t asg p \<longleftrightarrow> (\<exists>r\<in>effective_roles ident asg p. Grants r a t)"
  by (auto simp: PermitsScoped_iff effective_roles_def)

lemma Grants_audit: "Grants r a TargetAudit \<longleftrightarrow> r = RoleAdmin \<or> (r = RoleAuditor \<and> a = Read)"
  by (cases r) (simp_all add: Grants_def)

lemma Grants_auditor: "Grants RoleAuditor a t \<longleftrightarrow> a = Read \<and> t = TargetAudit"
  by (cases t) (auto simp: Grants_def)

lemma Grants_admin_verb: "Grants r Admin t \<longleftrightarrow> r = RoleAdmin"
  by (cases r; cases t) (simp_all add: Grants_def)

lemma ScopeCovers_project [simp]: "ScopeCovers (''project:'' @ n) p \<longleftrightarrow> n = p"
  by (simp add: ScopeCovers_def GlobalScope_def)

lemmas ScopeCovers_project_Cons [simp] = ScopeCovers_project [simplified]

lemma ScopeCovers_global [simp]: "ScopeCovers GlobalScope p"
  by (simp add: ScopeCovers_def)

lemma ValidScope_project: "ValidScope (''project:'' @ n) \<longleftrightarrow> n \<noteq> [] \<and> list_all scope_char n"
  using HasPrefix_append [of "''project:''" n]
  by (simp add: ValidScope_def CutPrefix_def GlobalScope_def)

lemma ValidScope_cases:
  "ValidScope s \<longleftrightarrow> s = GlobalScope \<or> (\<exists>n. s = ''project:'' @ n \<and> n \<noteq> [] \<and> list_all scope_char n)"
proof (cases "s = GlobalScope")
  case True
  then show ?thesis by (simp add: ValidScope_def)
next
  case False
  show ?thesis
  proof (cases "HasPrefix s ''project:''")
    case True
    then obtain n where "s = ''project:'' @ n" using HasPrefix_iff by blast
    then show ?thesis using False ValidScope_project by auto
  next
    case nop: False
    then have "\<not> ValidScope s" using False by (simp add: ValidScope_def CutPrefix_def)
    moreover have "\<nexists>n. s = ''project:'' @ n" using nop HasPrefix_iff by blast
    ultimately show ?thesis using False by blast
  qed
qed


section \<open>Grants derived from groups\<close>

lemma group_matches_iff:
  "group_matches groups ps \<longleftrightarrow> ''*'' \<in> set ps \<or> set ps \<inter> set groups \<noteq> {}"
  by (auto simp: group_matches_def list_ex_iff)

lemma set_RoleMappings_Resolve:
  "r \<in> set (RoleMappings_Resolve m groups) \<longleftrightarrow> group_matches groups (rm_patterns m r)"
  by (cases r)
    (auto simp: RoleMappings_Resolve_def rm_patterns_def group_matches_iff Let_def)

lemma distinct_RoleMappings_Resolve: "distinct (RoleMappings_Resolve m groups)"
  by (simp add: RoleMappings_Resolve_def Let_def)

definition group_entry :: "string \<Rightarrow> string list \<Rightarrow> Role \<Rightarrow> string \<Rightarrow> RoleScope set" where
  "group_entry strip ps r g =
     {e. (''*'' \<in> set ps \<or> g \<in> set ps) \<and> TrimPrefix g strip \<noteq> [] \<and>
         list_all scope_char (TrimPrefix g strip) \<and>
         e = \<lparr>rs_Role = r, rs_Scope = ''project:'' @ TrimPrefix g strip\<rparr>}"

lemma set_resolve_group:
  "set (resolve_group strip ps r g out) = set out \<union> group_entry strip ps r g"
  using ValidScope_project [of "TrimPrefix g strip"]
  by (auto simp: resolve_group_def group_entry_def Let_def list_ex_iff)

lemma distinct_resolve_group:
  "distinct out \<Longrightarrow> distinct (resolve_group strip ps r g out)"
  by (auto simp: resolve_group_def Let_def list_ex_iff)

lemma set_fold_resolve_group:
  "set (fold (resolve_group strip ps r) gs out) = set out \<union> (\<Union>g\<in>set gs. group_entry strip ps r g)"
  by (induction gs arbitrary: out) (auto simp: set_resolve_group)

lemma set_resolve_role:
  "set (resolve_role strip gs (ps, r) out) = set out \<union> (\<Union>g\<in>set gs. group_entry strip ps r g)"
  by (auto simp: resolve_role_def set_fold_resolve_group) (auto simp: group_entry_def)

lemma distinct_fold_resolve_group:
  "distinct out \<Longrightarrow> distinct (fold (resolve_group strip ps r) gs out)"
  by (induction gs arbitrary: out) (simp_all add: distinct_resolve_group)

lemma distinct_resolve_role:
  "distinct out \<Longrightarrow> distinct (resolve_role strip gs rp out)"
  by (simp add: resolve_role_def distinct_fold_resolve_group)

lemma set_ProjectRoleMappings_Resolve:
  "set (ProjectRoleMappings_Resolve m gs) =
     (\<Union>r. \<Union>g\<in>set gs. group_entry (pr_StripPrefix m) (pr_patterns m r) r g)" (is "?l = ?r")
proof -
  have "?l = (\<Union>r\<in>{RoleAdmin, RoleOperator, RoleDeveloper, RoleViewer, RoleAuditor}.
                \<Union>g\<in>set gs. group_entry (pr_StripPrefix m) (pr_patterns m r) r g)"
    by (simp add: ProjectRoleMappings_Resolve_def set_resolve_role pr_patterns_def Un_ac)
  also have "\<dots> = ?r"
    by (rule UN_restrict, case_tac r) (auto simp: group_entry_def pr_patterns_def)
  finally show ?thesis .
qed

lemma distinct_ProjectRoleMappings_Resolve: "distinct (ProjectRoleMappings_Resolve m gs)"
  by (simp add: ProjectRoleMappings_Resolve_def distinct_resolve_role)


section \<open>Names\<close>

lemma ParseRole_iff: "ParseRole s = Some r \<longleftrightarrow> (\<forall>n. r \<noteq> InvalidRole n) \<and> Role_AsStr r = s"
  by (cases r) (auto simp: ParseRole_def Role_AsStr_def split: if_splits)


lemma Role_UnmarshalJSON_iff:
  "Role_UnmarshalJSON j = Inr r \<longleftrightarrow> (\<forall>n. r \<noteq> InvalidRole n) \<and> j = Role_MarshalJSON r"
proof (cases j)
  case JNull
  then show ?thesis
    by (simp add: Role_UnmarshalJSON_def json_to_string_def ParseRole_def Role_MarshalJSON_def)
next
  case (JStr s)
  then show ?thesis
    using ParseRole_iff [of s r]
    by (auto simp: Role_UnmarshalJSON_def json_to_string_def Role_MarshalJSON_def split: option.splits)
qed (simp_all add: Role_UnmarshalJSON_def json_to_string_def Role_MarshalJSON_def)


section \<open>Properties\<close>

text \<open>
  C33.  Authorization is additive and denies by default: a scoped check succeeds exactly when a held
  role grants the permission or a grant whose scope is global or names the project does; holding more
  roles and more grants never withdraws a permission, and with neither nothing is permitted.
\<close>

theorem permits_scoped_additive:
  "(PermitsScoped ident a t asg p \<longleftrightarrow>
      (\<exists>r\<in>set (id_Roles ident). Grants r a t) \<or>
      (\<exists>g\<in>set asg. (rs_Scope g = ''*'' \<or> rs_Scope g = ''project:'' @ p) \<and> Grants (rs_Role g) a t))
   \<and> (set (id_Roles ident) \<subseteq> set (id_Roles ident') \<longrightarrow> set asg \<subseteq> set asg' \<longrightarrow>
        PermitsScoped ident a t asg p \<longrightarrow> PermitsScoped ident' a t asg' p)
   \<and> (\<not> IsAuthorized ident \<longrightarrow> \<not> PermitsScoped ident a t [] p)"
  by (auto simp: PermitsScoped_iff ScopeCovers_def GlobalScope_def IsAuthorized_def)

theorem permits_scoped_additive_witness:
  "let ident = \<lparr>id_Subject = ''u'', id_Username = None, id_Email = None, id_Groups = [],
                id_Roles = [], id_ProjectRoles = []\<rparr>;
       asg = [\<lparr>rs_Role = RoleOperator, rs_Scope = ''project:a''\<rparr>]
   in PermitsScoped ident Write TargetCluster asg ''a'' \<and>
      \<not> PermitsScoped ident Write TargetCluster [] ''a''"
  using permits_scoped_additive [of
      "\<lparr>id_Subject = ''u'', id_Username = None, id_Email = None, id_Groups = [],
        id_Roles = [], id_ProjectRoles = []\<rparr>" Write TargetCluster
      "[\<lparr>rs_Role = RoleOperator, rs_Scope = ''project:a''\<rparr>]" "''a''"
      "\<lparr>id_Subject = ''u'', id_Username = None, id_Email = None, id_Groups = [],
        id_Roles = [], id_ProjectRoles = []\<rparr>"
      "[\<lparr>rs_Role = RoleOperator, rs_Scope = ''project:a''\<rparr>]"]
  by (simp add: IsAuthorized_def Grants_def PermitsScoped_def Permits_def)

text \<open>
  C34.  Separation of duties: a caller that holds neither the admin nor the auditor role, globally or by
  a grant, is refused every verb on the audit trail; a caller that holds only the auditor role can read
  the audit trail and do nothing else; and the admin verb needs the admin role on every target.
\<close>

theorem audit_separation_of_duties:
  "(RoleAdmin \<notin> effective_roles ident asg p \<longrightarrow> RoleAuditor \<notin> effective_roles ident asg p \<longrightarrow>
      \<not> PermitsScoped ident a TargetAudit asg p)
   \<and> (effective_roles ident asg p \<subseteq> {RoleAuditor} \<longrightarrow>
      PermitsScoped ident a t asg p \<longrightarrow> a = Read \<and> t = TargetAudit)
   \<and> (PermitsScoped ident Admin t asg p \<longrightarrow> RoleAdmin \<in> effective_roles ident asg p)"
proof (intro conjI impI)
  assume sub: "effective_roles ident asg p \<subseteq> {RoleAuditor}" and "PermitsScoped ident a t asg p"
  then obtain r where "r \<in> effective_roles ident asg p" and g: "Grants r a t"
    by (auto simp: PermitsScoped_effective)
  with sub have "r = RoleAuditor" by auto
  with g show "a = Read" and "t = TargetAudit" by (simp_all add: Grants_auditor)
qed (auto simp: PermitsScoped_effective Grants_audit Grants_admin_verb)

theorem audit_separation_of_duties_witness:
  "\<not> PermitsScoped \<lparr>id_Subject = ''u'', id_Username = None, id_Email = None, id_Groups = [],
                     id_Roles = [RoleOperator], id_ProjectRoles = []\<rparr>
       Read TargetAudit [\<lparr>rs_Role = RoleDeveloper, rs_Scope = ''*''\<rparr>] ''a''"
  using audit_separation_of_duties [of
      "\<lparr>id_Subject = ''u'', id_Username = None, id_Email = None, id_Groups = [],
        id_Roles = [RoleOperator], id_ProjectRoles = []\<rparr>"
      "[\<lparr>rs_Role = RoleDeveloper, rs_Scope = ''*''\<rparr>]" "''a''" Read]
  by (auto simp: effective_roles_def)

text \<open>The scope grammar admits upper-case letters.\<close>

lemma uppercase_scope_valid: "ValidScope ''project:ACME''"
  by code_simp

text \<open>
  C35.  Self-service project roles: the grants derived from a caller's groups are, without repetition,
  exactly the pairs of a role and a project such that one of the caller's groups matches a pattern of
  that role and the project is the group's name without the configured prefix, non-empty and made of
  ASCII letters, digits and the four punctuation characters of the scope grammar.  The letters may be of
  either case, although the comment at the check says lowercase.
\<close>

theorem project_roles_resolve_exact:
  "distinct (ProjectRoleMappings_Resolve m groups)
   \<and> (e \<in> set (ProjectRoleMappings_Resolve m groups) \<longleftrightarrow>
        (\<exists>g name. g \<in> set groups
           \<and> (''*'' \<in> set (pr_patterns m (rs_Role e)) \<or> g \<in> set (pr_patterns m (rs_Role e)))
           \<and> name = TrimPrefix g (pr_StripPrefix m) \<and> name \<noteq> [] \<and> list_all scope_char name
           \<and> rs_Scope e = ''project:'' @ name))"
  by (cases e) (auto simp: distinct_ProjectRoleMappings_Resolve set_ProjectRoleMappings_Resolve
      group_entry_def)

text \<open>
  C36.  Tenant confinement: a caller with no global role whose grants all come from its groups is
  permitted something on a project only if that project is the stripped name of one of its groups and a
  role configured for that group grants it.
\<close>

theorem group_grants_confined:
  assumes "id_Roles ident = []"
    and "PermitsScoped ident a t (ProjectRoleMappings_Resolve m (id_Groups ident)) p"
  shows "\<exists>g\<in>set (id_Groups ident). p = TrimPrefix g (pr_StripPrefix m) \<and>
           (\<exists>r. (''*'' \<in> set (pr_patterns m r) \<or> g \<in> set (pr_patterns m r)) \<and> Grants r a t)"
  using assms
  by (auto simp: PermitsScoped_iff set_ProjectRoleMappings_Resolve group_entry_def)

theorem group_grants_confined_witness:
  "\<exists>g\<in>{''/team-a'', ''/team-b''}. ''team-a'' = TrimPrefix g ''/''"
  using group_grants_confined [of
      "\<lparr>id_Subject = ''u'', id_Username = None, id_Email = None, id_Groups = [''/team-a'', ''/team-b''],
        id_Roles = [], id_ProjectRoles = []\<rparr>" Write TargetCluster
      "\<lparr>pr_Admin = [], pr_Operator = [''*''], pr_Developer = [], pr_Viewer = [], pr_Auditor = [],
        pr_StripPrefix = ''/''\<rparr>" "''team-a''"]
  by (simp add: PermitsScoped_def Permits_def ProjectRoleMappings_Resolve_def resolve_role_def
      resolve_group_def ValidScope_def CutPrefix_def GlobalScope_def pr_patterns_def Grants_def
      TrimPrefix_def HasPrefix_def scope_char_def is_lower_def)

text \<open>
  C37.  Role names round-trip: every valid role is parsed back from the string it prints, as text and as
  JSON; nothing else parses, and a string that parses prints as itself.
\<close>

theorem role_roundtrip:
  "(ParseRole s = Some r \<longleftrightarrow> (\<forall>n. r \<noteq> InvalidRole n) \<and> Role_AsStr r = s)
   \<and> (Role_UnmarshalJSON (Role_MarshalJSON r) = Inr r \<longleftrightarrow> (\<forall>n. r \<noteq> InvalidRole n))
   \<and> (Role_UnmarshalJSON j = Inr r \<longrightarrow> j = Role_MarshalJSON r)"
  by (simp add: ParseRole_iff Role_UnmarshalJSON_iff)

theorem role_roundtrip_witness:
  "Role_UnmarshalJSON (JStr ''auditor'') = Inr RoleAuditor \<and>
   JStr ''auditor'' = Role_MarshalJSON RoleAuditor"
  using role_roundtrip [of "''auditor''" RoleAuditor "JStr ''auditor''"]
  by (simp add: Role_MarshalJSON_def Role_AsStr_def)

end
