(* ===== verification/Core_Catalog.thy ===== *)
theory Core_Catalog
  imports Bifrost_Prelude
begin

text \<open>
  The catalogs of the domain model, after \<^verbatim>\<open>internal/core/profile.go\<close>, \<^verbatim>\<open>environment.go\<close>,
  \<^verbatim>\<open>image.go\<close>, and the engine and worker-group types of \<^verbatim>\<open>cluster.go\<close> they build on.  An
  enumeration of the source is a named string type; it is a datatype with one constructor per named
  constant and a constructor for every other string, the empty string being Go's zero value.  A point
  in time is its RFC 3339 text, the form in which it is stored and compared.

  The lemmas give the strict decoders of the enumerations and the behaviour of image references.
\<close>

datatype core_error = ErrInvalidEnum string string | ErrJSONNotString

type_synonym timestamp = string

datatype Engine =
  EngineRay | EngineDask | EngineRaw string

definition Engine_of :: "string \<Rightarrow> Engine" where
  "Engine_of s =
     (if s = ''ray'' then EngineRay
      else if s = ''dask'' then EngineDask
      else EngineRaw s)"

definition Engine_String :: "Engine \<Rightarrow> string" where
  "Engine_String v = (case v of
     EngineRay \<Rightarrow> ''ray''
   | EngineDask \<Rightarrow> ''dask''
   | EngineRaw s \<Rightarrow> s)"

definition Engine_isValid :: "Engine \<Rightarrow> bool" where
  "Engine_isValid v = (case v of EngineRaw _ \<Rightarrow> False | _ \<Rightarrow> True)"

definition Engine_UnmarshalJSON :: "json \<Rightarrow> core_error + Engine" where
  "Engine_UnmarshalJSON =
     enum_unmarshal Engine_of Engine_isValid (ErrInvalidEnum ''Engine'') ErrJSONNotString"

datatype StorageMode =
  StorageModeEnv | StorageModeFile | StorageModeRaw string

definition StorageMode_of :: "string \<Rightarrow> StorageMode" where
  "StorageMode_of s =
     (if s = ''env'' then StorageModeEnv
      else if s = ''file'' then StorageModeFile
      else StorageModeRaw s)"

definition StorageMode_String :: "StorageMode \<Rightarrow> string" where
  "StorageMode_String v = (case v of
     StorageModeEnv \<Rightarrow> ''env''
   | StorageModeFile \<Rightarrow> ''file''
   | StorageModeRaw s \<Rightarrow> s)"

definition StorageMode_isValid :: "StorageMode \<Rightarrow> bool" where
  "StorageMode_isValid v = (case v of StorageModeRaw _ \<Rightarrow> False | _ \<Rightarrow> True)"

definition StorageMode_UnmarshalJSON :: "json \<Rightarrow> core_error + StorageMode" where
  "StorageMode_UnmarshalJSON =
     enum_unmarshal StorageMode_of StorageMode_isValid (ErrInvalidEnum ''StorageMode'') ErrJSONNotString"

datatype StorageSource =
  StorageSourceSecret | StorageSourcePersistentVolumeClaim | StorageSourceRaw string

definition StorageSource_of :: "string \<Rightarrow> StorageSource" where
  "StorageSource_of s =
     (if s = ''secret'' then StorageSourceSecret
      else if s = ''persistent_volume_claim'' then StorageSourcePersistentVolumeClaim
      else StorageSourceRaw s)"

definition StorageSource_String :: "StorageSource \<Rightarrow> string" where
  "StorageSource_String v = (case v of
     StorageSourceSecret \<Rightarrow> ''secret''
   | StorageSourcePersistentVolumeClaim \<Rightarrow> ''persistent_volume_claim''
   | StorageSourceRaw s \<Rightarrow> s)"

definition StorageSource_isValid :: "StorageSource \<Rightarrow> bool" where
  "StorageSource_isValid v = (case v of StorageSourceRaw _ \<Rightarrow> False | _ \<Rightarrow> True)"

definition StorageSource_UnmarshalJSON :: "json \<Rightarrow> core_error + StorageSource" where
  "StorageSource_UnmarshalJSON =
     enum_unmarshal StorageSource_of StorageSource_isValid (ErrInvalidEnum ''StorageSource'') ErrJSONNotString"

datatype PoolPurpose =
  PoolPurposeCompute | PoolPurposeServing | PoolPurposeRaw string

definition PoolPurpose_of :: "string \<Rightarrow> PoolPurpose" where
  "PoolPurpose_of s =
     (if s = ''compute'' then PoolPurposeCompute
      else if s = ''serving'' then PoolPurposeServing
      else PoolPurposeRaw s)"

definition PoolPurpose_String :: "PoolPurpose \<Rightarrow> string" where
  "PoolPurpose_String v = (case v of
     PoolPurposeCompute \<Rightarrow> ''compute''
   | PoolPurposeServing \<Rightarrow> ''serving''
   | PoolPurposeRaw s \<Rightarrow> s)"

definition PoolPurpose_isValid :: "PoolPurpose \<Rightarrow> bool" where
  "PoolPurpose_isValid v = (case v of PoolPurposeRaw _ \<Rightarrow> False | _ \<Rightarrow> True)"

definition PoolPurpose_UnmarshalJSON :: "json \<Rightarrow> core_error + PoolPurpose" where
  "PoolPurpose_UnmarshalJSON =
     enum_unmarshal PoolPurpose_of PoolPurpose_isValid (ErrInvalidEnum ''PoolPurpose'') ErrJSONNotString"

datatype EnvironmentStatus =
  EnvironmentStatusDraft | EnvironmentStatusPublished | EnvironmentStatusDeprecated | EnvironmentStatusRaw string

definition EnvironmentStatus_of :: "string \<Rightarrow> EnvironmentStatus" where
  "EnvironmentStatus_of s =
     (if s = ''draft'' then EnvironmentStatusDraft
      else if s = ''published'' then EnvironmentStatusPublished
      else if s = ''deprecated'' then EnvironmentStatusDeprecated
      else EnvironmentStatusRaw s)"

definition EnvironmentStatus_String :: "EnvironmentStatus \<Rightarrow> string" where
  "EnvironmentStatus_String v = (case v of
     EnvironmentStatusDraft \<Rightarrow> ''draft''
   | EnvironmentStatusPublished \<Rightarrow> ''published''
   | EnvironmentStatusDeprecated \<Rightarrow> ''deprecated''
   | EnvironmentStatusRaw s \<Rightarrow> s)"

definition EnvironmentStatus_isValid :: "EnvironmentStatus \<Rightarrow> bool" where
  "EnvironmentStatus_isValid v = (case v of EnvironmentStatusRaw _ \<Rightarrow> False | _ \<Rightarrow> True)"

definition EnvironmentStatus_UnmarshalJSON :: "json \<Rightarrow> core_error + EnvironmentStatus" where
  "EnvironmentStatus_UnmarshalJSON =
     enum_unmarshal EnvironmentStatus_of EnvironmentStatus_isValid (ErrInvalidEnum ''EnvironmentStatus'') ErrJSONNotString"

datatype EnvironmentScanStatus =
  EnvironmentScanClean | EnvironmentScanFailed | EnvironmentScanPending | EnvironmentScanStatusRaw string

definition EnvironmentScanStatus_of :: "string \<Rightarrow> EnvironmentScanStatus" where
  "EnvironmentScanStatus_of s =
     (if s = ''clean'' then EnvironmentScanClean
      else if s = ''failed'' then EnvironmentScanFailed
      else if s = ''pending'' then EnvironmentScanPending
      else EnvironmentScanStatusRaw s)"

definition EnvironmentScanStatus_String :: "EnvironmentScanStatus \<Rightarrow> string" where
  "EnvironmentScanStatus_String v = (case v of
     EnvironmentScanClean \<Rightarrow> ''clean''
   | EnvironmentScanFailed \<Rightarrow> ''failed''
   | EnvironmentScanPending \<Rightarrow> ''pending''
   | EnvironmentScanStatusRaw s \<Rightarrow> s)"

definition EnvironmentScanStatus_isValid :: "EnvironmentScanStatus \<Rightarrow> bool" where
  "EnvironmentScanStatus_isValid v = (case v of EnvironmentScanStatusRaw _ \<Rightarrow> False | _ \<Rightarrow> True)"

definition EnvironmentScanStatus_UnmarshalJSON :: "json \<Rightarrow> core_error + EnvironmentScanStatus" where
  "EnvironmentScanStatus_UnmarshalJSON =
     enum_unmarshal EnvironmentScanStatus_of EnvironmentScanStatus_isValid (ErrInvalidEnum ''EnvironmentScanStatus'') ErrJSONNotString"

definition DefaultEngine :: Engine where
  "DefaultEngine = EngineRay"

definition PoolPurpose_OrDefault :: "PoolPurpose \<Rightarrow> PoolPurpose" where
  "PoolPurpose_OrDefault p = (if p = PoolPurposeRaw [] then PoolPurposeCompute else p)"

definition StorageSource_OrDefault :: "StorageSource \<Rightarrow> StorageSource" where
  "StorageSource_OrDefault s = (if s = StorageSourceRaw [] then StorageSourceSecret else s)"

definition EnvironmentStatus_OrDefault :: "EnvironmentStatus \<Rightarrow> EnvironmentStatus" where
  "EnvironmentStatus_OrDefault s = (if s = EnvironmentStatusRaw [] then EnvironmentStatusDraft else s)"

record WorkerGroup =
  wg_Name :: string
  wg_Cpu :: string
  wg_Memory :: string
  wg_Gpu :: "string option"
  wg_MinReplicas :: u32
  wg_MaxReplicas :: u32
  wg_Replicas :: u32

definition WorkerGroup_zero :: WorkerGroup where
  "WorkerGroup_zero = \<lparr>wg_Name = [], wg_Cpu = [], wg_Memory = [], wg_Gpu = None,
     wg_MinReplicas = 0, wg_MaxReplicas = 0, wg_Replicas = 0\<rparr>"

record StorageEntry =
  se_Name :: string
  se_Source :: StorageSource
  se_SecretName :: string
  se_ClaimName :: string
  se_Mode :: StorageMode
  se_MountPath :: "string option"
  se_Projects :: "string list"

record ResolvedStorage =
  rst_Name :: string
  rst_Source :: StorageSource
  rst_SecretName :: string
  rst_ClaimName :: string
  rst_Mode :: StorageMode
  rst_MountPath :: "string option"

datatype WorkloadKind = WorkloadInteractive | WorkloadJob | WorkloadServing | WorkloadKindRaw string

record WorkloadIdentityRule =
  wi_ServiceAccount :: string
  wi_Interactive :: string
  wi_Job :: string
  wi_Serving :: string

definition WorkloadIdentityRule_For :: "WorkloadIdentityRule \<Rightarrow> WorkloadKind \<Rightarrow> string" where
  "WorkloadIdentityRule_For r kind =
     (let specific = (case kind of
            WorkloadInteractive \<Rightarrow> wi_Interactive r
          | WorkloadJob \<Rightarrow> wi_Job r
          | WorkloadServing \<Rightarrow> wi_Serving r
          | WorkloadKindRaw _ \<Rightarrow> [])
      in if specific \<noteq> [] then specific else wi_ServiceAccount r)"

definition WorkloadIdentityRule_IsZero :: "WorkloadIdentityRule \<Rightarrow> bool" where
  "WorkloadIdentityRule_IsZero r =
     (r = \<lparr>wi_ServiceAccount = [], wi_Interactive = [], wi_Job = [], wi_Serving = []\<rparr>)"

record Profile =
  pf_Name :: string
  pf_Description :: "string option"
  pf_Image :: string
  pf_RayVersion :: string
  pf_HeadCpu :: string
  pf_HeadMemory :: string
  pf_WorkerGroups :: "WorkerGroup list"
  pf_MaxWorkers :: "u32 option"
  pf_TtlSeconds :: "u64 option"
  pf_IdleTimeoutSecs :: "u64 option"
  pf_Projects :: "string list"
  pf_Storage :: "string list"

record AdmissionRule =
  ar_AllowedImages :: "string list"
  ar_MaxWorkers :: u32
  ar_CatalogOnly :: bool
  ar_AllowPyExecutable :: bool
  ar_AllowImageURI :: bool
  ar_AllowConda :: bool
  ar_AllowUnpinnedPackages :: bool
  ar_PackageDenylist :: "string list"
  ar_AllowedIndexHosts :: "string list"
  ar_AllowedRemoteSchemes :: "string list"
  ar_AllowedRemoteHosts :: "string list"
  ar_MaxSetupTimeoutSeconds :: int
  ar_MaxDocumentBytes :: int
  ar_RequireScannedEnvironments :: bool

record EnvironmentScan =
  esc_Status :: EnvironmentScanStatus
  esc_Scanner :: "string option"
  esc_ScannedAt :: "timestamp option"

record Environment =
  env_Name :: string
  env_Description :: "string option"
  env_BaseImage :: string
  env_Packages :: "string list"
  env_EnvVars :: "(string, string) gomap"
  env_RuntimeEnvYaml :: string
  env_Projects :: "string list"
  env_Status :: EnvironmentStatus
  env_PublishedBy :: "string option"
  env_PublishedAt :: "timestamp option"
  env_Scan :: "EnvironmentScan option"

record ResolvedEnvironment =
  re_Name :: string
  re_BaseImage :: string
  re_RuntimeEnvYaml :: string
  re_ResolvedAt :: "timestamp option"

record ImageEntry =
  ie_Name :: string
  ie_Description :: "string option"
  ie_Ref :: string
  ie_Digest :: string
  ie_Engine :: Engine
  ie_RayVersion :: string
  ie_PythonVersion :: string
  ie_Projects :: "string list"

definition EngineOrDefault :: "ImageEntry \<Rightarrow> Engine" where
  "EngineOrDefault e = (if ie_Engine e = EngineRaw [] then DefaultEngine else ie_Engine e)"

definition IndexByte :: "string \<Rightarrow> char \<Rightarrow> int" where
  "IndexByte s c = (let n = length (takeWhile (\<lambda>d. d \<noteq> c) s) in if n < length s then int n else - 1)"

definition LastIndexByte :: "string \<Rightarrow> char \<Rightarrow> int" where
  "LastIndexByte s c = int (length s) - 1 - int (length (takeWhile (\<lambda>d. d \<noteq> c) (rev s)))"

definition ImageRepository :: "string \<Rightarrow> string" where
  "ImageRepository ref =
     (let i = IndexByte ref CHR ''@'';
          ref = (if 0 \<le> i then take (nat i) ref else ref);
          slash = LastIndexByte ref CHR ''/'';
          colon = LastIndexByte ref CHR '':''
      in if slash < colon then take (nat colon) ref else ref)"

definition ImageEntry_Matches :: "ImageEntry \<Rightarrow> string \<Rightarrow> bool" where
  "ImageEntry_Matches e img =
     (if img = [] then False
      else if img = ie_Ref e then True
      else if ie_Digest e \<noteq> [] \<and> img = ImageRepository (ie_Ref e) @ ''@'' @ ie_Digest e then True
      else False)"

definition ImageEntry_PinnedRef :: "ImageEntry \<Rightarrow> string" where
  "ImageEntry_PinnedRef e =
     (if ie_Digest e \<noteq> [] then ImageRepository (ie_Ref e) @ ''@'' @ ie_Digest e else ie_Ref e)"

record ImageSource =
  is_Name :: string
  is_Description :: "string option"
  is_Registry :: string
  is_Repository :: string
  is_Projects :: "string list"


section \<open>Strict decoders\<close>

interpretation Engine_enum: string_enum Engine_of Engine_String Engine_isValid
  by unfold_locales
    (auto simp: Engine_of_def Engine_String_def Engine_isValid_def split: Engine.splits)

interpretation StorageMode_enum: string_enum StorageMode_of StorageMode_String StorageMode_isValid
  by unfold_locales
    (auto simp: StorageMode_of_def StorageMode_String_def StorageMode_isValid_def split: StorageMode.splits)

interpretation StorageSource_enum: string_enum StorageSource_of StorageSource_String StorageSource_isValid
  by unfold_locales
    (auto simp: StorageSource_of_def StorageSource_String_def StorageSource_isValid_def split: StorageSource.splits)

interpretation PoolPurpose_enum: string_enum PoolPurpose_of PoolPurpose_String PoolPurpose_isValid
  by unfold_locales
    (auto simp: PoolPurpose_of_def PoolPurpose_String_def PoolPurpose_isValid_def split: PoolPurpose.splits)

interpretation EnvironmentStatus_enum: string_enum EnvironmentStatus_of EnvironmentStatus_String EnvironmentStatus_isValid
  by unfold_locales
    (auto simp: EnvironmentStatus_of_def EnvironmentStatus_String_def EnvironmentStatus_isValid_def split: EnvironmentStatus.splits)

interpretation EnvironmentScanStatus_enum: string_enum EnvironmentScanStatus_of EnvironmentScanStatus_String EnvironmentScanStatus_isValid
  by unfold_locales
    (auto simp: EnvironmentScanStatus_of_def EnvironmentScanStatus_String_def EnvironmentScanStatus_isValid_def split: EnvironmentScanStatus.splits)


section \<open>Image references\<close>

lemma LastIndexByte_bounds: "- 1 \<le> LastIndexByte s c \<and> LastIndexByte s c < int (length s)"
  using length_takeWhile_le [of "\<lambda>d. d \<noteq> c" "rev s"] by (simp add: LastIndexByte_def)

lemma takeWhile_neq_all: "c \<notin> set s \<Longrightarrow> takeWhile (\<lambda>d. d \<noteq> c) s = s"
  by (auto simp: takeWhile_eq_all_conv)

lemma LastIndexByte_neg: "c \<notin> set s \<Longrightarrow> LastIndexByte s c = - 1"
  by (simp add: LastIndexByte_def takeWhile_neq_all)

lemma LastIndexByte_append:
  "c \<in> set t \<Longrightarrow> LastIndexByte (s @ t) c = int (length s) + LastIndexByte t c"
  "c \<notin> set t \<Longrightarrow> LastIndexByte (s @ t) c = LastIndexByte s c"
  by (auto simp: LastIndexByte_def takeWhile_append)

lemma IndexByte_append: "c \<notin> set s \<Longrightarrow> IndexByte (s @ c # t) c = int (length s)"
  by (simp add: IndexByte_def takeWhile_append)

lemma IndexByte_neg: "c \<notin> set s \<Longrightarrow> IndexByte s c = - 1"
  by (simp add: IndexByte_def takeWhile_neq_all)

lemma ImageRepository_tag:
  assumes "CHR ''@'' \<notin> set repo" "CHR ''@'' \<notin> set tag" "CHR ''/'' \<notin> set tag" "CHR '':'' \<notin> set tag"
  shows "ImageRepository (repo @ '':'' @ tag) = repo"
proof -
  let ?ref = "repo @ CHR '':'' # tag"
  have at: "IndexByte ?ref CHR ''@'' = - 1" using assms by (intro IndexByte_neg) simp
  have colon: "LastIndexByte ?ref CHR '':'' = int (length repo)"
    using assms(4) by (simp add: LastIndexByte_def takeWhile_append takeWhile_neq_all)
  have slash: "LastIndexByte ?ref CHR ''/'' = LastIndexByte repo CHR ''/''"
    using assms(3) by (intro LastIndexByte_append) simp
  show ?thesis
    using LastIndexByte_bounds [of repo "CHR ''/''"]
    by (simp add: ImageRepository_def at colon slash)
qed

lemma ImageRepository_digest:
  assumes "CHR ''@'' \<notin> set ref"
  shows "ImageRepository (ref @ ''@'' @ digest) = ImageRepository ref"
  using IndexByte_append [OF assms, of digest] IndexByte_neg [OF assms]
  by (simp add: ImageRepository_def)

end
