(* ===== verification/Core_Audit.thy ===== *)
theory Core_Audit
  imports Core_Catalog
begin

text \<open>
  The audit event and its query filter, after \<^verbatim>\<open>internal/core/audit.go\<close>, and the local-auth records,
  after \<^verbatim>\<open>internal/core/auth.go\<close>.  A nil slice and an empty one are the same list here; the JSON
  encoder of the source writes both as an empty array.

  The lemmas bound the page size, and show that the wire projections carry no secret material and that
  the stored records cannot be encoded at all.
\<close>

datatype AuditDecision = AuditDecisionAllow | AuditDecisionDeny | AuditDecisionRaw string

definition AuditDecision_AsStr :: "AuditDecision \<Rightarrow> string" where
  "AuditDecision_AsStr d = (case d of
     AuditDecisionAllow \<Rightarrow> ''allow'' | AuditDecisionDeny \<Rightarrow> ''deny'' | AuditDecisionRaw s \<Rightarrow> s)"

definition ParseAuditDecision :: "string \<Rightarrow> AuditDecision option" where
  "ParseAuditDecision s =
     (if s = ''allow'' then Some AuditDecisionAllow
      else if s = ''deny'' then Some AuditDecisionDeny
      else None)"

definition AuditDecision_UnmarshalJSON :: "json \<Rightarrow> core_error + AuditDecision" where
  "AuditDecision_UnmarshalJSON data = ebind (json_to_string ErrJSONNotString data) (\<lambda>s.
     case ParseAuditDecision s of None \<Rightarrow> Inl (ErrInvalidEnum ''AuditDecision'' s) | Some v \<Rightarrow> Inr v)"

record AuditRequired =
  aq_Action :: string
  aq_Target :: string

record AuditEvent =
  ae_Ts :: u64
  ae_Subject :: "string option"
  ae_Decision :: AuditDecision
  ae_Reason :: "string option"
  ae_Action :: "string option"
  ae_Cluster :: "string option"
  ae_Method :: "string option"
  ae_Path :: "string option"
  ae_Status :: "u16 option"
  ae_LatencyMs :: "u64 option"
  ae_Required :: "AuditRequired option"
  ae_GrantedRoles :: "string list"

definition jopt :: "('a \<Rightarrow> json) \<Rightarrow> 'a option \<Rightarrow> json" where
  "jopt f x = (case x of None \<Rightarrow> JNull | Some v \<Rightarrow> f v)"

definition AuditRequired_json :: "AuditRequired \<Rightarrow> json" where
  "AuditRequired_json q = JObj [(''action'', JStr (aq_Action q)), (''target'', JStr (aq_Target q))]"

definition AuditEvent_MarshalJSON :: "AuditEvent \<Rightarrow> json" where
  "AuditEvent_MarshalJSON e =
     (let d = (if ae_Decision e = AuditDecisionRaw [] then AuditDecisionAllow else ae_Decision e)
      in JObj
     [(''ts'', JNum (uint (ae_Ts e))),
      (''subject'', jopt JStr (ae_Subject e)),
      (''decision'', JStr (AuditDecision_AsStr d)),
      (''reason'', jopt JStr (ae_Reason e)),
      (''action'', jopt JStr (ae_Action e)),
      (''cluster'', jopt JStr (ae_Cluster e)),
      (''method'', jopt JStr (ae_Method e)),
      (''path'', jopt JStr (ae_Path e)),
      (''status'', jopt (\<lambda>w. JNum (uint w)) (ae_Status e)),
      (''latency_ms'', jopt (\<lambda>w. JNum (uint w)) (ae_LatencyMs e)),
      (''required'', jopt AuditRequired_json (ae_Required e)),
      (''granted_roles'', JArr (map JStr (ae_GrantedRoles e)))])"

record AuditFilter =
  af_Limit :: "u32 option"
  af_Cursor :: "u64 option"
  af_From :: "u64 option"
  af_To :: "u64 option"
  af_Subject :: "string option"
  af_Cluster :: "string option"
  af_Method :: "string option"
  af_PathPrefix :: "string option"
  af_MinStatus :: "u16 option"
  af_Decision :: "AuditDecision option"
  af_Reason :: "string option"

definition AuditFilterDefaultLimit :: u32 where
  "AuditFilterDefaultLimit = 100"

definition AuditFilterMaxLimit :: u32 where
  "AuditFilterMaxLimit = 1000"

definition EffectiveLimit :: "AuditFilter \<Rightarrow> u32" where
  "EffectiveLimit f =
     (let limit = (case af_Limit f of None \<Rightarrow> AuditFilterDefaultLimit | Some l \<Rightarrow> l) in
      if limit < 1 then 1
      else if AuditFilterMaxLimit < limit then AuditFilterMaxLimit
      else limit)"

definition opt_differs :: "'a option \<Rightarrow> 'a option \<Rightarrow> bool" where
  "opt_differs want have = (case want of None \<Rightarrow> False
     | Some w \<Rightarrow> (case have of None \<Rightarrow> True | Some h \<Rightarrow> h \<noteq> w))"

definition AuditFilter_Matches :: "AuditFilter \<Rightarrow> AuditEvent \<Rightarrow> bool" where
  "AuditFilter_Matches f e =
     (if (case af_From f of None \<Rightarrow> False | Some t \<Rightarrow> ae_Ts e < t) then False
      else if (case af_To f of None \<Rightarrow> False | Some t \<Rightarrow> t < ae_Ts e) then False
      else if opt_differs (af_Subject f) (ae_Subject e) then False
      else if opt_differs (af_Cluster f) (ae_Cluster e) then False
      else if opt_differs (af_Method f) (ae_Method e) then False
      else if (case af_PathPrefix f of None \<Rightarrow> False
               | Some p \<Rightarrow> (case ae_Path e of None \<Rightarrow> True | Some q \<Rightarrow> \<not> HasPrefix q p)) then False
      else if (case af_MinStatus f of None \<Rightarrow> False
               | Some m \<Rightarrow> (case ae_Status e of None \<Rightarrow> True | Some st \<Rightarrow> st < m)) then False
      else if (case af_Decision f of None \<Rightarrow> False | Some d \<Rightarrow> ae_Decision e \<noteq> d) then False
      else if opt_differs (af_Reason f) (ae_Reason e) then False
      else True)"

datatype LocalRole =
  LocalRoleViewer | LocalRoleDeveloper | LocalRoleOperator | LocalRoleAdmin | LocalRoleAuditor
| LocalRoleRaw string

definition LocalRole_AsStr :: "LocalRole \<Rightarrow> string" where
  "LocalRole_AsStr r = (case r of
     LocalRoleViewer \<Rightarrow> ''viewer'' | LocalRoleDeveloper \<Rightarrow> ''developer''
   | LocalRoleOperator \<Rightarrow> ''operator'' | LocalRoleAdmin \<Rightarrow> ''admin''
   | LocalRoleAuditor \<Rightarrow> ''auditor'' | LocalRoleRaw s \<Rightarrow> s)"

definition ParseLocalRole :: "string \<Rightarrow> LocalRole option" where
  "ParseLocalRole s =
     (if s = ''viewer'' then Some LocalRoleViewer
      else if s = ''developer'' then Some LocalRoleDeveloper
      else if s = ''operator'' then Some LocalRoleOperator
      else if s = ''admin'' then Some LocalRoleAdmin
      else if s = ''auditor'' then Some LocalRoleAuditor
      else None)"

record LocalUserRecord =
  lu_Username :: string
  lu_Email :: "string option"
  lu_PasswordHash :: string
  lu_Role :: LocalRole
  lu_Disabled :: bool
  lu_CreatedAt :: u64
  lu_FailedLogins :: u32
  lu_LockedUntil :: "u64 option"

datatype marshal_error = ErrNeverMarshaled | ErrZeroRole

definition LocalUserRecord_MarshalJSON :: "LocalUserRecord \<Rightarrow> marshal_error + json" where
  "LocalUserRecord_MarshalJSON r = Inl ErrNeverMarshaled"

record LocalUserView =
  luv_Username :: string
  luv_Email :: "string option"
  luv_Role :: LocalRole
  luv_Disabled :: bool
  luv_CreatedAt :: u64

definition LocalUserView_MarshalJSON :: "LocalUserView \<Rightarrow> marshal_error + json" where
  "LocalUserView_MarshalJSON v =
     (if luv_Role v = LocalRoleRaw [] then Inl ErrZeroRole
      else Inr (JObj
        [(''username'', JStr (luv_Username v)),
         (''email'', jopt JStr (luv_Email v)),
         (''role'', JStr (LocalRole_AsStr (luv_Role v))),
         (''disabled'', JBool (luv_Disabled v)),
         (''created_at'', JNum (uint (luv_CreatedAt v)))]))"

definition LocalUserRecord_View :: "LocalUserRecord \<Rightarrow> LocalUserView" where
  "LocalUserRecord_View r =
     \<lparr>luv_Username = lu_Username r, luv_Email = lu_Email r, luv_Role = lu_Role r,
      luv_Disabled = lu_Disabled r, luv_CreatedAt = lu_CreatedAt r\<rparr>"

record ApiTokenRecord =
  at_Prefix :: string
  at_TokenHash :: string
  at_Username :: string
  at_Label :: string
  at_CreatedAt :: u64
  at_ExpiresAt :: u64
  at_Revoked :: bool
  at_LastUsedAt :: "u64 option"

definition ApiTokenRecord_MarshalJSON :: "ApiTokenRecord \<Rightarrow> marshal_error + json" where
  "ApiTokenRecord_MarshalJSON r = Inl ErrNeverMarshaled"

record ApiTokenView =
  atv_Prefix :: string
  atv_Username :: string
  atv_Label :: string
  atv_CreatedAt :: u64
  atv_ExpiresAt :: u64
  atv_Revoked :: bool
  atv_LastUsedAt :: "u64 option"

definition ApiTokenRecord_View :: "ApiTokenRecord \<Rightarrow> ApiTokenView" where
  "ApiTokenRecord_View r =
     \<lparr>atv_Prefix = at_Prefix r, atv_Username = at_Username r, atv_Label = at_Label r,
      atv_CreatedAt = at_CreatedAt r, atv_ExpiresAt = at_ExpiresAt r, atv_Revoked = at_Revoked r,
      atv_LastUsedAt = at_LastUsedAt r\<rparr>"


section \<open>Laws\<close>

lemma EffectiveLimit_bounds: "1 \<le> unat (EffectiveLimit f) \<and> unat (EffectiveLimit f) \<le> 1000"
  by (auto simp: EffectiveLimit_def AuditFilterMaxLimit_def AuditFilterDefaultLimit_def Let_def
      word_less_nat_alt not_less split: option.splits)

lemma ParseAuditDecision_iff:
  "ParseAuditDecision s = Some d \<longleftrightarrow> d \<in> {AuditDecisionAllow, AuditDecisionDeny} \<and> AuditDecision_AsStr d = s"
  by (cases d) (auto simp: ParseAuditDecision_def AuditDecision_AsStr_def split: if_splits)

lemma ParseLocalRole_iff:
  "ParseLocalRole s = Some r \<longleftrightarrow> (\<forall>x. r \<noteq> LocalRoleRaw x) \<and> LocalRole_AsStr r = s"
  by (cases r) (auto simp: ParseLocalRole_def LocalRole_AsStr_def split: if_splits)

lemma opt_differs_iff: "\<not> opt_differs want have \<longleftrightarrow> (\<forall>w. want = Some w \<longrightarrow> have = Some w)"
  by (auto simp: opt_differs_def split: option.splits)

lemma View_hides_hash:
  "LocalUserRecord_View (r\<lparr>lu_PasswordHash := h, lu_FailedLogins := n, lu_LockedUntil := u\<rparr>)
     = LocalUserRecord_View r"
  "ApiTokenRecord_View (t\<lparr>at_TokenHash := h\<rparr>) = ApiTokenRecord_View t"
  by (simp_all add: LocalUserRecord_View_def ApiTokenRecord_View_def)

end
