(* ===== verification/Core_Cluster.thy ===== *)
theory Core_Cluster
  imports Core_Catalog
begin

text \<open>
  The managed cluster, after \<^verbatim>\<open>internal/core/cluster.go\<close>: its declarative spec, its lifecycle states with
  the transition guard of user commands, and the drift conditions.

  The lemmas show that the lifecycle can only end in the terminated state, that every state can still
  reach it, and that only the states named in the source take part in it.
\<close>

datatype ClusterState =
  ClusterStatePending | ClusterStateProvisioning | ClusterStateRunning | ClusterStateDegraded | ClusterStateUpdating | ClusterStateSuspending | ClusterStateSuspended | ClusterStateTerminating | ClusterStateTerminated | ClusterStateRaw string

definition ClusterState_of :: "string \<Rightarrow> ClusterState" where
  "ClusterState_of s =
     (if s = ''pending'' then ClusterStatePending
      else if s = ''provisioning'' then ClusterStateProvisioning
      else if s = ''running'' then ClusterStateRunning
      else if s = ''degraded'' then ClusterStateDegraded
      else if s = ''updating'' then ClusterStateUpdating
      else if s = ''suspending'' then ClusterStateSuspending
      else if s = ''suspended'' then ClusterStateSuspended
      else if s = ''terminating'' then ClusterStateTerminating
      else if s = ''terminated'' then ClusterStateTerminated
      else ClusterStateRaw s)"

definition ClusterState_String :: "ClusterState \<Rightarrow> string" where
  "ClusterState_String v = (case v of
     ClusterStatePending \<Rightarrow> ''pending''
   | ClusterStateProvisioning \<Rightarrow> ''provisioning''
   | ClusterStateRunning \<Rightarrow> ''running''
   | ClusterStateDegraded \<Rightarrow> ''degraded''
   | ClusterStateUpdating \<Rightarrow> ''updating''
   | ClusterStateSuspending \<Rightarrow> ''suspending''
   | ClusterStateSuspended \<Rightarrow> ''suspended''
   | ClusterStateTerminating \<Rightarrow> ''terminating''
   | ClusterStateTerminated \<Rightarrow> ''terminated''
   | ClusterStateRaw s \<Rightarrow> s)"

definition ClusterState_isValid :: "ClusterState \<Rightarrow> bool" where
  "ClusterState_isValid v = (case v of ClusterStateRaw _ \<Rightarrow> False | _ \<Rightarrow> True)"

definition ClusterState_UnmarshalJSON :: "json \<Rightarrow> core_error + ClusterState" where
  "ClusterState_UnmarshalJSON =
     enum_unmarshal ClusterState_of ClusterState_isValid (ErrInvalidEnum ''ClusterState'') ErrJSONNotString"

datatype DriftCondition =
  DriftConditionSpecDrift | DriftConditionDegraded | DriftConditionRaw string

definition DriftCondition_of :: "string \<Rightarrow> DriftCondition" where
  "DriftCondition_of s =
     (if s = ''spec_drift'' then DriftConditionSpecDrift
      else if s = ''degraded'' then DriftConditionDegraded
      else DriftConditionRaw s)"

definition DriftCondition_String :: "DriftCondition \<Rightarrow> string" where
  "DriftCondition_String v = (case v of
     DriftConditionSpecDrift \<Rightarrow> ''spec_drift''
   | DriftConditionDegraded \<Rightarrow> ''degraded''
   | DriftConditionRaw s \<Rightarrow> s)"

definition DriftCondition_isValid :: "DriftCondition \<Rightarrow> bool" where
  "DriftCondition_isValid v = (case v of DriftConditionRaw _ \<Rightarrow> False | _ \<Rightarrow> True)"

definition DriftCondition_UnmarshalJSON :: "json \<Rightarrow> core_error + DriftCondition" where
  "DriftCondition_UnmarshalJSON =
     enum_unmarshal DriftCondition_of DriftCondition_isValid (ErrInvalidEnum ''DriftCondition'') ErrJSONNotString"

record ClusterSpec =
  cs_Name :: string
  cs_Project :: string
  cs_Engine :: Engine
  cs_RayVersion :: string
  cs_Image :: string
  cs_HeadCpu :: string
  cs_HeadMemory :: string
  cs_WorkerGroups :: "WorkerGroup list"
  cs_TtlSeconds :: "u64 option"
  cs_IdleTimeoutSecs :: "u64 option"
  cs_Owner :: "string option"
  cs_Profile :: "string option"
  cs_Environment :: "string option"
  cs_EnvironmentResolved :: "ResolvedEnvironment option"
  cs_Storage :: "string list"
  cs_StorageResolved :: "ResolvedStorage list"
  cs_ServiceAccountResolved :: "string option"
  cs_NamespaceResolved :: string

definition ClusterSpec_zero :: ClusterSpec where
  "ClusterSpec_zero =
     \<lparr>cs_Name = [], cs_Project = [], cs_Engine = EngineRaw [], cs_RayVersion = [], cs_Image = [],
      cs_HeadCpu = [], cs_HeadMemory = [], cs_WorkerGroups = [], cs_TtlSeconds = None,
      cs_IdleTimeoutSecs = None, cs_Owner = None, cs_Profile = None, cs_Environment = None,
      cs_EnvironmentResolved = None, cs_Storage = [], cs_StorageResolved = [],
      cs_ServiceAccountResolved = None, cs_NamespaceResolved = []\<rparr>"

definition ClusterSpec_default_engine :: "ClusterSpec \<Rightarrow> ClusterSpec" where
  "ClusterSpec_default_engine c =
     (if cs_Engine c = EngineRaw [] then c\<lparr>cs_Engine := DefaultEngine\<rparr> else c)"

record TransitionError =
  te_From :: ClusterState
  te_To :: ClusterState

definition clusterStateRustDebug :: "ClusterState \<Rightarrow> string" where
  "clusterStateRustDebug s = (case s of
     ClusterStatePending \<Rightarrow> ''Pending''
   | ClusterStateProvisioning \<Rightarrow> ''Provisioning''
   | ClusterStateRunning \<Rightarrow> ''Running''
   | ClusterStateDegraded \<Rightarrow> ''Degraded''
   | ClusterStateUpdating \<Rightarrow> ''Updating''
   | ClusterStateSuspending \<Rightarrow> ''Suspending''
   | ClusterStateSuspended \<Rightarrow> ''Suspended''
   | ClusterStateTerminating \<Rightarrow> ''Terminating''
   | ClusterStateTerminated \<Rightarrow> ''Terminated''
   | ClusterStateRaw r \<Rightarrow> r)"

definition TransitionError_Error :: "TransitionError \<Rightarrow> string" where
  "TransitionError_Error e = ''invalid cluster state transition: '' @ clusterStateRustDebug (te_From e)
     @ '' -> '' @ clusterStateRustDebug (te_To e)"

definition CanTransitionTo :: "ClusterState \<Rightarrow> ClusterState \<Rightarrow> bool" where
  "CanTransitionTo s next = (case s of
     ClusterStatePending \<Rightarrow> (case next of
       ClusterStateProvisioning \<Rightarrow> True | ClusterStateTerminating \<Rightarrow> True | _ \<Rightarrow> False)
   | ClusterStateProvisioning \<Rightarrow> (case next of
       ClusterStateRunning \<Rightarrow> True | ClusterStateDegraded \<Rightarrow> True | ClusterStateTerminating \<Rightarrow> True
     | _ \<Rightarrow> False)
   | ClusterStateRunning \<Rightarrow> (case next of
       ClusterStateDegraded \<Rightarrow> True | ClusterStateUpdating \<Rightarrow> True | ClusterStateSuspending \<Rightarrow> True
     | ClusterStateTerminating \<Rightarrow> True | _ \<Rightarrow> False)
   | ClusterStateDegraded \<Rightarrow> (case next of
       ClusterStateRunning \<Rightarrow> True | ClusterStateTerminating \<Rightarrow> True | _ \<Rightarrow> False)
   | ClusterStateUpdating \<Rightarrow> (case next of
       ClusterStateRunning \<Rightarrow> True | ClusterStateDegraded \<Rightarrow> True | _ \<Rightarrow> False)
   | ClusterStateSuspending \<Rightarrow> (case next of ClusterStateSuspended \<Rightarrow> True | _ \<Rightarrow> False)
   | ClusterStateSuspended \<Rightarrow> (case next of
       ClusterStateProvisioning \<Rightarrow> True | ClusterStateTerminating \<Rightarrow> True | _ \<Rightarrow> False)
   | ClusterStateTerminating \<Rightarrow> (case next of ClusterStateTerminated \<Rightarrow> True | _ \<Rightarrow> False)
   | ClusterStateTerminated \<Rightarrow> False
   | ClusterStateRaw _ \<Rightarrow> False)"

definition Transition :: "ClusterState \<Rightarrow> ClusterState \<Rightarrow> TransitionError + ClusterState" where
  "Transition s to =
     (if CanTransitionTo s to then Inr to else Inl \<lparr>te_From = s, te_To = to\<rparr>)"

definition ClusterState_IsTerminal :: "ClusterState \<Rightarrow> bool" where
  "ClusterState_IsTerminal s = (s = ClusterStateTerminated)"

inductive lifecycle :: "ClusterState \<Rightarrow> ClusterState \<Rightarrow> bool" where
  here: "lifecycle s s"
| step: "lifecycle s t \<Longrightarrow> Transition t u = Inr u' \<Longrightarrow> lifecycle s u'"


section \<open>Lifecycle\<close>

interpretation ClusterState_enum: string_enum ClusterState_of ClusterState_String ClusterState_isValid
  by unfold_locales
    (auto simp: ClusterState_of_def ClusterState_String_def ClusterState_isValid_def split: ClusterState.splits)

interpretation DriftCondition_enum: string_enum DriftCondition_of DriftCondition_String DriftCondition_isValid
  by unfold_locales
    (auto simp: DriftCondition_of_def DriftCondition_String_def DriftCondition_isValid_def split: DriftCondition.splits)

inductive_simps lifecycle_from: "lifecycle s t"

lemma Transition_Inr: "Transition s t = Inr u \<longleftrightarrow> CanTransitionTo s t \<and> u = t"
  by (auto simp: Transition_def)

lemma lifecycle_trans: "lifecycle t u \<Longrightarrow> lifecycle s t \<Longrightarrow> lifecycle s u"
  by (induction rule: lifecycle.induct) (auto intro: lifecycle.step)

lemma lifecycle_one: "CanTransitionTo s t \<Longrightarrow> lifecycle s t"
  using lifecycle.step [OF lifecycle.here, of s t t] by (simp add: Transition_Inr)

lemma CanTransitionTo_valid: "CanTransitionTo s t \<Longrightarrow> ClusterState_isValid s \<and> ClusterState_isValid t"
  by (auto simp: CanTransitionTo_def ClusterState_isValid_def split: ClusterState.splits)

lemma CanTransitionTo_irrefl: "\<not> CanTransitionTo s s"
  by (cases s) (simp_all add: CanTransitionTo_def)

lemma CanTransitionTo_terminated: "\<not> CanTransitionTo ClusterStateTerminated t"
  by (simp add: CanTransitionTo_def)

lemma lifecycle_terminated: "lifecycle s t \<Longrightarrow> s = ClusterStateTerminated \<Longrightarrow> t = s"
  by (induction rule: lifecycle.induct) (simp_all add: Transition_Inr CanTransitionTo_terminated)

lemma lifecycle_valid: "lifecycle s t \<Longrightarrow> ClusterState_isValid s \<Longrightarrow> ClusterState_isValid t"
  by (induction rule: lifecycle.induct) (auto simp: Transition_Inr dest: CanTransitionTo_valid)

lemma terminating_reaches: "lifecycle ClusterStateTerminating ClusterStateTerminated"
  by (rule lifecycle_one) (simp add: CanTransitionTo_def)

lemma reaches_terminated_via:
  "CanTransitionTo s t \<Longrightarrow> lifecycle t ClusterStateTerminated \<Longrightarrow> lifecycle s ClusterStateTerminated"
  by (blast intro: lifecycle_trans lifecycle_one)

lemma reaches_terminated:
  assumes "ClusterState_isValid s"
  shows "lifecycle s ClusterStateTerminated"
proof -
  note via = reaches_terminated_via
  have run: "lifecycle ClusterStateRunning ClusterStateTerminated"
    and susp: "lifecycle ClusterStateSuspended ClusterStateTerminated"
    by (rule via [OF _ terminating_reaches]; simp add: CanTransitionTo_def)+
  show ?thesis
  proof (cases s)
    case ClusterStateUpdating
    then show ?thesis using via [OF _ run, of s] by (simp add: CanTransitionTo_def)
  next
    case ClusterStateSuspending
    then show ?thesis using via [OF _ susp, of s] by (simp add: CanTransitionTo_def)
  next
    case ClusterStateTerminated
    then show ?thesis by (simp add: lifecycle.here)
  next
    case (ClusterStateRaw r)
    then show ?thesis using assms by (simp add: ClusterState_isValid_def)
  qed (use terminating_reaches via [OF _ terminating_reaches, of s] in \<open>simp_all add: CanTransitionTo_def\<close>)
qed

lemma lifecycle_onward: "lifecycle s t \<Longrightarrow> s \<noteq> t \<Longrightarrow> \<exists>u. CanTransitionTo s u"
  by (induction rule: lifecycle.induct) (simp, metis Transition_Inr)

lemma stuck_iff: "(\<nexists>u. CanTransitionTo s u) \<longleftrightarrow> ClusterState_IsTerminal s \<or> \<not> ClusterState_isValid s"
proof -
  have onward: "\<exists>u. CanTransitionTo s u" if "s \<noteq> ClusterStateTerminated" "ClusterState_isValid s"
  proof -
    have "lifecycle s ClusterStateTerminated" using reaches_terminated that(2) .
    then show ?thesis using that(1) by (rule lifecycle_onward)
  qed
  moreover have "\<not> CanTransitionTo s u" if "s = ClusterStateTerminated \<or> \<not> ClusterState_isValid s" for u
    using that CanTransitionTo_valid CanTransitionTo_terminated by blast
  ultimately show ?thesis unfolding ClusterState_IsTerminal_def by blast
qed

lemma lifecycle_raw: "lifecycle s t \<Longrightarrow> \<not> ClusterState_isValid s \<Longrightarrow> t = s"
  by (induction rule: lifecycle.induct) (auto simp: Transition_Inr dest: CanTransitionTo_valid)


section \<open>Properties\<close>

text \<open>
  C39.  The cluster lifecycle: a transition is accepted exactly when the guard allows it and otherwise
  reports both states; from every named state the terminated state can be reached by accepted
  transitions, nothing leaves it, it is the only named state with no way on, and no transition involves
  a state outside the named ones.
\<close>

theorem cluster_lifecycle:
  "(Transition s t = (if CanTransitionTo s t then Inr t else Inl \<lparr>te_From = s, te_To = t\<rparr>))
   \<and> (lifecycle s ClusterStateTerminated \<longleftrightarrow> ClusterState_isValid s)
   \<and> (lifecycle ClusterStateTerminated t \<longleftrightarrow> t = ClusterStateTerminated)
   \<and> ((\<nexists>u. CanTransitionTo s u) \<longleftrightarrow> ClusterState_IsTerminal s \<or> \<not> ClusterState_isValid s)
   \<and> \<not> (CanTransitionTo s t \<and> \<not> (ClusterState_isValid s \<and> ClusterState_isValid t))"
proof (intro conjI)
  show "lifecycle s ClusterStateTerminated \<longleftrightarrow> ClusterState_isValid s"
  proof
    show "ClusterState_isValid s" if "lifecycle s ClusterStateTerminated"
    proof (rule ccontr)
      assume nv: "\<not> ClusterState_isValid s"
      with that have "s = ClusterStateTerminated" by (auto dest: lifecycle_raw)
      with nv show False by (simp add: ClusterState_isValid_def)
    qed
  qed (rule reaches_terminated)
  show "lifecycle ClusterStateTerminated t \<longleftrightarrow> t = ClusterStateTerminated"
    using lifecycle_terminated [of _ t] by (auto intro: lifecycle.here)
  show "(\<nexists>u. CanTransitionTo s u) \<longleftrightarrow> ClusterState_IsTerminal s \<or> \<not> ClusterState_isValid s"
    by (rule stuck_iff)
  show "\<not> (CanTransitionTo s t \<and> \<not> (ClusterState_isValid s \<and> ClusterState_isValid t))"
    using CanTransitionTo_valid by blast
qed (simp add: Transition_def)

theorem cluster_lifecycle_witness:
  "Transition ClusterStateRunning ClusterStateSuspending = Inr ClusterStateSuspending \<and>
   lifecycle ClusterStateRunning ClusterStateTerminated"
  using cluster_lifecycle [of ClusterStateRunning ClusterStateSuspending]
  by (simp add: CanTransitionTo_def ClusterState_isValid_def)

end
