(* ===== verification/Core_Workload.thy ===== *)
theory Core_Workload
  imports Core_Cluster
begin

text \<open>
  Jobs and services, after \<^verbatim>\<open>internal/core/rayjob.go\<close>, \<^verbatim>\<open>service.go\<close> and \<^verbatim>\<open>job.go\<close>: the specs of an
  ephemeral Ray job and of a Serve service, the job states with Ray's own status vocabulary, and the
  record of a job observed through the gateway.
\<close>

datatype RayJobState =
  RayJobStatePending | RayJobStateRunning | RayJobStateSucceeded | RayJobStateFailed | RayJobStateStopped | RayJobStateRaw string

definition RayJobState_of :: "string \<Rightarrow> RayJobState" where
  "RayJobState_of s =
     (if s = ''pending'' then RayJobStatePending
      else if s = ''running'' then RayJobStateRunning
      else if s = ''succeeded'' then RayJobStateSucceeded
      else if s = ''failed'' then RayJobStateFailed
      else if s = ''stopped'' then RayJobStateStopped
      else RayJobStateRaw s)"

definition RayJobState_String :: "RayJobState \<Rightarrow> string" where
  "RayJobState_String v = (case v of
     RayJobStatePending \<Rightarrow> ''pending''
   | RayJobStateRunning \<Rightarrow> ''running''
   | RayJobStateSucceeded \<Rightarrow> ''succeeded''
   | RayJobStateFailed \<Rightarrow> ''failed''
   | RayJobStateStopped \<Rightarrow> ''stopped''
   | RayJobStateRaw s \<Rightarrow> s)"

definition RayJobState_isValid :: "RayJobState \<Rightarrow> bool" where
  "RayJobState_isValid v = (case v of RayJobStateRaw _ \<Rightarrow> False | _ \<Rightarrow> True)"

definition RayJobState_UnmarshalJSON :: "json \<Rightarrow> core_error + RayJobState" where
  "RayJobState_UnmarshalJSON =
     enum_unmarshal RayJobState_of RayJobState_isValid (ErrInvalidEnum ''RayJobState'') ErrJSONNotString"

datatype UpgradeStrategy =
  UpgradeStrategyCanary | UpgradeStrategyInPlace | UpgradeStrategyRaw string

definition UpgradeStrategy_of :: "string \<Rightarrow> UpgradeStrategy" where
  "UpgradeStrategy_of s =
     (if s = ''canary'' then UpgradeStrategyCanary
      else if s = ''in_place'' then UpgradeStrategyInPlace
      else UpgradeStrategyRaw s)"

definition UpgradeStrategy_String :: "UpgradeStrategy \<Rightarrow> string" where
  "UpgradeStrategy_String v = (case v of
     UpgradeStrategyCanary \<Rightarrow> ''canary''
   | UpgradeStrategyInPlace \<Rightarrow> ''in_place''
   | UpgradeStrategyRaw s \<Rightarrow> s)"

definition UpgradeStrategy_isValid :: "UpgradeStrategy \<Rightarrow> bool" where
  "UpgradeStrategy_isValid v = (case v of UpgradeStrategyRaw _ \<Rightarrow> False | _ \<Rightarrow> True)"

definition UpgradeStrategy_UnmarshalJSON :: "json \<Rightarrow> core_error + UpgradeStrategy" where
  "UpgradeStrategy_UnmarshalJSON =
     enum_unmarshal UpgradeStrategy_of UpgradeStrategy_isValid (ErrInvalidEnum ''UpgradeStrategy'') ErrJSONNotString"

definition DefaultRayJobTtlSecondsAfterFinished :: u32 where
  "DefaultRayJobTtlSecondsAfterFinished = 60"

record RayJobSpec =
  rj_Project :: string
  rj_Entrypoint :: string
  rj_Image :: string
  rj_RayVersion :: string
  rj_RuntimeEnvYaml :: string
  rj_HeadCpu :: string
  rj_HeadMemory :: string
  rj_WorkerGroups :: "WorkerGroup list"
  rj_Profile :: "string option"
  rj_Environment :: "string option"
  rj_EnvironmentResolved :: "ResolvedEnvironment option"
  rj_Storage :: "string list"
  rj_StorageResolved :: "ResolvedStorage list"
  rj_ServiceAccountResolved :: "string option"
  rj_NamespaceResolved :: string
  rj_TtlSecondsAfterFinished :: "u32 option"
  rj_Owner :: "string option"

definition TtlSecondsAfterFinishedOrDefault :: "RayJobSpec \<Rightarrow> u32" where
  "TtlSecondsAfterFinishedOrDefault s = (case rj_TtlSecondsAfterFinished s of
     None \<Rightarrow> DefaultRayJobTtlSecondsAfterFinished | Some t \<Rightarrow> t)"

definition RayJobState_IsTerminal :: "RayJobState \<Rightarrow> bool" where
  "RayJobState_IsTerminal s = (case s of
     RayJobStateSucceeded \<Rightarrow> True | RayJobStateFailed \<Rightarrow> True | RayJobStateStopped \<Rightarrow> True
   | RayJobStatePending \<Rightarrow> False | RayJobStateRunning \<Rightarrow> False | RayJobStateRaw _ \<Rightarrow> False)"

definition ParseRayJobStatus :: "string \<Rightarrow> RayJobState option" where
  "ParseRayJobStatus s =
     (if s = ''PENDING'' then Some RayJobStatePending
      else if s = ''RUNNING'' then Some RayJobStateRunning
      else if s = ''SUCCEEDED'' then Some RayJobStateSucceeded
      else if s = ''FAILED'' then Some RayJobStateFailed
      else if s = ''STOPPED'' then Some RayJobStateStopped
      else None)"

record ServiceSpec =
  sv_Name :: string
  sv_Project :: string
  sv_RayVersion :: string
  sv_Image :: string
  sv_ServeConfigV2 :: string
  sv_HeadCpu :: string
  sv_HeadMemory :: string
  sv_WorkerReplicas :: u32
  sv_WorkerCpu :: string
  sv_WorkerMemory :: string
  sv_Upgrade :: UpgradeStrategy
  sv_Storage :: "string list"
  sv_StorageResolved :: "ResolvedStorage list"
  sv_ServiceAccountResolved :: "string option"
  sv_NamespaceResolved :: string

record JobRecord =
  jr_Id :: string
  jr_Cluster :: string
  jr_Submitter :: string
  jr_Status :: string
  jr_DurationSecs :: "u64 option"
  jr_SubmittedAt :: u64


section \<open>Laws\<close>

interpretation RayJobState_enum: string_enum RayJobState_of RayJobState_String RayJobState_isValid
  by unfold_locales
    (auto simp: RayJobState_of_def RayJobState_String_def RayJobState_isValid_def split: RayJobState.splits)

interpretation UpgradeStrategy_enum: string_enum UpgradeStrategy_of UpgradeStrategy_String UpgradeStrategy_isValid
  by unfold_locales
    (auto simp: UpgradeStrategy_of_def UpgradeStrategy_String_def UpgradeStrategy_isValid_def split: UpgradeStrategy.splits)

lemma ParseRayJobStatus_valid: "ParseRayJobStatus s = Some st \<Longrightarrow> RayJobState_isValid st"
  by (auto simp: ParseRayJobStatus_def RayJobState_isValid_def split: if_splits)

end
