(* ===== verification/Float64.thy ===== *)
theory Float64
  imports Complex_Main Bifrost_Prelude
begin

text \<open>
  The \<^verbatim>\<open>float64\<close> type of Go: IEEE 754 binary64 with round-to-nearest, ties to even.  A finite value is
  the rational number it denotes; an operation computes the exact rational result and rounds it.  The
  two zeros are one value here: no modelled code divides by a zero or inspects its sign.

  The lemmas show that rounding is monotone and exact on integers of magnitude at most \<open>2 ^ 53\<close>, and that
  the operations keep non-negative values non-negative, ordered and free of NaN.
\<close>

datatype float64 = NaN | PInf | NInf | Fin rat

function ilog2 :: "nat \<Rightarrow> nat" where
  "ilog2 n = (if n < 2 then 0 else Suc (ilog2 (n div 2)))"
  by pat_completeness auto
termination by (relation "measure id") auto

declare ilog2.simps [simp del]

definition pow2 :: "int \<Rightarrow> rat" where
  "pow2 k = (if 0 \<le> k then 2 ^ nat k else 1 / 2 ^ nat (- k))"

definition fexp :: "rat \<Rightarrow> int" where
  "fexp x = (case quotient_of x of (p, q) \<Rightarrow>
     let e = int (ilog2 (nat p)) - int (ilog2 (nat q)) in if pow2 e \<le> x then e else e - 1)"

definition rne :: "rat \<Rightarrow> int" where
  "rne x = (let f = \<lfloor>x\<rfloor>; r = x - of_int f in
     if r < 1 / 2 then f else if 1 / 2 < r then f + 1 else if even f then f else f + 1)"

definition ulp_exp :: "rat \<Rightarrow> int" where
  "ulp_exp x = max (fexp x - 52) (- 1074)"

definition rnd_val :: "rat \<Rightarrow> rat" where
  "rnd_val x = of_int (rne (x / pow2 (ulp_exp x))) * pow2 (ulp_exp x)"

definition rnd :: "rat \<Rightarrow> float64" where
  "rnd x =
     (if x = 0 then Fin 0
      else if 0 < x then (if pow2 1024 \<le> rnd_val x then PInf else Fin (rnd_val x))
      else (if pow2 1024 \<le> rnd_val (- x) then NInf else Fin (- rnd_val (- x))))"

definition fneg :: "float64 \<Rightarrow> float64" where
  "fneg a = (case a of NaN \<Rightarrow> NaN | PInf \<Rightarrow> NInf | NInf \<Rightarrow> PInf | Fin x \<Rightarrow> Fin (- x))"

definition fadd :: "float64 \<Rightarrow> float64 \<Rightarrow> float64" where
  "fadd a b = (case (a, b) of
     (NaN, _) \<Rightarrow> NaN | (_, NaN) \<Rightarrow> NaN
   | (PInf, NInf) \<Rightarrow> NaN | (NInf, PInf) \<Rightarrow> NaN
   | (PInf, _) \<Rightarrow> PInf | (_, PInf) \<Rightarrow> PInf
   | (NInf, _) \<Rightarrow> NInf | (_, NInf) \<Rightarrow> NInf
   | (Fin x, Fin y) \<Rightarrow> rnd (x + y))"

definition inf_times :: "bool \<Rightarrow> rat \<Rightarrow> float64" where
  "inf_times pos x = (if x = 0 then NaN else if (0 < x) = pos then PInf else NInf)"

definition fmul :: "float64 \<Rightarrow> float64 \<Rightarrow> float64" where
  "fmul a b = (case (a, b) of
     (NaN, _) \<Rightarrow> NaN | (_, NaN) \<Rightarrow> NaN
   | (Fin x, Fin y) \<Rightarrow> rnd (x * y)
   | (Fin x, PInf) \<Rightarrow> inf_times True x | (Fin x, NInf) \<Rightarrow> inf_times False x
   | (PInf, Fin y) \<Rightarrow> inf_times True y | (NInf, Fin y) \<Rightarrow> inf_times False y
   | (PInf, PInf) \<Rightarrow> PInf | (NInf, NInf) \<Rightarrow> PInf
   | _ \<Rightarrow> NInf)"

definition fdiv :: "float64 \<Rightarrow> float64 \<Rightarrow> float64" where
  "fdiv a b = (case (a, b) of
     (NaN, _) \<Rightarrow> NaN | (_, NaN) \<Rightarrow> NaN
   | (Fin x, Fin y) \<Rightarrow>
       if y \<noteq> 0 then rnd (x / y) else if x = 0 then NaN else if 0 < x then PInf else NInf
   | (Fin _, _) \<Rightarrow> Fin 0
   | (PInf, Fin y) \<Rightarrow> if 0 \<le> y then PInf else NInf
   | (NInf, Fin y) \<Rightarrow> if 0 \<le> y then NInf else PInf
   | _ \<Rightarrow> NaN)"

definition fle :: "float64 \<Rightarrow> float64 \<Rightarrow> bool" where
  "fle a b = (case (a, b) of
     (NaN, _) \<Rightarrow> False | (_, NaN) \<Rightarrow> False
   | (NInf, _) \<Rightarrow> True | (_, PInf) \<Rightarrow> True
   | (Fin x, Fin y) \<Rightarrow> x \<le> y
   | _ \<Rightarrow> False)"

definition flt :: "float64 \<Rightarrow> float64 \<Rightarrow> bool" where
  "flt a b = (case (a, b) of
     (NaN, _) \<Rightarrow> False | (_, NaN) \<Rightarrow> False
   | (NInf, NInf) \<Rightarrow> False | (NInf, _) \<Rightarrow> True
   | (PInf, _) \<Rightarrow> False | (_, PInf) \<Rightarrow> True
   | (Fin x, Fin y) \<Rightarrow> x < y
   | (Fin _, NInf) \<Rightarrow> False)"

definition feq :: "float64 \<Rightarrow> float64 \<Rightarrow> bool" where
  "feq a b = (a \<noteq> NaN \<and> b \<noteq> NaN \<and> a = b)"

definition IsNaN :: "float64 \<Rightarrow> bool" where
  "IsNaN a = (a = NaN)"

definition IsInf0 :: "float64 \<Rightarrow> bool" where
  "IsInf0 a = (a = PInf \<or> a = NInf)"

definition ftrunc :: "float64 \<Rightarrow> float64" where
  "ftrunc a = (case a of Fin x \<Rightarrow> Fin (of_int (if 0 \<le> x then \<lfloor>x\<rfloor> else \<lceil>x\<rceil>)) | _ \<Rightarrow> a)"

definition float_of_nat :: "nat \<Rightarrow> float64" where
  "float_of_nat n = rnd (of_nat n)"

definition fnonneg :: "float64 \<Rightarrow> bool" where
  "fnonneg a = (case a of NaN \<Rightarrow> False | PInf \<Rightarrow> True | NInf \<Rightarrow> False | Fin x \<Rightarrow> 0 \<le> x)"


section \<open>Powers of two and exponents\<close>

lemma pow2_pos [simp]: "0 < pow2 k"
  by (simp add: pow2_def)

lemma pow2_nonzero [simp]: "pow2 k \<noteq> 0"
  using pow2_pos [of k] by linarith

lemma pow2_nat: "pow2 (int n) = 2 ^ n"
  by (simp add: pow2_def)

lemma pow2_diff: "pow2 (int a - int b) = 2 ^ a / 2 ^ b"
proof (cases "b \<le> a")
  case True
  then have "(2::rat) ^ (a - b) * 2 ^ b = 2 ^ a" by (metis le_add_diff_inverse2 power_add)
  with True show ?thesis
    by (simp add: pow2_def field_simps flip: of_nat_diff)
next
  case False
  then have "(2::rat) ^ (b - a) * 2 ^ a = 2 ^ b" by (metis le_add_diff_inverse2 nat_le_linear power_add)
  with False show ?thesis
    by (simp add: pow2_def field_simps nat_diff_distrib)
qed

lemma int_as_diff: obtains a b where "k = int a - int b"
  by (metis diff_zero int_diff_cases of_nat_0)

lemma pow2_add: "pow2 (j + k) = pow2 j * pow2 k"
proof -
  obtain a b c d where j: "j = int a - int b" and k: "k = int c - int d"
    by (metis int_as_diff)
  have "pow2 (j + k) = pow2 (int (a + c) - int (b + d))" by (simp add: j k algebra_simps)
  then show ?thesis by (simp only: pow2_diff j k) (simp add: power_add field_simps)
qed

lemma pow2_mono: "j \<le> k \<Longrightarrow> pow2 j \<le> pow2 k"
proof -
  assume "j \<le> k"
  then have "1 \<le> pow2 (k - j)" by (simp add: pow2_def)
  moreover have "pow2 k = pow2 j * pow2 (k - j)" by (simp flip: pow2_add)
  ultimately show ?thesis
    using pow2_pos [of j] by (metis mult.right_neutral mult_le_cancel_left_pos)
qed

lemma pow2_less_cancel: "pow2 j < pow2 k \<Longrightarrow> j < k"
  using pow2_mono [of k j] by linarith

lemma ilog2_bounds: "0 < n \<Longrightarrow> 2 ^ ilog2 n \<le> n \<and> n < 2 ^ Suc (ilog2 n)"
proof (induction n rule: ilog2.induct)
  case (1 n)
  show ?case
  proof (cases "n < 2")
    case True
    with 1(2) have "n = 1" by linarith
    then show ?thesis by (simp add: ilog2.simps)
  next
    case False
    with 1(1) have "2 ^ ilog2 (n div 2) \<le> n div 2 \<and> n div 2 < 2 ^ Suc (ilog2 (n div 2))" by simp
    moreover have "ilog2 n = Suc (ilog2 (n div 2))" using False by (subst ilog2.simps) simp
    ultimately show ?thesis by auto
  qed
qed

lemma ilog2_int:
  assumes "0 < p"
  shows "(2::rat) ^ ilog2 (nat p) \<le> of_int p \<and> of_int p < (2::rat) ^ Suc (ilog2 (nat p))"
proof -
  obtain n where n: "p = int n" "0 < n" using assms by (metis pos_int_cases)
  have "(of_nat (2 ^ ilog2 n) :: rat) \<le> of_nat n" "(of_nat n :: rat) < of_nat (2 ^ Suc (ilog2 n))"
    using ilog2_bounds [OF n(2)] by (simp_all only: of_nat_le_iff of_nat_less_iff)
  then show ?thesis by (simp add: n(1))
qed

lemma fexp_bounds:
  assumes "0 < x"
  shows "pow2 (fexp x) \<le> x \<and> x < pow2 (fexp x + 1)"
proof -
  obtain p q where pq: "quotient_of x = (p, q)" by fastforce
  have q: "0 < q" using pq by (rule quotient_of_denom_pos)
  have x: "x = of_int p / of_int q" using pq by (rule quotient_of_div)
  have p: "0 < p" using assms q x by (simp add: zero_less_divide_iff)
  define a b where "a = ilog2 (nat p)" and "b = ilog2 (nat q)"
  have P: "(2::rat) ^ a \<le> of_int p" "of_int p < (2::rat) ^ Suc a"
    using ilog2_int [OF p] by (simp_all add: a_def)
  have Q: "(2::rat) ^ b \<le> of_int q" "of_int q < (2::rat) ^ Suc b"
    using ilog2_int [OF q] by (simp_all add: b_def)
  have up: "x < pow2 (int a - int b + 1)"
  proof -
    have "x < 2 ^ Suc a / 2 ^ b"
      unfolding x by (rule frac_less) (use P Q p in auto)
    also have "\<dots> = pow2 (int (Suc a) - int b)" by (simp only: pow2_diff)
    finally show ?thesis by (simp add: algebra_simps)
  qed
  have lo: "pow2 (int a - int b - 1) \<le> x"
  proof -
    have "2 ^ a / 2 ^ Suc b \<le> x"
      unfolding x by (rule frac_le) (use P Q p q in auto)
    moreover have "2 ^ a / 2 ^ Suc b = pow2 (int a - int (Suc b))" by (simp only: pow2_diff)
    ultimately show ?thesis by (simp add: algebra_simps)
  qed
  show ?thesis
    using up lo by (simp add: fexp_def pq Let_def a_def [symmetric] b_def [symmetric] not_le)
qed

lemma fexp_unique:
  assumes "pow2 e \<le> x" "x < pow2 (e + 1)"
  shows "fexp x = e"
proof -
  have "0 < x" using assms(1) pow2_pos [of e] by linarith
  note fexp_bounds [OF this]
  with assms have "pow2 e < pow2 (fexp x + 1)" "pow2 (fexp x) < pow2 (e + 1)" by linarith+
  then show ?thesis by (auto dest!: pow2_less_cancel)
qed

lemma fexp_mono: "0 < x \<Longrightarrow> x \<le> y \<Longrightarrow> fexp x \<le> fexp y"
proof -
  assume "0 < x" "x \<le> y"
  with fexp_bounds [of x] fexp_bounds [of y] have "pow2 (fexp x) < pow2 (fexp y + 1)" by linarith
  then show ?thesis by (auto dest!: pow2_less_cancel)
qed


section \<open>Rounding\<close>

lemma rne_bounds: "\<lfloor>x\<rfloor> \<le> rne x \<and> rne x \<le> \<lfloor>x\<rfloor> + 1"
  by (simp add: rne_def Let_def)

lemma rne_of_int [simp]: "rne (of_int n) = n"
  by (simp add: rne_def)

lemma rne_mono: "x \<le> y \<Longrightarrow> rne x \<le> rne y"
proof -
  assume xy: "x \<le> y"
  then have "\<lfloor>x\<rfloor> \<le> \<lfloor>y\<rfloor>" by (rule floor_mono)
  then consider "\<lfloor>x\<rfloor> < \<lfloor>y\<rfloor>" | "\<lfloor>x\<rfloor> = \<lfloor>y\<rfloor>" by linarith
  then show ?thesis
  proof cases
    case 1
    then show ?thesis using rne_bounds [of x] rne_bounds [of y] by linarith
  next
    case 2
    then show ?thesis using xy by (simp add: rne_def Let_def)
  qed
qed

lemma rne_nonneg: "0 \<le> x \<Longrightarrow> 0 \<le> rne x"
  using rne_mono [of 0 x] rne_of_int [of 0] by simp

lemma pow2_quotient_int: "k \<le> j \<Longrightarrow> \<exists>n. pow2 j / pow2 k = of_int n"
proof -
  assume "k \<le> j"
  have "pow2 j = pow2 (j - k) * pow2 k" by (simp flip: pow2_add)
  moreover from \<open>k \<le> j\<close> have "pow2 (j - k) = of_int (2 ^ nat (j - k))" by (simp add: pow2_def)
  ultimately show ?thesis by (metis nonzero_mult_div_cancel_right pow2_nonzero)
qed

lemma rnd_val_le_pow2:
  assumes "x \<le> pow2 j" "ulp_exp x \<le> j"
  shows "rnd_val x \<le> pow2 j"
proof -
  obtain n where n: "pow2 j / pow2 (ulp_exp x) = of_int n"
    using pow2_quotient_int [OF assms(2)] by blast
  have "rne (x / pow2 (ulp_exp x)) \<le> rne (of_int n)"
    by (rule rne_mono) (use assms(1) in \<open>simp add: divide_right_mono less_imp_le flip: n\<close>)
  then have "of_int (rne (x / pow2 (ulp_exp x))) \<le> (of_int n :: rat)" by simp
  also have "\<dots> = pow2 j / pow2 (ulp_exp x)" by (simp add: n)
  finally show ?thesis by (simp add: rnd_val_def pos_le_divide_eq)
qed

lemma rnd_val_ge_pow2:
  assumes "pow2 j \<le> x" "ulp_exp x \<le> j"
  shows "pow2 j \<le> rnd_val x"
proof -
  obtain n where n: "pow2 j / pow2 (ulp_exp x) = of_int n"
    using pow2_quotient_int [OF assms(2)] by blast
  have "rne (of_int n) \<le> rne (x / pow2 (ulp_exp x))"
    by (rule rne_mono) (use assms(1) in \<open>simp add: divide_right_mono less_imp_le flip: n\<close>)
  then have "(of_int n :: rat) \<le> of_int (rne (x / pow2 (ulp_exp x)))" by simp
  moreover have "of_int n = pow2 j / pow2 (ulp_exp x)" by (simp add: n)
  ultimately show ?thesis by (simp add: rnd_val_def pos_divide_le_eq)
qed

lemma rnd_val_nonneg: "0 \<le> x \<Longrightarrow> 0 \<le> rnd_val x"
  using rne_nonneg [of "x / pow2 (ulp_exp x)"] pow2_pos [of "ulp_exp x"]
  by (simp add: rnd_val_def less_imp_le)

lemma rnd_val_mono:
  assumes x: "0 < x" and xy: "x \<le> y"
  shows "rnd_val x \<le> rnd_val y"
proof (cases "ulp_exp x = ulp_exp y")
  case True
  have "rne (x / pow2 (ulp_exp y)) \<le> rne (y / pow2 (ulp_exp y))"
    by (rule rne_mono) (use xy in \<open>simp add: divide_right_mono less_imp_le\<close>)
  then show ?thesis
    by (simp add: rnd_val_def True)
next
  case False
  have e: "fexp x \<le> fexp y" using fexp_mono [OF x xy] .
  with False have lt: "fexp x < fexp y" and sub: "- 1074 < fexp y - 52"
    unfolding ulp_exp_def by (auto simp: max_def split: if_splits)
  have "rnd_val x \<le> pow2 (fexp y)"
  proof (rule rnd_val_le_pow2)
    have "pow2 (fexp x + 1) \<le> pow2 (fexp y)" using lt by (intro pow2_mono) simp
    then show "x \<le> pow2 (fexp y)" using fexp_bounds [OF x] by linarith
    show "ulp_exp x \<le> fexp y" using lt sub by (simp add: ulp_exp_def)
  qed
  also have "pow2 (fexp y) \<le> rnd_val y"
    by (rule rnd_val_ge_pow2) (use fexp_bounds [of y] x xy sub in \<open>auto simp: ulp_exp_def\<close>)
  finally show ?thesis .
qed

lemma rnd_mono_nonneg: "0 \<le> x \<Longrightarrow> x \<le> y \<Longrightarrow> fle (rnd x) (rnd y)"
  using rnd_val_mono [of x y] rnd_val_nonneg [of y]
  by (cases "x = 0") (auto simp: rnd_def fle_def)

lemma rnd_fnonneg: "0 \<le> x \<Longrightarrow> fnonneg (rnd x)"
  using rnd_val_nonneg [of x] by (auto simp: rnd_def fnonneg_def)

lemma rnd_not_NaN [simp]: "rnd x \<noteq> NaN"
  by (simp add: rnd_def)

lemma rnd_zero [simp]: "rnd 0 = Fin 0"
  by (simp add: rnd_def)

lemma rnd_val_int:
  assumes "0 < n" "n \<le> 2 ^ 53"
  shows "rnd_val (of_int n) = of_int n"
proof (cases "n = 2 ^ 53")
  case True
  have x: "(of_int n :: rat) = pow2 53" by (simp add: True pow2_def)
  have "ulp_exp (pow2 53) = 1"
    using fexp_unique [of 53 "pow2 53"] by (simp add: ulp_exp_def) (simp add: pow2_def)
  then show ?thesis
    unfolding x by (intro antisym rnd_val_le_pow2 rnd_val_ge_pow2) simp_all
next
  case False
  let ?x = "of_int n :: rat"
  have "fexp ?x < 53"
  proof -
    have "of_int n < (of_int (2 ^ 53) :: rat)" using assms False by simp
    then have "?x < pow2 53" by (simp add: pow2_def)
    with fexp_bounds [of ?x] assms have "pow2 (fexp ?x) < pow2 53" by auto
    then show ?thesis by (rule pow2_less_cancel)
  qed
  then have k: "ulp_exp ?x \<le> 0" by (simp add: ulp_exp_def)
  obtain m where m: "pow2 0 / pow2 (ulp_exp ?x) = of_int m" using pow2_quotient_int [OF k] by blast
  have "?x / pow2 (ulp_exp ?x) = of_int (n * m)" by (simp add: m [symmetric] pow2_def [of 0])
  then have "rnd_val ?x = of_int (n * m) * pow2 (ulp_exp ?x)"
    by (simp only: rnd_val_def rne_of_int)
  also have "\<dots> = ?x" by (simp add: m [symmetric] pow2_def [of 0])
  finally show ?thesis .
qed

lemma rnd_int:
  assumes "\<bar>n\<bar> \<le> 2 ^ 53"
  shows "rnd (of_int n) = Fin (of_int n)"
proof -
  have lim: "(of_int m :: rat) < pow2 1024" if "0 < m" "m \<le> 2 ^ 53" for m
  proof -
    have "(of_int m :: rat) \<le> of_int (2 ^ 53)" using that(2) by (simp only: of_int_le_iff)
    also have "\<dots> < pow2 1024" by (simp add: pow2_def)
    finally show ?thesis .
  qed
  consider "n = 0" | "0 < n" | "n < 0" by linarith
  then show ?thesis
  proof cases
    case 2
    then show ?thesis
      using assms lim [of n] rnd_val_int [of n] by (simp add: rnd_def not_le)
  next
    case 3
    then show ?thesis
      using assms lim [of "- n"] rnd_val_int [of "- n"] by (simp add: rnd_def not_le)
  qed simp
qed

lemma float_of_nat_exact: "n \<le> 2 ^ 53 \<Longrightarrow> float_of_nat n = Fin (of_nat n)"
  using rnd_int [of "int n"] by (simp add: float_of_nat_def)

lemma float_of_nat_mono: "m \<le> n \<Longrightarrow> fle (float_of_nat m) (float_of_nat n)"
  by (simp add: float_of_nat_def rnd_mono_nonneg)

lemma float_of_nat_fnonneg [simp]: "fnonneg (float_of_nat n)"
  by (simp add: float_of_nat_def rnd_fnonneg)


section \<open>Order and non-negative arithmetic\<close>

lemma fle_refl: "a \<noteq> NaN \<Longrightarrow> fle a a"
  by (cases a) (simp_all add: fle_def)

lemma fle_trans: "fle a b \<Longrightarrow> fle b c \<Longrightarrow> fle a c"
  by (cases a; cases b; cases c) (simp_all add: fle_def)

lemma fle_antisym: "fle a b \<Longrightarrow> fle b a \<Longrightarrow> a = b"
  by (cases a; cases b) (simp_all add: fle_def)

lemma fle_total: "a \<noteq> NaN \<Longrightarrow> b \<noteq> NaN \<Longrightarrow> fle a b \<or> fle b a"
  by (cases a; cases b) (auto simp: fle_def)

lemma not_fle_iff: "a \<noteq> NaN \<Longrightarrow> b \<noteq> NaN \<Longrightarrow> \<not> fle a b \<longleftrightarrow> flt b a"
  by (cases a; cases b) (auto simp: fle_def flt_def)

lemma fle_NaN [simp]: "\<not> fle NaN b" "\<not> fle a NaN"
  by (cases a; simp add: fle_def)+

lemma flt_NaN [simp]: "\<not> flt NaN b" "\<not> flt a NaN"
  by (cases a; simp add: flt_def)+

lemma fle_Fin [simp]: "fle (Fin x) (Fin y) \<longleftrightarrow> x \<le> y"
  by (simp add: fle_def)

lemma fnonneg_not_NaN: "fnonneg a \<Longrightarrow> a \<noteq> NaN"
  by (auto simp: fnonneg_def)

lemma fnonneg_iff: "fnonneg a \<longleftrightarrow> fle (Fin 0) a"
  by (cases a) (simp_all add: fnonneg_def fle_def)

lemma fnonneg_cases:
  assumes "fnonneg a"
  obtains "a = PInf" | x where "a = Fin x" "0 \<le> x"
  using assms by (cases a) (auto simp: fnonneg_def)

lemma fnonneg_Fin [simp]: "fnonneg (Fin x) \<longleftrightarrow> 0 \<le> x"
  by (simp add: fnonneg_def)

lemma fadd_fnonneg: "fnonneg a \<Longrightarrow> fnonneg b \<Longrightarrow> fnonneg (fadd a b)"
  by (cases a; cases b) (simp_all add: fadd_def rnd_fnonneg, simp_all add: fnonneg_def)

lemma fle_PInf [simp]: "fle a PInf \<longleftrightarrow> a \<noteq> NaN"
  by (cases a) (simp_all add: fle_def)

lemma fadd_mono:
  "fnonneg a \<Longrightarrow> fnonneg c \<Longrightarrow> fle a b \<Longrightarrow> fle c d \<Longrightarrow> fle (fadd a c) (fadd b d)"
  by (cases a; cases b; cases c; cases d)
    (simp_all add: fadd_def fnonneg_def fle_Fin rnd_mono_nonneg, simp_all add: fle_def)


section \<open>Exact integer arithmetic\<close>

lemma rnd_nat: "n \<le> 2 ^ 53 \<Longrightarrow> rnd (of_nat n) = Fin (of_nat n)"
  using float_of_nat_exact [of n] by (simp add: float_of_nat_def)

lemma float_of_nat_finite:
  assumes "n < 2 ^ 64"
  shows "\<exists>x. float_of_nat n = Fin x"
proof (cases "n = 0")
  case False
  let ?x = "of_nat n :: rat"
  have lt: "?x < pow2 64"
  proof -
    have "?x < of_nat (2 ^ 64)" using assms by (simp only: of_nat_less_iff)
    then show ?thesis by (simp add: pow2_def)
  qed
  have "fexp ?x < 64"
    using fexp_bounds [of ?x] lt False by (intro pow2_less_cancel) auto
  then have "rnd_val ?x \<le> pow2 64"
    using lt by (intro rnd_val_le_pow2) (auto simp: ulp_exp_def)
  also have "\<dots> < pow2 1024" by (simp add: pow2_def)
  finally show ?thesis using False by (simp add: float_of_nat_def rnd_def not_le)
qed (simp add: float_of_nat_def)

lemma fmul_nat_exact:
  assumes "m * n \<le> 2 ^ 53" "n < 2 ^ 64"
  shows "fmul (Fin (of_nat m)) (float_of_nat n) = Fin (of_nat (m * n))"
proof (cases "m = 0")
  case True
  then show ?thesis using float_of_nat_finite [OF assms(2)] by (auto simp: fmul_def)
next
  case False
  then have "n \<le> m * n" by simp
  with assms(1) have "n \<le> 2 ^ 53" by linarith
  moreover have "rnd (of_nat m * of_nat n) = Fin (of_nat m * of_nat n)"
    using rnd_nat [OF assms(1)] by simp
  ultimately show ?thesis by (simp add: float_of_nat_exact fmul_def)
qed

lemma fadd_nat_exact:
  assumes "m + n \<le> 2 ^ 53"
  shows "fadd (Fin (of_nat m)) (Fin (of_nat n)) = Fin (of_nat (m + n))"
proof -
  have "rnd (of_nat m + of_nat n) = Fin (of_nat m + of_nat n)"
    using rnd_nat [OF assms] by simp
  then show ?thesis by (simp add: fadd_def)
qed

end
