(* ===== verification/Core_Pool.thy ===== *)
theory Core_Pool
  imports Core_Catalog Float64
begin

text \<open>
  Capacity pools and allocations, after \<^verbatim>\<open>internal/core/pool.go\<close>: specs, the RFC 1123 name test and the
  shape validation with its error values.  The source's error structs, discriminated by a kind field,
  are datatypes with one constructor per kind.

  The lemmas characterise the validators: a pool passes exactly when its names are Kubernetes names,
  its weight is finite and non-negative, and its flavors are valid and differently named.
\<close>

datatype GpuSharing =
  GpuSharingWholeGpu | GpuSharingMig | GpuSharingTimeSlice | GpuSharingRaw string

definition GpuSharing_of :: "string \<Rightarrow> GpuSharing" where
  "GpuSharing_of s =
     (if s = ''whole-gpu'' then GpuSharingWholeGpu
      else if s = ''mig'' then GpuSharingMig
      else if s = ''time-slice'' then GpuSharingTimeSlice
      else GpuSharingRaw s)"

definition GpuSharing_String :: "GpuSharing \<Rightarrow> string" where
  "GpuSharing_String v = (case v of
     GpuSharingWholeGpu \<Rightarrow> ''whole-gpu''
   | GpuSharingMig \<Rightarrow> ''mig''
   | GpuSharingTimeSlice \<Rightarrow> ''time-slice''
   | GpuSharingRaw s \<Rightarrow> s)"

definition GpuSharing_isValid :: "GpuSharing \<Rightarrow> bool" where
  "GpuSharing_isValid v = (case v of GpuSharingRaw _ \<Rightarrow> False | _ \<Rightarrow> True)"

definition GpuSharing_UnmarshalJSON :: "json \<Rightarrow> core_error + GpuSharing" where
  "GpuSharing_UnmarshalJSON =
     enum_unmarshal GpuSharing_of GpuSharing_isValid (ErrInvalidEnum ''GpuSharing'') ErrJSONNotString"

definition DefaultGpuSharing :: GpuSharing where
  "DefaultGpuSharing = GpuSharingWholeGpu"

definition k8s_alnum :: "char \<Rightarrow> bool" where
  "k8s_alnum b = (is_lower b \<or> is_digit b)"

definition IsK8sName :: "string \<Rightarrow> bool" where
  "IsK8sName s =
     (if s = [] \<or> 253 < length s then False
      else if list_ex (\<lambda>b. \<not> is_lower b \<and> \<not> is_digit b \<and> b \<noteq> CHR ''-'' \<and> b \<noteq> CHR ''.'') s then False
      else k8s_alnum (hd s) \<and> k8s_alnum (last s))"

record TaintSpec =
  tn_Key :: string
  tn_Value :: string
  tn_Effect :: string

datatype TaintSpecError = ErrTaintEmptyKey | ErrTaintEmptyValue | ErrTaintEmptyEffect

definition TaintSpec_Validate :: "TaintSpec \<Rightarrow> TaintSpecError + unit" where
  "TaintSpec_Validate t =
     (if tn_Key t = [] then Inl ErrTaintEmptyKey
      else if tn_Value t = [] then Inl ErrTaintEmptyValue
      else if tn_Effect t = [] then Inl ErrTaintEmptyEffect
      else Inr ())"

record FlavorSpec =
  fl_Name :: string
  fl_Resources :: "(string, string) gomap"
  fl_NodeLabels :: "(string, string) gomap"
  fl_Taints :: "TaintSpec list"

datatype FlavorSpecError =
  FlavorSpecErrInvalidName string | FlavorSpecErrEmptyResourceKey | FlavorSpecErrTaint string TaintSpecError

definition flavor_taint_check :: "TaintSpec \<Rightarrow> FlavorSpecError + unit" where
  "flavor_taint_check t = (case TaintSpec_Validate t of
     Inl e \<Rightarrow> Inl (FlavorSpecErrTaint (tn_Key t) e) | Inr _ \<Rightarrow> Inr ())"

definition FlavorSpec_Validate :: "FlavorSpec \<Rightarrow> FlavorSpecError + unit" where
  "FlavorSpec_Validate f =
     (if \<not> IsK8sName (fl_Name f) then Inl (FlavorSpecErrInvalidName (fl_Name f))
      else if list_ex (\<lambda>k. k = []) (gkeys (fl_Resources f)) then Inl FlavorSpecErrEmptyResourceKey
      else first_err flavor_taint_check (fl_Taints f))"

record PoolSpec =
  ps_Name :: string
  ps_Flavors :: "FlavorSpec list"
  ps_Cohort :: string
  ps_FairSharingWeight :: float64
  ps_Elastic :: bool
  ps_GpuSharing :: "GpuSharing option"
  ps_Purpose :: PoolPurpose

datatype PoolSpecError =
  PoolSpecErrInvalidName string | PoolSpecErrInvalidCohort string | PoolSpecErrNoFlavors
| PoolSpecErrDuplicateFlavor string | PoolSpecErrInvalidFairSharingWeight
| PoolSpecErrFlavor string FlavorSpecError | PoolSpecErrInvalidPurpose string

definition isFiniteNonNegative :: "float64 \<Rightarrow> bool" where
  "isFiniteNonNegative w = (\<not> IsNaN w \<and> \<not> IsInf0 w \<and> fle (Fin 0) w)"

fun pool_flavors_check :: "FlavorSpec list \<Rightarrow> FlavorSpec list \<Rightarrow> PoolSpecError + unit" where
  "pool_flavors_check earlier [] = Inr ()"
| "pool_flavors_check earlier (f # fs) = (case FlavorSpec_Validate f of
     Inl e \<Rightarrow> Inl (PoolSpecErrFlavor (fl_Name f) e)
   | Inr _ \<Rightarrow> if list_ex (\<lambda>g. fl_Name g = fl_Name f) earlier
              then Inl (PoolSpecErrDuplicateFlavor (fl_Name f))
              else pool_flavors_check (earlier @ [f]) fs)"

definition PoolSpec_Validate :: "PoolSpec \<Rightarrow> PoolSpecError + unit" where
  "PoolSpec_Validate p =
     (if \<not> IsK8sName (ps_Name p) then Inl (PoolSpecErrInvalidName (ps_Name p))
      else if \<not> PoolPurpose_isValid (PoolPurpose_OrDefault (ps_Purpose p))
        then Inl (PoolSpecErrInvalidPurpose (PoolPurpose_String (ps_Purpose p)))
      else if \<not> IsK8sName (ps_Cohort p) then Inl (PoolSpecErrInvalidCohort (ps_Cohort p))
      else if length (ps_Flavors p) = 0 then Inl PoolSpecErrNoFlavors
      else if \<not> isFiniteNonNegative (ps_FairSharingWeight p) then Inl PoolSpecErrInvalidFairSharingWeight
      else pool_flavors_check [] (ps_Flavors p))"

record AllocationSpec =
  al_Pool :: string
  al_Project :: string
  al_Namespace :: string
  al_Nominal :: "(string, string) gomap"
  al_BorrowingLimit :: "(string, string) gomap"
  al_LendingLimit :: "(string, string) gomap"

datatype AllocationSpecError = AllocationSpecError string string

definition AllocationSpec_Validate :: "AllocationSpec \<Rightarrow> AllocationSpecError + unit" where
  "AllocationSpec_Validate a =
     first_err (\<lambda>(field, name). if \<not> IsK8sName name then Inl (AllocationSpecError field name) else Inr ())
       [(''pool'', al_Pool a), (''project'', al_Project a), (''namespace'', al_Namespace a)]"


section \<open>Validation\<close>

interpretation GpuSharing_enum: string_enum GpuSharing_of GpuSharing_String GpuSharing_isValid
  by unfold_locales
    (auto simp: GpuSharing_of_def GpuSharing_String_def GpuSharing_isValid_def split: GpuSharing.splits)

lemma TaintSpec_Validate_ok:
  "TaintSpec_Validate t = Inr u \<longleftrightarrow> tn_Key t \<noteq> [] \<and> tn_Value t \<noteq> [] \<and> tn_Effect t \<noteq> []"
  by (simp add: TaintSpec_Validate_def)

lemma flavor_taint_check_ok: "flavor_taint_check t = Inr u \<longleftrightarrow> TaintSpec_Validate t = Inr ()"
  by (simp add: flavor_taint_check_def split: sum.splits)

lemma FlavorSpec_Validate_ok:
  "FlavorSpec_Validate f = Inr u \<longleftrightarrow>
     IsK8sName (fl_Name f) \<and> [] \<notin> set (gkeys (fl_Resources f)) \<and>
     (\<forall>t\<in>set (fl_Taints f). tn_Key t \<noteq> [] \<and> tn_Value t \<noteq> [] \<and> tn_Effect t \<noteq> [])"
  by (auto simp: FlavorSpec_Validate_def first_err_Inr flavor_taint_check_ok TaintSpec_Validate_ok
      list_ex_iff)

lemma pool_flavors_check_ok:
  "distinct (map fl_Name earlier) \<Longrightarrow>
   pool_flavors_check earlier fs = Inr u \<longleftrightarrow>
     (\<forall>f\<in>set fs. FlavorSpec_Validate f = Inr ()) \<and> distinct (map fl_Name (earlier @ fs))"
proof (induction fs arbitrary: earlier)
  case (Cons f fs)
  show ?case
  proof (cases "FlavorSpec_Validate f = Inr () \<and> fl_Name f \<notin> fl_Name ` set earlier")
    case True
    then show ?thesis using Cons.IH [of "earlier @ [f]"] Cons.prems
      by (auto simp: list_ex_iff image_iff)
  next
    case False
    then show ?thesis using Cons.prems
      by (auto simp: list_ex_iff image_iff split: sum.splits)
  qed
qed simp

lemma isFiniteNonNegative_iff: "isFiniteNonNegative w \<longleftrightarrow> (\<exists>x\<ge>0. w = Fin x)"
  by (cases w) (auto simp: isFiniteNonNegative_def IsNaN_def IsInf0_def)

lemma PoolSpec_Validate_ok:
  "PoolSpec_Validate p = Inr u \<longleftrightarrow>
     IsK8sName (ps_Name p) \<and> PoolPurpose_isValid (PoolPurpose_OrDefault (ps_Purpose p)) \<and>
     IsK8sName (ps_Cohort p) \<and> ps_Flavors p \<noteq> [] \<and> (\<exists>x\<ge>0. ps_FairSharingWeight p = Fin x) \<and>
     (\<forall>f\<in>set (ps_Flavors p). FlavorSpec_Validate f = Inr ()) \<and> distinct (map fl_Name (ps_Flavors p))"
  by (simp add: PoolSpec_Validate_def pool_flavors_check_ok isFiniteNonNegative_iff)

lemma AllocationSpec_Validate_ok:
  "AllocationSpec_Validate a = Inr u \<longleftrightarrow>
     IsK8sName (al_Pool a) \<and> IsK8sName (al_Project a) \<and> IsK8sName (al_Namespace a)"
  by (auto simp: AllocationSpec_Validate_def first_err_Inr split: if_splits)

lemma IsK8sName_iff:
  "IsK8sName s \<longleftrightarrow> s \<noteq> [] \<and> length s \<le> 253 \<and>
     (\<forall>c\<in>set s. k8s_alnum c \<or> c = CHR ''-'' \<or> c = CHR ''.'') \<and>
     k8s_alnum (hd s) \<and> k8s_alnum (last s)"
  by (auto simp: IsK8sName_def k8s_alnum_def list_ex_iff)


section \<open>Properties\<close>

text \<open>
  C40.  Pool admission shape: a pool spec is accepted exactly when its name and cohort are RFC 1123
  subdomains, its purpose is one of the known ones (or absent), its weight is a finite non-negative
  number, it has at least one flavor, and its flavors have distinct valid names, no empty resource key
  and complete taints.
\<close>

theorem pool_validate_exact:
  "PoolSpec_Validate p = Inr () \<longleftrightarrow>
     IsK8sName (ps_Name p) \<and> IsK8sName (ps_Cohort p)
     \<and> ps_Purpose p \<in> {PoolPurposeCompute, PoolPurposeServing, PoolPurposeRaw []}
     \<and> (\<exists>x. ps_FairSharingWeight p = Fin x \<and> 0 \<le> x)
     \<and> ps_Flavors p \<noteq> [] \<and> distinct (map fl_Name (ps_Flavors p))
     \<and> list_all (\<lambda>f. IsK8sName (fl_Name f) \<and> [] \<notin> set (gkeys (fl_Resources f))
          \<and> list_all (\<lambda>t. tn_Key t \<noteq> [] \<and> tn_Value t \<noteq> [] \<and> tn_Effect t \<noteq> []) (fl_Taints f))
         (ps_Flavors p)"
proof -
  have "PoolPurpose_isValid (PoolPurpose_OrDefault (ps_Purpose p)) \<longleftrightarrow>
      ps_Purpose p \<in> {PoolPurposeCompute, PoolPurposeServing, PoolPurposeRaw []}"
    by (cases "ps_Purpose p") (auto simp: PoolPurpose_isValid_def PoolPurpose_OrDefault_def)
  then show ?thesis
    by (simp only: PoolSpec_Validate_ok FlavorSpec_Validate_ok list_all_iff) blast
qed

end
