(* ===== verification/Json_Text.thy ===== *)
theory Json_Text
  imports Core_Audit
begin

text \<open>
  The text Go's \<^verbatim>\<open>encoding/json\<close> writes for a JSON value: object members in the given order, no white
  space, strings escaped with HTML escaping on, invalid UTF-8 replaced by the escaped replacement
  character.  This is the canonical serialization the audit chain hashes and the text that fingerprints a
  cluster spec.
\<close>

definition cont :: "nat \<Rightarrow> bool" where
  "cont b = (128 \<le> b \<and> b \<le> 191)"

fun decode_rune :: "nat list \<Rightarrow> nat \<times> nat" where
  "decode_rune [] = (65533, 0)"
| "decode_rune (b0 # bs) =
     (if b0 < 128 then (b0, 1)
      else if 194 \<le> b0 \<and> b0 \<le> 223 then (case bs of
          b1 # _ \<Rightarrow> if cont b1 then ((b0 - 192) * 64 + (b1 - 128), 2) else (65533, 1)
        | _ \<Rightarrow> (65533, 1))
      else if 224 \<le> b0 \<and> b0 \<le> 239 then (case bs of
          b1 # b2 # _ \<Rightarrow>
            if (if b0 = 224 then 160 else 128) \<le> b1 \<and> b1 \<le> (if b0 = 237 then 159 else 191) \<and> cont b2
            then ((b0 - 224) * 4096 + (b1 - 128) * 64 + (b2 - 128), 3) else (65533, 1)
        | _ \<Rightarrow> (65533, 1))
      else if 240 \<le> b0 \<and> b0 \<le> 244 then (case bs of
          b1 # b2 # b3 # _ \<Rightarrow>
            if (if b0 = 240 then 144 else 128) \<le> b1 \<and> b1 \<le> (if b0 = 244 then 143 else 191)
               \<and> cont b2 \<and> cont b3
            then ((b0 - 240) * 262144 + (b1 - 128) * 4096 + (b2 - 128) * 64 + (b3 - 128), 4)
            else (65533, 1)
        | _ \<Rightarrow> (65533, 1))
      else (65533, 1))"

definition json_hex :: "nat \<Rightarrow> char" where
  "json_hex n = (if n < 10 then char_of (48 + n) else char_of (87 + n))"

definition bs_char :: char where
  "bs_char = char_of (92 :: nat)"

definition quote_char :: char where
  "quote_char = char_of (34 :: nat)"

definition json_ascii :: "nat \<Rightarrow> string" where
  "json_ascii b =
     (if b = 92 \<or> b = 34 then [bs_char, char_of b]
      else if b = 8 then [bs_char, CHR ''b'']
      else if b = 12 then [bs_char, CHR ''f'']
      else if b = 10 then [bs_char, CHR ''n'']
      else if b = 13 then [bs_char, CHR ''r'']
      else if b = 9 then [bs_char, CHR ''t'']
      else if b < 32 \<or> b = 60 \<or> b = 62 \<or> b = 38
        then [bs_char, CHR ''u'', CHR ''0'', CHR ''0'', json_hex (b div 16), json_hex (b mod 16)]
      else [char_of b])"

lemma decode_rune_sz: "bs \<noteq> [] \<Longrightarrow> 1 \<le> snd (decode_rune bs)"
  by (cases bs) (simp_all split: list.split)

declare decode_rune.simps [simp del]

lemma decode_rune_shrinks: "(r, sz) = decode_rune (b # bs) \<Longrightarrow> Suc (length bs) - sz < Suc (length bs)"
  using decode_rune_sz [of "b # bs"] by (cases "decode_rune (b # bs)") simp

text \<open>\<^verbatim>\<open>range\<close> over a string: its runes, an invalid byte read as U+FFFD.\<close>

function rune_list :: "nat list \<Rightarrow> nat list" where
  "rune_list [] = []"
| "rune_list (b # bs) = (case decode_rune (b # bs) of (r, sz) \<Rightarrow> r # rune_list (drop sz (b # bs)))"
  by pat_completeness auto
termination
  using decode_rune_shrinks by (relation "measure length") auto

definition runes :: "string \<Rightarrow> nat list" where
  "runes s = rune_list (map of_char s)"

function json_escape :: "nat list \<Rightarrow> string" where
  "json_escape [] = []"
| "json_escape (b # bs) =
     (if b < 128 then json_ascii b @ json_escape bs
      else case decode_rune (b # bs) of (r, sz) \<Rightarrow>
        (if r = 65533 \<and> sz = 1 then bs_char # ''ufffd''
         else if r = 8232 \<or> r = 8233 then bs_char # ''u202'' @ [json_hex (r mod 16)]
         else map char_of (take sz (b # bs)))
        @ json_escape (drop sz (b # bs)))"
  by pat_completeness auto
termination
  using decode_rune_shrinks by (relation "measure length") auto

definition json_string :: "string \<Rightarrow> string" where
  "json_string s = [quote_char] @ json_escape (map of_char s) @ [quote_char]"

fun join :: "string \<Rightarrow> string list \<Rightarrow> string" where
  "join sep [] = []"
| "join sep [x] = x"
| "join sep (x # y # zs) = x @ sep @ join sep (y # zs)"

fun json_text :: "json \<Rightarrow> string" where
  "json_text JNull = ''null''"
| "json_text (JBool b) = (if b then ''true'' else ''false'')"
| "json_text (JNum n) = itoa n"
| "json_text (JStr s) = json_string s"
| "json_text (JArr js) = ''['' @ join '','' (map json_text js) @ '']''"
| "json_text (JObj kvs) =
     ''{'' @ join '','' (map (\<lambda>(k, v). json_string k @ '':'' @ json_text v) kvs) @ ''}''"
| "json_text (JLit s) = s"

end
