(* ===== verification/Sha256.thy ===== *)
theory Sha256
  imports Bifrost_Prelude
begin

text \<open>
  SHA-256 (\<^verbatim>\<open>crypto/sha256\<close>) and lower-case hexadecimal (\<^verbatim>\<open>encoding/hex\<close>) on byte strings, as the audit
  chain uses them: padding to 512-bit blocks, the message schedule, the 64-round compression function on
  32-bit words and the final digest of 32 bytes.  The only fact the rest of the development needs is that
  a digest in hexadecimal has 64 characters.
\<close>

unbundle bit_operations_syntax

text \<open>
  The constants are derived from their meaning: the first 32 bits of the fractional parts of the cube roots
  (round constants) and square roots (initial state) of the first primes.  \<open>int_root e k m\<close> finds the
  \<open>e\<close>-th integer root of \<open>m\<close> bit by bit, below \<open>2 ^ k\<close>.
\<close>

fun int_root :: "nat \<Rightarrow> nat \<Rightarrow> int \<Rightarrow> int \<Rightarrow> int" where
  "int_root e 0 m r = r"
| "int_root e (Suc k) m r = int_root e k m (if (r + 2 ^ k) ^ e \<le> m then r + 2 ^ k else r)"

definition root_fraction :: "nat \<Rightarrow> int \<Rightarrow> u32" where
  "root_fraction e p = of_int (int_root e 37 (p * 2 ^ (32 * e)) 0)"

definition small_primes :: "int list" where
  "small_primes = filter (\<lambda>p. list_all (\<lambda>d. p mod d \<noteq> 0) [2..p - 1]) [2..311]"

definition sha256_k :: "u32 list" where
  "sha256_k = map (root_fraction 3) small_primes"

definition sha256_h0 :: "u32 list" where
  "sha256_h0 = map (root_fraction 2) (take 8 small_primes)"

definition bytes_of :: "string \<Rightarrow> int list" where
  "bytes_of s = map of_char s"

definition be_bytes :: "nat \<Rightarrow> int \<Rightarrow> int list" where
  "be_bytes len n = map (\<lambda>i. (n div 256 ^ (len - 1 - i)) mod 256) [0..<len]"

definition sha256_pad :: "int list \<Rightarrow> int list" where
  "sha256_pad bs =
     (let n = length bs in bs @ [128] @ replicate ((119 - n mod 64) mod 64) 0 @ be_bytes 8 (8 * int n))"

definition be_word :: "int list \<Rightarrow> u32" where
  "be_word bs = of_int (foldl (\<lambda>acc b. acc * 256 + b) 0 bs)"

fun chunks :: "nat \<Rightarrow> nat \<Rightarrow> 'a list \<Rightarrow> 'a list list" where
  "chunks n 0 xs = []"
| "chunks n (Suc k) xs = take n xs # chunks n k (drop n xs)"

definition small_sigma0 :: "u32 \<Rightarrow> u32" where
  "small_sigma0 x = (word_rotr 7 x XOR word_rotr 18 x XOR drop_bit 3 x)"

definition small_sigma1 :: "u32 \<Rightarrow> u32" where
  "small_sigma1 x = (word_rotr 17 x XOR word_rotr 19 x XOR drop_bit 10 x)"

definition big_sigma0 :: "u32 \<Rightarrow> u32" where
  "big_sigma0 x = (word_rotr 2 x XOR word_rotr 13 x XOR word_rotr 22 x)"

definition big_sigma1 :: "u32 \<Rightarrow> u32" where
  "big_sigma1 x = (word_rotr 6 x XOR word_rotr 11 x XOR word_rotr 25 x)"

fun schedule :: "nat \<Rightarrow> u32 list \<Rightarrow> u32 list" where
  "schedule 0 ws = ws"
| "schedule (Suc k) ws =
     (let t = length ws in
      schedule k (ws @ [small_sigma1 (ws ! (t - 2)) + ws ! (t - 7) + small_sigma0 (ws ! (t - 15)) + ws ! (t - 16)]))"

type_synonym sha_vars = "u32 \<times> u32 \<times> u32 \<times> u32 \<times> u32 \<times> u32 \<times> u32 \<times> u32"

definition sha256_round :: "u32 \<times> u32 \<Rightarrow> sha_vars \<Rightarrow> sha_vars" where
  "sha256_round kw st = (case (kw, st) of ((k, w), (a, b, c, d, e, f, g, h)) \<Rightarrow>
     let t1 = h + big_sigma1 e + ((e AND f) XOR (NOT e AND g)) + k + w;
         t2 = big_sigma0 a + ((a AND b) XOR (a AND c) XOR (b AND c))
     in (t1 + t2, a, b, c, d + t1, e, f, g))"

definition sha256_block :: "int list \<Rightarrow> sha_vars \<Rightarrow> sha_vars" where
  "sha256_block blk hs =
     (let ws = schedule 48 (map be_word (chunks 4 16 blk))
      in case (fold sha256_round (zip sha256_k ws) hs, hs) of
        ((a, b, c, d, e, f, g, h), (a', b', c', d', e', f', g', h')) \<Rightarrow>
          (a' + a, b' + b, c' + c, d' + d, e' + e, f' + f, g' + g, h' + h))"

definition sha256_init :: sha_vars where
  "sha256_init = (sha256_h0 ! 0, sha256_h0 ! 1, sha256_h0 ! 2, sha256_h0 ! 3,
                  sha256_h0 ! 4, sha256_h0 ! 5, sha256_h0 ! 6, sha256_h0 ! 7)"

definition sha_words :: "sha_vars \<Rightarrow> u32 list" where
  "sha_words st = (case st of (a, b, c, d, e, f, g, h) \<Rightarrow> [a, b, c, d, e, f, g, h])"

definition sha256_sum :: "int list \<Rightarrow> int list" where
  "sha256_sum bs =
     (let padded = sha256_pad bs;
          st = fold sha256_block (chunks 64 (length padded div 64) padded) sha256_init
      in concat (map (\<lambda>w. be_bytes 4 (uint w)) (sha_words st)))"

definition hex_digit :: "int \<Rightarrow> char" where
  "hex_digit n = (if n < 10 then char_of (48 + n) else char_of (87 + n))"

definition hex_encode :: "int list \<Rightarrow> string" where
  "hex_encode bs = concat (map (\<lambda>b. [hex_digit (b div 16), hex_digit (b mod 16)]) bs)"

definition sha256_hex :: "string \<Rightarrow> string" where
  "sha256_hex s = hex_encode (sha256_sum (bytes_of s))"

lemma length_hex_encode: "length (hex_encode bs) = 2 * length bs"
  by (induction bs) (simp_all add: hex_encode_def)

lemma length_sha256_sum: "length (sha256_sum bs) = 32"
  by (simp add: sha256_sum_def Let_def sha_words_def be_bytes_def split: prod.split)

lemma length_sha256_hex [simp]: "length (sha256_hex s) = 64"
  by (simp add: sha256_hex_def length_hex_encode length_sha256_sum)

end
