(* ===== verification/Store.thy ===== *)
theory Store
  imports Core_Cluster Core_Workload Core_Pool Json_Text Sha256
begin

text \<open>
  The desired-state store's domain, after \<^verbatim>\<open>internal/controller/store.go\<close> and
  \<^verbatim>\<open>store_errors.go\<close>: the persisted rows, the spec comparisons that decide whether a write bumps a
  generation, the outbox records, the lockout state machine and the audit hash chain.

  The lemmas show what each comparison reads, that the intent key determines the id and the generation,
  what the lockout machine does over any number of failures, and that the chain is tamper evident: two trails
  that replay from one head to one final hash carry the same canonical events, unless the inputs hashed
  contain a collision or a preimage of the head.
\<close>


section \<open>Errors\<close>

datatype StoreError =
  errBadDesiredState string
| errNoSuchCluster string
| errNoSuchService string
| errNoSuchRayJob string
| errNoSuchPool string
| errNoSuchAllocation string string
| errLocalUserAlreadyExists string
| errNoSuchLocalUser string
| errBadLocalRole string
| errApiTokenAlreadyExists string
| errNoSuchApiToken string
| errBadAuditDecision
| errBadUsageSource string
| errNoSuchAssignment string string string
| StoreErrorMsg string


section \<open>Desired state and stored clusters\<close>

datatype DesiredState = DesiredRunning | DesiredSuspended | DesiredTerminated | DesiredStateRaw string

definition DesiredState_of :: "string \<Rightarrow> DesiredState" where
  "DesiredState_of s =
     (if s = ''running'' then DesiredRunning
      else if s = ''suspended'' then DesiredSuspended
      else if s = ''terminated'' then DesiredTerminated
      else DesiredStateRaw s)"

definition DesiredState_AsStr :: "DesiredState \<Rightarrow> string" where
  "DesiredState_AsStr d = (case d of
     DesiredRunning \<Rightarrow> ''running'' | DesiredSuspended \<Rightarrow> ''suspended''
   | DesiredTerminated \<Rightarrow> ''terminated'' | DesiredStateRaw s \<Rightarrow> s)"

definition DesiredState_isValid :: "DesiredState \<Rightarrow> bool" where
  "DesiredState_isValid d = (case d of
     DesiredRunning \<Rightarrow> True | DesiredSuspended \<Rightarrow> True | DesiredTerminated \<Rightarrow> True | _ \<Rightarrow> False)"

definition ParseDesiredState :: "string \<Rightarrow> StoreError + DesiredState" where
  "ParseDesiredState s =
     (let d = DesiredState_of s in
      if \<not> DesiredState_isValid d then Inl (errBadDesiredState s) else Inr d)"

type_synonym ClusterId = string

record StoredCluster =
  sc_ID :: ClusterId
  sc_Spec :: ClusterSpec
  sc_Generation :: u64
  sc_Desired :: DesiredState
  sc_ObservedState :: "ClusterState option"
  sc_ObservedGeneration :: u64
  sc_Condition :: "DriftCondition option"
  sc_FailureCount :: u32
  sc_NextAttemptAt :: u64
  sc_CreatedAt :: u64
  sc_TerminatedAt :: "u64 option"

definition IntentKey :: "StoredCluster \<Rightarrow> string" where
  "IntentKey c = sc_ID c @ ''/'' @ itoa (uint (sc_Generation c))"

definition resolvedStorageEqual :: "ResolvedStorage list \<Rightarrow> ResolvedStorage list \<Rightarrow> bool" where
  "resolvedStorageEqual a b =
     (if length a \<noteq> length b then False
      else list_all (\<lambda>(x, y).
        \<not> (rst_Name x \<noteq> rst_Name y
           \<or> StorageSource_OrDefault (rst_Source x) \<noteq> StorageSource_OrDefault (rst_Source y)
           \<or> rst_SecretName x \<noteq> rst_SecretName y \<or> rst_ClaimName x \<noteq> rst_ClaimName y
           \<or> rst_Mode x \<noteq> rst_Mode y
           \<or> rst_MountPath x \<noteq> rst_MountPath y)) (zip a b))"

definition workerGroupChanged :: "WorkerGroup \<Rightarrow> WorkerGroup \<Rightarrow> bool" where
  "workerGroupChanged x y =
     (wg_Name x \<noteq> wg_Name y \<or> wg_Cpu x \<noteq> wg_Cpu y \<or> wg_Memory x \<noteq> wg_Memory y
      \<or> wg_Gpu x \<noteq> wg_Gpu y \<or> wg_MinReplicas x \<noteq> wg_MinReplicas y
      \<or> wg_MaxReplicas x \<noteq> wg_MaxReplicas y \<or> wg_Replicas x \<noteq> wg_Replicas y)"

definition specChanged :: "ClusterSpec \<Rightarrow> ClusterSpec \<Rightarrow> bool" where
  "specChanged a b =
     (if cs_Name a \<noteq> cs_Name b
         \<or> cs_Project a \<noteq> cs_Project b
         \<or> cs_RayVersion a \<noteq> cs_RayVersion b
         \<or> cs_Image a \<noteq> cs_Image b
         \<or> cs_HeadCpu a \<noteq> cs_HeadCpu b
         \<or> cs_HeadMemory a \<noteq> cs_HeadMemory b
         \<or> cs_TtlSeconds a \<noteq> cs_TtlSeconds b
         \<or> cs_IdleTimeoutSecs a \<noteq> cs_IdleTimeoutSecs b
         \<or> cs_Profile a \<noteq> cs_Profile b
         \<or> cs_Storage a \<noteq> cs_Storage b
         \<or> \<not> resolvedStorageEqual (cs_StorageResolved a) (cs_StorageResolved b)
         \<or> length (cs_WorkerGroups a) \<noteq> length (cs_WorkerGroups b)
      then True
      else list_ex (\<lambda>(x, y). workerGroupChanged x y) (zip (cs_WorkerGroups a) (cs_WorkerGroups b)))"


section \<open>Stored services, jobs and pools\<close>

record StoredService =
  ss_Name :: string
  ss_Spec :: ServiceSpec
  ss_Owner :: "string option"
  ss_Generation :: u64
  ss_Desired :: DesiredState
  ss_ObservedState :: "ClusterState option"
  ss_ObservedURL :: "string option"
  ss_CreatedAt :: u64
  ss_TerminatedAt :: "u64 option"

definition serviceSpecChanged :: "ServiceSpec \<Rightarrow> ServiceSpec \<Rightarrow> bool" where
  "serviceSpecChanged a b =
     (sv_Name a \<noteq> sv_Name b
      \<or> sv_Project a \<noteq> sv_Project b
      \<or> sv_RayVersion a \<noteq> sv_RayVersion b
      \<or> sv_Image a \<noteq> sv_Image b
      \<or> sv_ServeConfigV2 a \<noteq> sv_ServeConfigV2 b
      \<or> sv_HeadCpu a \<noteq> sv_HeadCpu b
      \<or> sv_HeadMemory a \<noteq> sv_HeadMemory b
      \<or> sv_WorkerReplicas a \<noteq> sv_WorkerReplicas b
      \<or> sv_WorkerCpu a \<noteq> sv_WorkerCpu b
      \<or> sv_WorkerMemory a \<noteq> sv_WorkerMemory b
      \<or> sv_Upgrade a \<noteq> sv_Upgrade b
      \<or> sv_Storage a \<noteq> sv_Storage b
      \<or> \<not> resolvedStorageEqual (sv_StorageResolved a) (sv_StorageResolved b))"

record StoredRayJob =
  sj_ID :: ClusterId
  sj_Spec :: RayJobSpec
  sj_Owner :: "string option"
  sj_Desired :: DesiredState
  sj_Status :: string
  sj_DeploymentStatus :: string
  sj_ClusterName :: "string option"
  sj_DashboardURL :: "string option"
  sj_Message :: "string option"
  sj_SubmittedAt :: u64
  sj_StartedAt :: "u64 option"
  sj_FinishedAt :: "u64 option"
  sj_FailureCount :: u32
  sj_NextAttemptAt :: u64

record RayJobObservation =
  ro_Status :: string
  ro_DeploymentStatus :: string
  ro_ClusterName :: "string option"
  ro_DashboardURL :: "string option"
  ro_Message :: "string option"
  ro_StartedAt :: "u64 option"
  ro_FinishedAt :: "u64 option"

record StoredPool =
  sp_Name :: string
  sp_Spec :: PoolSpec
  sp_Generation :: u64
  sp_ObservedJSON :: "string option"
  sp_ObservedAt :: "u64 option"
  sp_CreatedAt :: u64

definition stringMapEqual :: "(string, string) gomap \<Rightarrow> (string, string) gomap \<Rightarrow> bool" where
  "stringMapEqual a b =
     (if length a \<noteq> length b then False
      else list_all (\<lambda>(k, v). case gget b k of None \<Rightarrow> False | Some bv \<Rightarrow> bv = v) a)"

definition flavorSpecEqual :: "FlavorSpec \<Rightarrow> FlavorSpec \<Rightarrow> bool" where
  "flavorSpecEqual a b =
     (if fl_Name a \<noteq> fl_Name b then False
      else if \<not> stringMapEqual (fl_Resources a) (fl_Resources b)
              \<or> \<not> stringMapEqual (fl_NodeLabels a) (fl_NodeLabels b) then False
      else if length (fl_Taints a) \<noteq> length (fl_Taints b) then False
      else list_all (\<lambda>(x, y). x = y) (zip (fl_Taints a) (fl_Taints b)))"

definition poolSpecEqual :: "PoolSpec \<Rightarrow> PoolSpec \<Rightarrow> bool" where
  "poolSpecEqual a b =
     (if ps_Name a \<noteq> ps_Name b \<or> ps_Cohort a \<noteq> ps_Cohort b
         \<or> \<not> feq (ps_FairSharingWeight a) (ps_FairSharingWeight b)
         \<or> ps_Elastic a \<noteq> ps_Elastic b then False
      else if PoolPurpose_OrDefault (ps_Purpose a) \<noteq> PoolPurpose_OrDefault (ps_Purpose b) then False
      else if ps_GpuSharing a \<noteq> ps_GpuSharing b then False
      else if length (ps_Flavors a) \<noteq> length (ps_Flavors b) then False
      else list_all (\<lambda>(x, y). flavorSpecEqual x y) (zip (ps_Flavors a) (ps_Flavors b)))"

definition poolSpecChanged :: "PoolSpec \<Rightarrow> PoolSpec \<Rightarrow> bool" where
  "poolSpecChanged a b = (\<not> poolSpecEqual a b)"


section \<open>Usage samples, policy, assignments, outbox\<close>

datatype UsageSource = UsageSourceKueueLedger | UsageSourceObservedSpec | UsageSourceRaw string

definition UsageSource_of :: "string \<Rightarrow> UsageSource" where
  "UsageSource_of s =
     (if s = ''kueue_ledger'' then UsageSourceKueueLedger
      else if s = ''observed_spec'' then UsageSourceObservedSpec
      else UsageSourceRaw s)"

definition UsageSource_AsStr :: "UsageSource \<Rightarrow> string" where
  "UsageSource_AsStr s = (case s of
     UsageSourceKueueLedger \<Rightarrow> ''kueue_ledger'' | UsageSourceObservedSpec \<Rightarrow> ''observed_spec''
   | UsageSourceRaw x \<Rightarrow> x)"

definition UsageSource_isValid :: "UsageSource \<Rightarrow> bool" where
  "UsageSource_isValid s = (case s of
     UsageSourceKueueLedger \<Rightarrow> True | UsageSourceObservedSpec \<Rightarrow> True | _ \<Rightarrow> False)"

definition ParseUsageSource :: "string \<Rightarrow> StoreError + UsageSource" where
  "ParseUsageSource s =
     (let v = UsageSource_of s in
      if \<not> UsageSource_isValid v then Inl (errBadUsageSource s) else Inr v)"

definition UsageSource_UnmarshalJSON :: "json \<Rightarrow> StoreError + UsageSource" where
  "UsageSource_UnmarshalJSON data =
     ebind (json_to_string (StoreErrorMsg ''json: not a string'') data) ParseUsageSource"

record UsageSample =
  smp_Ts :: u64
  smp_Project :: string
  smp_Pool :: string
  smp_Resource :: string
  smp_Quantity :: float64
  smp_Source :: UsageSource
  smp_Owner :: string

record StoredBudget =
  sb_WindowSecs :: u64
  sb_Limits :: "(string, float64) gomap"

record StoredPolicy =
  spo_Prices :: "(string, float64) gomap option"
  spo_Quotas :: "(string, (string, float64) gomap) gomap"
  spo_Budgets :: "(string, StoredBudget) gomap"
  spo_FromFileSeed :: bool
  spo_Profiles :: "Profile list"
  spo_Admission :: "(string, AdmissionRule) gomap"
  spo_Storage :: "StorageEntry list"
  spo_Environments :: "Environment list"
  spo_Images :: "ImageEntry list"
  spo_WorkloadIdentity :: "(string, WorkloadIdentityRule) gomap"
  spo_Namespaces :: "(string, string) gomap"
  spo_ImageSources :: "ImageSource list"

record RoleAssignment =
  ra_Principal :: string
  ra_Role :: string
  ra_Scope :: string
  ra_CreatedAt :: u64

datatype IntentStatus = IntentStatusPending | IntentStatusApplied

record IntentRecord =
  ir_Key :: string
  ir_ParamsFingerprint :: string
  ir_Status :: IntentStatus
  ir_ResponseJSON :: "string option"
  ir_CreatedAt :: u64
  ir_CompletedAt :: "u64 option"

datatype IntentOutcomeKind = IntentOutcomeProceed | IntentOutcomeParamMismatch

record IntentOutcome =
  io_Kind :: IntentOutcomeKind
  io_Replay :: bool


section \<open>Login lockout\<close>

definition LoginLockoutThreshold :: u32 where
  "LoginLockoutThreshold = 5"

definition LockoutSecs :: u64 where
  "LockoutSecs = 300"

definition NextLoginFailureState :: "u32 \<Rightarrow> u64 \<Rightarrow> u32 \<times> u64 option" where
  "NextLoginFailureState failedLogins now =
     (let failed = failedLogins + 1 in
      if LoginLockoutThreshold \<le> failed then (0, Some (now + LockoutSecs)) else (failed, None))"


section \<open>The audit hash chain\<close>

definition AuditGenesisHash :: string where
  "AuditGenesisHash = replicate 64 (CHR ''0'')"

record ChainedAuditRow =
  car_Seq :: u64
  car_Event :: AuditEvent
  car_ChainHash :: string

record AuditChainWindow =
  acw_Head :: string
  acw_Rows :: "ChainedAuditRow list"

definition AuditChainHash :: "string \<Rightarrow> AuditEvent \<Rightarrow> string" where
  "AuditChainHash prevHash event = sha256_hex (prevHash @ json_text (AuditEvent_MarshalJSON event))"

record AuditChainVerification =
  acv_EventsChecked :: u64
  acv_FirstBrokenSeq :: "u64 option"

definition AuditChainVerification_OK :: "AuditChainVerification \<Rightarrow> bool" where
  "AuditChainVerification_OK v = (acv_FirstBrokenSeq v = None)"

fun verify_rows :: "string \<Rightarrow> u64 \<Rightarrow> ChainedAuditRow list \<Rightarrow> AuditChainVerification" where
  "verify_rows prev checked [] = \<lparr>acv_EventsChecked = checked, acv_FirstBrokenSeq = None\<rparr>"
| "verify_rows prev checked (row # rows) =
     (if AuditChainHash prev (car_Event row) \<noteq> car_ChainHash row
      then \<lparr>acv_EventsChecked = checked, acv_FirstBrokenSeq = Some (car_Seq row)\<rparr>
      else verify_rows (car_ChainHash row) (checked + 1) rows)"

definition VerifyAuditChain :: "string \<Rightarrow> ChainedAuditRow list \<Rightarrow> AuditChainVerification" where
  "VerifyAuditChain head rows = verify_rows head 0 rows"

record AuditRow =
  arw_Seq :: u64
  arw_Event :: AuditEvent


section \<open>What the comparisons read\<close>

text \<open>
  Each comparison is the kernel of a projection: two specs count as equal exactly when they agree on the
  projected fields, so \<^term>\<open>specChanged\<close> is the complement of an equivalence relation.  The projections
  hold what the source compares and no more: of a cluster spec the engine, the owner, the environment, the
  resolved environment, the resolved service account and the resolved namespace are left out, although the
  backend renders several of them.
\<close>

definition storage_view where
  "storage_view r = (rst_Name r, StorageSource_OrDefault (rst_Source r), rst_SecretName r, rst_ClaimName r,
     rst_Mode r, rst_MountPath r)"

definition compared_view where
  "compared_view a = (cs_Name a, cs_Project a, cs_RayVersion a, cs_Image a, cs_HeadCpu a, cs_HeadMemory a,
     cs_TtlSeconds a, cs_IdleTimeoutSecs a, cs_Profile a, cs_Storage a,
     map storage_view (cs_StorageResolved a), cs_WorkerGroups a)"

definition service_view where
  "service_view a = (sv_Name a, sv_Project a, sv_RayVersion a, sv_Image a, sv_ServeConfigV2 a, sv_HeadCpu a,
     sv_HeadMemory a, sv_WorkerReplicas a, sv_WorkerCpu a, sv_WorkerMemory a, sv_Upgrade a, sv_Storage a,
     map storage_view (sv_StorageResolved a))"

lemma list_all_zip_map_eq:
  assumes "\<And>x y. P x y \<longleftrightarrow> f x = f y" and "length a = length b"
  shows "list_all (\<lambda>(x, y). P x y) (zip a b) \<longleftrightarrow> map f a = map f b"
  using assms(2) by (induction a b rule: list_induct2) (simp_all add: assms(1))

lemma resolvedStorageEqual_iff:
  "resolvedStorageEqual a b \<longleftrightarrow> map storage_view a = map storage_view b"
proof (cases "length a = length b")
  case True
  then show ?thesis
    unfolding resolvedStorageEqual_def
    by (subst list_all_zip_map_eq [where f = storage_view]) (auto simp: storage_view_def)
next
  case False
  then show ?thesis by (metis length_map resolvedStorageEqual_def)
qed

lemma workerGroupChanged_iff: "workerGroupChanged (x :: WorkerGroup) y \<longleftrightarrow> x \<noteq> y"
  by (cases x; cases y) (simp add: workerGroupChanged_def)

lemma list_ex_zip_neq:
  "length (a :: WorkerGroup list) = length b \<Longrightarrow> list_ex (\<lambda>(x, y). workerGroupChanged x y) (zip a b) \<longleftrightarrow> a \<noteq> b"
  by (induction a b rule: list_induct2) (auto simp: workerGroupChanged_iff)

lemma specChanged_iff: "specChanged a b \<longleftrightarrow> compared_view a \<noteq> compared_view b"
proof (cases "length (cs_WorkerGroups a) = length (cs_WorkerGroups b)")
  case True
  show ?thesis
    unfolding specChanged_def compared_view_def resolvedStorageEqual_iff list_ex_zip_neq [OF True]
    using True by auto
next
  case False
  then show ?thesis by (auto simp: specChanged_def compared_view_def)
qed

lemma specChanged_refl [simp]: "\<not> specChanged a a"
  by (simp add: specChanged_iff)

lemma serviceSpecChanged_iff: "serviceSpecChanged a b \<longleftrightarrow> service_view a \<noteq> service_view b"
  by (auto simp: serviceSpecChanged_def service_view_def resolvedStorageEqual_iff)

lemma map_le_dom_eq_imp_eq:
  assumes "\<And>k v. m k = Some v \<Longrightarrow> n k = Some v" and "dom m = dom n"
  shows "m = n"
proof
  fix k
  show "m k = n k" using assms by (cases "m k") (metis domIff, metis)
qed

lemma gget_map_of: "gget m = map_of m"
  by (simp add: gget_def fun_eq_iff)

lemma card_dom_gget: "gwf m \<Longrightarrow> card (dom (gget m)) = length m"
  using distinct_card [of "map fst m"] by (simp add: gget_map_of gwf_def dom_map_of_conv_image_fst)

lemma finite_dom_gget: "finite (dom (gget m))"
  by (simp add: gget_map_of finite_dom_map_of)

lemma stringMapEqual_sub:
  assumes "stringMapEqual a b" and "gget a k = Some v"
  shows "gget b k = Some v"
proof -
  have "(k, v) \<in> set a" using assms(2) by (simp add: gget_def map_of_SomeD)
  then have "case gget b k of None \<Rightarrow> False | Some bv \<Rightarrow> bv = v"
    using assms(1) by (auto simp: stringMapEqual_def list_all_iff split: if_splits)
  then show ?thesis by (simp split: option.splits)
qed

lemma stringMapEqual_iff:
  assumes "gwf a" and "gwf b"
  shows "stringMapEqual a b \<longleftrightarrow> gget a = gget b"
proof
  assume eq: "stringMapEqual a b"
  then have len: "length a = length b" by (simp add: stringMapEqual_def split: if_splits)
  have "dom (gget a) \<subseteq> dom (gget b)" using stringMapEqual_sub [OF eq] by blast
  then have "dom (gget a) = dom (gget b)"
    by (rule card_subset_eq [OF finite_dom_gget]) (simp add: card_dom_gget assms len)
  then show "gget a = gget b" using stringMapEqual_sub [OF eq] by (intro map_le_dom_eq_imp_eq) auto
next
  assume eq: "gget a = gget b"
  have "length a = length b" using card_dom_gget [OF assms(1)] card_dom_gget [OF assms(2)] eq by simp
  moreover have "gget b k = Some v" if "(k, v) \<in> set a" for k v
    using that assms(1) by (simp add: eq [symmetric] gget_def gwf_def)
  ultimately show "stringMapEqual a b"
    by (auto simp: stringMapEqual_def list_all_iff)
qed


section \<open>Intent keys\<close>

lemma first_sep_unique:
  "p @ c # u = q @ c # v \<Longrightarrow> c \<notin> set p \<Longrightarrow> c \<notin> set q \<Longrightarrow> p = q \<and> u = v"
proof (induction p arbitrary: q)
  case Nil
  then show ?case by (cases q) auto
next
  case (Cons x p)
  then show ?case by (cases q) auto
qed

lemma last_sep_unique:
  assumes "a @ c # xs = b @ c # ys" and "c \<notin> set xs" and "c \<notin> set ys"
  shows "a = b \<and> xs = ys"
  using first_sep_unique [of "rev xs" c "rev a" "rev ys" "rev b"] arg_cong [OF assms(1), of rev] assms(2,3)
  by simp

lemma itoa_no_slash: "0 \<le> n \<Longrightarrow> CHR ''/'' \<notin> set (itoa n)"
  using nat_digits_digits [of "CHR ''/''" "nat n"] by (auto simp: itoa_def is_digit_def)

lemma itoa_uint_inj: "itoa (uint (a :: 'a :: len word)) = itoa (uint b) \<Longrightarrow> a = b"
  using nat_digits_inj [of "nat (uint a)" "nat (uint b)"] by (simp add: itoa_def word_unat_eq_iff)

lemma IntentKey_inj: "IntentKey c = IntentKey d \<longleftrightarrow> sc_ID c = sc_ID d \<and> sc_Generation c = sc_Generation d"
proof
  assume "IntentKey c = IntentKey d"
  then have "sc_ID c @ CHR ''/'' # itoa (uint (sc_Generation c)) = sc_ID d @ CHR ''/'' # itoa (uint (sc_Generation d))"
    by (simp add: IntentKey_def)
  then have "sc_ID c = sc_ID d \<and> itoa (uint (sc_Generation c)) = itoa (uint (sc_Generation d))"
    by (rule last_sep_unique) (simp_all add: itoa_no_slash)
  then show "sc_ID c = sc_ID d \<and> sc_Generation c = sc_Generation d"
    using itoa_uint_inj by blast
qed (simp add: IntentKey_def)


section \<open>Lockout\<close>

definition after_failures :: "u64 list \<Rightarrow> u32 \<times> u64 option" where
  "after_failures ts = fold (\<lambda>t (failed, _). NextLoginFailureState failed t) ts (0, None)"

lemma after_failures_snoc:
  "after_failures (ts @ [t]) = NextLoginFailureState (fst (after_failures ts)) t"
  by (simp add: after_failures_def split: prod.split)

lemma NextLoginFailureState_small:
  "n < 5 \<Longrightarrow> NextLoginFailureState (of_nat n) t =
     (if n = 4 then (0, Some (t + LockoutSecs)) else (of_nat (Suc n), None))"
proof -
  assume "n < 5"
  then have "n \<in> {0, 1, 2, 3, 4}" by auto
  then show ?thesis by (auto simp: NextLoginFailureState_def LoginLockoutThreshold_def word_le_nat_alt)
qed

text \<open>
  The lockout machine, run over any sequence of failed logins from a fresh account, locks the account at
  exactly every fifth failure, for 300 seconds from that failure, and otherwise only counts: the counter is
  the number of failures modulo the threshold, and never reaches it.
\<close>

lemma lockout_every_fifth_failure:
  "after_failures (ts @ [t]) =
     (of_nat (Suc (length ts) mod 5), if Suc (length ts) mod 5 = 0 then Some (t + 300) else None)"
proof (induction ts arbitrary: t rule: rev_induct)
  case Nil
  show ?case by (simp add: after_failures_def NextLoginFailureState_def LoginLockoutThreshold_def word_le_nat_alt)
next
  case (snoc u us)
  let ?n = "length us + 1"
  have "after_failures ((us @ [u]) @ [t]) = NextLoginFailureState (of_nat (?n mod 5)) t"
    by (subst after_failures_snoc) (simp add: snoc.IH)
  also have "\<dots> = (if ?n mod 5 = 4 then (0, Some (t + LockoutSecs)) else (of_nat (Suc (?n mod 5)), None))"
    by (rule NextLoginFailureState_small) simp
  finally show ?case
    by (auto simp: mod_Suc LockoutSecs_def split: if_splits)
qed


section \<open>Tamper evidence of the audit chain\<close>

definition canonical :: "AuditEvent \<Rightarrow> string" where
  "canonical e = json_text (AuditEvent_MarshalJSON e)"

fun chain_ok :: "string \<Rightarrow> ChainedAuditRow list \<Rightarrow> bool" where
  "chain_ok prev [] = True"
| "chain_ok prev (row # rows) =
     (AuditChainHash prev (car_Event row) = car_ChainHash row \<and> chain_ok (car_ChainHash row) rows)"

fun chain_inputs :: "string \<Rightarrow> ChainedAuditRow list \<Rightarrow> string set" where
  "chain_inputs prev [] = {}"
| "chain_inputs prev (row # rows) =
     insert (prev @ canonical (car_Event row)) (chain_inputs (car_ChainHash row) rows)"

definition chain_tip :: "string \<Rightarrow> ChainedAuditRow list \<Rightarrow> string" where
  "chain_tip head rows = last (head # map car_ChainHash rows)"

lemma AuditChainHash_canonical: "AuditChainHash prev e = sha256_hex (prev @ canonical e)"
  by (simp add: AuditChainHash_def canonical_def)

lemma length_AuditChainHash [simp]: "length (AuditChainHash prev e) = 64"
  by (simp add: AuditChainHash_def)

lemma verify_rows_ok: "acv_FirstBrokenSeq (verify_rows prev n rows) = None \<longleftrightarrow> chain_ok prev rows"
  by (induction rows arbitrary: prev n) simp_all

lemma VerifyAuditChain_OK: "AuditChainVerification_OK (VerifyAuditChain head rows) \<longleftrightarrow> chain_ok head rows"
  by (simp add: AuditChainVerification_OK_def VerifyAuditChain_def verify_rows_ok)

lemma chain_tip_Nil [simp]: "chain_tip head [] = head"
  by (simp add: chain_tip_def)

lemma chain_tip_snoc [simp]: "chain_tip head (rows @ [r]) = car_ChainHash r"
  by (simp add: chain_tip_def)

lemma chain_tip_Cons [simp]: "chain_tip head (r # rows) = chain_tip (car_ChainHash r) rows"
  by (simp add: chain_tip_def)

lemma chain_ok_append: "chain_ok head (xs @ ys) \<longleftrightarrow> chain_ok head xs \<and> chain_ok (chain_tip head xs) ys"
  by (induction xs arbitrary: head) auto

lemma chain_inputs_append:
  "chain_inputs head (xs @ ys) = chain_inputs head xs \<union> chain_inputs (chain_tip head xs) ys"
  by (induction xs arbitrary: head) auto

lemma chain_tip_length: "length head = 64 \<Longrightarrow> chain_ok head rows \<Longrightarrow> length (chain_tip head rows) = 64"
proof (induction rows arbitrary: head)
  case (Cons r rows)
  from Cons.prems(2) have "length (car_ChainHash r) = 64" by (metis chain_ok.simps(2) length_AuditChainHash)
  with Cons show ?case by simp
qed simp

definition collision_free :: "string set \<Rightarrow> bool" where
  "collision_free I = (\<forall>x\<in>I. \<forall>y\<in>I. sha256_hex x = sha256_hex y \<longrightarrow> x = y)"

lemma collision_free_mono: "collision_free J \<Longrightarrow> I \<subseteq> J \<Longrightarrow> collision_free I"
  by (auto simp: collision_free_def)

lemma chain_last:
  assumes "chain_ok head (rows @ [r])"
  shows "car_ChainHash r = sha256_hex (chain_tip head rows @ canonical (car_Event r))" and "chain_ok head rows"
  using assms by (simp_all add: chain_ok_append AuditChainHash_canonical)

lemma chain_last_input:
  "chain_tip head rows @ canonical (car_Event r) \<in> chain_inputs head (rows @ [r])"
  by (simp add: chain_inputs_append)

lemma chain_returns_to_head:
  assumes "chain_ok head rows" and "chain_tip head rows = head"
    and "\<forall>x \<in> chain_inputs head rows. sha256_hex x \<noteq> head"
  shows "rows = []"
proof (cases rows rule: rev_cases)
  case (snoc ys y)
  then have "sha256_hex (chain_tip head ys @ canonical (car_Event y)) = head"
    using chain_last(1) [of head ys y] assms(1,2) by simp
  then show ?thesis using assms(3) chain_last_input [of head ys y] snoc by blast
qed simp

lemma chain_rigid:
  assumes "length head = 64"
    and "chain_ok head rows" and "chain_ok head rows'"
    and "chain_tip head rows = chain_tip head rows'"
    and "collision_free (chain_inputs head rows \<union> chain_inputs head rows')"
    and "\<forall>x \<in> chain_inputs head rows \<union> chain_inputs head rows'. sha256_hex x \<noteq> head"
  shows "map (\<lambda>r. (canonical (car_Event r), car_ChainHash r)) rows =
         map (\<lambda>r. (canonical (car_Event r), car_ChainHash r)) rows'"
  using assms(2-)
proof (induction rows arbitrary: rows' rule: rev_induct)
  case Nil
  then show ?case using chain_returns_to_head [of head rows'] by simp
next
  case (snoc r rows)
  note IH = snoc.IH and prems = snoc.prems
  show ?case
  proof (cases rows' rule: rev_cases)
    case Nil
    then show ?thesis using chain_returns_to_head [OF prems(1)] prems(3,5) by simp
  next
    case (snoc ys y)
    note rows' = this
    let ?p = "chain_tip head rows" and ?q = "chain_tip head ys"
    have hr: "car_ChainHash r = sha256_hex (?p @ canonical (car_Event r))" and okr: "chain_ok head rows"
      using chain_last [OF prems(1)] by simp_all
    have hy: "car_ChainHash y = sha256_hex (?q @ canonical (car_Event y))" and oky: "chain_ok head ys"
      using chain_last [of head ys y] prems(2) rows' by simp_all
    have ry: "car_ChainHash r = car_ChainHash y" using prems(3) rows' by simp
    have "?p @ canonical (car_Event r) = ?q @ canonical (car_Event y)"
      using prems(4) hr hy ry chain_last_input rows' unfolding collision_free_def by (metis UnI1 UnI2)
    then have pq: "?p = ?q" and c: "canonical (car_Event r) = canonical (car_Event y)"
      using chain_tip_length [OF assms(1) okr] chain_tip_length [OF assms(1) oky] by auto
    have "map (\<lambda>r. (canonical (car_Event r), car_ChainHash r)) rows =
          map (\<lambda>r. (canonical (car_Event r), car_ChainHash r)) ys"
    proof (rule IH [OF okr oky pq])
      show "collision_free (chain_inputs head rows \<union> chain_inputs head ys)"
        by (rule collision_free_mono [OF prems(4)]) (auto simp: rows' chain_inputs_append)
      show "\<forall>x \<in> chain_inputs head rows \<union> chain_inputs head ys. sha256_hex x \<noteq> head"
        using prems(5) rows' by (auto simp: chain_inputs_append)
    qed
    then show ?thesis using rows' c ry by simp
  qed
qed


definition sample_event :: AuditEvent where
  "sample_event = \<lparr>ae_Ts = 7, ae_Subject = Some ''alice'', ae_Decision = AuditDecisionAllow, ae_Reason = None,
     ae_Action = Some ''create_cluster'', ae_Cluster = Some ''c1'', ae_Method = None, ae_Path = None,
     ae_Status = Some 201, ae_LatencyMs = None, ae_Required = None, ae_GrantedRoles = []\<rparr>"

definition sample_row :: "string \<Rightarrow> u64 \<Rightarrow> ChainedAuditRow" where
  "sample_row head n = \<lparr>car_Seq = n, car_Event = sample_event, car_ChainHash = AuditChainHash head sample_event\<rparr>"

lemma hex_digit_not_z: "hex_digit (n mod 16) \<noteq> CHR ''z''"
proof -
  have "of_char (hex_digit (n mod 16)) < (122 :: int)"
    using pos_mod_bound [of 16 n] pos_mod_sign [of 16 n]
    by (auto simp: hex_digit_def of_char_of)
  then show ?thesis by auto
qed

lemma sha256_hex_not_z: "sha256_hex s \<noteq> replicate 64 (CHR ''z'')"
proof
  assume "sha256_hex s = replicate 64 (CHR ''z'')"
  moreover have "set (sha256_hex s) \<inter> {hex_digit (b mod 16) | b. True} \<noteq> {}"
  proof -
    obtain b bs where "sha256_sum (bytes_of s) = b # bs"
      using length_sha256_sum [of "bytes_of s"] by (cases "sha256_sum (bytes_of s)") auto
    then have "hex_digit (b mod 16) \<in> set (sha256_hex s)" by (simp add: sha256_hex_def hex_encode_def)
    then show ?thesis by blast
  qed
  ultimately show False using hex_digit_not_z by force
qed

lemma verify_rows_break:
  "(verify_rows prev c rows = \<lparr>acv_EventsChecked = n, acv_FirstBrokenSeq = Some q\<rparr>) =
   (\<exists>xs y ys. rows = xs @ y # ys \<and> chain_ok prev xs \<and> n = c + of_nat (length xs) \<and> q = car_Seq y
     \<and> AuditChainHash (chain_tip prev xs) (car_Event y) \<noteq> car_ChainHash y)" (is "_ = ?R prev c rows")
proof (induction rows arbitrary: prev c)
  case (Cons r rows)
  show ?case
  proof (cases "AuditChainHash prev (car_Event r) = car_ChainHash r")
    case True
    have "?R prev c (r # rows) = ?R (car_ChainHash r) (c + 1) rows"
    proof
      assume "?R prev c (r # rows)"
      then obtain xs y ys where *: "r # rows = xs @ y # ys" "chain_ok prev xs" "n = c + of_nat (length xs)"
        "q = car_Seq y" "AuditChainHash (chain_tip prev xs) (car_Event y) \<noteq> car_ChainHash y" by blast
      then obtain zs where "xs = r # zs" using True by (cases xs) auto
      with * have "rows = zs @ y # ys" "chain_ok (car_ChainHash r) zs" "n = (c + 1) + of_nat (length zs)"
        "AuditChainHash (chain_tip (car_ChainHash r) zs) (car_Event y) \<noteq> car_ChainHash y" by auto
      with \<open>q = car_Seq y\<close> show "?R (car_ChainHash r) (c + 1) rows" by blast
    next
      assume "?R (car_ChainHash r) (c + 1) rows"
      then obtain xs y ys where "rows = xs @ y # ys" "chain_ok (car_ChainHash r) xs" "n = c + 1 + of_nat (length xs)"
        "q = car_Seq y" "AuditChainHash (chain_tip (car_ChainHash r) xs) (car_Event y) \<noteq> car_ChainHash y" by blast
      then show "?R prev c (r # rows)" using True
        by (intro exI [of _ "r # xs"] exI [of _ y] exI [of _ ys]) simp
    qed
    then show ?thesis using True Cons.IH [of "car_ChainHash r" "c + 1"] by simp
  next
    case False
    have "?R prev c (r # rows) = (n = c \<and> q = car_Seq r)"
    proof
      assume "?R prev c (r # rows)"
      then show "n = c \<and> q = car_Seq r" using False by (auto simp: Cons_eq_append_conv)
    next
      assume "n = c \<and> q = car_Seq r"
      then show "?R prev c (r # rows)" using False
        by (intro exI [of _ "[]"] exI [of _ r] exI [of _ rows]) simp
    qed
    then show ?thesis using False by auto
  qed
qed simp

text \<open>
  Replaying a window reports exactly where it first breaks: it reports a row as the first broken one
  exactly when every row before it chains and that row does not, with the number of rows that verified.
\<close>

lemma verify_reports_first_break:
  "(VerifyAuditChain head rows = \<lparr>acv_EventsChecked = n, acv_FirstBrokenSeq = Some q\<rparr>) =
   (\<exists>xs y ys. rows = xs @ y # ys \<and> chain_ok head xs \<and> n = of_nat (length xs) \<and> q = car_Seq y
     \<and> AuditChainHash (chain_tip head xs) (car_Event y) \<noteq> car_ChainHash y)"
  unfolding VerifyAuditChain_def by (simp add: verify_rows_break)

end
