(* ===== verification/Memory_Store.thy ===== *)
theory Memory_Store
  imports Store
begin

text \<open>
  The in-memory store, after \<^verbatim>\<open>internal/controller/store_memory.go\<close>: one association list per
  mutex-guarded map, the quarantine flag, the usage series, the policy row and the audit trail.  Each
  method is a function from the state to its result and the next state.  With one exception each holds its
  collection's mutex for its whole body, so a run of the store is a sequence of such steps.  The exception is
  \<^verbatim>\<open>RecordLoginFailure\<close>, which reads the user under one lock and calls \<^verbatim>\<open>SetLoginLockout\<close> under a second:
  the definition is its uninterrupted execution.  An interrupted one is a read, which changes nothing, and a
  later \<^verbatim>\<open>SetLoginLockout\<close> with the values computed from it; that write is a call of its own in the runs of
  \<^verbatim>\<open>Store_Runs\<close>, with any arguments, so what holds along every run holds for the interleavings too.  The field \<^verbatim>\<open>ms_clock\<close> is the
  wall clock that \<^verbatim>\<open>NowUnix\<close> reads; it is moved by the environment only.  Rows are values here, which is
  what the deep copies of \<^verbatim>\<open>clone.go\<close> on every ingress and egress path establish for the Go maps.

  What runs of the store guarantee is in \<^verbatim>\<open>Store_Runs\<close>.
\<close>

record MemoryStore =
  ms_clock :: u64
  ms_clusters :: "(ClusterId, StoredCluster) gomap"
  ms_intents :: "(string, IntentRecord) gomap"
  ms_quarantined :: bool
  ms_jobs :: "(string, JobRecord) gomap"
  ms_pools :: "(string, StoredPool) gomap"
  ms_allocations :: "(string \<times> string, AllocationSpec) gomap"
  ms_usage :: "UsageSample list"
  ms_services :: "(string, StoredService) gomap"
  ms_rayJobs :: "(ClusterId, StoredRayJob) gomap"
  ms_policy :: "StoredPolicy option"
  ms_audit :: "ChainedAuditRow list"
  ms_auditSeq :: u64
  ms_localUsers :: "(string, LocalUserRecord) gomap"
  ms_apiTokens :: "(string, ApiTokenRecord) gomap"
  ms_assignments :: "(string \<times> string \<times> string, RoleAssignment) gomap"

type_synonym 'a sresult = "(StoreError + 'a) \<times> MemoryStore"

definition NewMemoryStore :: "u64 \<Rightarrow> MemoryStore" where
  "NewMemoryStore now = \<lparr>ms_clock = now, ms_clusters = [], ms_intents = [], ms_quarantined = False,
     ms_jobs = [], ms_pools = [], ms_allocations = [], ms_usage = [], ms_services = [], ms_rayJobs = [],
     ms_policy = None, ms_audit = [], ms_auditSeq = 0, ms_localUsers = [], ms_apiTokens = [],
     ms_assignments = []\<rparr>"

definition NowUnix :: "MemoryStore \<Rightarrow> u64" where
  "NowUnix s = ms_clock s"

definition map_row :: "'k \<Rightarrow> ('v \<Rightarrow> 'v) \<Rightarrow> ('k, 'v) gomap \<Rightarrow> ('k, 'v) gomap" where
  "map_row k f m = (case gget m k of None \<Rightarrow> m | Some v \<Rightarrow> gput k (f v) m)"


section \<open>Clusters\<close>

definition fresh_cluster :: "ClusterId \<Rightarrow> ClusterSpec \<Rightarrow> u64 \<Rightarrow> u64 \<Rightarrow> StoredCluster" where
  "fresh_cluster cid spec generation now = \<lparr>sc_ID = cid, sc_Spec = spec, sc_Generation = generation,
     sc_Desired = DesiredRunning, sc_ObservedState = None, sc_ObservedGeneration = 0, sc_Condition = None,
     sc_FailureCount = 0, sc_NextAttemptAt = 0, sc_CreatedAt = now, sc_TerminatedAt = None\<rparr>"

definition UpsertDesired :: "ClusterId \<Rightarrow> ClusterSpec \<Rightarrow> MemoryStore \<Rightarrow> u64 sresult" where
  "UpsertDesired cid spec s =
     (let existing = gget (ms_clusters s) cid;
          revive = (case existing of None \<Rightarrow> False | Some e \<Rightarrow> sc_Desired e = DesiredTerminated);
          generation = (case existing of
              None \<Rightarrow> 1
            | Some e \<Rightarrow> if revive then sc_Generation e + 1
                        else if \<not> specChanged (sc_Spec e) spec then sc_Generation e
                        else sc_Generation e + 1);
          blank = fresh_cluster cid spec generation (NowUnix s);
          rec = (case existing of
              None \<Rightarrow> blank
            | Some e \<Rightarrow> if revive then blank
                        else blank\<lparr>sc_Desired := sc_Desired e,
                                   sc_ObservedState := sc_ObservedState e,
                                   sc_ObservedGeneration := sc_ObservedGeneration e,
                                   sc_Condition := sc_Condition e,
                                   sc_FailureCount := sc_FailureCount e,
                                   sc_NextAttemptAt := sc_NextAttemptAt e,
                                   sc_CreatedAt := sc_CreatedAt e,
                                   sc_TerminatedAt := sc_TerminatedAt e\<rparr>)
      in (Inr generation, s\<lparr>ms_clusters := gput cid rec (ms_clusters s)\<rparr>))"

definition Get :: "ClusterId \<Rightarrow> MemoryStore \<Rightarrow> StoredCluster option sresult" where
  "Get cid s = (Inr (gget (ms_clusters s) cid), s)"

definition List :: "MemoryStore \<Rightarrow> StoredCluster list sresult" where
  "List s = (Inr (gvals (ms_clusters s)), s)"

definition set_desired :: "DesiredState \<Rightarrow> u64 \<Rightarrow> StoredCluster \<Rightarrow> StoredCluster" where
  "set_desired desired now c =
     (let c' = c\<lparr>sc_Desired := desired\<rparr> in
      if desired = DesiredTerminated
      then (if sc_TerminatedAt c' = None then c'\<lparr>sc_TerminatedAt := Some now\<rparr> else c')
      else c'\<lparr>sc_TerminatedAt := None\<rparr>)"

definition SetDesired :: "ClusterId \<Rightarrow> DesiredState \<Rightarrow> MemoryStore \<Rightarrow> unit sresult" where
  "SetDesired cid desired s =
     (if \<not> DesiredState_isValid desired then (Inl (errBadDesiredState (DesiredState_AsStr desired)), s)
      else case gget (ms_clusters s) cid of
          None \<Rightarrow> (Inl (errNoSuchCluster cid), s)
        | Some c \<Rightarrow>
            (Inr (), s\<lparr>ms_clusters := gput cid (set_desired desired (NowUnix s) c) (ms_clusters s)\<rparr>))"

definition RemoveCluster :: "ClusterId \<Rightarrow> MemoryStore \<Rightarrow> bool sresult" where
  "RemoveCluster cid s = (case gget (ms_clusters s) cid of
      None \<Rightarrow> (Inr False, s)
    | Some _ \<Rightarrow> (Inr True, s\<lparr>ms_clusters := gdel cid (ms_clusters s)\<rparr>))"

definition ObservedGone :: "ClusterState option \<Rightarrow> bool" where
  "ObservedGone observed = (case observed of None \<Rightarrow> True | Some st \<Rightarrow> st = ClusterStateTerminated)"

definition TombstoneByID :: "ClusterId \<Rightarrow> MemoryStore \<Rightarrow> (DesiredState \<times> bool \<times> bool) sresult" where
  "TombstoneByID cid s = (case gget (ms_clusters s) cid of
      None \<Rightarrow> (Inr (DesiredStateRaw [], False, False), s)
    | Some c \<Rightarrow> (Inr (sc_Desired c, ObservedGone (sc_ObservedState c), True), s))"

definition record_observation :: "ClusterState option \<Rightarrow> u64 \<Rightarrow> StoredCluster \<Rightarrow> StoredCluster" where
  "record_observation observed observedGeneration c =
     (let c' = c\<lparr>sc_ObservedState := observed\<rparr> in
      if sc_ObservedGeneration c' < observedGeneration
      then c'\<lparr>sc_ObservedGeneration := observedGeneration\<rparr> else c')"

definition RecordObservation ::
  "ClusterId \<Rightarrow> ClusterState option \<Rightarrow> u64 \<Rightarrow> MemoryStore \<Rightarrow> unit sresult" where
  "RecordObservation cid observed observedGeneration s =
     (Inr (), s\<lparr>ms_clusters := map_row cid (record_observation observed observedGeneration) (ms_clusters s)\<rparr>)"

definition SetCondition :: "ClusterId \<Rightarrow> DriftCondition option \<Rightarrow> MemoryStore \<Rightarrow> unit sresult" where
  "SetCondition cid condition s =
     (Inr (), s\<lparr>ms_clusters := map_row cid (sc_Condition_update (\<lambda>_. condition)) (ms_clusters s)\<rparr>)"

definition IsQuarantined :: "MemoryStore \<Rightarrow> bool sresult" where
  "IsQuarantined s = (Inr (ms_quarantined s), s)"

definition SetQuarantine :: "bool \<Rightarrow> MemoryStore \<Rightarrow> unit sresult" where
  "SetQuarantine q s = (Inr (), s\<lparr>ms_quarantined := q\<rparr>)"

definition RecordAttempt :: "ClusterId \<Rightarrow> u32 \<Rightarrow> u64 \<Rightarrow> MemoryStore \<Rightarrow> unit sresult" where
  "RecordAttempt cid failureCount nextAttemptAt s =
     (Inr (), s\<lparr>ms_clusters := map_row cid
        (\<lambda>c. c\<lparr>sc_FailureCount := failureCount, sc_NextAttemptAt := nextAttemptAt\<rparr>) (ms_clusters s)\<rparr>)"


section \<open>Transactional outbox\<close>

definition BeginIntent :: "string \<Rightarrow> string \<Rightarrow> MemoryStore \<Rightarrow> IntentOutcome sresult" where
  "BeginIntent key fingerprint s = (case gget (ms_intents s) key of
      Some existing \<Rightarrow>
        if ir_ParamsFingerprint existing \<noteq> fingerprint
        then (Inr \<lparr>io_Kind = IntentOutcomeParamMismatch, io_Replay = False\<rparr>, s)
        else (Inr \<lparr>io_Kind = IntentOutcomeProceed, io_Replay = True\<rparr>, s)
    | None \<Rightarrow>
        (Inr \<lparr>io_Kind = IntentOutcomeProceed, io_Replay = False\<rparr>,
         s\<lparr>ms_intents := gput key
             \<lparr>ir_Key = key, ir_ParamsFingerprint = fingerprint, ir_Status = IntentStatusPending,
              ir_ResponseJSON = None, ir_CreatedAt = NowUnix s, ir_CompletedAt = None\<rparr> (ms_intents s)\<rparr>))"

definition CompleteIntent :: "string \<Rightarrow> string \<Rightarrow> MemoryStore \<Rightarrow> unit sresult" where
  "CompleteIntent key responseJSON s =
     (Inr (), s\<lparr>ms_intents := map_row key
        (\<lambda>r. r\<lparr>ir_Status := IntentStatusApplied, ir_ResponseJSON := Some responseJSON,
               ir_CompletedAt := Some (NowUnix s)\<rparr>) (ms_intents s)\<rparr>)"

definition GetIntent :: "string \<Rightarrow> MemoryStore \<Rightarrow> IntentRecord option sresult" where
  "GetIntent key s = (Inr (gget (ms_intents s) key), s)"

definition intent_reapable :: "u64 \<Rightarrow> IntentRecord \<Rightarrow> bool" where
  "intent_reapable appliedBefore r = (ir_Status r = IntentStatusApplied \<and>
     (case ir_CompletedAt r of None \<Rightarrow> False | Some t \<Rightarrow> t < appliedBefore))"

definition ReapIntents :: "u64 \<Rightarrow> MemoryStore \<Rightarrow> u64 sresult" where
  "ReapIntents appliedBefore s =
     (Inr (of_nat (length (filter (\<lambda>(k, r). intent_reapable appliedBefore r) (ms_intents s)))),
      s\<lparr>ms_intents := filter (\<lambda>(k, r). \<not> intent_reapable appliedBefore r) (ms_intents s)\<rparr>)"


section \<open>Job history, pools and allocations\<close>

definition RecordJob :: "JobRecord \<Rightarrow> MemoryStore \<Rightarrow> unit sresult" where
  "RecordJob job s = (Inr (), s\<lparr>ms_jobs := gput (jr_Id job) job (ms_jobs s)\<rparr>)"

definition ListJobs :: "MemoryStore \<Rightarrow> JobRecord list sresult" where
  "ListJobs s = (Inr (sort_key (\<lambda>j. - uint (jr_SubmittedAt j)) (gvals (ms_jobs s))), s)"

definition UpsertPool :: "string \<Rightarrow> PoolSpec \<Rightarrow> MemoryStore \<Rightarrow> u64 sresult" where
  "UpsertPool name spec s =
     (let existing = gget (ms_pools s) name;
          generation = (case existing of
              None \<Rightarrow> 1
            | Some e \<Rightarrow> if \<not> poolSpecChanged (sp_Spec e) spec then sp_Generation e else sp_Generation e + 1);
          blank = \<lparr>sp_Name = name, sp_Spec = spec, sp_Generation = generation, sp_ObservedJSON = None,
                   sp_ObservedAt = None, sp_CreatedAt = NowUnix s\<rparr>;
          rec = (case existing of
              None \<Rightarrow> blank
            | Some e \<Rightarrow> blank\<lparr>sp_ObservedJSON := sp_ObservedJSON e, sp_ObservedAt := sp_ObservedAt e,
                              sp_CreatedAt := sp_CreatedAt e\<rparr>)
      in (Inr generation, s\<lparr>ms_pools := gput name rec (ms_pools s)\<rparr>))"

definition GetPool :: "string \<Rightarrow> MemoryStore \<Rightarrow> StoredPool option sresult" where
  "GetPool name s = (Inr (gget (ms_pools s) name), s)"

definition ListPools :: "MemoryStore \<Rightarrow> StoredPool list sresult" where
  "ListPools s = (Inr (sort_key sp_Name (gvals (ms_pools s))), s)"

definition DeletePool :: "string \<Rightarrow> MemoryStore \<Rightarrow> unit sresult" where
  "DeletePool name s = (case gget (ms_pools s) name of
      None \<Rightarrow> (Inl (errNoSuchPool name), s)
    | Some _ \<Rightarrow> (Inr (), s\<lparr>ms_pools := gdel name (ms_pools s)\<rparr>))"

definition RecordPoolObservation :: "string \<Rightarrow> string \<Rightarrow> MemoryStore \<Rightarrow> unit sresult" where
  "RecordPoolObservation name observedJSON s =
     (Inr (), s\<lparr>ms_pools := map_row name
        (\<lambda>p. p\<lparr>sp_ObservedJSON := Some observedJSON, sp_ObservedAt := Some (NowUnix s)\<rparr>) (ms_pools s)\<rparr>)"

definition UpsertAllocation :: "AllocationSpec \<Rightarrow> MemoryStore \<Rightarrow> unit sresult" where
  "UpsertAllocation alloc s =
     (Inr (), s\<lparr>ms_allocations := gput (al_Pool alloc, al_Project alloc) alloc (ms_allocations s)\<rparr>)"

definition ListAllocations :: "string \<Rightarrow> MemoryStore \<Rightarrow> AllocationSpec list sresult" where
  "ListAllocations pool s = (Inr (filter (\<lambda>a. al_Pool a = pool) (gvals (ms_allocations s))), s)"

definition DeleteAllocation :: "string \<Rightarrow> string \<Rightarrow> MemoryStore \<Rightarrow> unit sresult" where
  "DeleteAllocation pool project s = (case gget (ms_allocations s) (pool, project) of
      None \<Rightarrow> (Inl (errNoSuchAllocation pool project), s)
    | Some _ \<Rightarrow> (Inr (), s\<lparr>ms_allocations := gdel (pool, project) (ms_allocations s)\<rparr>))"


section \<open>Usage samples and policy\<close>

definition RecordUsageSamples :: "UsageSample list \<Rightarrow> MemoryStore \<Rightarrow> unit sresult" where
  "RecordUsageSamples samples s = (Inr (), s\<lparr>ms_usage := ms_usage s @ samples\<rparr>)"

definition usage_selected ::
  "string option \<Rightarrow> string option \<Rightarrow> string option \<Rightarrow> u64 \<Rightarrow> u64 \<Rightarrow> UsageSample \<Rightarrow> bool" where
  "usage_selected project pool owner from to u =
     (if smp_Ts u < from \<or> to < smp_Ts u then False
      else if (case project of None \<Rightarrow> False | Some p \<Rightarrow> smp_Project u \<noteq> p) then False
      else if (case pool of None \<Rightarrow> False | Some p \<Rightarrow> smp_Pool u \<noteq> p) then False
      else if (case owner of None \<Rightarrow> False | Some p \<Rightarrow> smp_Owner u \<noteq> p) then False
      else True)"

definition UsageSamples ::
  "string option \<Rightarrow> string option \<Rightarrow> string option \<Rightarrow> u64 \<Rightarrow> u64 \<Rightarrow> MemoryStore \<Rightarrow> UsageSample list sresult" where
  "UsageSamples project pool owner from to s =
     (Inr (sort_key smp_Ts (filter (usage_selected project pool owner from to) (ms_usage s))), s)"

definition GetPolicy :: "MemoryStore \<Rightarrow> StoredPolicy option sresult" where
  "GetPolicy s = (Inr (ms_policy s), s)"

definition SetPolicy :: "StoredPolicy \<Rightarrow> MemoryStore \<Rightarrow> unit sresult" where
  "SetPolicy policy s = (Inr (), s\<lparr>ms_policy := Some policy\<rparr>)"

definition SeedPolicy :: "StoredPolicy \<Rightarrow> MemoryStore \<Rightarrow> bool sresult" where
  "SeedPolicy policy s =
     (if ms_policy s \<noteq> None then (Inr False, s) else (Inr True, s\<lparr>ms_policy := Some policy\<rparr>))"


section \<open>Audit\<close>

definition RecordAudit :: "AuditEvent \<Rightarrow> MemoryStore \<Rightarrow> u64 sresult" where
  "RecordAudit event s =
     (let sq = ms_auditSeq s + 1;
          prev = (if ms_audit s = [] then AuditGenesisHash else car_ChainHash (last (ms_audit s)));
          row = \<lparr>car_Seq = sq, car_Event = event, car_ChainHash = AuditChainHash prev event\<rparr>
      in (Inr sq, s\<lparr>ms_auditSeq := sq, ms_audit := ms_audit s @ [row]\<rparr>))"

fun chain_head_before :: "u64 \<Rightarrow> ChainedAuditRow list \<Rightarrow> string" where
  "chain_head_before from [] = AuditGenesisHash"
| "chain_head_before from (r # newer_first) =
     (if car_Seq r < from then car_ChainHash r else chain_head_before from newer_first)"

definition AuditChain :: "u64 option \<Rightarrow> u32 \<Rightarrow> MemoryStore \<Rightarrow> AuditChainWindow sresult" where
  "AuditChain fromSeq limit s =
     (let from = (case fromSeq of None \<Rightarrow> 1 | Some f \<Rightarrow> f)
      in (Inr \<lparr>acw_Head = chain_head_before from (rev (ms_audit s)),
              acw_Rows = take (unat limit) (filter (\<lambda>r. \<not> car_Seq r < from) (ms_audit s))\<rparr>, s))"

definition audit_selected :: "AuditFilter \<Rightarrow> ChainedAuditRow \<Rightarrow> bool" where
  "audit_selected f r =
     (if (case af_Cursor f of None \<Rightarrow> False | Some c \<Rightarrow> c \<le> car_Seq r) then False
      else AuditFilter_Matches f (car_Event r))"

definition ListAudit :: "AuditFilter \<Rightarrow> MemoryStore \<Rightarrow> (AuditRow list \<times> u64 option) sresult" where
  "ListAudit f s =
     (let limit = unat (EffectiveLimit f);
          rows = rev (map (\<lambda>r. \<lparr>arw_Seq = car_Seq r, arw_Event = car_Event r\<rparr>)
                          (filter (audit_selected f) (ms_audit s)))
      in if limit < length rows
         then (Inr (take limit rows, Some (arw_Seq (last (take limit rows)))), s)
         else (Inr (rows, None), s))"


section \<open>Local users and API tokens\<close>

definition CreateLocalUser ::
  "string \<Rightarrow> string option \<Rightarrow> string \<Rightarrow> LocalRole \<Rightarrow> MemoryStore \<Rightarrow> unit sresult" where
  "CreateLocalUser username email passwordHash role s = (case gget (ms_localUsers s) username of
      Some _ \<Rightarrow> (Inl (errLocalUserAlreadyExists username), s)
    | None \<Rightarrow> (Inr (), s\<lparr>ms_localUsers := gput username
        \<lparr>lu_Username = username, lu_Email = email, lu_PasswordHash = passwordHash, lu_Role = role,
         lu_Disabled = False, lu_CreatedAt = NowUnix s, lu_FailedLogins = 0, lu_LockedUntil = None\<rparr>
        (ms_localUsers s)\<rparr>))"

definition GetLocalUser :: "string \<Rightarrow> MemoryStore \<Rightarrow> LocalUserRecord option sresult" where
  "GetLocalUser username s = (Inr (gget (ms_localUsers s) username), s)"

definition ListLocalUsers :: "MemoryStore \<Rightarrow> LocalUserRecord list sresult" where
  "ListLocalUsers s = (Inr (sort_key lu_Username (gvals (ms_localUsers s))), s)"

definition edit_user ::
  "string \<Rightarrow> (LocalUserRecord \<Rightarrow> LocalUserRecord) \<Rightarrow> MemoryStore \<Rightarrow> unit sresult" where
  "edit_user username f s = (case gget (ms_localUsers s) username of
      None \<Rightarrow> (Inl (errNoSuchLocalUser username), s)
    | Some u \<Rightarrow> (Inr (), s\<lparr>ms_localUsers := gput username (f u) (ms_localUsers s)\<rparr>))"

definition SetLocalUserPassword :: "string \<Rightarrow> string \<Rightarrow> MemoryStore \<Rightarrow> unit sresult" where
  "SetLocalUserPassword username passwordHash = edit_user username (\<lambda>u. u\<lparr>lu_PasswordHash := passwordHash\<rparr>)"

definition SetLocalUserRole :: "string \<Rightarrow> LocalRole \<Rightarrow> MemoryStore \<Rightarrow> unit sresult" where
  "SetLocalUserRole username role = edit_user username (\<lambda>u. u\<lparr>lu_Role := role\<rparr>)"

definition SetLocalUserDisabled :: "string \<Rightarrow> bool \<Rightarrow> MemoryStore \<Rightarrow> unit sresult" where
  "SetLocalUserDisabled username disabled = edit_user username (\<lambda>u. u\<lparr>lu_Disabled := disabled\<rparr>)"

definition SetLoginLockout :: "string \<Rightarrow> u32 \<Rightarrow> u64 option \<Rightarrow> MemoryStore \<Rightarrow> unit sresult" where
  "SetLoginLockout username failedLogins lockedUntil =
     edit_user username (\<lambda>u. u\<lparr>lu_FailedLogins := failedLogins, lu_LockedUntil := lockedUntil\<rparr>)"

definition RecordLoginFailure :: "string \<Rightarrow> MemoryStore \<Rightarrow> unit sresult" where
  "RecordLoginFailure username s = (case GetLocalUser username s of
      (Inl e, s') \<Rightarrow> (Inl e, s')
    | (Inr None, s') \<Rightarrow> (Inl (errNoSuchLocalUser username), s')
    | (Inr (Some user), s') \<Rightarrow>
        (case NextLoginFailureState (lu_FailedLogins user) (NowUnix s') of
           (failed, locked) \<Rightarrow> SetLoginLockout username failed locked s'))"

definition RecordLoginSuccess :: "string \<Rightarrow> MemoryStore \<Rightarrow> unit sresult" where
  "RecordLoginSuccess username = SetLoginLockout username 0 None"

definition CreateApiToken :: "ApiTokenRecord \<Rightarrow> MemoryStore \<Rightarrow> unit sresult" where
  "CreateApiToken rec s = (case gget (ms_apiTokens s) (at_Prefix rec) of
      Some _ \<Rightarrow> (Inl (errApiTokenAlreadyExists (at_Prefix rec)), s)
    | None \<Rightarrow> (Inr (), s\<lparr>ms_apiTokens := gput (at_Prefix rec) rec (ms_apiTokens s)\<rparr>))"

definition GetApiTokenByPrefix :: "string \<Rightarrow> MemoryStore \<Rightarrow> ApiTokenRecord option sresult" where
  "GetApiTokenByPrefix prefix s = (Inr (gget (ms_apiTokens s) prefix), s)"

definition ListApiTokens :: "string \<Rightarrow> MemoryStore \<Rightarrow> ApiTokenRecord list sresult" where
  "ListApiTokens username s =
     (Inr (sort_key (\<lambda>t. - uint (at_CreatedAt t))
             (filter (\<lambda>t. at_Username t = username) (gvals (ms_apiTokens s)))), s)"

definition RevokeApiToken :: "string \<Rightarrow> string \<Rightarrow> MemoryStore \<Rightarrow> unit sresult" where
  "RevokeApiToken prefix username s = (case gget (ms_apiTokens s) prefix of
      None \<Rightarrow> (Inl (errNoSuchApiToken prefix), s)
    | Some t \<Rightarrow>
        if at_Username t \<noteq> username then (Inl (errNoSuchApiToken prefix), s)
        else (Inr (), s\<lparr>ms_apiTokens := gput prefix (t\<lparr>at_Revoked := True\<rparr>) (ms_apiTokens s)\<rparr>))"

definition TouchApiToken :: "string \<Rightarrow> u64 \<Rightarrow> MemoryStore \<Rightarrow> unit sresult" where
  "TouchApiToken prefix now s =
     (Inr (), s\<lparr>ms_apiTokens := map_row prefix (\<lambda>t. t\<lparr>at_LastUsedAt := Some now\<rparr>) (ms_apiTokens s)\<rparr>)"


section \<open>Scoped role assignments\<close>

definition UpsertRoleAssignment :: "string \<Rightarrow> string \<Rightarrow> string \<Rightarrow> MemoryStore \<Rightarrow> unit sresult" where
  "UpsertRoleAssignment who role scope s =
     (let key = (who, role, scope);
          createdAt = (case gget (ms_assignments s) key of None \<Rightarrow> NowUnix s | Some e \<Rightarrow> ra_CreatedAt e)
      in (Inr (), s\<lparr>ms_assignments := gput key
            \<lparr>ra_Principal = who, ra_Role = role, ra_Scope = scope, ra_CreatedAt = createdAt\<rparr>
            (ms_assignments s)\<rparr>))"

definition ListRoleAssignments :: "string option \<Rightarrow> MemoryStore \<Rightarrow> RoleAssignment list sresult" where
  "ListRoleAssignments who s =
     (Inr (sort_key (\<lambda>a. (ra_Principal a, ra_Scope a, ra_Role a))
        (filter (\<lambda>a. \<not> (case who of None \<Rightarrow> False | Some p \<Rightarrow> ra_Principal a \<noteq> p))
          (gvals (ms_assignments s)))), s)"

definition DeleteRoleAssignment :: "string \<Rightarrow> string \<Rightarrow> string \<Rightarrow> MemoryStore \<Rightarrow> unit sresult" where
  "DeleteRoleAssignment who role scope s = (case gget (ms_assignments s) (who, role, scope) of
      None \<Rightarrow> (Inl (errNoSuchAssignment who role scope), s)
    | Some _ \<Rightarrow> (Inr (), s\<lparr>ms_assignments := gdel (who, role, scope) (ms_assignments s)\<rparr>))"


section \<open>Services and ephemeral jobs\<close>

definition fresh_service ::
  "string \<Rightarrow> ServiceSpec \<Rightarrow> string option \<Rightarrow> u64 \<Rightarrow> u64 \<Rightarrow> StoredService" where
  "fresh_service name spec owner gen now = \<lparr>ss_Name = name, ss_Spec = spec, ss_Owner = owner,
     ss_Generation = gen, ss_Desired = DesiredRunning, ss_ObservedState = None, ss_ObservedURL = None,
     ss_CreatedAt = now, ss_TerminatedAt = None\<rparr>"

definition UpsertService ::
  "string \<Rightarrow> ServiceSpec \<Rightarrow> string option \<Rightarrow> MemoryStore \<Rightarrow> u64 sresult" where
  "UpsertService name spec owner s = (case gget (ms_services s) name of
      None \<Rightarrow> (Inr 1, s\<lparr>ms_services := gput name (fresh_service name spec owner 1 (NowUnix s)) (ms_services s)\<rparr>)
    | Some cur \<Rightarrow>
        if ss_Desired cur = DesiredTerminated then
          (let gen = ss_Generation cur + 1
           in (Inr gen, s\<lparr>ms_services := gput name (fresh_service name spec owner gen (NowUnix s)) (ms_services s)\<rparr>))
        else
          (let cur' = (if serviceSpecChanged (ss_Spec cur) spec
                       then cur\<lparr>ss_Generation := ss_Generation cur + 1\<rparr> else cur)
           in (Inr (ss_Generation cur'), s\<lparr>ms_services := gput name (cur'\<lparr>ss_Spec := spec\<rparr>) (ms_services s)\<rparr>)))"

definition GetService :: "string \<Rightarrow> MemoryStore \<Rightarrow> StoredService option sresult" where
  "GetService name s = (Inr (gget (ms_services s) name), s)"

definition ListServices :: "MemoryStore \<Rightarrow> StoredService list sresult" where
  "ListServices s = (Inr (sort_key ss_Name (gvals (ms_services s))), s)"

definition set_service_desired :: "DesiredState \<Rightarrow> u64 \<Rightarrow> StoredService \<Rightarrow> StoredService" where
  "set_service_desired desired now c =
     (let c' = c\<lparr>ss_Desired := desired\<rparr> in
      if desired = DesiredTerminated
      then (if ss_TerminatedAt c' = None then c'\<lparr>ss_TerminatedAt := Some now\<rparr> else c')
      else c'\<lparr>ss_TerminatedAt := None\<rparr>)"

definition SetServiceDesired :: "string \<Rightarrow> DesiredState \<Rightarrow> MemoryStore \<Rightarrow> unit sresult" where
  "SetServiceDesired name desired s =
     (if \<not> DesiredState_isValid desired then (Inl (errBadDesiredState (DesiredState_AsStr desired)), s)
      else case gget (ms_services s) name of
          None \<Rightarrow> (Inl (errNoSuchService name), s)
        | Some c \<Rightarrow>
            (Inr (), s\<lparr>ms_services := gput name (set_service_desired desired (NowUnix s) c) (ms_services s)\<rparr>))"

definition RecordServiceObservation ::
  "string \<Rightarrow> ClusterState option \<Rightarrow> string option \<Rightarrow> MemoryStore \<Rightarrow> unit sresult" where
  "RecordServiceObservation name observed url s =
     (Inr (), s\<lparr>ms_services := map_row name
        (\<lambda>c. c\<lparr>ss_ObservedState := observed, ss_ObservedURL := url\<rparr>) (ms_services s)\<rparr>)"

definition RemoveService :: "string \<Rightarrow> MemoryStore \<Rightarrow> bool sresult" where
  "RemoveService name s = (case gget (ms_services s) name of
      None \<Rightarrow> (Inr False, s)
    | Some _ \<Rightarrow> (Inr True, s\<lparr>ms_services := gdel name (ms_services s)\<rparr>))"

definition UpsertRayJob ::
  "ClusterId \<Rightarrow> RayJobSpec \<Rightarrow> string option \<Rightarrow> MemoryStore \<Rightarrow> unit sresult" where
  "UpsertRayJob cid spec owner s = (case gget (ms_rayJobs s) cid of
      None \<Rightarrow> (Inr (), s\<lparr>ms_rayJobs := gput cid
        \<lparr>sj_ID = cid, sj_Spec = spec, sj_Owner = owner, sj_Desired = DesiredRunning, sj_Status = [],
         sj_DeploymentStatus = [], sj_ClusterName = None, sj_DashboardURL = None, sj_Message = None,
         sj_SubmittedAt = NowUnix s, sj_StartedAt = None, sj_FinishedAt = None, sj_FailureCount = 0,
         sj_NextAttemptAt = 0\<rparr> (ms_rayJobs s)\<rparr>)
    | Some cur \<Rightarrow> (Inr (), s\<lparr>ms_rayJobs := gput cid (cur\<lparr>sj_Spec := spec, sj_Owner := owner\<rparr>) (ms_rayJobs s)\<rparr>))"

definition GetRayJob :: "ClusterId \<Rightarrow> MemoryStore \<Rightarrow> StoredRayJob option sresult" where
  "GetRayJob cid s = (Inr (gget (ms_rayJobs s) cid), s)"

definition ListRayJobs :: "MemoryStore \<Rightarrow> StoredRayJob list sresult" where
  "ListRayJobs s = (Inr (sort_key (\<lambda>j. (- uint (sj_SubmittedAt j), sj_ID j)) (gvals (ms_rayJobs s))), s)"

definition SetRayJobDesired :: "ClusterId \<Rightarrow> DesiredState \<Rightarrow> MemoryStore \<Rightarrow> unit sresult" where
  "SetRayJobDesired cid desired s =
     (if \<not> DesiredState_isValid desired then (Inl (errBadDesiredState (DesiredState_AsStr desired)), s)
      else case gget (ms_rayJobs s) cid of
          None \<Rightarrow> (Inl (errNoSuchRayJob cid), s)
        | Some j \<Rightarrow> (Inr (), s\<lparr>ms_rayJobs := gput cid (j\<lparr>sj_Desired := desired\<rparr>) (ms_rayJobs s)\<rparr>))"

definition RecordRayJobObservation :: "ClusterId \<Rightarrow> RayJobObservation \<Rightarrow> MemoryStore \<Rightarrow> unit sresult" where
  "RecordRayJobObservation cid obs s =
     (Inr (), s\<lparr>ms_rayJobs := map_row cid
        (\<lambda>j. j\<lparr>sj_Status := ro_Status obs, sj_DeploymentStatus := ro_DeploymentStatus obs,
               sj_ClusterName := ro_ClusterName obs, sj_DashboardURL := ro_DashboardURL obs,
               sj_Message := ro_Message obs, sj_StartedAt := ro_StartedAt obs,
               sj_FinishedAt := ro_FinishedAt obs\<rparr>) (ms_rayJobs s)\<rparr>)"

definition RecordRayJobAttempt :: "ClusterId \<Rightarrow> u32 \<Rightarrow> u64 \<Rightarrow> MemoryStore \<Rightarrow> unit sresult" where
  "RecordRayJobAttempt cid failureCount nextAttemptAt s =
     (Inr (), s\<lparr>ms_rayJobs := map_row cid
        (\<lambda>j. j\<lparr>sj_FailureCount := failureCount, sj_NextAttemptAt := nextAttemptAt\<rparr>) (ms_rayJobs s)\<rparr>)"

definition RemoveRayJob :: "ClusterId \<Rightarrow> MemoryStore \<Rightarrow> bool sresult" where
  "RemoveRayJob cid s = (case gget (ms_rayJobs s) cid of
      None \<Rightarrow> (Inr False, s)
    | Some _ \<Rightarrow> (Inr True, s\<lparr>ms_rayJobs := gdel cid (ms_rayJobs s)\<rparr>))"

end
