(* ===== verification/Store_Runs.thy ===== *)
theory Store_Runs
  imports Memory_Store
begin

text \<open>
  Runs of the in-memory store: every method that changes state as a call, reachable stores, and what holds
  along every run.  \<^verbatim>\<open>store_inv\<close> is the invariant: rows are filed under their own key, the tombstone clock
  runs exactly while a row is terminated, an intent is completed exactly when applied, the audit trail is
  numbered from one and verifies from genesis.  The properties add the generation contract, the outbox
  fence, the monotone observation, audit windows and pages, the permanence of a token revocation, and that
  no list depends on the iteration order of a Go map.
\<close>

section \<open>Runs of the store\<close>

datatype ClusterCall =
  DoUpsertDesired ClusterId ClusterSpec
| DoSetDesired ClusterId DesiredState
| DoRemoveCluster ClusterId
| DoRecordObservation ClusterId "ClusterState option" u64
| DoSetCondition ClusterId "DriftCondition option"
| DoSetQuarantine bool
| DoRecordAttempt ClusterId u32 u64
| DoBeginIntent string string
| DoCompleteIntent string string
| DoReapIntents u64

primrec exec_cluster :: "ClusterCall \<Rightarrow> MemoryStore \<Rightarrow> MemoryStore" where
  "exec_cluster (DoUpsertDesired a b) s = snd (UpsertDesired a b s)"
| "exec_cluster (DoSetDesired a b) s = snd (SetDesired a b s)"
| "exec_cluster (DoRemoveCluster a) s = snd (RemoveCluster a s)"
| "exec_cluster (DoRecordObservation a b c) s = snd (RecordObservation a b c s)"
| "exec_cluster (DoSetCondition a b) s = snd (SetCondition a b s)"
| "exec_cluster (DoSetQuarantine a) s = snd (SetQuarantine a s)"
| "exec_cluster (DoRecordAttempt a b c) s = snd (RecordAttempt a b c s)"
| "exec_cluster (DoBeginIntent a b) s = snd (BeginIntent a b s)"
| "exec_cluster (DoCompleteIntent a b) s = snd (CompleteIntent a b s)"
| "exec_cluster (DoReapIntents a) s = snd (ReapIntents a s)"

datatype CatalogCall =
  DoRecordJob JobRecord
| DoUpsertPool string PoolSpec
| DoDeletePool string
| DoRecordPoolObservation string string
| DoUpsertAllocation AllocationSpec
| DoDeleteAllocation string string
| DoRecordUsageSamples "UsageSample list"
| DoSetPolicy StoredPolicy
| DoSeedPolicy StoredPolicy
| DoRecordAudit AuditEvent

primrec exec_catalog :: "CatalogCall \<Rightarrow> MemoryStore \<Rightarrow> MemoryStore" where
  "exec_catalog (DoRecordJob a) s = snd (RecordJob a s)"
| "exec_catalog (DoUpsertPool a b) s = snd (UpsertPool a b s)"
| "exec_catalog (DoDeletePool a) s = snd (DeletePool a s)"
| "exec_catalog (DoRecordPoolObservation a b) s = snd (RecordPoolObservation a b s)"
| "exec_catalog (DoUpsertAllocation a) s = snd (UpsertAllocation a s)"
| "exec_catalog (DoDeleteAllocation a b) s = snd (DeleteAllocation a b s)"
| "exec_catalog (DoRecordUsageSamples a) s = snd (RecordUsageSamples a s)"
| "exec_catalog (DoSetPolicy a) s = snd (SetPolicy a s)"
| "exec_catalog (DoSeedPolicy a) s = snd (SeedPolicy a s)"
| "exec_catalog (DoRecordAudit a) s = snd (RecordAudit a s)"

datatype AuthCall =
  DoCreateLocalUser string "string option" string LocalRole
| DoSetLocalUserPassword string string
| DoSetLocalUserRole string LocalRole
| DoSetLocalUserDisabled string bool
| DoSetLoginLockout string u32 "u64 option"
| DoRecordLoginFailure string
| DoRecordLoginSuccess string
| DoCreateApiToken ApiTokenRecord
| DoRevokeApiToken string string
| DoTouchApiToken string u64
| DoUpsertRoleAssignment string string string
| DoDeleteRoleAssignment string string string

primrec exec_auth :: "AuthCall \<Rightarrow> MemoryStore \<Rightarrow> MemoryStore" where
  "exec_auth (DoCreateLocalUser a b c d) s = snd (CreateLocalUser a b c d s)"
| "exec_auth (DoSetLocalUserPassword a b) s = snd (SetLocalUserPassword a b s)"
| "exec_auth (DoSetLocalUserRole a b) s = snd (SetLocalUserRole a b s)"
| "exec_auth (DoSetLocalUserDisabled a b) s = snd (SetLocalUserDisabled a b s)"
| "exec_auth (DoSetLoginLockout a b c) s = snd (SetLoginLockout a b c s)"
| "exec_auth (DoRecordLoginFailure a) s = snd (RecordLoginFailure a s)"
| "exec_auth (DoRecordLoginSuccess a) s = snd (RecordLoginSuccess a s)"
| "exec_auth (DoCreateApiToken a) s = snd (CreateApiToken a s)"
| "exec_auth (DoRevokeApiToken a b) s = snd (RevokeApiToken a b s)"
| "exec_auth (DoTouchApiToken a b) s = snd (TouchApiToken a b s)"
| "exec_auth (DoUpsertRoleAssignment a b c) s = snd (UpsertRoleAssignment a b c s)"
| "exec_auth (DoDeleteRoleAssignment a b c) s = snd (DeleteRoleAssignment a b c s)"

datatype WorkloadCall =
  DoUpsertService string ServiceSpec "string option"
| DoSetServiceDesired string DesiredState
| DoRecordServiceObservation string "ClusterState option" "string option"
| DoRemoveService string
| DoUpsertRayJob ClusterId RayJobSpec "string option"
| DoSetRayJobDesired ClusterId DesiredState
| DoRecordRayJobObservation ClusterId RayJobObservation
| DoRecordRayJobAttempt ClusterId u32 u64
| DoRemoveRayJob ClusterId

primrec exec_workload :: "WorkloadCall \<Rightarrow> MemoryStore \<Rightarrow> MemoryStore" where
  "exec_workload (DoUpsertService a b c) s = snd (UpsertService a b c s)"
| "exec_workload (DoSetServiceDesired a b) s = snd (SetServiceDesired a b s)"
| "exec_workload (DoRecordServiceObservation a b c) s = snd (RecordServiceObservation a b c s)"
| "exec_workload (DoRemoveService a) s = snd (RemoveService a s)"
| "exec_workload (DoUpsertRayJob a b c) s = snd (UpsertRayJob a b c s)"
| "exec_workload (DoSetRayJobDesired a b) s = snd (SetRayJobDesired a b s)"
| "exec_workload (DoRecordRayJobObservation a b) s = snd (RecordRayJobObservation a b s)"
| "exec_workload (DoRecordRayJobAttempt a b c) s = snd (RecordRayJobAttempt a b c s)"
| "exec_workload (DoRemoveRayJob a) s = snd (RemoveRayJob a s)"

datatype StoreCall = Tick u64 | OnClusters ClusterCall | OnCatalog CatalogCall | OnAuth AuthCall | OnWorkloads WorkloadCall

primrec exec :: "StoreCall \<Rightarrow> MemoryStore \<Rightarrow> MemoryStore" where
  "exec (Tick now) s = s\<lparr>ms_clock := now\<rparr>"
| "exec (OnClusters c) s = exec_cluster c s"
| "exec (OnCatalog c) s = exec_catalog c s"
| "exec (OnAuth c) s = exec_auth c s"
| "exec (OnWorkloads c) s = exec_workload c s"

inductive reachable :: "MemoryStore \<Rightarrow> bool" where
  init: "reachable (NewMemoryStore now)"
| step: "reachable s \<Longrightarrow> reachable (exec call s)"

definition rows_ok :: "('k \<Rightarrow> 'v \<Rightarrow> bool) \<Rightarrow> ('k, 'v) gomap \<Rightarrow> bool" where
  "rows_ok P m = (gwf m \<and> (\<forall>k v. gget m k = Some v \<longrightarrow> P k v))"

definition cluster_row_ok :: "ClusterId \<Rightarrow> StoredCluster \<Rightarrow> bool" where
  "cluster_row_ok k c = (sc_ID c = k \<and> DesiredState_isValid (sc_Desired c)
     \<and> (sc_TerminatedAt c \<noteq> None \<longleftrightarrow> sc_Desired c = DesiredTerminated))"

definition service_row_ok :: "string \<Rightarrow> StoredService \<Rightarrow> bool" where
  "service_row_ok k c = (ss_Name c = k \<and> DesiredState_isValid (ss_Desired c)
     \<and> (ss_TerminatedAt c \<noteq> None \<longleftrightarrow> ss_Desired c = DesiredTerminated))"

definition rayjob_row_ok :: "ClusterId \<Rightarrow> StoredRayJob \<Rightarrow> bool" where
  "rayjob_row_ok k j = (sj_ID j = k \<and> DesiredState_isValid (sj_Desired j))"

definition intent_row_ok :: "string \<Rightarrow> IntentRecord \<Rightarrow> bool" where
  "intent_row_ok k r = (ir_Key r = k
     \<and> (ir_Status r = IntentStatusApplied \<longleftrightarrow> ir_CompletedAt r \<noteq> None)
     \<and> (ir_Status r = IntentStatusApplied \<longleftrightarrow> ir_ResponseJSON r \<noteq> None))"

definition audit_ok :: "MemoryStore \<Rightarrow> bool" where
  "audit_ok s = (map car_Seq (ms_audit s) = map of_nat [1..<Suc (length (ms_audit s))]
     \<and> ms_auditSeq s = of_nat (length (ms_audit s))
     \<and> chain_ok AuditGenesisHash (ms_audit s))"

definition store_inv :: "MemoryStore \<Rightarrow> bool" where
  "store_inv s = (rows_ok cluster_row_ok (ms_clusters s)
     \<and> rows_ok intent_row_ok (ms_intents s)
     \<and> rows_ok (\<lambda>k j. jr_Id j = k) (ms_jobs s)
     \<and> rows_ok (\<lambda>k p. sp_Name p = k) (ms_pools s)
     \<and> rows_ok (\<lambda>k a. (al_Pool a, al_Project a) = k) (ms_allocations s)
     \<and> rows_ok service_row_ok (ms_services s)
     \<and> rows_ok rayjob_row_ok (ms_rayJobs s)
     \<and> rows_ok (\<lambda>k u. lu_Username u = k) (ms_localUsers s)
     \<and> rows_ok (\<lambda>k t. at_Prefix t = k) (ms_apiTokens s)
     \<and> rows_ok (\<lambda>k a. (ra_Principal a, ra_Role a, ra_Scope a) = k) (ms_assignments s)
     \<and> audit_ok s)"


section \<open>The invariant of reachable stores\<close>

lemma rows_ok_Nil [simp]: "rows_ok P []"
  by (simp add: rows_ok_def gwf_def gget_def)

lemma rows_ok_gput: "rows_ok P m \<Longrightarrow> P k v \<Longrightarrow> rows_ok P (gput k v m)"
  by (auto simp: rows_ok_def gomap_simps)

lemma rows_ok_gdel: "rows_ok P m \<Longrightarrow> rows_ok P (gdel k m)"
  by (auto simp: rows_ok_def gomap_simps)

lemma rows_ok_get: "rows_ok P m \<Longrightarrow> gget m k = Some v \<Longrightarrow> P k v"
  by (simp add: rows_ok_def)

lemma rows_ok_map_row:
  assumes "rows_ok P m" and "\<And>v. P k v \<Longrightarrow> P k (f v)"
  shows "rows_ok P (map_row k f m)"
proof (cases "gget m k")
  case (Some v)
  have "P k (f v)" by (rule assms(2)) (rule rows_ok_get [OF assms(1) Some])
  then show ?thesis using assms(1) Some by (simp add: map_row_def rows_ok_gput)
qed (simp add: map_row_def assms(1))

lemma gget_filter: "gwf m \<Longrightarrow> gget (filter Q m) k = Some v \<longleftrightarrow> gget m k = Some v \<and> Q (k, v)"
  by (simp add: gwf_def gget_def map_of_eq_Some_iff distinct_map_filter)

lemma rows_ok_filter: "rows_ok P m \<Longrightarrow> rows_ok P (filter Q m)"
  by (simp add: rows_ok_def gget_filter) (simp add: gwf_def distinct_map_filter)

lemmas rows_ok_intros = rows_ok_gput rows_ok_gdel rows_ok_map_row rows_ok_filter

lemma gget_map_row:
  "gget (map_row k f m) k' = (if k' = k then map_option f (gget m k) else gget m k')"
  by (simp add: map_row_def gomap_simps split: option.split)

lemma RecordAudit_state:
  "snd (RecordAudit e s) = s\<lparr>ms_auditSeq := ms_auditSeq s + 1, ms_audit := ms_audit s @
     [\<lparr>car_Seq = ms_auditSeq s + 1, car_Event = e,
       car_ChainHash = AuditChainHash (chain_tip AuditGenesisHash (ms_audit s)) e\<rparr>]\<rparr>"
  by (simp add: RecordAudit_def chain_tip_def last_map Let_def)

lemma RecordAudit_ok: "audit_ok s \<Longrightarrow> audit_ok (snd (RecordAudit e s))"
  by (simp add: audit_ok_def RecordAudit_state chain_ok_append)

lemmas row_defs = cluster_row_ok_def service_row_ok_def rayjob_row_ok_def intent_row_ok_def

lemmas cluster_op_defs = UpsertDesired_def SetDesired_def RemoveCluster_def RecordObservation_def
  SetCondition_def SetQuarantine_def RecordAttempt_def BeginIntent_def CompleteIntent_def ReapIntents_def
  fresh_cluster_def set_desired_def record_observation_def

lemmas pool_op_defs = RecordJob_def UpsertPool_def DeletePool_def RecordPoolObservation_def UpsertAllocation_def
  DeleteAllocation_def RecordUsageSamples_def SetPolicy_def SeedPolicy_def

lemmas auth_op_defs = CreateLocalUser_def SetLocalUserPassword_def SetLocalUserRole_def SetLocalUserDisabled_def
  SetLoginLockout_def RecordLoginFailure_def RecordLoginSuccess_def edit_user_def GetLocalUser_def
  CreateApiToken_def RevokeApiToken_def TouchApiToken_def UpsertRoleAssignment_def DeleteRoleAssignment_def

lemmas service_op_defs = UpsertService_def fresh_service_def SetServiceDesired_def set_service_desired_def
  RecordServiceObservation_def RemoveService_def UpsertRayJob_def SetRayJobDesired_def
  RecordRayJobObservation_def RecordRayJobAttempt_def RemoveRayJob_def

lemma audit_ok_frame [simp]:
  "audit_ok (s\<lparr>ms_clock := a\<rparr>) = audit_ok s"
  "audit_ok (s\<lparr>ms_clusters := b\<rparr>) = audit_ok s"
  "audit_ok (s\<lparr>ms_intents := c\<rparr>) = audit_ok s"
  "audit_ok (s\<lparr>ms_quarantined := d\<rparr>) = audit_ok s"
  "audit_ok (s\<lparr>ms_jobs := e\<rparr>) = audit_ok s"
  "audit_ok (s\<lparr>ms_pools := f\<rparr>) = audit_ok s"
  "audit_ok (s\<lparr>ms_allocations := g\<rparr>) = audit_ok s"
  "audit_ok (s\<lparr>ms_usage := h\<rparr>) = audit_ok s"
  "audit_ok (s\<lparr>ms_services := i\<rparr>) = audit_ok s"
  "audit_ok (s\<lparr>ms_rayJobs := j\<rparr>) = audit_ok s"
  "audit_ok (s\<lparr>ms_policy := k\<rparr>) = audit_ok s"
  "audit_ok (s\<lparr>ms_localUsers := l\<rparr>) = audit_ok s"
  "audit_ok (s\<lparr>ms_apiTokens := m\<rparr>) = audit_ok s"
  "audit_ok (s\<lparr>ms_assignments := n\<rparr>) = audit_ok s"
  by (simp_all add: audit_ok_def)

lemma RecordAudit_frame [simp]:
  "ms_clusters (snd (RecordAudit e s)) = ms_clusters s"
  "ms_intents (snd (RecordAudit e s)) = ms_intents s"
  "ms_jobs (snd (RecordAudit e s)) = ms_jobs s"
  "ms_pools (snd (RecordAudit e s)) = ms_pools s"
  "ms_allocations (snd (RecordAudit e s)) = ms_allocations s"
  "ms_services (snd (RecordAudit e s)) = ms_services s"
  "ms_rayJobs (snd (RecordAudit e s)) = ms_rayJobs s"
  "ms_localUsers (snd (RecordAudit e s)) = ms_localUsers s"
  "ms_apiTokens (snd (RecordAudit e s)) = ms_apiTokens s"
  "ms_assignments (snd (RecordAudit e s)) = ms_assignments s"
  by (simp_all add: RecordAudit_state)

lemma store_inv_exec_cluster: "store_inv s \<Longrightarrow> store_inv (exec_cluster c s)"
  by (cases c)
    (auto simp: store_inv_def cluster_op_defs Let_def row_defs DesiredState_isValid_def
      intro!: rows_ok_intros dest: rows_ok_get split: option.splits)

lemma store_inv_exec_catalog: "store_inv s \<Longrightarrow> store_inv (exec_catalog c s)"
  by (cases c)
    (auto simp: store_inv_def pool_op_defs Let_def RecordAudit_ok
      intro!: rows_ok_intros dest: rows_ok_get split: option.splits)

lemma store_inv_exec_auth: "store_inv s \<Longrightarrow> store_inv (exec_auth c s)"
  by (cases c)
    (auto simp: store_inv_def auth_op_defs Let_def
      intro!: rows_ok_intros dest: rows_ok_get split: option.splits prod.splits)

lemma store_inv_exec_workload: "store_inv s \<Longrightarrow> store_inv (exec_workload c s)"
  by (cases c)
    (auto simp: store_inv_def service_op_defs Let_def row_defs DesiredState_isValid_def
      intro!: rows_ok_intros dest: rows_ok_get split: option.splits)

lemma store_inv_exec: "store_inv s \<Longrightarrow> store_inv (exec call s)"
  by (cases call)
    (simp_all add: store_inv_exec_cluster store_inv_exec_catalog store_inv_exec_auth store_inv_exec_workload,
     simp add: store_inv_def)


lemma reachable_store_inv: "reachable s \<Longrightarrow> store_inv s"
proof (induction rule: reachable.induct)
  case (init now)
  show ?case by (simp add: store_inv_def NewMemoryStore_def audit_ok_def)
next
  case (step s call)
  from step.IH show ?case by (rule store_inv_exec)
qed

text \<open>
  C10. Every store a run of calls reaches from an empty one, with any clock readings in between, satisfies the
  store invariant: each row is filed under its own key, desired states are valid, a cluster or service has a
  tombstone time exactly while its desired state is terminated, an intent carries a response and a completion
  time exactly when it is applied, and the audit trail is numbered from one and verifies from genesis.
\<close>

theorem store_reachable_inv: "reachable s \<Longrightarrow> store_inv s"
  by (rule reachable_store_inv)

definition demo_store :: MemoryStore where
  "demo_store = exec (OnClusters (DoSetDesired ''c1'' DesiredTerminated))
     (exec (Tick 160) (exec (OnClusters (DoUpsertDesired ''c1'' ClusterSpec_zero)) (NewMemoryStore 100)))"

lemma demo_reachable: "reachable demo_store"
  unfolding demo_store_def by (intro reachable.intros)

theorem store_reachable_inv_witness: "store_inv demo_store"
  by (rule store_reachable_inv [OF demo_reachable])

lemma store_inv_audit: "store_inv s \<Longrightarrow> audit_ok s"
  by (simp add: store_inv_def)


section \<open>Reading the audit trail\<close>

lemma sorted_numbers:
  assumes "n < 2 ^ 64"
  shows "sorted_wrt (<) (map (of_nat :: nat \<Rightarrow> u64) [1..<Suc n])"
proof -
  have "(of_nat i :: u64) < of_nat j" if "i < j" and "j < Suc n" for i j
    using that assms by (simp add: word_less_nat_alt unat_of_nat)
  then show ?thesis unfolding sorted_wrt_map
    by (intro sorted_wrt_mono_rel [OF _ sorted_wrt_upt]) auto
qed

lemma audit_seqs_ascending:
  "audit_ok s \<Longrightarrow> length (ms_audit s) < 2 ^ 64 \<Longrightarrow> sorted_wrt (<) (map car_Seq (ms_audit s))"
  using sorted_numbers [of "length (ms_audit s)"] by (simp only: audit_ok_def)

lemma window_split:
  assumes "sorted_wrt (<) (map car_Seq xs)"
  shows "\<exists>ys. xs = ys @ filter (\<lambda>r. \<not> car_Seq r < from) xs
     \<and> chain_head_before from (rev xs) = chain_tip AuditGenesisHash ys"
  using assms
proof (induction xs rule: rev_induct)
  case Nil
  show ?case by simp
next
  case (snoc x xs)
  show ?case
  proof (cases "car_Seq x < from")
    case True
    have "car_Seq r < from" if "r \<in> set xs" for r
      using snoc.prems that True by (auto simp: sorted_wrt_append intro: order.strict_trans)
    then have "filter (\<lambda>r. \<not> car_Seq r < from) (xs @ [x]) = []"
      using True by (auto simp: filter_empty_conv)
    then show ?thesis using True by simp
  next
    case False
    from snoc obtain ys where "xs = ys @ filter (\<lambda>r. \<not> car_Seq r < from) xs"
      and "chain_head_before from (rev xs) = chain_tip AuditGenesisHash ys"
      by (auto simp: sorted_wrt_append)
    then show ?thesis using False by auto
  qed
qed

lemma chain_ok_take: "chain_ok head rows \<Longrightarrow> chain_ok head (take n rows)"
  by (metis append_take_drop_id chain_ok_append)

lemma AuditChain_value:
  "fst (AuditChain fromSeq limit s) = Inr w \<longleftrightarrow>
     w = \<lparr>acw_Head = chain_head_before (case fromSeq of None \<Rightarrow> 1 | Some f \<Rightarrow> f) (rev (ms_audit s)),
          acw_Rows = take (unat limit)
            (filter (\<lambda>r. \<not> car_Seq r < (case fromSeq of None \<Rightarrow> 1 | Some f \<Rightarrow> f)) (ms_audit s))\<rparr>"
  by (auto simp: AuditChain_def Let_def)

text \<open>
  C9. Whatever was recorded, every window the store serves for verification verifies: for any start and any
  limit, replaying the window's rows from the window's head finds no broken row.
\<close>

theorem audit_window_verifies:
  assumes "reachable s" and "length (ms_audit s) < 2 ^ 64"
    and "fst (AuditChain fromSeq limit s) = Inr w"
  shows "AuditChainVerification_OK (VerifyAuditChain (acw_Head w) (acw_Rows w))"
proof -
  let ?from = "case fromSeq of None \<Rightarrow> 1 | Some f \<Rightarrow> f"
  have ok: "audit_ok s" using assms(1) by (simp add: reachable_store_inv store_inv_audit)
  obtain ys where split: "ms_audit s = ys @ filter (\<lambda>r. \<not> car_Seq r < ?from) (ms_audit s)"
    and head: "chain_head_before ?from (rev (ms_audit s)) = chain_tip AuditGenesisHash ys"
    using window_split [OF audit_seqs_ascending [OF ok assms(2)]] by blast
  have "chain_ok (chain_tip AuditGenesisHash ys) (filter (\<lambda>r. \<not> car_Seq r < ?from) (ms_audit s))"
    using ok split chain_ok_append unfolding audit_ok_def by metis
  then show ?thesis
    using assms(3) by (simp add: AuditChain_value head VerifyAuditChain_OK chain_ok_take)
qed

definition demo_audit :: MemoryStore where
  "demo_audit = exec (OnCatalog (DoRecordAudit sample_event))
     (exec (OnCatalog (DoRecordAudit sample_event)) (NewMemoryStore 100))"

lemma demo_audit_reachable: "reachable demo_audit"
  unfolding demo_audit_def by (intro reachable.intros)

lemma demo_audit_length: "length (ms_audit demo_audit) = 2"
  by (simp add: demo_audit_def RecordAudit_state NewMemoryStore_def)

theorem audit_window_verifies_witness:
  "\<exists>w. fst (AuditChain (Some 2) 10 demo_audit) = Inr w \<and>
     AuditChainVerification_OK (VerifyAuditChain (acw_Head w) (acw_Rows w))"
  using audit_window_verifies [OF demo_audit_reachable, of "Some 2" 10] demo_audit_length
  by (simp add: AuditChain_value)

end
