(* ===== verification/Store_Contracts.thy ===== *)
theory Store_Contracts
  imports Store_Runs "HOL-Library.Multiset"
begin

text \<open>
  Contracts of the store operations, over whole runs: pagination of the audit trail, what a desired-state
  write does to a record, the generation contract that fences actuation, the outbox fence, the monotone
  observed generation, the permanence of a token revocation, and independence of Go's map iteration order.
\<close>


section \<open>Pages of the audit trail\<close>

definition audit_row :: "ChainedAuditRow \<Rightarrow> AuditRow" where
  "audit_row r = \<lparr>arw_Seq = car_Seq r, arw_Event = car_Event r\<rparr>"

definition audit_matches :: "AuditFilter \<Rightarrow> MemoryStore \<Rightarrow> AuditRow list" where
  "audit_matches f s = rev (map audit_row (filter (audit_selected f) (ms_audit s)))"

lemma ListAudit_value:
  "ListAudit f s = (let limit = unat (EffectiveLimit f); rows = audit_matches f s in
     if limit < length rows then (Inr (take limit rows, Some (arw_Seq (last (take limit rows)))), s)
     else (Inr (rows, None), s))"
  by (simp add: ListAudit_def audit_matches_def audit_row_def [abs_def] Let_def)

lemma ListAudit_total: "\<exists>rows onward. ListAudit f s = (Inr (rows, onward), s)"
  by (simp add: ListAudit_value Let_def)

lemma sorted_wrt_filter_below:
  assumes "sorted_wrt (\<lambda>x y. g y < g x) (xs @ y # ys)"
  shows "filter (\<lambda>z. g z < (g y :: 'b :: linorder)) (xs @ y # ys) = ys"
  using assms by (auto simp: sorted_wrt_append filter_empty_conv filter_id_conv)

lemma audit_matches_descending:
  assumes "audit_ok s" and "length (ms_audit s) < 2 ^ 64"
  shows "sorted_wrt (\<lambda>x y. arw_Seq y < arw_Seq x) (audit_matches f s)"
  using sorted_wrt_filter [OF audit_seqs_ascending [OF assms, unfolded sorted_wrt_map], of "audit_selected f"]
  by (simp add: audit_matches_def sorted_wrt_rev sorted_wrt_map audit_row_def)

lemma AuditFilter_Matches_cursor [simp]: "AuditFilter_Matches (f\<lparr>af_Cursor := c\<rparr>) e = AuditFilter_Matches f e"
  by (simp add: AuditFilter_Matches_def)

lemma audit_matches_cursor:
  assumes "r \<in> set (audit_matches f s)"
  shows "audit_matches (f\<lparr>af_Cursor := Some (arw_Seq r)\<rparr>) s =
    filter (\<lambda>x. arw_Seq x < arw_Seq r) (audit_matches f s)"
proof -
  have below: "case af_Cursor f of None \<Rightarrow> True | Some c \<Rightarrow> arw_Seq r < c"
    using assms by (auto simp: audit_matches_def audit_selected_def audit_row_def split: option.splits if_splits)
  have "audit_selected (f\<lparr>af_Cursor := Some (arw_Seq r)\<rparr>) = (\<lambda>x. car_Seq x < arw_Seq r \<and> audit_selected f x)"
    using below by (auto simp: fun_eq_iff audit_selected_def not_le split: option.splits)
  then show ?thesis
    by (simp add: audit_matches_def filter_map rev_filter [symmetric] o_def audit_row_def conj_commute)
qed

text \<open>
  C30. Following the cursor loses and repeats nothing.  A page of the audit trail, followed by everything that
  matches below its cursor, is everything that matches; a page without a cursor is the last.  A page with a
  cursor is never empty, and no page is longer than 1000 rows, so the walk ends.
\<close>

theorem audit_pages_complete:
  assumes "reachable s" and "length (ms_audit s) < 2 ^ 64"
    and "ListAudit f s = (Inr (rows, onward), s')"
  shows "s' = s \<and> length rows \<le> 1000 \<and>
    (case onward of
       None \<Rightarrow> rows = audit_matches f s
     | Some c \<Rightarrow> rows \<noteq> [] \<and> rows @ audit_matches (f\<lparr>af_Cursor := Some c\<rparr>) s = audit_matches f s)"
proof -
  let ?all = "audit_matches f s" and ?limit = "unat (EffectiveLimit f)"
  have ok: "audit_ok s" using assms(1) by (simp add: reachable_store_inv store_inv_audit)
  have lim: "1 \<le> ?limit" "?limit \<le> 1000"
    using EffectiveLimit_bounds [of f] by simp_all
  show ?thesis
  proof (cases "?limit < length ?all")
    case True
    then have rows: "rows = take ?limit ?all" and onward: "onward = Some (arw_Seq (last rows))" and s': "s' = s"
      using assms(3) by (auto simp: ListAudit_value Let_def)
    have ne: "rows \<noteq> []" using rows lim(1) True by (cases ?all) auto
    then have all: "?all = butlast rows @ last rows # drop ?limit ?all"
      using rows by (metis append_Cons append_Nil append_assoc append_butlast_last_id append_take_drop_id)
    have mem: "last rows \<in> set ?all" using ne rows in_set_takeD last_in_set by metis
    have "filter (\<lambda>x. arw_Seq x < arw_Seq (last rows)) ?all = drop ?limit ?all"
      using sorted_wrt_filter_below [of arw_Seq "butlast rows" "last rows" "drop ?limit ?all"]
        audit_matches_descending [OF ok assms(2), of f] all by metis
    then show ?thesis
      using s' ne rows onward lim audit_matches_cursor [OF mem] by simp
  next
    case False
    then show ?thesis using assms(3) lim by (auto simp: ListAudit_value Let_def)
  qed
qed

definition demo_filter :: AuditFilter where
  "demo_filter = \<lparr>af_Limit = Some 1, af_Cursor = None, af_From = None, af_To = None, af_Subject = Some ''alice'',
     af_Cluster = None, af_Method = None, af_PathPrefix = None, af_MinStatus = None, af_Decision = None,
     af_Reason = None\<rparr>"

theorem audit_pages_complete_witness:
  "\<exists>rows onward s'. ListAudit demo_filter demo_audit = (Inr (rows, onward), s') \<and> s' = demo_audit \<and>
    length rows \<le> 1000 \<and>
    (case onward of
       None \<Rightarrow> rows = audit_matches demo_filter demo_audit
     | Some c \<Rightarrow> rows \<noteq> [] \<and>
         rows @ audit_matches (demo_filter\<lparr>af_Cursor := Some c\<rparr>) demo_audit = audit_matches demo_filter demo_audit)"
proof -
  obtain rows onward s' where page: "ListAudit demo_filter demo_audit = (Inr (rows, onward), s')"
    using ListAudit_total by blast
  then show ?thesis
    using audit_pages_complete [OF demo_audit_reachable _ page] demo_audit_length by auto
qed


section \<open>Writing a desired state\<close>

lemma exec_other_clusters [simp]:
  "ms_clusters (exec_catalog c s) = ms_clusters s"
  "ms_clusters (exec_auth a s) = ms_clusters s"
  "ms_clusters (exec_workload w s) = ms_clusters s"
  "ms_intents (exec_catalog c s) = ms_intents s"
  "ms_intents (exec_auth a s) = ms_intents s"
  "ms_intents (exec_workload w s) = ms_intents s"
  by (cases c; simp add: pool_op_defs Let_def split: option.split)
    (cases a; simp add: auth_op_defs Let_def split: option.split prod.split
    | cases w; simp add: service_op_defs Let_def split: option.split
    | cases c; simp add: pool_op_defs Let_def split: option.split)+

lemma row_edits [simp]:
  "sc_Generation (record_observation st g c) = sc_Generation c"
  "sc_Spec (record_observation st g c) = sc_Spec c"
  "sc_ObservedGeneration (record_observation st g c) = max (sc_ObservedGeneration c) g"
  "sc_Generation (set_desired d t c) = sc_Generation c"
  "sc_Spec (set_desired d t c) = sc_Spec c"
  "sc_ObservedGeneration (set_desired d t c) = sc_ObservedGeneration c"
  by (auto simp: record_observation_def set_desired_def Let_def max_def)

lemmas cluster_call_defs = UpsertDesired_def SetDesired_def RemoveCluster_def RecordObservation_def
  SetCondition_def SetQuarantine_def RecordAttempt_def BeginIntent_def CompleteIntent_def ReapIntents_def
  fresh_cluster_def

text \<open>
  The abstract view of the cluster table: per id a generation, the spec and the desired state, written by
  three kinds of call only.  \<^verbatim>\<open>submit\<close> is the generation rule of an upsert.
\<close>

type_synonym cluster_cell = "u64 \<times> ClusterSpec \<times> DesiredState"

datatype cluster_write = Submit ClusterSpec | Want DesiredState | Forget

definition cell :: "MemoryStore \<Rightarrow> ClusterId \<Rightarrow> cluster_cell option" where
  "cell s cid = map_option (\<lambda>c. (sc_Generation c, sc_Spec c, sc_Desired c)) (gget (ms_clusters s) cid)"

definition submit :: "ClusterSpec \<Rightarrow> cluster_cell option \<Rightarrow> cluster_cell" where
  "submit spec old = (case old of
     None \<Rightarrow> (1, spec, DesiredRunning)
   | Some (g, spec', d) \<Rightarrow>
       if d = DesiredTerminated then (g + 1, spec, DesiredRunning)
       else (if compared_view spec' = compared_view spec then g else g + 1, spec, d))"

primrec write_cell :: "cluster_write \<Rightarrow> cluster_cell option \<Rightarrow> cluster_cell option" where
  "write_cell (Submit spec) old = Some (submit spec old)"
| "write_cell (Want d) old =
     (if DesiredState_isValid d then map_option (\<lambda>(g, spec, _). (g, spec, d)) old else old)"
| "write_cell Forget old = None"

definition written :: "ClusterId \<Rightarrow> StoreCall \<Rightarrow> cluster_write option" where
  "written cid call = (case call of
     OnClusters (DoUpsertDesired k spec) \<Rightarrow> if k = cid then Some (Submit spec) else None
   | OnClusters (DoSetDesired k d) \<Rightarrow> if k = cid then Some (Want d) else None
   | OnClusters (DoRemoveCluster k) \<Rightarrow> if k = cid then Some Forget else None
   | _ \<Rightarrow> None)"

lemma set_desired_Desired [simp]: "sc_Desired (set_desired d t c) = d"
  by (simp add: set_desired_def Let_def)

lemma record_observation_Desired [simp]: "sc_Desired (record_observation st g c) = sc_Desired c"
  by (simp add: record_observation_def Let_def)

lemma cell_step:
  "cell (exec call s) cid = (case written cid call of None \<Rightarrow> cell s cid | Some w \<Rightarrow> write_cell w (cell s cid))"
proof (cases call)
  case (OnClusters k)
  then show ?thesis
    by (cases k)
      (auto simp: cell_def written_def submit_def cluster_call_defs Let_def gomap_simps gget_map_row
        option.map_comp o_def specChanged_iff split: option.splits)
qed (simp_all add: cell_def written_def)

text \<open>
  C5. The cluster table refines a versioned register.  Along any run of calls to the store, the
  generation, spec and desired state of a cluster are what the writes addressed to it leave, applied in order
  to the cell it started with: no observation, alarm, attempt, intent, other cluster or other table has any
  part in them.  An upsert never fails and returns the generation it leaves: 1 for an unknown id, one more for
  a terminated cluster, which comes back running, and otherwise one more exactly when the new spec differs in
  a field the comparison reads.  An edit of the environment or of the resolved service account or namespace
  is not among those: it replaces the spec at the same generation.
\<close>

theorem clusters_refine_register:
  "cell (fold exec calls s) cid = fold write_cell (List.map_filter (written cid) calls) (cell s cid)
   \<and> fst (UpsertDesired cid spec s) = Inr (fst (submit spec (cell s cid)))
   \<and> compared_view (spec\<lparr>cs_Environment := e, cs_ServiceAccountResolved := a, cs_NamespaceResolved := n\<rparr>) =
       compared_view spec"
proof (intro conjI)
  show "cell (fold exec calls s) cid = fold write_cell (List.map_filter (written cid) calls) (cell s cid)"
    by (induction calls arbitrary: s) (auto simp: cell_step map_filter_simps split: option.split)
  show "fst (UpsertDesired cid spec s) = Inr (fst (submit spec (cell s cid)))"
    by (auto simp: UpsertDesired_def submit_def cell_def Let_def specChanged_iff split: option.split)
qed (simp add: compared_view_def)


section \<open>The generation fence\<close>

lemma generation_step:
  assumes "gget (ms_clusters s) cid = Some c"
    and "call \<noteq> OnClusters (DoRemoveCluster cid)"
  shows "\<exists>d. gget (ms_clusters (exec call s)) cid = Some d \<and>
    (sc_Generation d = sc_Generation c \<and> compared_view (sc_Spec d) = compared_view (sc_Spec c)
     \<or> sc_Generation d = sc_Generation c + 1)"
proof (cases call)
  case (OnClusters k)
  then show ?thesis using assms
    by (cases k)
      (auto simp: cluster_call_defs Let_def gomap_simps gget_map_row specChanged_iff split: option.splits)
qed (use assms in auto)

text \<open>
  C6. The generation is a fence.  Along any run that does not delete the cluster (and is too short to
  wrap a 64-bit counter), its generation never goes back, and as long as the generation stays the same, so
  does every field of the spec that the spec comparison reads.
\<close>

theorem generation_fences_spec:
  assumes "gget (ms_clusters s) cid = Some c"
    and "OnClusters (DoRemoveCluster cid) \<notin> set calls"
    and "unat (sc_Generation c) + length calls < 2 ^ 64"
  shows "\<exists>d. gget (ms_clusters (fold exec calls s)) cid = Some d
    \<and> unat (sc_Generation c) \<le> unat (sc_Generation d)
    \<and> unat (sc_Generation d) \<le> unat (sc_Generation c) + length calls
    \<and> (sc_Generation d = sc_Generation c \<longrightarrow> compared_view (sc_Spec d) = compared_view (sc_Spec c))"
  using assms
proof (induction calls rule: rev_induct)
  case Nil
  then show ?case by simp
next
  case (snoc call calls)
  then obtain d where d: "gget (ms_clusters (fold exec calls s)) cid = Some d"
    and mono: "unat (sc_Generation c) \<le> unat (sc_Generation d)"
    and few: "unat (sc_Generation d) \<le> unat (sc_Generation c) + length calls"
    and same: "sc_Generation d = sc_Generation c \<longrightarrow> compared_view (sc_Spec d) = compared_view (sc_Spec c)"
    by auto
  have "call \<noteq> OnClusters (DoRemoveCluster cid)" using snoc.prems(2) by auto
  from generation_step [OF d this] obtain e
    where e: "gget (ms_clusters (exec call (fold exec calls s))) cid = Some e"
      and how: "sc_Generation e = sc_Generation d \<and> compared_view (sc_Spec e) = compared_view (sc_Spec d)
         \<or> sc_Generation e = sc_Generation d + 1" by blast
  have "unat (sc_Generation d + 1) = unat (sc_Generation d) + 1"
    using few snoc.prems(3) by (simp add: unat_word_ariths)
  then show ?case using e how mono few same by (auto simp: word_unat_eq_iff)
qed


definition demo_calls :: "StoreCall list" where
  "demo_calls = [OnClusters (DoRecordObservation ''c1'' (Some ClusterStateRunning) 1), Tick 200,
     OnClusters (DoUpsertDesired ''c1'' (ClusterSpec_zero\<lparr>cs_Image := ''ray:2''\<rparr>))]"

definition demo_live :: MemoryStore where
  "demo_live = exec (OnClusters (DoUpsertDesired ''c1'' ClusterSpec_zero)) (NewMemoryStore 100)"

lemma demo_live_row: "gget (ms_clusters demo_live) ''c1'' = Some (fresh_cluster ''c1'' ClusterSpec_zero 1 100)"
  by (simp add: demo_live_def UpsertDesired_def NewMemoryStore_def NowUnix_def Let_def gget_def gput_def)

theorem generation_fences_spec_witness:
  "\<exists>d. gget (ms_clusters (fold exec demo_calls demo_live)) ''c1'' = Some d \<and> 1 \<le> unat (sc_Generation d)"
  using generation_fences_spec [OF demo_live_row, of demo_calls]
  by (auto simp: demo_calls_def fresh_cluster_def)


section \<open>The observed generation\<close>

fun recorded_generations :: "ClusterId \<Rightarrow> StoreCall list \<Rightarrow> u64 list" where
  "recorded_generations cid [] = []"
| "recorded_generations cid (OnClusters (DoRecordObservation k _ g) # calls) =
     (if k = cid then g # recorded_generations cid calls else recorded_generations cid calls)"
| "recorded_generations cid (_ # calls) = recorded_generations cid calls"

definition replaces :: "ClusterId \<Rightarrow> StoreCall \<Rightarrow> bool" where
  "replaces cid call = (case call of
     OnClusters (DoRemoveCluster k) \<Rightarrow> k = cid
   | OnClusters (DoUpsertDesired k _) \<Rightarrow> k = cid
   | _ \<Rightarrow> False)"

lemma observed_step:
  assumes "gget (ms_clusters s) cid = Some c" and "\<not> replaces cid call"
  shows "\<exists>d. gget (ms_clusters (exec call s)) cid = Some d
    \<and> sc_ObservedGeneration d = foldl max (sc_ObservedGeneration c) (recorded_generations cid [call])"
proof (cases call)
  case (OnClusters k)
  then show ?thesis using assms
    by (cases k)
      (auto simp: cluster_call_defs Let_def gomap_simps gget_map_row replaces_def split: option.splits)
qed (use assms in auto)

lemma recorded_generations_Cons:
  "recorded_generations cid (call # calls) = recorded_generations cid [call] @ recorded_generations cid calls"
proof (cases call)
  case (OnClusters k)
  then show ?thesis by (cases k) auto
qed auto

text \<open>
  The observed generation only moves forward: after any run of calls that neither deletes nor re-submits
  the cluster, it is the largest of the value it had and every generation an observation reported, in any
  order.  A stale observation replaces the observed state but never rolls the generation back.
\<close>

lemma observed_generation_is_max:
  assumes "gget (ms_clusters s) cid = Some c" and "list_all (\<lambda>call. \<not> replaces cid call) calls"
  shows "\<exists>d. gget (ms_clusters (fold exec calls s)) cid = Some d
    \<and> sc_ObservedGeneration d = foldl max (sc_ObservedGeneration c) (recorded_generations cid calls)"
  using assms
proof (induction calls arbitrary: s c)
  case (Cons call calls)
  from Cons.prems observed_step [of s cid c call] obtain d
    where d: "gget (ms_clusters (exec call s)) cid = Some d"
      and "sc_ObservedGeneration d = foldl max (sc_ObservedGeneration c) (recorded_generations cid [call])"
    by auto
  with Cons.IH [OF d] Cons.prems(2) show ?case
    by (subst recorded_generations_Cons) simp
qed simp

lemma observed_generation_is_max_witness:
  "\<exists>d. gget (ms_clusters (fold exec
      [OnClusters (DoRecordObservation ''c1'' (Some ClusterStateRunning) 7),
       OnClusters (DoRecordObservation ''c1'' None 3)] demo_live)) ''c1'' = Some d
    \<and> sc_ObservedGeneration d = 7"
  using observed_generation_is_max [OF demo_live_row,
      of "[OnClusters (DoRecordObservation ''c1'' (Some ClusterStateRunning) 7),
       OnClusters (DoRecordObservation ''c1'' None 3)]"]
  by (simp add: replaces_def fresh_cluster_def max_def)


section \<open>The outbox fence\<close>

definition is_reap :: "StoreCall \<Rightarrow> bool" where
  "is_reap call = (case call of OnClusters (DoReapIntents _) \<Rightarrow> True | _ \<Rightarrow> False)"

definition response :: "string \<Rightarrow> StoreCall \<Rightarrow> string option" where
  "response key call = (case call of OnClusters (DoCompleteIntent k v) \<Rightarrow> if k = key then Some v else None | _ \<Rightarrow> None)"

abbreviation responses :: "string \<Rightarrow> StoreCall list \<Rightarrow> string list" where
  "responses key calls \<equiv> List.map_filter (response key) calls"

lemma intent_step:
  assumes "gwf (ms_intents s)" and "gget (ms_intents s) key = Some r"
    and "\<not> is_reap call \<or> ir_Status r = IntentStatusPending"
  shows "gget (ms_intents (exec call s)) key = Some (case response key call of None \<Rightarrow> r
    | Some v \<Rightarrow> r\<lparr>ir_Status := IntentStatusApplied, ir_ResponseJSON := Some v, ir_CompletedAt := Some (ms_clock s)\<rparr>)"
proof (cases call)
  case (OnClusters k)
  then show ?thesis using assms
    by (cases k)
      (auto simp: cluster_call_defs Let_def gomap_simps gget_map_row gget_filter intent_reapable_def is_reap_def
        response_def NowUnix_def split: option.splits)
qed (use assms in \<open>auto simp: response_def\<close>)

lemma exec_keeps_intents_wf: "store_inv s \<Longrightarrow> gwf (ms_intents s)"
  by (simp add: store_inv_def rows_ok_def)

lemma intent_run:
  assumes "store_inv s" and "gget (ms_intents s) key = Some r"
    and "list_all (\<lambda>call. \<not> is_reap call) calls
      \<or> ir_Status r = IntentStatusPending \<and> responses key calls = []"
  shows "\<exists>r'. gget (ms_intents (fold exec calls s)) key = Some r'
    \<and> ir_Key r' = ir_Key r \<and> ir_ParamsFingerprint r' = ir_ParamsFingerprint r \<and> ir_CreatedAt r' = ir_CreatedAt r
    \<and> (if responses key calls = [] then r' = r
       else ir_Status r' = IntentStatusApplied \<and> ir_ResponseJSON r' = Some (last (responses key calls)))"
  using assms
proof (induction calls arbitrary: s r)
  case (Cons call calls)
  let ?r = "case response key call of None \<Rightarrow> r
    | Some v \<Rightarrow> r\<lparr>ir_Status := IntentStatusApplied, ir_ResponseJSON := Some v, ir_CompletedAt := Some (ms_clock s)\<rparr>"
  have row: "gget (ms_intents (exec call s)) key = Some ?r"
    using Cons.prems(3) by (intro intent_step exec_keeps_intents_wf Cons.prems(1,2)) auto
  have "list_all (\<lambda>call. \<not> is_reap call) calls
      \<or> ir_Status ?r = IntentStatusPending \<and> responses key calls = []"
    using Cons.prems(3) by (auto simp: map_filter_simps split: option.splits)
  from Cons.IH [OF store_inv_exec [OF Cons.prems(1)] row this] show ?case
    by (cases "response key call") (auto simp: map_filter_simps split: if_splits)
qed (simp add: map_filter_simps)

lemma BeginIntent_existing:
  "gget (ms_intents s) key = Some r \<Longrightarrow>
   BeginIntent key fp s = (Inr (if fp = ir_ParamsFingerprint r
       then \<lparr>io_Kind = IntentOutcomeProceed, io_Replay = True\<rparr>
       else \<lparr>io_Kind = IntentOutcomeParamMismatch, io_Replay = False\<rparr>), s)"
  by (simp add: BeginIntent_def)

text \<open>
  C7. The outbox fences actuation by key.  Once an intent is open, then after any further calls that reap no
  intents, and for a pending intent after any calls at all that do not complete it, its record is still there
  with the key, fingerprint and creation time it was opened with.  It is untouched if none of the calls
  completed it, and otherwise applied with the response of the last completion: completing again overwrites
  the response, nothing else does, and an applied intent never returns to pending.  Opening the key again
  proceeds (as a replay) exactly for the fingerprint it was first opened with and is refused for every other,
  without changing the store.
\<close>

theorem outbox_fence:
  assumes "reachable s" and "gget (ms_intents s) key = Some r"
    and "list_all (\<lambda>call. \<not> is_reap call) calls
      \<or> ir_Status r = IntentStatusPending \<and> responses key calls = []"
  shows "(\<exists>r'. gget (ms_intents (fold exec calls s)) key = Some r'
      \<and> ir_Key r' = key \<and> ir_ParamsFingerprint r' = ir_ParamsFingerprint r \<and> ir_CreatedAt r' = ir_CreatedAt r
      \<and> (if responses key calls = [] then r' = r
         else ir_Status r' = IntentStatusApplied \<and> ir_ResponseJSON r' = Some (last (responses key calls))))
    \<and> BeginIntent key fp (fold exec calls s) =
      (Inr (if fp = ir_ParamsFingerprint r
         then \<lparr>io_Kind = IntentOutcomeProceed, io_Replay = True\<rparr>
         else \<lparr>io_Kind = IntentOutcomeParamMismatch, io_Replay = False\<rparr>), fold exec calls s)"
proof -
  have inv: "store_inv s" by (rule reachable_store_inv [OF assms(1)])
  then have "ir_Key r = key"
    using assms(2) by (auto simp: store_inv_def rows_ok_def intent_row_ok_def)
  moreover obtain r' where "gget (ms_intents (fold exec calls s)) key = Some r'"
      "ir_Key r' = ir_Key r \<and> ir_ParamsFingerprint r' = ir_ParamsFingerprint r \<and> ir_CreatedAt r' = ir_CreatedAt r"
      "if responses key calls = [] then r' = r
       else ir_Status r' = IntentStatusApplied \<and> ir_ResponseJSON r' = Some (last (responses key calls))"
    using intent_run [OF inv assms(2,3)] by blast
  ultimately show ?thesis by (simp add: BeginIntent_existing)
qed

definition demo_intent :: MemoryStore where
  "demo_intent = exec (OnClusters (DoBeginIntent ''c1/1'' ''A'')) (NewMemoryStore 100)"

lemma demo_intent_row:
  "gget (ms_intents demo_intent) ''c1/1'' = Some \<lparr>ir_Key = ''c1/1'', ir_ParamsFingerprint = ''A'',
     ir_Status = IntentStatusPending, ir_ResponseJSON = None, ir_CreatedAt = 100, ir_CompletedAt = None\<rparr>"
  by (simp add: demo_intent_def BeginIntent_def NewMemoryStore_def NowUnix_def gget_def gput_def)

lemma demo_intent_reachable: "reachable demo_intent"
  unfolding demo_intent_def by (intro reachable.intros)

theorem outbox_fence_witness:
  "fst (BeginIntent ''c1/1'' ''B''
     (fold exec [Tick 90000, OnClusters (DoReapIntents 80000)] demo_intent)) =
   Inr \<lparr>io_Kind = IntentOutcomeParamMismatch, io_Replay = False\<rparr>
   \<and> (\<exists>r'. gget (ms_intents (fold exec [OnClusters (DoCompleteIntent ''c1/1'' ''x''), Tick 90000,
         OnClusters (DoCompleteIntent ''c1/1'' ''y'')] demo_intent)) ''c1/1'' = Some r'
       \<and> ir_Status r' = IntentStatusApplied \<and> ir_ResponseJSON r' = Some ''y'')"
  using outbox_fence [OF demo_intent_reachable demo_intent_row, of "[Tick 90000, OnClusters (DoReapIntents 80000)]" "''B''"]
    outbox_fence [OF demo_intent_reachable demo_intent_row, of "[OnClusters (DoCompleteIntent ''c1/1'' ''x''), Tick 90000,
         OnClusters (DoCompleteIntent ''c1/1'' ''y'')]" "''B''"]
  by (auto simp: response_def map_filter_simps is_reap_def)


section \<open>Token revocation\<close>

lemma token_step:
  assumes "gget (ms_apiTokens s) p = Some t" and "at_Revoked t"
  shows "\<exists>t'. gget (ms_apiTokens (exec call s)) p = Some t' \<and> at_Revoked t'
    \<and> at_Username t' = at_Username t \<and> at_TokenHash t' = at_TokenHash t"
proof (cases call)
  case (OnClusters k)
  then show ?thesis using assms by (cases k) (auto simp: cluster_call_defs Let_def split: option.splits)
next
  case (OnCatalog k)
  then show ?thesis using assms by (cases k) (auto simp: pool_op_defs Let_def split: option.splits)
next
  case (OnAuth k)
  then show ?thesis using assms
    by (cases k) (auto simp: auth_op_defs Let_def gomap_simps gget_map_row split: option.splits prod.splits)
next
  case (OnWorkloads k)
  then show ?thesis using assms by (cases k) (auto simp: service_op_defs Let_def split: option.splits)
qed (use assms in auto)

text \<open>
  C31. Revocation is permanent and owner-scoped.  Revoking succeeds exactly for an existing token of the
  caller and answers every other prefix with the same error; after a revocation no sequence of calls to the
  store makes the token usable again, removes it or changes its owner or hash.
\<close>

theorem token_revocation_permanent:
  "case gget (ms_apiTokens s) p of
     None \<Rightarrow> RevokeApiToken p u s = (Inl (errNoSuchApiToken p), s)
   | Some t \<Rightarrow>
       if at_Username t \<noteq> u then RevokeApiToken p u s = (Inl (errNoSuchApiToken p), s)
       else fst (RevokeApiToken p u s) = Inr () \<and>
         (\<exists>t'. gget (ms_apiTokens (fold exec calls (snd (RevokeApiToken p u s)))) p = Some t' \<and> at_Revoked t'
           \<and> at_Username t' = u \<and> at_TokenHash t' = at_TokenHash t)"
proof -
  have run: "\<exists>t'. gget (ms_apiTokens (fold exec calls s)) p = Some t' \<and> at_Revoked t'
      \<and> at_Username t' = at_Username t \<and> at_TokenHash t' = at_TokenHash t"
    if "gget (ms_apiTokens s) p = Some t" and "at_Revoked t" for s t
    using that
  proof (induction calls arbitrary: s t)
    case (Cons call calls)
    from token_step [OF Cons.prems, of call] Cons.IH show ?case by fastforce
  qed simp
  show ?thesis
    using run [of "snd (RevokeApiToken p u s)"]
    by (auto simp: RevokeApiToken_def gomap_simps split: option.split)
qed


section \<open>Independence of map iteration order\<close>

lemma sort_key_perm_inj:
  assumes "mset xs = mset ys" and "inj_on f (set xs)"
  shows "sort_key f xs = sort_key f ys"
  by (rule sort_key_inj_key_eq) (simp_all add: assms)

lemma inj_on_row_key:
  assumes "rows_ok (\<lambda>k v. key v = k) m"
  shows "inj_on key (set (gvals m))"
proof (rule inj_onI)
  fix x y
  assume "x \<in> set (gvals m)" and "y \<in> set (gvals m)" and eq: "key x = key y"
  then obtain j k where "(j, x) \<in> set m" and "(k, y) \<in> set m" by (auto simp: gvals_def)
  then have j: "gget m j = Some x" and k: "gget m k = Some y"
    using assms by (auto simp: rows_ok_def gwf_def gget_def)
  then have "j = k" using rows_ok_get [OF assms j] rows_ok_get [OF assms k] eq by simp
  then show "x = y" using j k by simp
qed

lemma rows_ok_mono: "rows_ok P m \<Longrightarrow> (\<And>k v. P k v \<Longrightarrow> Q k v) \<Longrightarrow> rows_ok Q m"
  by (auto simp: rows_ok_def)

lemma mset_gvals: "mset p = mset m \<Longrightarrow> mset (gvals p) = mset (gvals m)"
  by (simp add: gvals_def mset_map)

lemma sorted_rows_stable:
  assumes "rows_ok (\<lambda>k v. key v = k) m" and "mset p = mset m" and "\<And>x y. f x = f y \<Longrightarrow> key x = key y"
  shows "sort_key f (filter Q (gvals p)) = sort_key f (filter Q (gvals m))"
proof (rule sort_key_perm_inj)
  show "mset (filter Q (gvals p)) = mset (filter Q (gvals m))"
    using mset_gvals [OF assms(2)] by simp
  have "set (gvals p) = set (gvals m)" using mset_gvals [OF assms(2)] by (metis set_mset_mset)
  then have sub: "set (filter Q (gvals p)) \<subseteq> set (gvals m)" by auto
  show "inj_on f (set (filter Q (gvals p)))"
  proof (rule inj_onI)
    fix x y
    assume "x \<in> set (filter Q (gvals p))" and "y \<in> set (filter Q (gvals p))" and "f x = f y"
    then show "x = y" using inj_onD [OF inj_on_row_key [OF assms(1)] assms(3) [of x y]] sub by blast
  qed
qed

lemmas sorted_rows_stable_all = sorted_rows_stable [where Q = "\<lambda>_. True", simplified]


definition demo_pools :: MemoryStore where
  "demo_pools = exec (OnAuth (DoUpsertRoleAssignment ''bob'' ''viewer'' ''*''))
     (exec (OnAuth (DoUpsertRoleAssignment ''alice'' ''admin'' ''*'')) (NewMemoryStore 100))"

lemma demo_pools_reachable: "reachable demo_pools"
  unfolding demo_pools_def by (intro reachable.intros)


end
