(* ===== verification/Core_Json.thy ===== *)
theory Core_Json
  imports Core_Cluster Core_Workload Json_Text
begin

text \<open>
  The wire form of the cluster and job specs (\<^verbatim>\<open>internal/core/cluster.go\<close>, \<^verbatim>\<open>rayjob.go\<close>): the
  \<^verbatim>\<open>json\<close> struct tags in field order, with \<^verbatim>\<open>omitempty\<close> fields left out when empty, absent pointers as
  \<^verbatim>\<open>null\<close> and nil slices as \<^verbatim>\<open>[]\<close>.  The outbox fingerprints are the text of these values.
\<close>

definition jomit :: "bool \<Rightarrow> string \<Rightarrow> json \<Rightarrow> (string \<times> json) list" where
  "jomit absent k v = (if absent then [] else [(k, v)])"

definition WorkerGroup_json :: "WorkerGroup \<Rightarrow> json" where
  "WorkerGroup_json g = JObj
     [(''name'', JStr (wg_Name g)), (''cpu'', JStr (wg_Cpu g)), (''memory'', JStr (wg_Memory g)),
      (''gpu'', jopt JStr (wg_Gpu g)), (''min_replicas'', JNum (uint (wg_MinReplicas g))),
      (''max_replicas'', JNum (uint (wg_MaxReplicas g))), (''replicas'', JNum (uint (wg_Replicas g)))]"

definition ResolvedStorage_json :: "ResolvedStorage \<Rightarrow> json" where
  "ResolvedStorage_json r = JObj
     ([(''name'', JStr (rst_Name r))]
      @ jomit (StorageSource_String (rst_Source r) = []) ''source'' (JStr (StorageSource_String (rst_Source r)))
      @ [(''secret_name'', JStr (rst_SecretName r))]
      @ jomit (rst_ClaimName r = []) ''claim_name'' (JStr (rst_ClaimName r))
      @ [(''mode'', JStr (StorageMode_String (rst_Mode r))), (''mount_path'', jopt JStr (rst_MountPath r))])"

definition ResolvedEnvironment_json :: "ResolvedEnvironment \<Rightarrow> json" where
  "ResolvedEnvironment_json e = JObj
     [(''name'', JStr (re_Name e)), (''base_image'', JStr (re_BaseImage e)),
      (''runtime_env_yaml'', JStr (re_RuntimeEnvYaml e)), (''resolved_at'', jopt JStr (re_ResolvedAt e))]"

definition resolved_fields ::
  "ResolvedStorage list \<Rightarrow> string option \<Rightarrow> string \<Rightarrow> (string \<times> json) list" where
  "resolved_fields storage account namespace =
     jomit (storage = []) ''storage_resolved'' (JArr (map ResolvedStorage_json storage))
     @ jomit (account = None) ''service_account_resolved'' (jopt JStr account)
     @ jomit (namespace = []) ''namespace_resolved'' (JStr namespace)"

definition ClusterSpec_MarshalJSON :: "ClusterSpec \<Rightarrow> json" where
  "ClusterSpec_MarshalJSON c =
     (let engine = (if cs_Engine c = EngineRaw [] then DefaultEngine else cs_Engine c) in JObj
     ([(''name'', JStr (cs_Name c)), (''project'', JStr (cs_Project c)),
       (''engine'', JStr (Engine_String engine)), (''ray_version'', JStr (cs_RayVersion c)),
       (''image'', JStr (cs_Image c)), (''head_cpu'', JStr (cs_HeadCpu c)),
       (''head_memory'', JStr (cs_HeadMemory c)),
       (''worker_groups'', JArr (map WorkerGroup_json (cs_WorkerGroups c))),
       (''ttl_seconds'', jopt (\<lambda>n. JNum (uint n)) (cs_TtlSeconds c)),
       (''idle_timeout_secs'', jopt (\<lambda>n. JNum (uint n)) (cs_IdleTimeoutSecs c)),
       (''owner'', jopt JStr (cs_Owner c)), (''profile'', jopt JStr (cs_Profile c)),
       (''environment'', jopt JStr (cs_Environment c))]
      @ jomit (cs_EnvironmentResolved c = None) ''environment_resolved''
          (jopt ResolvedEnvironment_json (cs_EnvironmentResolved c))
      @ [(''storage'', JArr (map JStr (cs_Storage c)))]
      @ resolved_fields (cs_StorageResolved c) (cs_ServiceAccountResolved c) (cs_NamespaceResolved c)))"

definition RayJobSpec_MarshalJSON :: "RayJobSpec \<Rightarrow> json" where
  "RayJobSpec_MarshalJSON j = JObj
     ([(''project'', JStr (rj_Project j)), (''entrypoint'', JStr (rj_Entrypoint j)),
       (''image'', JStr (rj_Image j)), (''ray_version'', JStr (rj_RayVersion j)),
       (''runtime_env_yaml'', JStr (rj_RuntimeEnvYaml j)), (''head_cpu'', JStr (rj_HeadCpu j)),
       (''head_memory'', JStr (rj_HeadMemory j)),
       (''worker_groups'', JArr (map WorkerGroup_json (rj_WorkerGroups j))),
       (''profile'', jopt JStr (rj_Profile j)), (''environment'', jopt JStr (rj_Environment j))]
      @ jomit (rj_EnvironmentResolved j = None) ''environment_resolved''
          (jopt ResolvedEnvironment_json (rj_EnvironmentResolved j))
      @ [(''storage'', JArr (map JStr (rj_Storage j)))]
      @ resolved_fields (rj_StorageResolved j) (rj_ServiceAccountResolved j) (rj_NamespaceResolved j)
      @ [(''ttl_seconds_after_finished'', jopt (\<lambda>n. JNum (uint n)) (rj_TtlSecondsAfterFinished j)),
         (''owner'', jopt JStr (rj_Owner j))])"

end
