(* ===== verification/Json_Inject.thy ===== *)
theory Json_Inject
  imports Json_Text
begin

text \<open>
  The text of a JSON value determines the value: two values whose strings are valid UTF-8 have the same
  text only if they are equal.  String literals are read back by an unescaping function; the structure is
  recovered from the first character of each part and the separators.
\<close>


section \<open>Strings\<close>

function valid_utf8 :: "nat list \<Rightarrow> bool" where
  "valid_utf8 [] = True"
| "valid_utf8 (b # bs) = (case decode_rune (b # bs) of (r, sz) \<Rightarrow>
     \<not> (r = 65533 \<and> sz = 1) \<and> valid_utf8 (drop sz (b # bs)))"
  by pat_completeness auto
termination
  using decode_rune_shrinks by (relation "measure length") auto

definition utf8 :: "string \<Rightarrow> bool" where
  "utf8 s = valid_utf8 (map of_char s)"

abbreviation code :: "char \<Rightarrow> nat" where
  "code c \<equiv> of_char c"

definition unhex :: "char \<Rightarrow> nat" where
  "unhex c = (if code c < 58 then code c - 48 else code c - 87)"

definition escaped_rune :: "nat \<Rightarrow> nat list" where
  "escaped_rune v = (if v < 128 then [v] else [226, 128, v - 8064])"

definition unescape_char :: "char \<Rightarrow> nat" where
  "unescape_char d = (if code d = 98 then 8 else if code d = 102 then 12 else if code d = 110 then 10
     else if code d = 114 then 13 else if code d = 116 then 9 else code d)"

definition prepend :: "nat list \<Rightarrow> (nat list \<times> string) option \<Rightarrow> (nat list \<times> string) option" where
  "prepend xs = map_option (map_prod (\<lambda>ys. xs @ ys) id)"

lemma prepend_simps [simp]:
  "prepend [] x = x" "prepend xs (prepend ys x) = prepend (xs @ ys) x" "prepend xs (Some (ys, t)) = Some (xs @ ys, t)"
  by (cases x; simp add: prepend_def map_prod_def split: prod.split)+

fun unesc :: "string \<Rightarrow> (nat list \<times> string) option" where
  "unesc [] = None"
| "unesc (c # cs) =
     (if code c = 34 then Some ([], cs)
      else if code c = 92 then
        (case cs of
           [] \<Rightarrow> None
         | d # ds \<Rightarrow>
             if code d = 117 then
               (case ds of
                  h1 # h2 # h3 # h4 # es \<Rightarrow>
                    prepend (escaped_rune (((unhex h1 * 16 + unhex h2) * 16 + unhex h3) * 16 + unhex h4)) (unesc es)
                | _ \<Rightarrow> None)
             else prepend [unescape_char d] (unesc ds))
      else prepend [code c] (unesc cs))"

lemma unhex_json_hex [simp]: "n < 16 \<Longrightarrow> unhex (json_hex n) = n"
  by (simp add: unhex_def json_hex_def of_char_of)

lemma unhex_digits [simp]: "unhex (CHR ''0'') = 0" "unhex (CHR ''2'') = 2"
  by (simp_all add: unhex_def)

lemma code_consts [simp]: "code bs_char = 92" "code quote_char = 34"
  by (simp_all add: bs_char_def quote_char_def)

lemma unesc_ascii:
  assumes "b < 128"
  shows "unesc (json_ascii b @ t) = prepend [b] (unesc t)"
  using assms
  by (auto simp: json_ascii_def unescape_char_def of_char_of escaped_rune_def)

lemma unesc_high: "list_all (\<lambda>b. 128 \<le> b \<and> b < 256) bs \<Longrightarrow> unesc (map char_of bs @ t) = prepend bs (unesc t)"
  by (induction bs) (simp_all add: of_char_of)

lemma three_byte_rune:
  fixes b x y v :: nat
  assumes "(b - 224) * 4096 + (x - 128) * 64 + y - 128 = v" "224 \<le> b" "128 \<le> x" "x \<le> 191" "128 \<le> y" "y \<le> 191"
  shows "b = 224 + v div 4096 \<and> x = 128 + v div 64 mod 64 \<and> y = 128 + v mod 64"
proof -
  obtain p q l where eq: "b = 224 + p" "x = 128 + q" "y = 128 + l" using assms by (auto simp: le_iff_add)
  then have "v = l + (q + p * 64) * 64" and "l < 64" "q < 64" using assms by auto
  moreover from this have "v div 64 = q + p * 64" "v div 4096 = p" by auto
  moreover have "(l + (q + p * 64) * 64) mod 64 = l" using \<open>l < 64\<close> by (simp only: mod_mult_self1) simp
  ultimately show ?thesis using eq by simp
qed

lemma decode_rune_high:
  assumes "128 \<le> b" "decode_rune (b # bs) = (r, sz)" "\<not> (r = 65533 \<and> sz = 1)" "list_all (\<lambda>b. b < 256) bs" "b < 256"
  shows "list_all (\<lambda>b. 128 \<le> b \<and> b < 256) (take sz (b # bs))
    \<and> (r = 8232 \<or> r = 8233 \<longrightarrow> take sz (b # bs) = [226, 128, r - 8064])"
  using assms
  by (auto simp: decode_rune.simps cont_def split: list.splits if_splits dest!: three_byte_rune)


lemma unesc_json_escape:
  "valid_utf8 bs \<Longrightarrow> list_all (\<lambda>b. b < 256) bs \<Longrightarrow> unesc (json_escape bs @ quote_char # t) = Some (bs, t)"
proof (induction bs rule: valid_utf8.induct)
  case (2 b bs)
  obtain r sz where dec: "decode_rune (b # bs) = (r, sz)" by (cases "decode_rune (b # bs)")
  have IH: "unesc (json_escape (drop sz (b # bs)) @ quote_char # t) = Some (drop sz (b # bs), t)"
  proof -
    have "list_all (\<lambda>b. b < 256) (drop sz (b # bs))"
      unfolding list_all_iff using 2(3) in_set_dropD [of _ sz "b # bs"] by (auto simp: list_all_iff)
    then show ?thesis using 2(1,2) dec by simp
  qed
  show ?case
  proof (cases "b < 128")
    case True
    then have "sz = 1" using dec by (simp add: decode_rune.simps)
    then show ?thesis using IH True by (simp add: unesc_ascii)
  next
    case False
    note high = decode_rune_high [OF _ dec]
    have enc: "list_all (\<lambda>b. 128 \<le> b \<and> b < 256) (take sz (b # bs))"
      "r = 8232 \<or> r = 8233 \<longrightarrow> take sz (b # bs) = [226, 128, r - 8064]"
      using False 2(2,3) dec high by auto
    have "json_escape (b # bs) = (if r = 8232 \<or> r = 8233 then bs_char # ''u202'' @ [json_hex (r mod 16)]
        else map char_of (take sz (b # bs))) @ json_escape (drop sz (b # bs))"
      using False dec 2(2) by auto
    moreover have "unesc ((if r = 8232 \<or> r = 8233 then bs_char # ''u202'' @ [json_hex (r mod 16)]
        else map char_of (take sz (b # bs))) @ u) = prepend (take sz (b # bs)) (unesc u)" for u
      using enc by (auto simp: unesc_high escaped_rune_def)
    ultimately have "unesc (json_escape (b # bs) @ quote_char # t)
        = prepend (take sz (b # bs)) (Some (drop sz (b # bs), t))"
      using IH by (simp only: append_assoc)
    then show ?thesis by (simp only: prepend_simps append_take_drop_id)
  qed
qed simp


lemma json_string_read:
  assumes "utf8 s" "utf8 s'" "json_string s @ t = json_string s' @ t'"
  shows "s = s' \<and> t = t'"
proof -
  have bytes: "list_all (\<lambda>b. b < 256) (map code s)" for s
    by (simp add: list_all_iff)
  have "unesc (json_escape (map of_char s) @ quote_char # t) = unesc (json_escape (map of_char s') @ quote_char # t')"
    using assms(3) by (simp add: json_string_def)
  then have "map of_char s = (map of_char s' :: nat list) \<and> t = t'"
    using assms(1,2) bytes by (simp add: unesc_json_escape utf8_def)
  then show ?thesis by (auto simp: inj_map_eq_map inj_of_char)
qed


section \<open>Values\<close>

fun wf_json :: "json \<Rightarrow> bool" where
  "wf_json (JStr s) = utf8 s"
| "wf_json (JArr js) = list_all wf_json js"
| "wf_json (JObj kvs) = list_all (\<lambda>(k, v). utf8 k \<and> wf_json v) kvs"
| "wf_json (JLit s) = False"
| "wf_json _ = True"

definition stops :: "string \<Rightarrow> bool" where
  "stops r = (r = [] \<or> code (hd r) \<in> {44, 93, 125})"

lemma itoa_read:
  assumes "itoa m @ r = itoa n @ r'" "stops r" "stops r'"
  shows "m = n \<and> r = r'"
proof -
  have dig: "takeWhile is_digit (nat_digits k @ u) = nat_digits k" if "stops u" for k u
  proof -
    have "takeWhile is_digit u = []" using that by (cases u) (auto simp: stops_def is_digit_def)
    then show ?thesis using nat_digits_digits by (simp add: takeWhile_append2)
  qed
  have nat_read: "nat_digits k @ u = nat_digits l @ v \<Longrightarrow> stops u \<Longrightarrow> stops v \<Longrightarrow> k = l \<and> u = v" for k l u v
    using dig [of u k] dig [of v l] nat_digits_inj [of k l] by (metis append_same_eq same_append_eq)
  have minus: "\<not> is_digit (CHR ''-'')" by (simp add: is_digit_def)
  have no_minus: "nat_digits k @ u \<noteq> CHR ''-'' # v" "CHR ''-'' # v \<noteq> nat_digits k @ u" for k u v
    using nat_digits_digits [of "CHR ''-''" k] minus nat_digits_not_Nil [of k]
    by (cases "nat_digits k"; auto)+
  show ?thesis
  proof (cases "m < 0"; cases "n < 0")
    assume "m < 0" "n < 0"
    then show ?thesis using assms nat_read [of "nat (- m)" r "nat (- n)" r'] by (auto simp: itoa_def eq_nat_nat_iff)
  next
    assume "\<not> m < 0" "\<not> n < 0"
    then show ?thesis using assms nat_read [of "nat m" r "nat n" r'] by (auto simp: itoa_def eq_nat_nat_iff)
  qed (use assms(1) no_minus in \<open>simp_all add: itoa_def\<close>)
qed


lemma join_Cons: "join sep (x # xs) = x @ (if xs = [] then [] else sep @ join sep xs)"
  by (cases xs) simp_all

lemma join_read:
  assumes read: "\<And>x x' r r'. x \<in> set xs \<Longrightarrow> P x' \<Longrightarrow> f x @ r = f x' @ r' \<Longrightarrow> stops r \<Longrightarrow> stops r' \<Longrightarrow> x = x' \<and> r = r'"
    and start: "\<And>x. P x \<Longrightarrow> f x \<noteq> [] \<and> code (hd (f x)) \<noteq> code z"
    and z: "code z = 93 \<or> code z = 125"
    and P: "list_all P xs" "list_all P xs'"
    and eq: "join '','' (map f xs) @ z # r = join '','' (map f xs') @ z # r'"
  shows "xs = xs' \<and> r = r'"
  using read P eq
proof (induction xs arbitrary: xs')
  case Nil
  then show ?case
    using start [of "hd xs'"] by (cases xs') (auto simp: join_Cons hd_append neq_Nil_conv)
next
  case (Cons x xs)
  let ?tail = "\<lambda>xs r. (if xs = [] then [] else '','' @ join '','' (map f xs)) @ z # r"
  obtain x' ys where xs': "xs' = x' # ys"
    using Cons.prems(2,4) start [of x] by (cases xs') (auto simp: join_Cons hd_append neq_Nil_conv)
  have eq: "f x @ ?tail xs r = f x' @ ?tail ys r'"
    using Cons.prems(4) xs' by (simp add: join_Cons)
  have stop: "stops (?tail us u)" for us u using z by (auto simp: stops_def)
  have "P x'" using Cons.prems(3) xs' by simp
  then have one: "x = x' \<and> ?tail xs r = ?tail ys r'"
    using Cons.prems(1) [OF _ _ eq stop stop] by simp
  then have rest: "join '','' (map f xs) @ z # r = join '','' (map f ys) @ z # r'"
    using z by (auto split: if_splits)
  have "xs = ys \<and> r = r'"
  proof (rule Cons.IH [OF _ _ _ rest])
    show "y = y' \<and> u = u'" if "y \<in> set xs" "P y'" "f y @ u = f y' @ u'" "stops u" "stops u'" for y y' u u'
      using that by (intro Cons.prems(1)) simp_all
  qed (use Cons.prems(2,3) xs' in simp_all)
  then show ?case using one xs' by simp
qed

definition lead :: "json \<Rightarrow> nat" where
  "lead j = (case j of JNull \<Rightarrow> 110 | JBool b \<Rightarrow> if b then 116 else 102 | JNum n \<Rightarrow> code (hd (itoa n)) | JStr _ \<Rightarrow> 34
     | JArr _ \<Rightarrow> 91 | JObj _ \<Rightarrow> 123 | JLit _ \<Rightarrow> 0)"

lemma json_start: "wf_json j \<Longrightarrow> json_text j \<noteq> [] \<and> code (hd (json_text j)) = lead j"
  by (cases j) (auto simp: lead_def json_string_def itoa_def)

lemma itoa_start: "itoa n \<noteq> [] \<and> (code (hd (itoa n)) = 45 \<or> 48 \<le> code (hd (itoa n)) \<and> code (hd (itoa n)) \<le> 57)"
proof -
  have "is_digit (hd (nat_digits k))" for k using nat_digits_digits [of "hd (nat_digits k)" k] by simp
  then show ?thesis by (auto simp: itoa_def is_digit_def)
qed

lemma itoa_codes:
  assumes "k \<in> {110, 116, 102, 34, 91, 93, 123, 125}"
  shows "code (hd (itoa n)) \<noteq> k" "k \<noteq> code (hd (itoa n))"
  using itoa_start [of n] assms by auto

lemma json_same_kind:
  assumes "wf_json j" "wf_json j'" "json_text j @ r = json_text j' @ r'"
  shows "(case j of JNull \<Rightarrow> j' = JNull | JBool b \<Rightarrow> j' = JBool b | JNum _ \<Rightarrow> \<exists>n. j' = JNum n | JStr _ \<Rightarrow> \<exists>s. j' = JStr s
     | JArr _ \<Rightarrow> \<exists>js. j' = JArr js | JObj _ \<Rightarrow> \<exists>kvs. j' = JObj kvs | JLit _ \<Rightarrow> True)"
proof -
  have "hd (json_text j @ r) = hd (json_text j)" "hd (json_text j' @ r') = hd (json_text j')"
    using json_start [OF assms(1)] json_start [OF assms(2)] by simp_all
  then have "lead j = lead j'"
    using assms(3) json_start [OF assms(1)] json_start [OF assms(2)] by simp
  then show ?thesis
    using assms(2) by (cases j; cases j') (auto simp: lead_def itoa_codes split: if_splits)
qed


lemma json_read:
  "wf_json j \<Longrightarrow> wf_json j' \<Longrightarrow> json_text j @ r = json_text j' @ r' \<Longrightarrow> stops r \<Longrightarrow> stops r' \<Longrightarrow> j = j' \<and> r = r'"
proof (induction j arbitrary: j' r r')
  case (JNum n)
  then obtain m where "j' = JNum m" using json_same_kind [OF JNum(1,2,3)] by auto
  then show ?case using JNum itoa_read [of n r m r'] by simp
next
  case (JStr s)
  then obtain s' where "j' = JStr s'" using json_same_kind [OF JStr(1,2,3)] by auto
  then show ?case using JStr json_string_read [of s s' r r'] by simp
next
  case (JArr js)
  then obtain js' where j': "j' = JArr js'" using json_same_kind [OF JArr(2,3,4)] by auto
  have "js = js' \<and> r = r'"
  proof (rule join_read [where P = wf_json and f = json_text and z = "CHR '']''"])
    show "x = x' \<and> u = u'" if "x \<in> set js" "wf_json x'" "json_text x @ u = json_text x' @ u'" "stops u" "stops u'"
      for x x' u u' using that JArr(1) [OF that(1)] JArr(2) by (auto simp: list_all_iff)
    show "json_text x \<noteq> [] \<and> code (hd (json_text x)) \<noteq> code (CHR '']'')" if "wf_json x" for x
      using json_start [OF that] by (cases x) (auto simp: lead_def itoa_codes split: if_splits)
  qed (use JArr(2-4) j' in simp_all)
  then show ?case using j' by simp
next
  case (JObj kvs)
  then obtain kvs' where j': "j' = JObj kvs'" using json_same_kind [OF JObj(2,3,4)] by auto
  let ?f = "\<lambda>(k, v). json_string k @ '':'' @ json_text v"
  have "kvs = kvs' \<and> r = r'"
  proof (rule join_read [where P = "\<lambda>(k, v). utf8 k \<and> wf_json v" and f = ?f and z = "CHR ''}''"])
    show "x = x' \<and> u = u'" if x: "x \<in> set kvs" "case x' of (k, v) \<Rightarrow> utf8 k \<and> wf_json v" "?f x @ u = ?f x' @ u'"
      "stops u" "stops u'" for x x' u u'
    proof -
      obtain k v k' v' where kv: "x = (k, v)" "x' = (k', v')" by (cases x, cases x')
      have wf: "utf8 k" "wf_json v" using JObj(2) x(1) kv(1) by (auto simp: list_all_iff)
      then have "k = k' \<and> json_text v @ u = json_text v' @ u'"
        using json_string_read [of k k' "'':'' @ json_text v @ u" "'':'' @ json_text v' @ u'"] x(2,3) kv by simp
      then show ?thesis using JObj(1) [OF x(1), of v v' u u'] x kv wf by simp
    qed
  qed (use JObj(2-4) j' in \<open>auto simp: json_string_def\<close>)
  then show ?case using j' by simp
next
  case JNull
  then show ?case using json_same_kind [OF JNull(1,2,3)] by simp
next
  case (JBool b)
  then show ?case using json_same_kind [OF JBool(1,2,3)] by simp
qed simp

theorem json_text_inject: "wf_json j \<Longrightarrow> wf_json j' \<Longrightarrow> json_text j = json_text j' \<Longrightarrow> j = j'"
  using json_read [of j j' "[]" "[]"] by (simp add: stops_def)


section \<open>ASCII\<close>

definition ascii :: "string \<Rightarrow> bool" where
  "ascii s = list_all (\<lambda>c. code c < 128) s"

lemma ascii_utf8: "ascii s \<Longrightarrow> utf8 s"
proof (induction s)
  case (Cons c s)
  then have "decode_rune (code c # map of_char s) = (code c, 1)" by (simp add: ascii_def decode_rune.simps)
  moreover have "code c \<noteq> 65533" using Cons by (auto simp: ascii_def)
  ultimately show ?case using Cons by (simp add: utf8_def ascii_def)
qed (simp add: utf8_def)

end
