(* ===== verification/Spec_Facts.thy ===== *)
theory Spec_Facts
  imports Core_Json Json_Inject
begin

text \<open>
  The outbox fingerprint of a cluster spec, which is the text of its JSON form, determines the spec: specs
  whose strings are valid UTF-8 and whose fingerprints agree are the same up to the default of the engine.
\<close>

lemma utf8_key [simp]: "list_all (\<lambda>c. of_char c < (128 :: nat)) s \<Longrightarrow> utf8 s"
  by (rule ascii_utf8) (simp add: ascii_def)

definition utf8_opt :: "string option \<Rightarrow> bool" where
  "utf8_opt x = (case x of None \<Rightarrow> True | Some s \<Rightarrow> utf8 s)"

definition worker_utf8 :: "WorkerGroup \<Rightarrow> bool" where
  "worker_utf8 g = (utf8 (wg_Name g) \<and> utf8 (wg_Cpu g) \<and> utf8 (wg_Memory g) \<and> utf8_opt (wg_Gpu g))"

definition storage_utf8 :: "ResolvedStorage \<Rightarrow> bool" where
  "storage_utf8 r = (utf8 (rst_Name r) \<and> utf8 (StorageSource_String (rst_Source r)) \<and> utf8 (rst_SecretName r)
     \<and> utf8 (rst_ClaimName r) \<and> utf8 (StorageMode_String (rst_Mode r)) \<and> utf8_opt (rst_MountPath r))"

definition environment_utf8 :: "ResolvedEnvironment \<Rightarrow> bool" where
  "environment_utf8 e = (utf8 (re_Name e) \<and> utf8 (re_BaseImage e) \<and> utf8 (re_RuntimeEnvYaml e)
     \<and> utf8_opt (re_ResolvedAt e))"

definition spec_utf8 :: "ClusterSpec \<Rightarrow> bool" where
  "spec_utf8 c = (utf8 (cs_Name c) \<and> utf8 (cs_Project c) \<and> utf8 (Engine_String (cs_Engine c))
     \<and> utf8 (cs_RayVersion c) \<and> utf8 (cs_Image c) \<and> utf8 (cs_HeadCpu c) \<and> utf8 (cs_HeadMemory c)
     \<and> list_all worker_utf8 (cs_WorkerGroups c) \<and> utf8_opt (cs_Owner c) \<and> utf8_opt (cs_Profile c)
     \<and> utf8_opt (cs_Environment c) \<and> (case cs_EnvironmentResolved c of None \<Rightarrow> True | Some e \<Rightarrow> environment_utf8 e)
     \<and> list_all utf8 (cs_Storage c) \<and> list_all storage_utf8 (cs_StorageResolved c)
     \<and> utf8_opt (cs_ServiceAccountResolved c) \<and> utf8 (cs_NamespaceResolved c))"

lemma wf_jopt [simp]:
  "utf8_opt x \<Longrightarrow> wf_json (jopt JStr x)" "wf_json (jopt (\<lambda>n. JNum (f n)) y)"
  by (simp_all add: jopt_def utf8_opt_def split: option.splits)

lemma wf_parts:
  "worker_utf8 g \<Longrightarrow> wf_json (WorkerGroup_json g)"
  "storage_utf8 r \<Longrightarrow> wf_json (ResolvedStorage_json r)"
  "environment_utf8 e \<Longrightarrow> wf_json (ResolvedEnvironment_json e)"
  by (simp_all add: worker_utf8_def WorkerGroup_json_def storage_utf8_def ResolvedStorage_json_def jomit_def
      environment_utf8_def ResolvedEnvironment_json_def)

lemma wf_lists:
  "list_all worker_utf8 gs \<Longrightarrow> list_all wf_json (map WorkerGroup_json gs)"
  "list_all storage_utf8 rs \<Longrightarrow> list_all wf_json (map ResolvedStorage_json rs)"
  "list_all utf8 xs \<Longrightarrow> list_all wf_json (map JStr xs)"
  "(case e of None \<Rightarrow> True | Some v \<Rightarrow> environment_utf8 v) \<Longrightarrow> wf_json (jopt ResolvedEnvironment_json e)"
  by (auto simp: list_all_iff wf_parts jopt_def split: option.splits)

lemma wf_jomit: "utf8 k \<Longrightarrow> wf_json v \<Longrightarrow> list_all (\<lambda>(k, v). utf8 k \<and> wf_json v) (jomit b k v)"
  by (simp add: jomit_def)

lemma wf_spec:
  assumes "spec_utf8 c"
  shows "wf_json (ClusterSpec_MarshalJSON c)"
proof -
  have "utf8 (Engine_String (if cs_Engine c = EngineRaw [] then DefaultEngine else cs_Engine c))"
    using assms by (simp add: spec_utf8_def DefaultEngine_def Engine_String_def)
  then show ?thesis
    using assms
    by (simp add: spec_utf8_def ClusterSpec_MarshalJSON_def resolved_fields_def Let_def wf_lists wf_jomit)
qed


section \<open>Reading a spec back\<close>

definition members :: "json \<Rightarrow> (string \<times> json) list" where
  "members j = (case j of JObj kvs \<Rightarrow> kvs | _ \<Rightarrow> [])"

definition field :: "string \<Rightarrow> json \<Rightarrow> json option" where
  "field k j = map_of (members j) k"

lemma jopt_inject:
  "jopt JStr x = jopt JStr x' \<longleftrightarrow> x = x'"
  "jopt (\<lambda>n. JNum (uint n)) y = jopt (\<lambda>n. JNum (uint n)) y' \<longleftrightarrow> y = y'"
  by (auto simp: jopt_def word_uint_eq_iff split: option.splits)

lemma ResolvedEnvironment_json_inject: "ResolvedEnvironment_json e = ResolvedEnvironment_json e' \<longleftrightarrow> e = e'"
  by (cases e; cases e') (auto simp: ResolvedEnvironment_json_def jopt_inject)

lemma WorkerGroup_json_inject: "WorkerGroup_json g = WorkerGroup_json g' \<longleftrightarrow> g = g'"
  by (cases g; cases g') (auto simp: WorkerGroup_json_def jopt_inject word_uint_eq_iff)

definition engine_text :: "ClusterSpec \<Rightarrow> string" where
  "engine_text c = Engine_String (if cs_Engine c = EngineRaw [] then DefaultEngine else cs_Engine c)"

text \<open>The members outside the worker and storage lists, read back by name.\<close>

lemma spec_fields:
  "field ''name'' (ClusterSpec_MarshalJSON c) = Some (JStr (cs_Name c))"
  "field ''project'' (ClusterSpec_MarshalJSON c) = Some (JStr (cs_Project c))"
  "field ''engine'' (ClusterSpec_MarshalJSON c) = Some (JStr (engine_text c))"
  "field ''ray_version'' (ClusterSpec_MarshalJSON c) = Some (JStr (cs_RayVersion c))"
  "field ''image'' (ClusterSpec_MarshalJSON c) = Some (JStr (cs_Image c))"
  "field ''head_cpu'' (ClusterSpec_MarshalJSON c) = Some (JStr (cs_HeadCpu c))"
  "field ''head_memory'' (ClusterSpec_MarshalJSON c) = Some (JStr (cs_HeadMemory c))"
  "field ''worker_groups'' (ClusterSpec_MarshalJSON c) = Some (JArr (map WorkerGroup_json (cs_WorkerGroups c)))"
  "field ''ttl_seconds'' (ClusterSpec_MarshalJSON c) = Some (jopt (\<lambda>n. JNum (uint n)) (cs_TtlSeconds c))"
  "field ''idle_timeout_secs'' (ClusterSpec_MarshalJSON c) = Some (jopt (\<lambda>n. JNum (uint n)) (cs_IdleTimeoutSecs c))"
  "field ''owner'' (ClusterSpec_MarshalJSON c) = Some (jopt JStr (cs_Owner c))"
  "field ''profile'' (ClusterSpec_MarshalJSON c) = Some (jopt JStr (cs_Profile c))"
  "field ''environment'' (ClusterSpec_MarshalJSON c) = Some (jopt JStr (cs_Environment c))"
  "field ''environment_resolved'' (ClusterSpec_MarshalJSON c) = map_option ResolvedEnvironment_json (cs_EnvironmentResolved c)"
  "field ''storage'' (ClusterSpec_MarshalJSON c) = Some (JArr (map JStr (cs_Storage c)))"
  "field ''storage_resolved'' (ClusterSpec_MarshalJSON c) =
     (if cs_StorageResolved c = [] then None else Some (JArr (map ResolvedStorage_json (cs_StorageResolved c))))"
  "field ''service_account_resolved'' (ClusterSpec_MarshalJSON c) = map_option JStr (cs_ServiceAccountResolved c)"
  "field ''namespace_resolved'' (ClusterSpec_MarshalJSON c) =
     (if cs_NamespaceResolved c = [] then None else Some (JStr (cs_NamespaceResolved c)))"
  by (simp_all add: field_def members_def ClusterSpec_MarshalJSON_def resolved_fields_def jomit_def Let_def
      engine_text_def jopt_def split: option.split)

lemma inj_map_json:
  "map WorkerGroup_json gs = map WorkerGroup_json gs' \<longleftrightarrow> gs = gs'"
  "map JStr xs = map JStr xs' \<longleftrightarrow> xs = xs'"
  "map_option ResolvedEnvironment_json e = map_option ResolvedEnvironment_json e' \<longleftrightarrow> e = e'"
  "map_option JStr y = map_option JStr y' \<longleftrightarrow> y = y'"
  by (auto simp: inj_map_eq_map inj_def WorkerGroup_json_inject ResolvedEnvironment_json_inject
      map_option_case split: option.splits)

lemma spec_text_inject:
  assumes "spec_utf8 a" "spec_utf8 b"
    "json_text (ClusterSpec_MarshalJSON a) = json_text (ClusterSpec_MarshalJSON b)"
  shows "engine_text a = engine_text b
    \<and> map ResolvedStorage_json (cs_StorageResolved a) = map ResolvedStorage_json (cs_StorageResolved b)
    \<and> a\<lparr>cs_Engine := EngineRay, cs_StorageResolved := []\<rparr> = b\<lparr>cs_Engine := EngineRay, cs_StorageResolved := []\<rparr>"
proof -
  have eq: "ClusterSpec_MarshalJSON a = ClusterSpec_MarshalJSON b"
    using assms wf_spec json_text_inject by blast
  note same = arg_cong [OF eq, of "field k" for k]
  show ?thesis
    using same [of "''name''"] same [of "''project''"] same [of "''engine''"] same [of "''ray_version''"]
      same [of "''image''"] same [of "''head_cpu''"] same [of "''head_memory''"] same [of "''worker_groups''"]
      same [of "''ttl_seconds''"] same [of "''idle_timeout_secs''"] same [of "''owner''"] same [of "''profile''"]
      same [of "''environment''"] same [of "''environment_resolved''"] same [of "''storage''"]
      same [of "''storage_resolved''"] same [of "''service_account_resolved''"] same [of "''namespace_resolved''"]
    unfolding spec_fields
    by (cases a; cases b) (simp add: inj_map_json jopt_inject split: if_splits)
qed

end
