(* ===== verification/Audit_Seal.thy ===== *)
theory Audit_Seal
  imports Store Spec_Facts
begin

text \<open>
  What the audit chain seals.  Each row's hash covers the text of the event's JSON form; for events whose
  strings are valid UTF-8 that text determines the event, so a verified trail fixes every field of every
  event.
\<close>

definition required_utf8 :: "AuditRequired \<Rightarrow> bool" where
  "required_utf8 q = (utf8 (aq_Action q) \<and> utf8 (aq_Target q))"

definition event_utf8 :: "AuditEvent \<Rightarrow> bool" where
  "event_utf8 e = (utf8_opt (ae_Subject e) \<and> utf8 (AuditDecision_AsStr (ae_Decision e)) \<and> utf8_opt (ae_Reason e)
     \<and> utf8_opt (ae_Action e) \<and> utf8_opt (ae_Cluster e) \<and> utf8_opt (ae_Method e) \<and> utf8_opt (ae_Path e)
     \<and> (case ae_Required e of None \<Rightarrow> True | Some q \<Rightarrow> required_utf8 q) \<and> list_all utf8 (ae_GrantedRoles e))"

text \<open>The sealed content: every field, the decision by its wire name, where an unset decision is an allow.\<close>

definition decision_text :: "AuditEvent \<Rightarrow> string" where
  "decision_text e = AuditDecision_AsStr (if ae_Decision e = AuditDecisionRaw [] then AuditDecisionAllow else ae_Decision e)"

definition sealed :: "AuditEvent \<Rightarrow> string \<times> AuditEvent" where
  "sealed e = (decision_text e, e\<lparr>ae_Decision := AuditDecisionAllow\<rparr>)"

lemma wf_event:
  assumes "event_utf8 e"
  shows "wf_json (AuditEvent_MarshalJSON e)"
proof -
  have "utf8 (decision_text e)"
    using assms by (simp add: event_utf8_def decision_text_def AuditDecision_AsStr_def)
  moreover have "wf_json (jopt AuditRequired_json (ae_Required e))"
    using assms by (auto simp: event_utf8_def required_utf8_def jopt_def AuditRequired_json_def split: option.splits)
  ultimately show ?thesis
    using assms by (simp add: event_utf8_def decision_text_def AuditEvent_MarshalJSON_def Let_def wf_lists)
qed

lemma jopt_required: "jopt AuditRequired_json q = jopt AuditRequired_json q' \<longleftrightarrow> q = q'"
  by (auto simp: jopt_def AuditRequired_json_def split: option.splits)

lemma canonical_inject:
  assumes "event_utf8 a" "event_utf8 b" "canonical a = canonical b"
  shows "sealed a = sealed b"
proof -
  have "AuditEvent_MarshalJSON a = AuditEvent_MarshalJSON b"
    using assms wf_event json_text_inject by (auto simp: canonical_def)
  then show ?thesis
    by (cases a; cases b)
      (simp add: AuditEvent_MarshalJSON_def sealed_def decision_text_def Let_def jopt_inject jopt_required inj_map_json word_uint_eq_iff)
qed

text \<open>
  C8. Tamper evidence.  If two trails of events with valid UTF-8 strings both verify from the same
  64-character head and end in the same chain hash, they hold the same events with the same hashes, field for
  field and row for row: no row was edited, inserted, deleted or moved.  This holds unless the byte strings
  hashed along the two trails contain a SHA-256 collision or one that hashes to the head itself.
\<close>

theorem audit_chain_tamper_evident:
  assumes "length head = 64"
    and "AuditChainVerification_OK (VerifyAuditChain head rows)"
    and "AuditChainVerification_OK (VerifyAuditChain head rows')"
    and "chain_tip head rows = chain_tip head rows'"
    and "list_all (\<lambda>r. event_utf8 (car_Event r)) (rows @ rows')"
    and "collision_free (chain_inputs head rows \<union> chain_inputs head rows')"
    and "\<forall>x \<in> chain_inputs head rows \<union> chain_inputs head rows'. sha256_hex x \<noteq> head"
  shows "map (\<lambda>r. (sealed (car_Event r), car_ChainHash r)) rows =
         map (\<lambda>r. (sealed (car_Event r), car_ChainHash r)) rows'"
proof -
  have "map (\<lambda>r. (canonical (car_Event r), car_ChainHash r)) rows =
        map (\<lambda>r. (canonical (car_Event r), car_ChainHash r)) rows'"
    using assms(1-4,6,7) unfolding VerifyAuditChain_OK by (rule chain_rigid)
  then show ?thesis using assms(5)
  proof (induction rows arbitrary: rows')
    case (Cons r rows)
    then obtain y ys where "rows' = y # ys" by (cases rows') auto
    with Cons show ?case by (simp add: canonical_inject)
  qed simp
qed

theorem audit_chain_tamper_evident_witness:
  "map (\<lambda>r. (sealed (car_Event r), car_ChainHash r)) [sample_row (replicate 64 (CHR ''z'')) 1] =
   map (\<lambda>r. (sealed (car_Event r), car_ChainHash r)) [sample_row (replicate 64 (CHR ''z'')) 2]"
  by (rule audit_chain_tamper_evident [of "replicate 64 (CHR ''z'')"])
    (simp_all add: VerifyAuditChain_OK sample_row_def collision_free_def sha256_hex_not_z event_utf8_def
      sample_event_def utf8_opt_def AuditDecision_AsStr_def)

end
