(* ===== verification/Effects.thy ===== *)
theory Effects
  imports Bifrost_Prelude
begin

text \<open>
  Stateful fallible code: a program takes a state to an error or a value and the next state.  \<^verbatim>\<open>pbind\<close> is
  sequencing with early return on an error, \<^verbatim>\<open>pwrap\<close> is the \<^verbatim>\<open>if err != nil { return wrap(err) }\<close> idiom,
  \<^verbatim>\<open>pattempt\<close> hands the error to the caller as a value.

  Two ways to reason about programs are provided.  \<^verbatim>\<open>steps R m\<close> says every run of \<^verbatim>\<open>m\<close> relates its start
  to its end by \<^verbatim>\<open>R\<close>; with \<^verbatim>\<open>R\<close> reflexive and transitive it composes along any program, which is how the
  frame properties of the reconcilers are proved.  \<^verbatim>\<open>wp\<close> is the weakest precondition, computed by
  rewriting.
\<close>

type_synonym ('s, 'e, 'a) prog = "'s \<Rightarrow> ('e + 'a) \<times> 's"

definition preturn :: "'a \<Rightarrow> ('s, 'e, 'a) prog" where
  "preturn x s = (Inr x, s)"

definition praise :: "'e \<Rightarrow> ('s, 'e, 'a) prog" where
  "praise e s = (Inl e, s)"

definition pbind :: "('s, 'e, 'a) prog \<Rightarrow> ('a \<Rightarrow> ('s, 'e, 'b) prog) \<Rightarrow> ('s, 'e, 'b) prog" where
  "pbind m f s = (case m s of (Inl e, s') \<Rightarrow> (Inl e, s') | (Inr x, s') \<Rightarrow> f x s')"

definition pwrap :: "('e \<Rightarrow> 'f) \<Rightarrow> ('s, 'e, 'a) prog \<Rightarrow> ('s, 'f, 'a) prog" where
  "pwrap w m s = (case m s of (Inl e, s') \<Rightarrow> (Inl (w e), s') | (Inr x, s') \<Rightarrow> (Inr x, s'))"

definition pattempt :: "('s, 'e, 'a) prog \<Rightarrow> ('s, 'f, 'e + 'a) prog" where
  "pattempt m s = (case m s of (r, s') \<Rightarrow> (Inr r, s'))"

definition pwhen :: "bool \<Rightarrow> ('s, 'e, unit) prog \<Rightarrow> ('s, 'e, unit) prog" where
  "pwhen b m = (if b then m else preturn ())"

definition pmodify :: "('s \<Rightarrow> 's) \<Rightarrow> ('s, 'e, unit) prog" where
  "pmodify f s = (Inr (), f s)"

definition pget :: "('s \<Rightarrow> 'a) \<Rightarrow> ('s, 'e, 'a) prog" where
  "pget f s = (Inr (f s), s)"

fun peach :: "('x \<Rightarrow> ('s, 'e, 'a) prog) \<Rightarrow> 'x list \<Rightarrow> ('s, 'e, 'a list) prog" where
  "peach f [] = preturn []"
| "peach f (x # xs) = pbind (f x) (\<lambda>y. pbind (peach f xs) (\<lambda>ys. preturn (y # ys)))"

definition pzoom :: "('s \<Rightarrow> 't) \<Rightarrow> ('t \<Rightarrow> 's \<Rightarrow> 's) \<Rightarrow> ('t, 'e, 'a) prog \<Rightarrow> ('s, 'e, 'a) prog" where
  "pzoom get put m s = (case m (get s) of (r, t) \<Rightarrow> (r, put t s))"


section \<open>Equations\<close>

named_theorems prog_simps \<open>running a program on a state\<close>

lemma prog_run [prog_simps]:
  "preturn x s = (Inr x, s)"
  "praise e s = (Inl e, s)"
  "pmodify g s = (Inr (), g s)"
  "pget h s = (Inr (h s), s)"
  by (simp_all add: preturn_def praise_def pmodify_def pget_def)

lemma pbind_run [prog_simps]:
  "m s = (Inr x, s') \<Longrightarrow> pbind m f s = f x s'"
  "m s = (Inl e, s') \<Longrightarrow> pbind m f s = (Inl e, s')"
  by (simp_all add: pbind_def)

lemma pbind_unfold: "pbind m f s = (case m s of (Inl e, s') \<Rightarrow> (Inl e, s') | (Inr x, s') \<Rightarrow> f x s')"
  by (simp add: pbind_def)

lemma pbind_laws:
  "pbind (preturn x) f = f x"
  "pbind m preturn = m"
  "pbind (pbind m f) g = pbind m (\<lambda>x. pbind (f x) g)"
  "pbind (praise e) f = praise e"
  by (auto simp: fun_eq_iff pbind_def preturn_def praise_def split: prod.split sum.split)


section \<open>Frames\<close>

definition steps :: "('s \<Rightarrow> 's \<Rightarrow> bool) \<Rightarrow> ('s, 'e, 'a) prog \<Rightarrow> bool" where
  "steps R m = (\<forall>s. R s (snd (m s)))"

locale frame =
  fixes R :: "'s \<Rightarrow> 's \<Rightarrow> bool"
  assumes frame_refl: "R s s"
    and frame_trans: "R s t \<Longrightarrow> R t u \<Longrightarrow> R s u"
begin

lemma steps_return [intro!, simp]: "steps R (preturn x)"
  by (simp add: steps_def preturn_def frame_refl)

lemma steps_raise [intro!, simp]: "steps R (praise e)"
  by (simp add: steps_def praise_def frame_refl)

lemma steps_get [intro!, simp]: "steps R (pget h)"
  by (simp add: steps_def pget_def frame_refl)

lemma steps_bind [intro!]: "steps R m \<Longrightarrow> (\<And>x. steps R (f x)) \<Longrightarrow> steps R (pbind m f)"
  unfolding steps_def pbind_def
  by (auto split: prod.split sum.split) (metis frame_trans snd_conv)+

lemma steps_wrap [intro!]: "steps R m \<Longrightarrow> steps R (pwrap w m)"
  unfolding steps_def pwrap_def by (auto split: prod.split sum.split) (metis snd_conv)+

lemma steps_attempt [intro!]: "steps R m \<Longrightarrow> steps R (pattempt m)"
  unfolding steps_def pattempt_def by (auto split: prod.split) (metis snd_conv)

lemma steps_when [intro!]: "steps R m \<Longrightarrow> steps R (pwhen b m)"
  by (simp add: pwhen_def)

lemma steps_each: "(\<And>x. x \<in> set xs \<Longrightarrow> steps R (f x)) \<Longrightarrow> steps R (peach f xs)"
  by (induction xs) auto

lemma steps_if [intro!]: "(b \<Longrightarrow> steps R m) \<Longrightarrow> (\<not> b \<Longrightarrow> steps R n) \<Longrightarrow> steps R (if b then m else n)"
  by simp

lemma steps_option [intro!]:
  "(x = None \<Longrightarrow> steps R m) \<Longrightarrow> (\<And>y. x = Some y \<Longrightarrow> steps R (f y)) \<Longrightarrow>
   steps R (case x of None \<Rightarrow> m | Some y \<Rightarrow> f y)"
  by (cases x) auto

lemma steps_sum [intro!]:
  "(\<And>e. x = Inl e \<Longrightarrow> steps R (f e)) \<Longrightarrow> (\<And>y. x = Inr y \<Longrightarrow> steps R (g y)) \<Longrightarrow>
   steps R (case x of Inl e \<Rightarrow> f e | Inr y \<Rightarrow> g y)"
  by (cases x) auto

lemma steps_modify: "(\<And>s. R s (g s)) \<Longrightarrow> steps R (pmodify g)"
  by (simp add: steps_def pmodify_def)

lemmas steps_intros = steps_return steps_raise steps_get steps_bind steps_wrap steps_attempt steps_when
  steps_if steps_option steps_sum

end

text \<open>Keeping a projection of the state fixed is a frame, whatever the projection.\<close>

definition same_on :: "('s \<Rightarrow> 'p) \<Rightarrow> 's \<Rightarrow> 's \<Rightarrow> bool" where
  "same_on p s t = (p t = p s)"

interpretation same: frame "same_on p"
  by unfold_locales (simp_all add: same_on_def)

text \<open>Extending a log by entries that satisfy a predicate is a frame.\<close>

definition log_grows :: "('s \<Rightarrow> 'c list) \<Rightarrow> ('c \<Rightarrow> bool) \<Rightarrow> 's \<Rightarrow> 's \<Rightarrow> bool" where
  "log_grows log Q s t = (\<exists>cs. log t = log s @ cs \<and> list_all Q cs)"

interpretation grows: frame "log_grows log Q"
proof
  show "log_grows log Q s s" for s by (simp add: log_grows_def)
  show "log_grows log Q s t \<Longrightarrow> log_grows log Q t u \<Longrightarrow> log_grows log Q s u" for s t u
    unfolding log_grows_def by (metis append_assoc list_all_append)
qed


section \<open>Weakest preconditions\<close>

definition wp :: "('s, 'e, 'a) prog \<Rightarrow> ('a \<Rightarrow> 's \<Rightarrow> bool) \<Rightarrow> ('e \<Rightarrow> 's \<Rightarrow> bool) \<Rightarrow> 's \<Rightarrow> bool" where
  "wp m Q E s = (case m s of (Inl e, s') \<Rightarrow> E e s' | (Inr x, s') \<Rightarrow> Q x s')"

named_theorems wp_simps \<open>weakest preconditions\<close>

lemma wp_basic [wp_simps]:
  "wp (preturn x) Q E = Q x"
  "wp (praise e) Q1 E = E e"
  "wp (pmodify g) Q2 E = (\<lambda>s. Q2 () (g s))"
  "wp (pget h) Q3 E = (\<lambda>s. Q3 (h s) s)"
  by (simp_all add: fun_eq_iff wp_def prog_simps)

lemma wp_bind [wp_simps]: "wp (pbind m f) Q E s = wp m (\<lambda>x. wp (f x) Q E) E s"
  by (simp add: wp_def pbind_def split: prod.split sum.split)

lemma wp_wrap [wp_simps]: "wp (pwrap w m) Q E s = wp m Q (\<lambda>e. E (w e)) s"
  by (simp add: wp_def pwrap_def split: prod.split sum.split)

lemma wp_attempt [wp_simps]: "wp (pattempt m) Q E s = wp m (\<lambda>x. Q (Inr x)) (\<lambda>e. Q (Inl e)) s"
  by (simp add: wp_def pattempt_def split: prod.split sum.split)

lemma wp_cases [wp_simps]:
  "wp (if b then m else n) Q E s = (if b then wp m Q E s else wp n Q E s)"
  "wp (pwhen b k) Q' E s = (if b then wp k Q' E s else Q' () s)"
  by (simp_all add: pwhen_def wp_basic)

lemma wp_option [wp_simps]:
  "wp (case x of None \<Rightarrow> m | Some y \<Rightarrow> f y) Q E s =
     (case x of None \<Rightarrow> wp m Q E s | Some y \<Rightarrow> wp (f y) Q E s)"
  by (simp split: option.split)

lemma wp_sum [wp_simps]:
  "wp (case x of Inl e \<Rightarrow> f e | Inr y \<Rightarrow> g y) Q E s =
     (case x of Inl e \<Rightarrow> wp (f e) Q E s | Inr y \<Rightarrow> wp (g y) Q E s)"
  by (simp split: sum.split)

lemma wp_mono:
  "wp m Q E s \<Longrightarrow> (\<And>x t. Q x t \<Longrightarrow> Q' x t) \<Longrightarrow> (\<And>e t. E e t \<Longrightarrow> E' e t) \<Longrightarrow> wp m Q' E' s"
  by (auto simp: wp_def split: prod.splits sum.splits)

lemma wp_run: "wp m Q E s \<Longrightarrow> m s = (Inr x, t) \<Longrightarrow> Q x t"
  by (simp add: wp_def)

lemma wp_err: "wp m Q E s \<Longrightarrow> m s = (Inl e, t) \<Longrightarrow> E e t"
  by (simp add: wp_def)

end
