(* ===== verification/Provisioner.thy ===== *)
theory Provisioner
  imports Store Effects
begin

text \<open>
  The provisioner seam, after \<^verbatim>\<open>internal/provision/provisioner.go\<close>, with the queue naming of
  \<^verbatim>\<open>kueue.go\<close>, the owner label of \<^verbatim>\<open>owner_label.go\<close> and the drift fingerprint of \<^verbatim>\<open>kuberay.go\<close>.
  The backends behind the seam talk to Kubernetes, so a provisioner is a record of programs over a world of
  any type; Kubernetes' own quantity parser is an argument (\<^verbatim>\<open>quantity\<close>: the canonical text of a quantity
  string, or none when it does not parse).

  That an owner label is always a label Kubernetes accepts is proved in \<^verbatim>\<open>Owner_Label\<close>.
\<close>


section \<open>Errors and observations\<close>

datatype ProvisionError = ProvisionErrNotFound ClusterId | ProvisionErrBackend string

definition isProvisionNotFound :: "ProvisionError \<Rightarrow> bool" where
  "isProvisionNotFound e = (case e of ProvisionErrNotFound _ \<Rightarrow> True | ProvisionErrBackend _ \<Rightarrow> False)"

record ObservedCluster =
  oc_ID :: ClusterId
  oc_State :: ClusterState
  oc_ObservedGeneration :: "u64 option"
  oc_SpecFingerprint :: "string option"
  oc_ApiBaseUrl :: "string option"

record ApplyResponse =
  ap_Generation :: u64
  ap_ApiBaseUrl :: "string option"

definition ApplyResponse_json :: "ApplyResponse \<Rightarrow> json" where
  "ApplyResponse_json r = JObj [(''generation'', JNum (uint (ap_Generation r))),
     (''api_base_url'', jopt JStr (ap_ApiBaseUrl r))]"

record ObservedService =
  os_Name :: string
  os_State :: ClusterState
  os_Url :: "string option"
  os_Project :: string
  os_Generation :: "u64 option"

record ObservedJob =
  oj_ID :: ClusterId
  oj_JobStatus :: string
  oj_DeploymentStatus :: string
  oj_ClusterName :: "string option"
  oj_DashboardURL :: "string option"
  oj_Message :: "string option"
  oj_StartTime :: "u64 option"
  oj_EndTime :: "u64 option"

record PoolObservation =
  po_AdmittedWorkloads :: u32
  po_ReservingWorkloads :: u32
  po_PendingWorkloads :: u32
  po_FlavorsUsage :: "(string, (string, string) gomap) gomap"
  po_QueuesUsage :: "(string, (string, string) gomap) gomap"

definition json_string_map :: "(string, string) gomap \<Rightarrow> json" where
  "json_string_map m = JObj (map (\<lambda>(k, v). (k, JStr v)) (sort_key fst m))"

definition json_usage_map :: "(string, (string, string) gomap) gomap \<Rightarrow> json" where
  "json_usage_map m = JObj (map (\<lambda>(k, v). (k, json_string_map v)) (sort_key fst m))"

definition PoolObservation_MarshalJSON :: "PoolObservation \<Rightarrow> json" where
  "PoolObservation_MarshalJSON p = JObj
     [(''admitted_workloads'', JNum (uint (po_AdmittedWorkloads p))),
      (''reserving_workloads'', JNum (uint (po_ReservingWorkloads p))),
      (''pending_workloads'', JNum (uint (po_PendingWorkloads p))),
      (''flavors_usage'', json_usage_map (po_FlavorsUsage p)),
      (''queues_usage'', json_usage_map (po_QueuesUsage p))]"


section \<open>Queues and owner labels\<close>

record QueueAssignment =
  qa_QueueName :: string
  qa_Elastic :: bool

definition LocalQueueName :: "string \<Rightarrow> PoolPurpose \<Rightarrow> string" where
  "LocalQueueName project purpose =
     (if PoolPurpose_OrDefault purpose = PoolPurposeServing then project @ ''-serving'' else project)"

definition owner_rune :: "nat \<Rightarrow> char" where
  "owner_rune r =
     (if 97 \<le> r \<and> r \<le> 122 \<or> 48 \<le> r \<and> r \<le> 57 then char_of r
      else if 65 \<le> r \<and> r \<le> 90 then char_of (r + 32)
      else CHR ''-'')"

definition trim_right :: "char \<Rightarrow> string \<Rightarrow> string" where
  "trim_right c s = rev (dropWhile (\<lambda>x. x = c) (rev s))"

definition trim :: "char \<Rightarrow> string \<Rightarrow> string" where
  "trim c s = trim_right c (dropWhile (\<lambda>x. x = c) s)"

definition ownerLabelValue :: "string \<Rightarrow> string" where
  "ownerLabelValue owner =
     (let mapped = trim (CHR ''-'') (map owner_rune (runes owner)) in
      if mapped = owner \<and> length owner \<le> 63 then owner
      else
        let suffix = take 16 (sha256_hex owner);
            maxStem = 63 - 17;
            stem = (if maxStem < length mapped then trim_right (CHR ''-'') (take maxStem mapped) else mapped);
            stem' = (if stem = [] then ''owner'' else stem)
        in stem' @ ''-'' @ suffix)"


section \<open>The owned-field fingerprint\<close>

record fingerprintWorker =
  fw_Name :: string
  fw_Cpu :: string
  fw_Memory :: string
  fw_Gpu :: "string option"
  fw_Min :: u32
  fw_Max :: u32

record fingerprintStorage =
  fs_Secret :: string
  fs_Claim :: string
  fs_Mode :: string
  fs_MountPath :: "string option"

record fingerprintSpec =
  fp_RayVersion :: string
  fp_Image :: string
  fp_HeadCpu :: string
  fp_HeadMemory :: string
  fp_Workers :: "fingerprintWorker list"
  fp_Storage :: "fingerprintStorage list"
  fp_ServiceAccount :: string

definition derefString :: "string option \<Rightarrow> string" where
  "derefString s = (case s of None \<Rightarrow> [] | Some x \<Rightarrow> x)"

definition json_omit_empty :: "string \<Rightarrow> string \<Rightarrow> (string \<times> json) list" where
  "json_omit_empty k s = (if s = [] then [] else [(k, JStr s)])"

definition fingerprintWorker_json :: "fingerprintWorker \<Rightarrow> json" where
  "fingerprintWorker_json w = JObj [(''name'', JStr (fw_Name w)), (''cpu'', JStr (fw_Cpu w)),
     (''memory'', JStr (fw_Memory w)), (''gpu'', jopt JStr (fw_Gpu w)),
     (''min'', JNum (uint (fw_Min w))), (''max'', JNum (uint (fw_Max w)))]"

definition fingerprintStorage_json :: "fingerprintStorage \<Rightarrow> json" where
  "fingerprintStorage_json f = JObj (json_omit_empty ''secret'' (fs_Secret f)
     @ json_omit_empty ''claim'' (fs_Claim f)
     @ [(''mode'', JStr (fs_Mode f)), (''mount_path'', jopt JStr (fs_MountPath f))])"

definition fingerprintSpec_json :: "fingerprintSpec \<Rightarrow> json" where
  "fingerprintSpec_json f = JObj
     ([(''ray_version'', JStr (fp_RayVersion f)), (''image'', JStr (fp_Image f)),
       (''head_cpu'', JStr (fp_HeadCpu f)), (''head_memory'', JStr (fp_HeadMemory f)),
       (''workers'', JArr (map fingerprintWorker_json (fp_Workers f)))]
      @ (if fp_Storage f = [] then []
         else [(''storage'', JArr (map fingerprintStorage_json (fp_Storage f)))])
      @ json_omit_empty ''service_account'' (fp_ServiceAccount f))"

definition sortStorageProjection :: "fingerprintStorage list \<Rightarrow> fingerprintStorage list" where
  "sortStorageProjection xs =
     sort_key (\<lambda>f. (fs_Secret f, fs_Claim f, fs_Mode f, derefString (fs_MountPath f))) xs"

definition storage_projection_entry :: "ResolvedStorage \<Rightarrow> fingerprintStorage option" where
  "storage_projection_entry st =
     (let f = \<lparr>fs_Secret = (if StorageSource_OrDefault (rst_Source st) = StorageSourcePersistentVolumeClaim
                            then [] else rst_SecretName st),
               fs_Claim = (if StorageSource_OrDefault (rst_Source st) = StorageSourcePersistentVolumeClaim
                           then rst_ClaimName st else []),
               fs_Mode = StorageMode_String (rst_Mode st), fs_MountPath = None\<rparr>
      in if rst_Mode st = StorageModeFile
         then (case rst_MountPath st of None \<Rightarrow> None | Some mp \<Rightarrow> Some (f\<lparr>fs_MountPath := Some mp\<rparr>))
         else Some f)"

definition storageProjection :: "ResolvedStorage list \<Rightarrow> fingerprintStorage list" where
  "storageProjection storage = sortStorageProjection (List.map_filter storage_projection_entry storage)"

type_synonym quantity_parser = "string \<Rightarrow> string option"

definition canonicalQuantity :: "quantity_parser \<Rightarrow> string \<Rightarrow> string" where
  "canonicalQuantity quantity s = (case quantity s of None \<Rightarrow> s | Some q \<Rightarrow> q)"

definition canonicalQuantityPtr :: "quantity_parser \<Rightarrow> string option \<Rightarrow> string option" where
  "canonicalQuantityPtr quantity s = map_option (canonicalQuantity quantity) s"

definition owned_projection :: "quantity_parser \<Rightarrow> ClusterSpec \<Rightarrow> fingerprintSpec" where
  "owned_projection quantity spec =
     \<lparr>fp_RayVersion = cs_RayVersion spec,
      fp_Image = cs_Image spec,
      fp_HeadCpu = canonicalQuantity quantity (cs_HeadCpu spec),
      fp_HeadMemory = canonicalQuantity quantity (cs_HeadMemory spec),
      fp_Workers = map (\<lambda>g. \<lparr>fw_Name = wg_Name g, fw_Cpu = canonicalQuantity quantity (wg_Cpu g),
         fw_Memory = canonicalQuantity quantity (wg_Memory g),
         fw_Gpu = canonicalQuantityPtr quantity (wg_Gpu g),
         fw_Min = wg_MinReplicas g, fw_Max = wg_MaxReplicas g\<rparr>) (cs_WorkerGroups spec),
      fp_Storage = storageProjection (cs_StorageResolved spec),
      fp_ServiceAccount = derefString (cs_ServiceAccountResolved spec)\<rparr>"

definition OwnedSpecFingerprint :: "quantity_parser \<Rightarrow> ClusterSpec \<Rightarrow> string" where
  "OwnedSpecFingerprint quantity spec = json_text (fingerprintSpec_json (owned_projection quantity spec))"


section \<open>The provisioner seam\<close>

record 'w Provisioner =
  pv_Apply :: "ClusterId \<Rightarrow> ClusterSpec \<Rightarrow> u64 \<Rightarrow> string \<Rightarrow> QueueAssignment option \<Rightarrow>
     ('w, ProvisionError, ApplyResponse) prog"
  pv_EnsureNamespacePosture :: "('w, ProvisionError, unit) prog"
  pv_Terminate :: "ClusterId \<Rightarrow> ('w, ProvisionError, unit) prog"
  pv_ReapNetworkPolicies :: "ClusterId \<Rightarrow> ('w, ProvisionError, unit) prog"
  pv_Suspend :: "ClusterId \<Rightarrow> ('w, ProvisionError, unit) prog"
  pv_Observe :: "ClusterId \<Rightarrow> ('w, ProvisionError, ObservedCluster) prog"

record 'w PoolProvisioner =
  pp_ApplyPool :: "PoolSpec \<Rightarrow> AllocationSpec list \<Rightarrow> ('w, ProvisionError, unit) prog"
  pp_DeletePool :: "string \<Rightarrow> ('w, ProvisionError, unit) prog"
  pp_ObservePool :: "string \<Rightarrow> ('w, ProvisionError, PoolObservation option) prog"
  pp_KueuePresent :: "'w \<Rightarrow> bool \<times> 'w"

record 'w ServiceProvisioner =
  sp_Deploy :: "string \<Rightarrow> ServiceSpec \<Rightarrow> u64 \<Rightarrow> QueueAssignment option \<Rightarrow> ('w, ProvisionError, unit) prog"
  sp_Get :: "string \<Rightarrow> ('w, ProvisionError, ObservedService option) prog"
  sp_Delete :: "string \<Rightarrow> ('w, ProvisionError, unit) prog"

record 'w JobProvisioner =
  jp_ApplyJob :: "ClusterId \<Rightarrow> RayJobSpec \<Rightarrow> u64 \<Rightarrow> QueueAssignment option \<Rightarrow> ('w, ProvisionError, unit) prog"
  jp_ObserveJob :: "ClusterId \<Rightarrow> ('w, ProvisionError, ObservedJob) prog"
  jp_DeleteJob :: "ClusterId \<Rightarrow> ('w, ProvisionError, unit) prog"

end
