(* ===== verification/Core_Registry.thy ===== *)
theory Core_Registry
  imports Core_Cluster Json_Text
begin

text \<open>
  The gateway's routing table, after \<^verbatim>\<open>internal/core/registry.go\<close>: endpoints, the registry with its
  static and dynamic entries, registration, lookup by host and by id, secret resolution and the validation
  of untrusted URLs.  \<^verbatim>\<open>net.ParseIP\<close> of the Go library is modelled in full, as is rune-wise string
  comparison; the Unicode case tables behind \<^verbatim>\<open>strings.EqualFold\<close> and \<^verbatim>\<open>strings.ToLower\<close> are data of the Go
  distribution and appear as the arguments \<^verbatim>\<open>fold_of\<close> (a representative of a rune's case-folding class)
  and \<^verbatim>\<open>lower\<close>.

  What the table promises is proved in \<^verbatim>\<open>Registry_Props\<close>.
\<close>


section \<open>Strings\<close>

definition EqualFold :: "(nat \<Rightarrow> nat) \<Rightarrow> string \<Rightarrow> string \<Rightarrow> bool" where
  "EqualFold fold_of s t = (map fold_of (runes s) = map fold_of (runes t))"

definition ToLower_runes :: "(nat \<Rightarrow> nat) \<Rightarrow> string \<Rightarrow> nat list" where
  "ToLower_runes lower s = map lower (runes s)"

definition split_on :: "char \<Rightarrow> string \<Rightarrow> string list" where
  "split_on c s = foldr (\<lambda>x acc. if x = c then [] # acc else (x # hd acc) # tl acc) s [[]]"

definition cut_at :: "(char \<Rightarrow> bool) \<Rightarrow> string \<Rightarrow> string" where
  "cut_at p s = takeWhile (\<lambda>c. \<not> p c) s"

definition isAllDigits :: "string \<Rightarrow> bool" where
  "isAllDigits s = list_all is_digit s"

definition unicode_space :: "nat \<Rightarrow> bool" where
  "unicode_space r = (9 \<le> r \<and> r \<le> 13 \<or> r = 32 \<or> r = 0x85 \<or> r = 0xA0 \<or> r = 0x1680
     \<or> 0x2000 \<le> r \<and> r \<le> 0x200A \<or> r = 0x2028 \<or> r = 0x2029 \<or> r = 0x202F \<or> r = 0x205F \<or> r = 0x3000)"


section \<open>Literal addresses\<close>

text \<open>
  \<^verbatim>\<open>net.ParseIP\<close>: dotted decimal with four fields and no leading zeros, or IPv6 groups with at most one
  ellipsis and an optional dotted-decimal tail; zones are refused.  The result is the 16-byte form, an IPv4
  address being mapped below \<^verbatim>\<open>::ffff\<close>.
\<close>

definition ipv4_field :: "string \<Rightarrow> nat option" where
  "ipv4_field p =
     (if p = [] \<or> \<not> isAllDigits p \<or> (1 < length p \<and> hd p = CHR ''0'') then None
      else let v = foldl (\<lambda>a c. a * 10 + (of_char c - 48)) 0 p in if 255 < v then None else Some v)"

definition parseIPv4 :: "string \<Rightarrow> nat list option" where
  "parseIPv4 s = (let fs = map ipv4_field (split_on CHR ''.'' s) in
     if length fs = 4 \<and> list_all (\<lambda>f. f \<noteq> None) fs then Some (map the fs) else None)"

definition hex_value :: "char \<Rightarrow> nat option" where
  "hex_value c =
     (if is_digit c then Some (of_char c - 48)
      else if CHR ''a'' \<le> c \<and> c \<le> CHR ''f'' then Some (of_char c - 87)
      else if CHR ''A'' \<le> c \<and> c \<le> CHR ''F'' then Some (of_char c - 55)
      else None)"

text \<open>
  One state per group read so far: \<open>acc\<close> holds the bytes, \<open>ell\<close> the offset of the ellipsis.  A group is at
  most four hexadecimal digits; a dot right after its digits switches to a dotted-decimal tail.
\<close>

definition hex_run :: "string \<Rightarrow> string" where
  "hex_run s = takeWhile (\<lambda>c. hex_value c \<noteq> None) s"

function ipv6_groups :: "string \<Rightarrow> nat list \<Rightarrow> nat option \<Rightarrow> (nat list \<times> nat option \<times> string) option" where
  "ipv6_groups s acc ell =
     (if 16 \<le> length acc then Some (acc, ell, s)
      else
        let ds = hex_run s; rest = drop (length ds) s in
        if ds = [] \<or> 4 < length ds then None
        else if rest \<noteq> [] \<and> hd rest = CHR ''.'' then
          (if ell = None \<and> length acc \<noteq> 12 \<or> 16 < length acc + 4 then None
           else case parseIPv4 s of None \<Rightarrow> None | Some v4 \<Rightarrow> Some (acc @ v4, ell, []))
        else
          let v = foldl (\<lambda>a c. a * 16 + the (hex_value c)) 0 ds; acc' = acc @ [v div 256, v mod 256] in
          (case rest of
             [] \<Rightarrow> Some (acc', ell, [])
           | c # rest' \<Rightarrow>
               if c \<noteq> CHR '':'' \<or> rest' = [] then None
               else if hd rest' = CHR '':'' then
                 (if ell \<noteq> None then None
                  else if tl rest' = [] then Some (acc', Some (length acc'), [])
                  else ipv6_groups (tl rest') acc' (Some (length acc')))
               else ipv6_groups rest' acc' ell))"
  by pat_completeness auto
termination
  by (relation "measure (\<lambda>(s, acc, ell). 16 - length acc)") auto

declare ipv6_groups.simps [simp del]

definition ipv6_expand :: "(nat list \<times> nat option \<times> string) option \<Rightarrow> nat list option" where
  "ipv6_expand r = (case r of
      None \<Rightarrow> None
    | Some (acc, ell, rest) \<Rightarrow>
        if rest \<noteq> [] then None
        else if length acc < 16 then
          (case ell of None \<Rightarrow> None
           | Some e \<Rightarrow> Some (take e acc @ replicate (16 - length acc) 0 @ drop e acc))
        else if ell \<noteq> None then None else Some acc)"

definition parseIPv6 :: "string \<Rightarrow> nat list option" where
  "parseIPv6 s =
     (if CHR ''%'' \<in> set s then None
      else if HasPrefix s ''::'' then
        (if drop 2 s = [] then Some (replicate 16 0) else ipv6_expand (ipv6_groups (drop 2 s) [] (Some 0)))
      else ipv6_expand (ipv6_groups s [] None))"

definition v4_prefix :: "nat list" where
  "v4_prefix = replicate 10 0 @ [255, 255]"

definition ParseIP :: "string \<Rightarrow> nat list option" where
  "ParseIP s =
     (case find (\<lambda>c. c = CHR ''.'' \<or> c = CHR '':'' \<or> c = CHR ''%'') s of
        None \<Rightarrow> None
      | Some c \<Rightarrow> if c = CHR ''.'' then map_option (\<lambda>v4. v4_prefix @ v4) (parseIPv4 s)
                  else if c = CHR '':'' then parseIPv6 s else None)"

definition To4 :: "nat list \<Rightarrow> nat list option" where
  "To4 ip = (if take 12 ip = v4_prefix then Some (drop 12 ip) else None)"

definition IsLoopback :: "nat list \<Rightarrow> bool" where
  "IsLoopback ip = (case To4 ip of Some v4 \<Rightarrow> v4 ! 0 = 127 | None \<Rightarrow> ip = replicate 15 0 @ [1])"

definition IsUnspecified :: "nat list \<Rightarrow> bool" where
  "IsUnspecified ip = (ip = v4_prefix @ replicate 4 0 \<or> ip = replicate 16 0)"

definition isDeniedSouthboundIP :: "nat list \<Rightarrow> bool" where
  "isDeniedSouthboundIP ip = (case To4 ip of
      Some v4 \<Rightarrow> if v4 ! 0 = 169 \<and> v4 ! 1 = 254 then True
                 else if v4 ! 0 = 100 \<and> 64 \<le> v4 ! 1 \<and> v4 ! 1 < 128 then True else False
    | None \<Rightarrow> ip ! 0 = 0xfe \<and> ip ! 1 div 64 = 2)"

definition isPrivateSouthboundIP :: "nat list \<Rightarrow> bool" where
  "isPrivateSouthboundIP ip =
     (if IsLoopback ip \<or> IsUnspecified ip then True
      else case To4 ip of
          Some v4 \<Rightarrow> v4 ! 0 = 10 \<or> (v4 ! 0 = 172 \<and> 16 \<le> v4 ! 1 \<and> v4 ! 1 < 32)
             \<or> (v4 ! 0 = 192 \<and> v4 ! 1 = 168)
        | None \<Rightarrow> ip ! 0 div 2 = 0x7e)"


section \<open>URL shape\<close>

definition authorityHost :: "string \<Rightarrow> string" where
  "authorityHost authority =
     (let host = (if HasPrefix authority ''['' then cut_at (\<lambda>c. c = CHR '']'') (drop 1 authority)
                  else cut_at (\<lambda>c. c = CHR '':'') authority)
      in cut_at (\<lambda>c. c = CHR ''%'') host)"

definition stripPort :: "string \<Rightarrow> string" where
  "stripPort host =
     (if HasPrefix host ''['' then cut_at (\<lambda>c. c = CHR '']'') (drop 1 host)
      else if length (filter (\<lambda>c. c = CHR '':'') host) = 1 then
        let h = cut_at (\<lambda>c. c = CHR '':'') host; port = drop (Suc (length h)) host in
        if port \<noteq> [] \<and> isAllDigits port then h else host
      else host)"

definition isInetAtonPart :: "string \<Rightarrow> bool" where
  "isInetAtonPart p =
     (if p = [] then False
      else if HasPrefix p ''0x'' \<or> HasPrefix p ''0X'' then
        drop 2 p \<noteq> [] \<and> list_all (\<lambda>c. hex_value c \<noteq> None) (drop 2 p)
      else if 1 < length p \<and> hd p = CHR ''0'' then
        list_all (\<lambda>c. CHR ''0'' \<le> c \<and> c \<le> CHR ''7'') (tl p)
      else isAllDigits p)"

definition isInetAtonShapedHost :: "string \<Rightarrow> bool" where
  "isInetAtonShapedHost host =
     (let parts = split_on CHR ''.'' host in
      if 4 < length parts then False else list_all isInetAtonPart parts)"

definition url_rest :: "string \<Rightarrow> string" where
  "url_rest rawurl = (if HasPrefix rawurl ''https://'' then drop 8 rawurl else drop 7 rawurl)"

definition urlShapeError :: "string \<Rightarrow> string + string" where
  "urlShapeError rawurl =
     (if \<not> HasPrefix rawurl ''https://'' \<and> \<not> HasPrefix rawurl ''http://''
      then Inl ''scheme must be http or https''
      else
        let authority = cut_at (\<lambda>c. c = CHR ''/'' \<or> c = CHR ''?'' \<or> c = CHR ''#'') (url_rest rawurl);
            host = authorityHost authority;
            trimmed = rev (dropWhile (\<lambda>c. c = CHR ''.'') (rev host))
        in
        if authority = [] then Inl ''missing host''
        else if CHR ''@'' \<in> set authority then Inl ''userinfo not allowed''
        else if CHR ''#'' \<in> set rawurl then Inl ''fragment not allowed''
        else if host = [] then Inl ''missing host''
        else if ParseIP host = None \<and> trimmed \<noteq> host \<and> ParseIP trimmed \<noteq> None
        then Inl ''trailing-dot FQDN form of a literal IP is not a cluster endpoint''
        else if ParseIP host = None \<and> isInetAtonShapedHost trimmed
        then Inl ''host is an inet_aton-style numeric form (e.g. 2130706433, 0x7f000001, 127.1), not a DNS name''
        else Inr authority)"

definition hasInvalidHostnameChar :: "string \<Rightarrow> bool" where
  "hasInvalidHostnameChar h = list_ex (\<lambda>r. unicode_space r \<or> r = 47 \<or> r = 64 \<or> r = 35) (runes h)"


section \<open>The registry\<close>

record ClusterEndpoint =
  ep_Id :: string
  ep_Hostname :: string
  ep_ApiBaseUrl :: string
  ep_AuthToken :: "string option"
  ep_AuthTokenEnv :: "string option"
  ep_Project :: string
  ep_Target :: string
  ep_Source :: string

definition RegistryTargetJobs :: string where "RegistryTargetJobs = ''jobs''"
definition RegistryTargetServe :: string where "RegistryTargetServe = ''serve''"
definition RegistrySourceStatic :: string where "RegistrySourceStatic = ''static''"
definition RegistrySourceDynamic :: string where "RegistrySourceDynamic = ''dynamic''"

definition jomit_str :: "string \<Rightarrow> string \<Rightarrow> (string \<times> json) list" where
  "jomit_str k s = (if s = [] then [] else [(k, JStr s)])"

definition ClusterEndpoint_MarshalJSON :: "ClusterEndpoint \<Rightarrow> json" where
  "ClusterEndpoint_MarshalJSON c = (let a = c\<lparr>ep_AuthToken := None\<rparr> in JObj
     ([(''id'', JStr (ep_Id a)), (''hostname'', JStr (ep_Hostname a)), (''api_base_url'', JStr (ep_ApiBaseUrl a))]
      @ (case ep_AuthToken a of None \<Rightarrow> [] | Some t \<Rightarrow> [(''auth_token'', JStr t)])
      @ (case ep_AuthTokenEnv a of None \<Rightarrow> [] | Some v \<Rightarrow> [(''auth_token_env'', JStr v)])
      @ jomit_str ''project'' (ep_Project a) @ jomit_str ''target'' (ep_Target a)
      @ jomit_str ''source'' (ep_Source a)))"

record ClusterRegistry =
  cr_Clusters :: "ClusterEndpoint list"
  cr_dynamic :: "(string, ClusterEndpoint) gomap"

definition ClusterRegistry_MarshalJSON :: "ClusterRegistry \<Rightarrow> json" where
  "ClusterRegistry_MarshalJSON r = JObj [(''clusters'', JArr (map ClusterEndpoint_MarshalJSON (cr_Clusters r)))]"

definition stamp :: "ClusterEndpoint \<Rightarrow> string \<Rightarrow> ClusterEndpoint" where
  "stamp c source =
     (let c' = c\<lparr>ep_Source := source\<rparr> in
      if ep_Target c' = [] then c'\<lparr>ep_Target := RegistryTargetJobs\<rparr> else c')"

datatype RegistryError =
  RegistryErrDuplicateHostname string
| RegistryErrDuplicateId string
| RegistryErrInvalidUrl string string string
| RegistryErrCleartextToken string
| RegistryErrInvalidHostname string string
| RegistryErrConflictingTokenSource string
| RegistryErrMissingTokenEnv string string

definition dynamic_url_error :: "ClusterEndpoint \<Rightarrow> string option" where
  "dynamic_url_error c = (case urlShapeError (ep_ApiBaseUrl c) of
      Inl reason \<Rightarrow> Some reason
    | Inr authority \<Rightarrow> (case ParseIP (authorityHost authority) of
          None \<Rightarrow> None
        | Some ip \<Rightarrow>
            if isDeniedSouthboundIP ip
            then Some ''literal IP in a link-local/CGNAT range (169.254.0.0/16, 100.64.0.0/10, fe80::/10) is not a cluster endpoint''
            else if IsLoopback ip \<or> IsUnspecified ip
            then Some ''literal loopback/unspecified IP is not a dynamic cluster endpoint''
            else None))"

fun static_clash :: "(nat \<Rightarrow> nat) \<Rightarrow> ClusterEndpoint \<Rightarrow> ClusterEndpoint list \<Rightarrow> RegistryError option" where
  "static_clash fold_of c [] = None"
| "static_clash fold_of c (s # ss) =
     (if ep_Id s = ep_Id c then Some (RegistryErrDuplicateId (ep_Id c))
      else if EqualFold fold_of (ep_Hostname s) (ep_Hostname c)
      then Some (RegistryErrDuplicateHostname (ep_Hostname c))
      else static_clash fold_of c ss)"

definition Upsert :: "(nat \<Rightarrow> nat) \<Rightarrow> ClusterEndpoint \<Rightarrow> ClusterRegistry \<Rightarrow> (RegistryError + unit) \<times> ClusterRegistry" where
  "Upsert fold_of c r =
     (if ep_Hostname c = [] \<or> hasInvalidHostnameChar (ep_Hostname c)
      then (Inl (RegistryErrInvalidHostname (ep_Id c) (ep_Hostname c)), r)
      else case dynamic_url_error c of
        Some reason \<Rightarrow> (Inl (RegistryErrInvalidUrl (ep_Id c) (ep_ApiBaseUrl c) reason), r)
      | None \<Rightarrow> (case static_clash fold_of c (cr_Clusters r) of
          Some e \<Rightarrow> (Inl e, r)
        | None \<Rightarrow>
            if list_ex (\<lambda>(i, d). i \<noteq> ep_Id c \<and> EqualFold fold_of (ep_Hostname d) (ep_Hostname c)) (cr_dynamic r)
            then (Inl (RegistryErrDuplicateHostname (ep_Hostname c)), r)
            else (Inr (), r\<lparr>cr_dynamic := gput (ep_Id c) c (cr_dynamic r)\<rparr>)))"

definition Remove :: "string \<Rightarrow> ClusterRegistry \<Rightarrow> bool \<times> ClusterRegistry" where
  "Remove i r = (case gget (cr_dynamic r) i of
      None \<Rightarrow> (False, r)
    | Some _ \<Rightarrow> (True, r\<lparr>cr_dynamic := gdel i (cr_dynamic r)\<rparr>))"

definition Register :: "(nat \<Rightarrow> nat) \<Rightarrow> ClusterEndpoint \<Rightarrow> ClusterRegistry \<Rightarrow> (RegistryError + unit) \<times> ClusterRegistry" where
  "Register fold_of c r = Upsert fold_of c r"

definition Deregister :: "string \<Rightarrow> ClusterRegistry \<Rightarrow> ClusterRegistry" where
  "Deregister i r = snd (Remove i r)"

definition Snapshot :: "ClusterRegistry \<Rightarrow> ClusterEndpoint list" where
  "Snapshot r =
     map (\<lambda>c. stamp c RegistrySourceStatic) (cr_Clusters r)
     @ map (\<lambda>(i, d). stamp d RegistrySourceDynamic) (sort_key fst (cr_dynamic r))"

definition ByHostname :: "(nat \<Rightarrow> nat) \<Rightarrow> string \<Rightarrow> ClusterRegistry \<Rightarrow> ClusterEndpoint option" where
  "ByHostname fold_of host r =
     (let h = stripPort host in
      case find (\<lambda>c. EqualFold fold_of (ep_Hostname c) h) (cr_Clusters r) of
        Some c \<Rightarrow> Some (stamp c RegistrySourceStatic)
      | None \<Rightarrow> (case find (\<lambda>d. EqualFold fold_of (ep_Hostname d) h) (gvals (cr_dynamic r)) of
            Some d \<Rightarrow> Some (stamp d RegistrySourceDynamic)
          | None \<Rightarrow> None))"

definition ByID :: "string \<Rightarrow> ClusterRegistry \<Rightarrow> ClusterEndpoint option" where
  "ByID i r = (case find (\<lambda>c. ep_Id c = i) (cr_Clusters r) of
      Some c \<Rightarrow> Some (stamp c RegistrySourceStatic)
    | None \<Rightarrow> map_option (\<lambda>d. stamp d RegistrySourceDynamic) (gget (cr_dynamic r) i))"


section \<open>Loading a registry file\<close>

text \<open>
  Resolution stops at the first error, leaving the earlier entries resolved; \<^verbatim>\<open>lookup_env\<close> is the process
  environment.
\<close>

fun resolve_tokens ::
  "(string \<Rightarrow> string option) \<Rightarrow> ClusterEndpoint list \<Rightarrow> (RegistryError + unit) \<times> ClusterEndpoint list" where
  "resolve_tokens lookup_env [] = (Inr (), [])"
| "resolve_tokens lookup_env (c # cs) =
     (if ep_AuthToken c \<noteq> None \<and> ep_AuthTokenEnv c \<noteq> None
      then (Inl (RegistryErrConflictingTokenSource (ep_Id c)), c # cs)
      else case ep_AuthTokenEnv c of
        None \<Rightarrow> (case resolve_tokens lookup_env cs of (res, cs') \<Rightarrow> (res, c # cs'))
      | Some var \<Rightarrow> (case lookup_env var of
            None \<Rightarrow> (Inl (RegistryErrMissingTokenEnv (ep_Id c) var), c # cs)
          | Some v \<Rightarrow>
              if v = [] then (Inl (RegistryErrMissingTokenEnv (ep_Id c) var), c # cs)
              else case resolve_tokens lookup_env cs of (res, cs') \<Rightarrow> (res, c\<lparr>ep_AuthToken := Some v\<rparr> # cs')))"

definition ResolveAuthTokens ::
  "(string \<Rightarrow> string option) \<Rightarrow> ClusterRegistry \<Rightarrow> (RegistryError + unit) \<times> ClusterRegistry" where
  "ResolveAuthTokens lookup_env r =
     (case resolve_tokens lookup_env (cr_Clusters r) of (res, cs) \<Rightarrow> (res, r\<lparr>cr_Clusters := cs\<rparr>))"

datatype TokenSourceNote = TokenSourceNotePlaintext string | TokenSourceNoteEnv string string

definition TokenSourceNotes :: "ClusterRegistry \<Rightarrow> TokenSourceNote list" where
  "TokenSourceNotes r = List.map_filter (\<lambda>c. case ep_AuthTokenEnv c of
      Some v \<Rightarrow> Some (TokenSourceNoteEnv (ep_Id c) v)
    | None \<Rightarrow> (case ep_AuthToken c of Some _ \<Rightarrow> Some (TokenSourceNotePlaintext (ep_Id c)) | None \<Rightarrow> None))
     (cr_Clusters r)"

definition em_dash :: string where
  "em_dash = map char_of [226, 128, 148 :: nat]"

record ValidateOptions =
  vo_AllowInsecureTransport :: bool
  vo_AllowPrivateEndpoints :: bool

definition static_endpoint_error :: "ValidateOptions \<Rightarrow> ClusterEndpoint \<Rightarrow> RegistryError option" where
  "static_endpoint_error opts c =
     (if ep_Hostname c = [] \<or> hasInvalidHostnameChar (ep_Hostname c)
      then Some (RegistryErrInvalidHostname (ep_Id c) (ep_Hostname c))
      else
        let isHttp = HasPrefix (ep_ApiBaseUrl c) ''http://'';
            invalid = (\<lambda>reason. Some (RegistryErrInvalidUrl (ep_Id c) (ep_ApiBaseUrl c) reason));
            token = (if ep_AuthToken c \<noteq> None \<and> isHttp \<and> \<not> vo_AllowInsecureTransport opts
                     then Some (RegistryErrCleartextToken (ep_Id c)) else None)
        in case urlShapeError (ep_ApiBaseUrl c) of
          Inl reason \<Rightarrow> invalid reason
        | Inr authority \<Rightarrow> (case ParseIP (authorityHost authority) of
            None \<Rightarrow> token
          | Some ip \<Rightarrow>
              if isDeniedSouthboundIP ip
              then invalid ''literal IP in a link-local/CGNAT range (169.254.0.0/16, 100.64.0.0/10, fe80::/10) is not a cluster endpoint''
              else if \<not> vo_AllowPrivateEndpoints opts \<and> isPrivateSouthboundIP ip
              then invalid (''literal IP in a loopback/unspecified/private range '' @ em_dash
                @ '' pass an explicit private-endpoints override for local dev'')
              else token))"

fun validate_from ::
  "(nat \<Rightarrow> nat) \<Rightarrow> ValidateOptions \<Rightarrow> nat list list \<Rightarrow> nat list list \<Rightarrow> ClusterEndpoint list \<Rightarrow> RegistryError + unit" where
  "validate_from lower opts ids hostnames [] = Inr ()"
| "validate_from lower opts ids hostnames (c # cs) =
     (let lowerId = ToLower_runes lower (ep_Id c); lowerHost = ToLower_runes lower (ep_Hostname c) in
      if lowerId \<in> set ids then Inl (RegistryErrDuplicateId (ep_Id c))
      else if lowerHost \<in> set hostnames then Inl (RegistryErrDuplicateHostname (ep_Hostname c))
      else case static_endpoint_error opts c of
        Some e \<Rightarrow> Inl e
      | None \<Rightarrow> validate_from lower opts (lowerId # ids) (lowerHost # hostnames) cs)"

definition Validate :: "(nat \<Rightarrow> nat) \<Rightarrow> ValidateOptions \<Rightarrow> ClusterRegistry \<Rightarrow> RegistryError + unit" where
  "Validate lower opts r = validate_from lower opts [] [] (cr_Clusters r)"

end
