(* ===== verification/Reconcile.thy ===== *)
theory Reconcile
  imports Memory_Store Provisioner Core_Registry Core_Json
begin

text \<open>
  The cluster reconcile engine, after \<^verbatim>\<open>internal/controller/reconcile.go\<close>.  The engine works against two
  seams, the \<^verbatim>\<open>Store\<close> interface and the provisioner; both are records of programs, so that every error a
  store or a backend may return is a branch of the model.  A run threads one state: the store, the world
  behind the provisioner, the gateway's routing table and the token bucket.  Logging is left out.

  What a pass guarantees is in \<^verbatim>\<open>Reconcile_Props\<close>.
\<close>


section \<open>The store seam\<close>

record 's StoreI =
  st_List :: "('s, StoreError, StoredCluster list) prog"
  st_SetDesired :: "ClusterId \<Rightarrow> DesiredState \<Rightarrow> ('s, StoreError, unit) prog"
  st_RemoveCluster :: "ClusterId \<Rightarrow> ('s, StoreError, bool) prog"
  st_RecordObservation :: "ClusterId \<Rightarrow> ClusterState option \<Rightarrow> u64 \<Rightarrow> ('s, StoreError, unit) prog"
  st_SetCondition :: "ClusterId \<Rightarrow> DriftCondition option \<Rightarrow> ('s, StoreError, unit) prog"
  st_IsQuarantined :: "('s, StoreError, bool) prog"
  st_SetQuarantine :: "bool \<Rightarrow> ('s, StoreError, unit) prog"
  st_RecordAttempt :: "ClusterId \<Rightarrow> u32 \<Rightarrow> u64 \<Rightarrow> ('s, StoreError, unit) prog"
  st_BeginIntent :: "string \<Rightarrow> string \<Rightarrow> ('s, StoreError, IntentOutcome) prog"
  st_CompleteIntent :: "string \<Rightarrow> string \<Rightarrow> ('s, StoreError, unit) prog"
  st_GetIntent :: "string \<Rightarrow> ('s, StoreError, IntentRecord option) prog"
  st_ReapIntents :: "u64 \<Rightarrow> ('s, StoreError, u64) prog"
  st_RecordJob :: "JobRecord \<Rightarrow> ('s, StoreError, unit) prog"
  st_ListJobs :: "('s, StoreError, JobRecord list) prog"
  st_ListPools :: "('s, StoreError, StoredPool list) prog"
  st_RecordPoolObservation :: "string \<Rightarrow> string \<Rightarrow> ('s, StoreError, unit) prog"
  st_ListAllocations :: "string \<Rightarrow> ('s, StoreError, AllocationSpec list) prog"
  st_RecordUsageSamples :: "UsageSample list \<Rightarrow> ('s, StoreError, unit) prog"
  st_ListServices :: "('s, StoreError, StoredService list) prog"
  st_RecordServiceObservation :: "string \<Rightarrow> ClusterState option \<Rightarrow> string option \<Rightarrow> ('s, StoreError, unit) prog"
  st_RemoveService :: "string \<Rightarrow> ('s, StoreError, bool) prog"
  st_ListRayJobs :: "('s, StoreError, StoredRayJob list) prog"
  st_RecordRayJobObservation :: "ClusterId \<Rightarrow> RayJobObservation \<Rightarrow> ('s, StoreError, unit) prog"
  st_RecordRayJobAttempt :: "ClusterId \<Rightarrow> u32 \<Rightarrow> u64 \<Rightarrow> ('s, StoreError, unit) prog"
  st_RemoveRayJob :: "ClusterId \<Rightarrow> ('s, StoreError, bool) prog"

definition MemoryStoreI :: "MemoryStore StoreI" where
  "MemoryStoreI = \<lparr>st_List = List, st_SetDesired = SetDesired, st_RemoveCluster = RemoveCluster,
     st_RecordObservation = RecordObservation, st_SetCondition = SetCondition,
     st_IsQuarantined = IsQuarantined, st_SetQuarantine = SetQuarantine, st_RecordAttempt = RecordAttempt,
     st_BeginIntent = BeginIntent, st_CompleteIntent = CompleteIntent, st_GetIntent = GetIntent,
     st_ReapIntents = ReapIntents, st_RecordJob = RecordJob, st_ListJobs = ListJobs, st_ListPools = ListPools,
     st_RecordPoolObservation = RecordPoolObservation, st_ListAllocations = ListAllocations,
     st_RecordUsageSamples = RecordUsageSamples, st_ListServices = ListServices,
     st_RecordServiceObservation = RecordServiceObservation, st_RemoveService = RemoveService,
     st_ListRayJobs = ListRayJobs, st_RecordRayJobObservation = RecordRayJobObservation,
     st_RecordRayJobAttempt = RecordRayJobAttempt, st_RemoveRayJob = RemoveRayJob\<rparr>"


section \<open>Backoff and saturating arithmetic\<close>

definition IntentRetentionSecs :: u64 where "IntentRetentionSecs = 3600"
definition TerminatedRetentionSecs :: u64 where "TerminatedRetentionSecs = 24 * 3600"
definition BackoffBaseSecs :: u64 where "BackoffBaseSecs = 5"
definition BackoffCeilSecs :: u64 where "BackoffCeilSecs = 300"

definition backoffSecs :: "u32 \<Rightarrow> u64" where
  "backoffSecs failureCount =
     (let shift = (if 0 < failureCount then failureCount - 1 else failureCount);
          shift = (if 20 < shift then 20 else shift);
          v = BackoffBaseSecs * push_bit (unat shift) 1
      in if BackoffCeilSecs < v then BackoffCeilSecs else v)"

definition satAddU32 :: "u32 \<Rightarrow> u32 \<Rightarrow> u32" where
  "satAddU32 a b = (let s = a + b in if s < a then NOT 0 else s)"

definition satAddU64 :: "u64 \<Rightarrow> u64 \<Rightarrow> u64" where
  "satAddU64 a b = (let s = a + b in if s < a then NOT 0 else s)"

definition satSubU64 :: "u64 \<Rightarrow> u64 \<Rightarrow> u64" where
  "satSubU64 a b = (if a < b then 0 else a - b)"


section \<open>The token bucket\<close>

record RateLimits =
  rl_Capacity :: float64
  rl_RefillPerSec :: float64

record tokenBucket =
  tb_tokens :: float64
  tb_capacity :: float64
  tb_refillPerSec :: float64
  tb_last :: u64

definition newTokenBucket :: "RateLimits \<Rightarrow> u64 \<Rightarrow> tokenBucket" where
  "newTokenBucket limits now = \<lparr>tb_tokens = rl_Capacity limits, tb_capacity = rl_Capacity limits,
     tb_refillPerSec = rl_RefillPerSec limits, tb_last = now\<rparr>"

definition tryTake :: "u64 \<Rightarrow> tokenBucket \<Rightarrow> bool \<times> tokenBucket" where
  "tryTake now b =
     (let elapsed = rnd (of_int (uint (satSubU64 now (tb_last b))));
          tokens = fadd (tb_tokens b) (fmul elapsed (tb_refillPerSec b));
          tokens = (if flt (tb_capacity b) tokens then tb_capacity b else tokens);
          b = b\<lparr>tb_tokens := tokens, tb_last := now\<rparr>
      in if fle (Fin 1) (tb_tokens b) then (True, b\<lparr>tb_tokens := fadd (tb_tokens b) (Fin (- 1))\<rparr>)
         else (False, b))"


section \<open>Errors, outcomes and the engine's state\<close>

datatype ReconcileError =
  ReconcileErrStore StoreError | ReconcileErrProvision ProvisionError | ReconcileErrStaleIntent string

datatype Action =
  ActionNoOp | ActionApplied | ActionTerminated | ActionSuspended | ActionDrift | ActionBackoff

record ReconcileResult =
  rr_ID :: string
  rr_Action :: Action
  rr_Err :: "ReconcileError option"

record 'g Registrar =
  rg_Register :: "ClusterEndpoint \<Rightarrow> 'g \<Rightarrow> (RegistryError + unit) \<times> 'g"
  rg_Deregister :: "ClusterId \<Rightarrow> 'g \<Rightarrow> 'g"

definition ClusterRegistryI :: "(nat \<Rightarrow> nat) \<Rightarrow> ClusterRegistry Registrar" where
  "ClusterRegistryI fold_of = \<lparr>rg_Register = Register fold_of, rg_Deregister = Deregister\<rparr>"

text \<open>
  The struct \<^verbatim>\<open>Reconciler\<close> in two records: what is fixed at construction, and what a pass changes.
  \<^verbatim>\<open>rc_quantity\<close> is Kubernetes' quantity parser; \<^verbatim>\<open>rs_lastMeter\<close> is \<^verbatim>\<open>None\<close> for Go's zero time.  The four
  engines of the control plane run over one store, one cluster and one routing table, so the state is shared:
  \<^verbatim>\<open>rs_bucket\<close>, \<^verbatim>\<open>rs_metered\<close> and \<^verbatim>\<open>rs_lastMeter\<close> belong to the cluster engine, \<^verbatim>\<open>rs_registered\<close> to the service
  engine and \<^verbatim>\<open>rs_converged\<close> to the pool engine.
\<close>

record ('s, 'w, 'g) Reconciler =
  rc_store :: "'s StoreI"
  rc_provisioner :: "'w Provisioner"
  rc_terminatedRetentionSecs :: u64
  rc_meteringInterval :: int
  rc_registrar :: "'g Registrar option"
  rc_gatewayHostname :: "(ClusterId \<Rightarrow> string) option"
  rc_quantity :: quantity_parser

record ('s, 'w, 'g) rstate =
  rs_store :: 's
  rs_world :: 'w
  rs_gateway :: 'g
  rs_bucket :: "tokenBucket option"
  rs_metered :: "ClusterId list"
  rs_lastMeter :: "int option"
  rs_registered :: "(string, ClusterEndpoint) gomap"
  rs_converged :: "string list"

type_synonym ('s, 'w, 'g, 'a) rprog = "(('s, 'w, 'g) rstate, ReconcileError, 'a) prog"

definition on_store :: "('s, StoreError, 'a) prog \<Rightarrow> ('s, 'w, 'g, 'a) rprog" where
  "on_store m = pwrap ReconcileErrStore (pzoom rs_store (\<lambda>s r. r\<lparr>rs_store := s\<rparr>) m)"

definition on_world :: "('w, ProvisionError, 'a) prog \<Rightarrow> (('s, 'w, 'g) rstate, ProvisionError, 'a) prog" where
  "on_world m = pzoom rs_world (\<lambda>w r. r\<lparr>rs_world := w\<rparr>) m"

definition on_provisioner :: "('w, ProvisionError, 'a) prog \<Rightarrow> ('s, 'w, 'g, 'a) rprog" where
  "on_provisioner m = pwrap ReconcileErrProvision (on_world m)"

definition takeToken :: "u64 \<Rightarrow> ('s, 'w, 'g, bool) rprog" where
  "takeToken now r = (case rs_bucket r of
      None \<Rightarrow> (Inr True, r)
    | Some b \<Rightarrow> (case tryTake now b of (got, b') \<Rightarrow> (Inr got, r\<lparr>rs_bucket := Some b'\<rparr>)))"


section \<open>Deciding\<close>

definition needsApply :: "ClusterState option \<Rightarrow> u64 \<Rightarrow> u64 \<Rightarrow> bool \<Rightarrow> bool" where
  "needsApply observed observedGeneration desiredGeneration queued = (case observed of
      None \<Rightarrow> True
    | Some st \<Rightarrow>
        if st = ClusterStateTerminated \<or> st = ClusterStateTerminating then True
        else if st = ClusterStateSuspended then \<not> queued
        else observedGeneration < desiredGeneration)"

definition clusterIsRoutable :: "ClusterState \<Rightarrow> bool" where
  "clusterIsRoutable s = (s \<in> {ClusterStateProvisioning, ClusterStateRunning, ClusterStateDegraded, ClusterStateUpdating})"

definition inSuspendedTerminalGroup :: "ClusterState \<Rightarrow> bool" where
  "inSuspendedTerminalGroup s = (s \<in> {ClusterStateSuspended, ClusterStateTerminated, ClusterStateTerminating})"

definition driftConditionEqual :: "DriftCondition option \<Rightarrow> DriftCondition option \<Rightarrow> bool" where
  "driftConditionEqual a b = (a = b)"

definition paramsFingerprint :: "ClusterSpec \<Rightarrow> string" where
  "paramsFingerprint spec = json_text (ClusterSpec_MarshalJSON spec)"

fun pfirst :: "('x \<Rightarrow> ('s, 'e, 'a option) prog) \<Rightarrow> 'x list \<Rightarrow> ('s, 'e, 'a option) prog" where
  "pfirst f [] = preturn None"
| "pfirst f (x # xs) = pbind (f x) (\<lambda>y. case y of Some a \<Rightarrow> preturn (Some a) | None \<Rightarrow> pfirst f xs)"

definition pool_assignment ::
  "'s StoreI \<Rightarrow> string \<Rightarrow> PoolPurpose \<Rightarrow> StoredPool \<Rightarrow> ('s, StoreError, QueueAssignment option) prog" where
  "pool_assignment st project purpose pool =
     (if PoolPurpose_OrDefault (ps_Purpose (sp_Spec pool)) \<noteq> purpose then preturn None
      else pbind (st_ListAllocations st (sp_Name pool)) (\<lambda>allocs. preturn
        (map_option (\<lambda>alloc. \<lparr>qa_QueueName = LocalQueueName (al_Project alloc) purpose,
                              qa_Elastic = ps_Elastic (sp_Spec pool)\<rparr>)
          (find (\<lambda>alloc. al_Project alloc = project) allocs))))"

definition QueueAssignmentForProjectPurpose ::
  "'s StoreI \<Rightarrow> string \<Rightarrow> PoolPurpose \<Rightarrow> ('s, StoreError, QueueAssignment option) prog" where
  "QueueAssignmentForProjectPurpose st project purpose = pbind (st_ListPools st)
     (pfirst (pool_assignment st project (PoolPurpose_OrDefault purpose)))"

definition queueAssignmentForProject ::
  "'s StoreI \<Rightarrow> string \<Rightarrow> ('s, StoreError, QueueAssignment option) prog" where
  "queueAssignmentForProject st project = QueueAssignmentForProjectPurpose st project PoolPurposeCompute"

definition observe :: "'w Provisioner \<Rightarrow> ClusterId \<Rightarrow> ('s, 'w, 'g, ObservedCluster option) rprog" where
  "observe pv cid = pbind (pattempt (on_world (pv_Observe pv cid))) (\<lambda>res. case res of
      Inr obs \<Rightarrow> preturn (Some obs)
    | Inl e \<Rightarrow> if isProvisionNotFound e then preturn None else praise (ReconcileErrProvision e))"

definition observed_generation :: "ObservedCluster option \<Rightarrow> u64" where
  "observed_generation obs = (case obs of None \<Rightarrow> 0
    | Some ob \<Rightarrow> (case oc_ObservedGeneration ob of None \<Rightarrow> 0 | Some g \<Rightarrow> g))"

definition syncGatewayRegistration ::
  "('s, 'w, 'g) Reconciler \<Rightarrow> StoredCluster \<Rightarrow> ClusterState option \<Rightarrow> string option \<Rightarrow> ('s, 'w, 'g, unit) rprog" where
  "syncGatewayRegistration r c state apiBaseURL = (case (rc_registrar r, rc_gatewayHostname r) of
      (Some reg, Some hostname) \<Rightarrow> pmodify (\<lambda>rs.
        case (state, apiBaseURL) of
          (Some st, Some url) \<Rightarrow>
            if sc_Desired c = DesiredRunning \<and> clusterIsRoutable st
            then rs\<lparr>rs_gateway := snd (rg_Register reg
                   \<lparr>ep_Id = sc_ID c, ep_Hostname = hostname (sc_ID c), ep_ApiBaseUrl = url,
                    ep_AuthToken = None, ep_AuthTokenEnv = None, ep_Project = cs_Project (sc_Spec c),
                    ep_Target = RegistryTargetJobs, ep_Source = RegistrySourceDynamic\<rparr> (rs_gateway rs))\<rparr>
            else rs\<lparr>rs_gateway := rg_Deregister reg (sc_ID c) (rs_gateway rs)\<rparr>
        | _ \<Rightarrow> rs\<lparr>rs_gateway := rg_Deregister reg (sc_ID c) (rs_gateway rs)\<rparr>)
    | _ \<Rightarrow> preturn ())"


section \<open>One cluster\<close>

text \<open>
  \<^verbatim>\<open>reconcileOne\<close> in its own order.  \<open>None\<close> from an arm is the early return \<^verbatim>\<open>ActionBackoff, nil\<close> of an exhausted
  budget, which skips everything after the arm.
\<close>

definition apply_cluster ::
  "('s, 'w, 'g) Reconciler \<Rightarrow> StoredCluster \<Rightarrow> QueueAssignment option \<Rightarrow> ('s, 'w, 'g, Action) rprog" where
  "apply_cluster r c queue =
     (let key = IntentKey c in
      pbind (on_store (st_BeginIntent (rc_store r) key (paramsFingerprint (sc_Spec c)))) (\<lambda>outcome.
      if io_Kind outcome = IntentOutcomeParamMismatch then praise (ReconcileErrStaleIntent key)
      else
      pbind (on_provisioner (pv_EnsureNamespacePosture (rc_provisioner r))) (\<lambda>_.
      pbind (on_provisioner (pv_Apply (rc_provisioner r) (sc_ID c) (sc_Spec c) (sc_Generation c) key queue)) (\<lambda>resp.
      pbind (on_store (st_CompleteIntent (rc_store r) key (json_text (ApplyResponse_json resp)))) (\<lambda>_.
      preturn ActionApplied)))))"

definition running_arm ::
  "('s, 'w, 'g) Reconciler \<Rightarrow> StoredCluster \<Rightarrow> u64 \<Rightarrow> ObservedCluster option \<Rightarrow> QueueAssignment option \<Rightarrow>
   ('s, 'w, 'g, (Action \<times> DriftCondition option) option) rprog" where
  "running_arm r c now obs queue =
     (let observedState = map_option oc_State obs in
      if observedState = Some ClusterStateDegraded
      then preturn (Some (ActionDrift, Some DriftConditionDegraded))
      else if needsApply observedState (observed_generation obs) (sc_Generation c) (queue \<noteq> None) then
        pbind (takeToken now) (\<lambda>got.
        if \<not> got then preturn None
        else pbind (apply_cluster r c queue) (\<lambda>a. preturn (Some (a, None))))
      else
        (case Option.bind obs oc_SpecFingerprint of
           Some fp \<Rightarrow> if fp \<noteq> OwnedSpecFingerprint (rc_quantity r) (sc_Spec c)
                      then preturn (Some (ActionDrift, Some DriftConditionSpecDrift))
                      else preturn (Some (ActionNoOp, None))
         | None \<Rightarrow> preturn (Some (ActionNoOp, None))))"

definition terminated_arm ::
  "('s, 'w, 'g) Reconciler \<Rightarrow> StoredCluster \<Rightarrow> ClusterState option \<Rightarrow> ('s, 'w, 'g, Action) rprog" where
  "terminated_arm r c observedState = (case observedState of
      Some st \<Rightarrow>
        if st \<noteq> ClusterStateTerminated
        then pbind (on_provisioner (pv_Terminate (rc_provisioner r) (sc_ID c))) (\<lambda>_. preturn ActionTerminated)
        else preturn ActionNoOp
    | None \<Rightarrow>
        pbind (on_store (st_GetIntent (rc_store r) (IntentKey c))) (\<lambda>rec. case rec of
            Some i \<Rightarrow>
              if ir_Status i = IntentStatusPending then
                pbind (on_provisioner (pv_ReapNetworkPolicies (rc_provisioner r) (sc_ID c))) (\<lambda>_.
                pbind (on_store (st_CompleteIntent (rc_store r) (IntentKey c) (json_text (JObj [(''reaped'', JBool True)])))) (\<lambda>_.
                preturn ActionTerminated))
              else preturn ActionNoOp
          | None \<Rightarrow> preturn ActionNoOp))"

definition suspended_arm ::
  "('s, 'w, 'g) Reconciler \<Rightarrow> StoredCluster \<Rightarrow> ClusterState option \<Rightarrow> QueueAssignment option \<Rightarrow> ('s, 'w, 'g, Action) rprog" where
  "suspended_arm r c observedState queue =
     (if queue \<noteq> None then preturn ActionNoOp
      else case observedState of
          Some st \<Rightarrow>
            if \<not> inSuspendedTerminalGroup st
            then pbind (on_provisioner (pv_Suspend (rc_provisioner r) (sc_ID c))) (\<lambda>_. preturn ActionSuspended)
            else preturn ActionNoOp
        | None \<Rightarrow> preturn ActionNoOp)"

definition decide ::
  "('s, 'w, 'g) Reconciler \<Rightarrow> StoredCluster \<Rightarrow> u64 \<Rightarrow> ObservedCluster option \<Rightarrow> QueueAssignment option \<Rightarrow>
   ('s, 'w, 'g, (Action \<times> DriftCondition option) option) rprog" where
  "decide r c now obs queue = (case sc_Desired c of
      DesiredRunning \<Rightarrow> running_arm r c now obs queue
    | DesiredTerminated \<Rightarrow>
        pbind (terminated_arm r c (map_option oc_State obs)) (\<lambda>a. preturn (Some (a, None)))
    | DesiredSuspended \<Rightarrow>
        pbind (suspended_arm r c (map_option oc_State obs) queue) (\<lambda>a. preturn (Some (a, None)))
    | DesiredStateRaw _ \<Rightarrow> preturn (Some (ActionNoOp, None)))"

definition made_progress :: "StoredCluster \<Rightarrow> Action \<Rightarrow> ClusterState option \<Rightarrow> bool option" where
  "made_progress c action finalState =
     (if action = ActionApplied
      then Some (finalState \<noteq> None \<and> finalState \<noteq> Some ClusterStateTerminated
                 \<and> finalState \<noteq> Some ClusterStateTerminating)
      else if action = ActionNoOp \<and> sc_Desired c = DesiredRunning then Some True else None)"

definition account_backoff ::
  "'s StoreI \<Rightarrow> StoredCluster \<Rightarrow> u64 \<Rightarrow> bool option \<Rightarrow> ('s, 'w, 'g, unit) rprog" where
  "account_backoff st c now progressed =
     (if progressed = Some False then
        let failureCount = satAddU32 (sc_FailureCount c) 1 in
        on_store (st_RecordAttempt st (sc_ID c) failureCount (satAddU64 now (backoffSecs failureCount)))
      else if progressed = Some True \<and> (sc_FailureCount c \<noteq> 0 \<or> sc_NextAttemptAt c \<noteq> 0) then
        on_store (st_RecordAttempt st (sc_ID c) 0 0)
      else preturn ())"

definition finish_pass ::
  "('s, 'w, 'g) Reconciler \<Rightarrow> StoredCluster \<Rightarrow> u64 \<Rightarrow> Action \<Rightarrow> DriftCondition option \<Rightarrow> ('s, 'w, 'g, Action) rprog" where
  "finish_pass r c now action newCondition =
     (let st = rc_store r in
      pbind (observe (rc_provisioner r) (sc_ID c)) (\<lambda>finalObs.
      let finalState = map_option oc_State finalObs in
      pbind (on_store (st_RecordObservation st (sc_ID c) finalState (observed_generation finalObs))) (\<lambda>_.
      pbind (pwhen (\<not> driftConditionEqual newCondition (sc_Condition c))
               (on_store (st_SetCondition st (sc_ID c) newCondition))) (\<lambda>_.
      pbind (syncGatewayRegistration r c finalState (Option.bind finalObs oc_ApiBaseUrl)) (\<lambda>_.
      pbind (account_backoff st c now (made_progress c action finalState)) (\<lambda>_.
      preturn action))))))"

definition reconcileOne :: "('s, 'w, 'g) Reconciler \<Rightarrow> StoredCluster \<Rightarrow> u64 \<Rightarrow> ('s, 'w, 'g, Action) rprog" where
  "reconcileOne r c now =
     (if sc_Desired c = DesiredRunning \<and> now < sc_NextAttemptAt c then preturn ActionBackoff
      else
      let st = rc_store r in
      pbind (observe (rc_provisioner r) (sc_ID c)) (\<lambda>obs.
      pbind (on_store (st_IsQuarantined st)) (\<lambda>quarantined.
      if quarantined then
        pbind (on_store (st_RecordObservation st (sc_ID c) (map_option oc_State obs) (observed_generation obs))) (\<lambda>_.
        preturn ActionNoOp)
      else
      pbind (on_store (queueAssignmentForProject st (cs_Project (sc_Spec c)))) (\<lambda>queue.
      pbind (decide r c now obs queue) (\<lambda>decision. case decision of
          None \<Rightarrow> preturn ActionBackoff
        | Some (action, newCondition) \<Rightarrow> finish_pass r c now action newCondition)))))"

definition collect :: "('x \<Rightarrow> ClusterId) \<Rightarrow> ('x \<Rightarrow> ('s, 'w, 'g, Action) rprog) \<Rightarrow> 'x \<Rightarrow> ('s, 'w, 'g, ReconcileResult) rprog" where
  "collect name f c = pbind (pattempt (f c)) (\<lambda>res. preturn (case res of
      Inr a \<Rightarrow> \<lparr>rr_ID = name c, rr_Action = a, rr_Err = None\<rparr>
    | Inl e \<Rightarrow> \<lparr>rr_ID = name c, rr_Action = ActionNoOp, rr_Err = Some e\<rparr>))"

definition ReconcileAllAt :: "('s, 'w, 'g) Reconciler \<Rightarrow> u64 \<Rightarrow> ('s, 'w, 'g, ReconcileResult list) rprog" where
  "ReconcileAllAt r now = pbind (pattempt (on_store (st_List (rc_store r)))) (\<lambda>res. case res of
      Inl e \<Rightarrow> preturn [\<lparr>rr_ID = ''<list>'', rr_Action = ActionNoOp, rr_Err = Some e\<rparr>]
    | Inr clusters \<Rightarrow> peach (collect sc_ID (\<lambda>c. reconcileOne r c now)) clusters)"


section \<open>Lifecycle reaping\<close>

definition isPurgeableTombstone :: "StoredCluster \<Rightarrow> u64 \<Rightarrow> u64 \<Rightarrow> bool" where
  "isPurgeableTombstone c now retentionSecs =
     (sc_Desired c = DesiredTerminated \<and> ObservedGone (sc_ObservedState c)
      \<and> (case sc_TerminatedAt c of None \<Rightarrow> False | Some t \<Rightarrow> retentionSecs \<le> satSubU64 now t))"

definition isExpired :: "StoredCluster \<Rightarrow> u64 \<Rightarrow> bool" where
  "isExpired c now =
     (sc_Desired c = DesiredRunning \<and> sc_ObservedState c = Some ClusterStateRunning
      \<and> (case cs_TtlSeconds (sc_Spec c) of None \<Rightarrow> False | Some ttl \<Rightarrow> ttl \<le> satSubU64 now (sc_CreatedAt c)))"

text \<open>
  \<^verbatim>\<open>strings.ToUpper\<close> compared with an upper-case ASCII word.  Two runes outside ASCII have an ASCII upper
  case, the dotless i (U+0131) and the long s (U+017F); every other rune of the result is outside ASCII when
  the argument's is.
\<close>

definition upper_rune :: "nat \<Rightarrow> nat" where
  "upper_rune r = (if 97 \<le> r \<and> r \<le> 122 then r - 32 else if r = 0x131 then 73 else if r = 0x17F then 83 else r)"

definition upper_equals :: "string \<Rightarrow> string \<Rightarrow> bool" where
  "upper_equals s word = (map upper_rune (runes s) = map of_char word)"

definition jobIsTerminal :: "string \<Rightarrow> bool" where
  "jobIsTerminal status = list_ex (upper_equals status) [''SUCCEEDED'', ''FAILED'', ''STOPPED'']"

fun last_activity_from :: "u64 \<Rightarrow> u64 \<Rightarrow> JobRecord list \<Rightarrow> u64" where
  "last_activity_from now latest [] = latest"
| "last_activity_from now latest (j # js) =
     (if \<not> jobIsTerminal (jr_Status j) then now
      else
        let dur = (case jr_DurationSecs j of None \<Rightarrow> 0 | Some d \<Rightarrow> d);
            finish = satAddU64 (jr_SubmittedAt j) dur
        in last_activity_from now (if latest < finish then finish else latest) js)"

definition lastActivityAt :: "u64 \<Rightarrow> JobRecord list \<Rightarrow> u64 \<Rightarrow> u64" where
  "lastActivityAt createdAt jobs now = last_activity_from now createdAt jobs"

definition isIdleExpired :: "StoredCluster \<Rightarrow> u64 \<Rightarrow> u64 \<Rightarrow> bool" where
  "isIdleExpired c lastActivity now =
     (sc_Desired c = DesiredRunning \<and> sc_ObservedState c = Some ClusterStateRunning
      \<and> (case cs_IdleTimeoutSecs (sc_Spec c) of None \<Rightarrow> False | Some idle \<Rightarrow> idle \<le> satSubU64 now lastActivity))"

definition reap_due :: "JobRecord list \<Rightarrow> u64 \<Rightarrow> StoredCluster \<Rightarrow> bool" where
  "reap_due jobs now c =
     (let cjobs = filter (\<lambda>j. jr_Cluster j = sc_ID c) jobs;
          lastActivity = lastActivityAt (sc_CreatedAt c) cjobs now
      in isExpired c now \<or> isIdleExpired c lastActivity now)"

definition ReapExpired :: "('s, 'w, 'g) Reconciler \<Rightarrow> u64 \<Rightarrow> ('s, 'w, 'g, string list) rprog" where
  "ReapExpired r now =
     pbind (on_store (st_List (rc_store r))) (\<lambda>clusters.
     pbind (on_store (st_ListJobs (rc_store r))) (\<lambda>jobs.
     pbind (peach (\<lambda>c.
        if reap_due jobs now c
        then pbind (on_store (st_SetDesired (rc_store r) (sc_ID c) DesiredTerminated)) (\<lambda>_. preturn [sc_ID c])
        else preturn []) clusters) (\<lambda>reaped.
     preturn (concat reaped))))"

definition ReapTerminated :: "('s, 'w, 'g) Reconciler \<Rightarrow> u64 \<Rightarrow> ('s, 'w, 'g, string list) rprog" where
  "ReapTerminated r now =
     pbind (on_store (st_List (rc_store r))) (\<lambda>clusters.
     pbind (peach (\<lambda>c.
        if \<not> isPurgeableTombstone c now (rc_terminatedRetentionSecs r) then preturn []
        else pbind (pattempt (on_provisioner (pv_ReapNetworkPolicies (rc_provisioner r) (sc_ID c)))) (\<lambda>res. case res of
            Inl _ \<Rightarrow> preturn []
          | Inr _ \<Rightarrow> pbind (on_store (st_RemoveCluster (rc_store r) (sc_ID c))) (\<lambda>gone.
              preturn (if gone then [sc_ID c] else [])))) clusters) (\<lambda>removed.
     preturn (concat removed)))"

definition stale_check ::
  "('s, 'w, 'g) Reconciler \<Rightarrow> StoredCluster \<Rightarrow> ('s, 'w, 'g, bool option) rprog" where
  "stale_check r c = pbind (observe (rc_provisioner r) (sc_ID c)) (\<lambda>obs. case obs of
      None \<Rightarrow> preturn None
    | Some ob \<Rightarrow> (case oc_ObservedGeneration ob of
          Some g \<Rightarrow> if sc_Generation c < g
                    then pbind (on_store (st_SetQuarantine (rc_store r) True)) (\<lambda>_. preturn (Some True))
                    else preturn None
        | None \<Rightarrow> preturn None))"

definition DetectStaleRestore :: "('s, 'w, 'g) Reconciler \<Rightarrow> ('s, 'w, 'g, bool) rprog" where
  "DetectStaleRestore r =
     pbind (on_store (st_List (rc_store r))) (\<lambda>clusters.
     pbind (pfirst (stale_check r) clusters) (\<lambda>found. preturn (found = Some True)))"

end
