(* ===== verification/Reconcile_Props.thy ===== *)
theory Reconcile_Props
  imports Reconcile Store_Runs
begin

text \<open>
  What a pass of the cluster reconcile engine guarantees.  Provider calls are observed by wrapping a
  provisioner so that its world carries the list of calls made; the engine cannot tell the difference.  The lemmas
  give the calls a pass can make, the outbox row behind every apply, and the effect of the quarantine.
\<close>


section \<open>Programs on the engine's state\<close>

lemma wp_zoom [wp_simps]: "wp (pzoom g p m) Q E s = wp m (\<lambda>x t. Q x (p t s)) (\<lambda>e t. E e (p t s)) (g s)"
  by (simp add: wp_def pzoom_def split: prod.split sum.split)

lemma wp_seams [wp_simps]:
  "wp (on_store m) Q E s =
     wp m (\<lambda>x t. Q x (s\<lparr>rs_store := t\<rparr>)) (\<lambda>e t. E (ReconcileErrStore e) (s\<lparr>rs_store := t\<rparr>)) (rs_store s)"
  "wp (on_world m') Q' E' s =
     wp m' (\<lambda>x t. Q' x (s\<lparr>rs_world := t\<rparr>)) (\<lambda>e t. E' e (s\<lparr>rs_world := t\<rparr>)) (rs_world s)"
  "wp (on_provisioner m') Q' E s =
     wp m' (\<lambda>x t. Q' x (s\<lparr>rs_world := t\<rparr>)) (\<lambda>e t. E (ReconcileErrProvision e) (s\<lparr>rs_world := t\<rparr>)) (rs_world s)"
  by (simp_all add: on_store_def on_world_def on_provisioner_def wp_simps)

lemma wp_observe [wp_simps]:
  "wp (observe pv cid) Q E s = wp (pv_Observe pv cid) (\<lambda>ob t. Q (Some ob) (s\<lparr>rs_world := t\<rparr>))
     (\<lambda>e t. if isProvisionNotFound e then Q None (s\<lparr>rs_world := t\<rparr>)
            else E (ReconcileErrProvision e) (s\<lparr>rs_world := t\<rparr>)) (rs_world s)"
  by (simp add: observe_def wp_simps cong: if_cong)

lemma wp_takeToken [wp_simps]:
  "wp (takeToken now) Q E s = (case rs_bucket s of None \<Rightarrow> Q True s
     | Some b \<Rightarrow> Q (fst (tryTake now b)) (s\<lparr>rs_bucket := Some (snd (tryTake now b))\<rparr>))"
  by (simp add: wp_def takeToken_def split: option.split prod.split)

lemma wp_iff_snd: "wp m (\<lambda>_. P) (\<lambda>_. P) s = P (snd (m s))"
  by (simp add: wp_def split: prod.split sum.split)

lemma wp_always: "(\<And>x t. Q x t) \<Longrightarrow> (\<And>e t. E e t) \<Longrightarrow> wp m Q E s"
  by (simp add: wp_def split: prod.split sum.split)

text \<open>The in-memory store never fails on the calls a pass makes, so its calls rewrite to their effect.\<close>

lemma wp_memory [wp_simps]:
  "wp (st_List MemoryStoreI) Q E s = Q (gvals (ms_clusters s)) s"
  "wp (st_IsQuarantined MemoryStoreI) Q2 E s = Q2 (ms_quarantined s) s"
  "wp (st_RecordObservation MemoryStoreI cid st g) Q3 E s = Q3 () (snd (RecordObservation cid st g s))"
  "wp (st_SetCondition MemoryStoreI cid con) Q3 E s = Q3 () (snd (SetCondition cid con s))"
  "wp (st_SetQuarantine MemoryStoreI q) Q3 E s = Q3 () (snd (SetQuarantine q s))"
  "wp (st_RecordAttempt MemoryStoreI cid n t) Q3 E s = Q3 () (snd (RecordAttempt cid n t s))"
  "wp (st_CompleteIntent MemoryStoreI k v) Q3 E s = Q3 () (snd (CompleteIntent k v s))"
  "wp (st_GetIntent MemoryStoreI k) Q4 E s = Q4 (gget (ms_intents s) k) s"
  "wp (st_ListAllocations MemoryStoreI pool) Q5 E s = Q5 (projr (fst (ListAllocations pool s))) s"
  "wp (st_ListPools MemoryStoreI) Q6 E s = Q6 (projr (fst (ListPools s))) s"
  "wp (st_ListJobs MemoryStoreI) Q7 E s = Q7 (projr (fst (ListJobs s))) s"
  by (simp_all add: wp_def MemoryStoreI_def List_def IsQuarantined_def RecordObservation_def SetCondition_def
      SetQuarantine_def RecordAttempt_def CompleteIntent_def GetIntent_def ListAllocations_def ListPools_def
      ListJobs_def)

lemma wp_BeginIntent [wp_simps]:
  "wp (st_BeginIntent MemoryStoreI k fp) Q E s = Q (projr (fst (BeginIntent k fp s))) (snd (BeginIntent k fp s))"
  by (simp add: wp_def MemoryStoreI_def BeginIntent_def split: option.split)

lemma wp_pfirst_readonly:
  assumes "\<And>x. x \<in> set xs \<Longrightarrow> \<exists>y. f x s = (Inr y, s)"
  shows "\<exists>y. pfirst f xs s = (Inr y, s)"
  using assms
proof (induction xs)
  case Nil
  then show ?case by (simp add: prog_simps)
next
  case (Cons x xs)
  then obtain y where "f x s = (Inr y, s)" by fastforce
  moreover obtain z where "pfirst f xs s = (Inr z, s)" using Cons by fastforce
  ultimately show ?case by (cases y) (simp_all add: pbind_def prog_simps)
qed

text \<open>Resolving the queue reads the store and changes nothing.\<close>

definition queue_of :: "MemoryStore \<Rightarrow> string \<Rightarrow> PoolPurpose \<Rightarrow> QueueAssignment option" where
  "queue_of s project purpose = projr (fst (QueueAssignmentForProjectPurpose MemoryStoreI project purpose s))"

lemma queue_readonly:
  "QueueAssignmentForProjectPurpose MemoryStoreI project purpose s = (Inr (queue_of s project purpose), s)"
proof -
  have "\<exists>y. pfirst (pool_assignment MemoryStoreI project p) pools s = (Inr y, s)" for p pools
    by (rule wp_pfirst_readonly)
      (auto simp: pool_assignment_def prog_simps pbind_def MemoryStoreI_def ListAllocations_def)
  then show ?thesis
    by (auto simp: queue_of_def QueueAssignmentForProjectPurpose_def pbind_def MemoryStoreI_def ListPools_def)
      (metis (mono_tags, lifting) fst_conv sum.sel(2) sum.case(2))
qed

lemma queue_of_cong:
  assumes "ms_pools s = ms_pools t" and "ms_allocations s = ms_allocations t"
  shows "queue_of s project purpose = queue_of t project purpose"
proof -
  have "fst (pfirst (pool_assignment MemoryStoreI project p) pools s) =
      fst (pfirst (pool_assignment MemoryStoreI project p) pools t)" for p pools
    using assms(2)
    by (induction pools)
      (auto simp: pool_assignment_def prog_simps pbind_def MemoryStoreI_def ListAllocations_def
        split: option.split prod.splits sum.splits)
  then show ?thesis
    using assms(1)
    by (simp add: queue_of_def QueueAssignmentForProjectPurpose_def pbind_def MemoryStoreI_def ListPools_def)
qed

lemma wp_queue [wp_simps]:
  "wp (QueueAssignmentForProjectPurpose MemoryStoreI project purpose) Q E s = Q (queue_of s project purpose) s"
  "wp (queueAssignmentForProject MemoryStoreI project) Q E s = Q (queue_of s project PoolPurposeCompute) s"
  by (simp_all add: wp_def queueAssignmentForProject_def queue_readonly)


section \<open>Watching the provider calls\<close>

datatype pcall =
  CallObserve ClusterId "ProvisionError + ObservedCluster"
| CallPosture
| CallApply ClusterId ClusterSpec u64 string "QueueAssignment option"
| CallTerminate ClusterId
| CallReap ClusterId
| CallSuspend ClusterId

definition logged :: "'c \<Rightarrow> ('w, 'e, 'a) prog \<Rightarrow> ('c list \<times> 'w, 'e, 'a) prog" where
  "logged call m p = (case m (snd p) of (res, w) \<Rightarrow> (res, (fst p @ [call], w)))"

definition logged_result :: "(('e + 'a) \<Rightarrow> 'c) \<Rightarrow> ('w, 'e, 'a) prog \<Rightarrow> ('c list \<times> 'w, 'e, 'a) prog" where
  "logged_result call m p = (case m (snd p) of (res, w) \<Rightarrow> (res, (fst p @ [call res], w)))"

definition logging :: "'w Provisioner \<Rightarrow> (pcall list \<times> 'w) Provisioner" where
  "logging pv = \<lparr>
     pv_Apply = (\<lambda>cid spec g k q. logged (CallApply cid spec g k q) (pv_Apply pv cid spec g k q)),
     pv_EnsureNamespacePosture = logged CallPosture (pv_EnsureNamespacePosture pv),
     pv_Terminate = (\<lambda>cid. logged (CallTerminate cid) (pv_Terminate pv cid)),
     pv_ReapNetworkPolicies = (\<lambda>cid. logged (CallReap cid) (pv_ReapNetworkPolicies pv cid)),
     pv_Suspend = (\<lambda>cid. logged (CallSuspend cid) (pv_Suspend pv cid)),
     pv_Observe = (\<lambda>cid. logged_result (CallObserve cid) (pv_Observe pv cid))\<rparr>"

lemma wp_logged [wp_simps]:
  "wp (logged call m) Q E p = wp m (\<lambda>x w. Q x (fst p @ [call], w)) (\<lambda>e w. E e (fst p @ [call], w)) (snd p)"
  "wp (logged_result rcall m) Q E p =
     wp m (\<lambda>x w. Q x (fst p @ [rcall (Inr x)], w)) (\<lambda>e w. E e (fst p @ [rcall (Inl e)], w)) (snd p)"
  by (simp_all add: wp_def logged_def logged_result_def split: prod.split sum.split)

lemma logging_sel [wp_simps]:
  "pv_Apply (logging pv) cid spec g k q = logged (CallApply cid spec g k q) (pv_Apply pv cid spec g k q)"
  "pv_EnsureNamespacePosture (logging pv) = logged CallPosture (pv_EnsureNamespacePosture pv)"
  "pv_Terminate (logging pv) cid = logged (CallTerminate cid) (pv_Terminate pv cid)"
  "pv_ReapNetworkPolicies (logging pv) cid = logged (CallReap cid) (pv_ReapNetworkPolicies pv cid)"
  "pv_Suspend (logging pv) cid = logged (CallSuspend cid) (pv_Suspend pv cid)"
  "pv_Observe (logging pv) cid = logged_result (CallObserve cid) (pv_Observe pv cid)"
  by (simp_all add: logging_def)

definition call_log :: "('s, 'c list \<times> 'w, 'g) rstate \<Rightarrow> 'c list" where
  "call_log rs = fst (rs_world rs)"

text \<open>
  The decision table of a pass: the actuations it may attempt on a row, given what it observed and the
  queue of the row's project.  At most one step of the desired state's kind, always on this row, and an
  apply always of the row's spec at the row's generation under the row's outbox key.
\<close>

definition actuation ::
  "StoredCluster \<Rightarrow> QueueAssignment option \<Rightarrow> ObservedCluster option \<Rightarrow> pcall list \<Rightarrow> bool" where
  "actuation c queue obs acts = (acts = [] \<or> (case sc_Desired c of
      DesiredRunning \<Rightarrow>
        map_option oc_State obs \<noteq> Some ClusterStateDegraded
        \<and> needsApply (map_option oc_State obs) (observed_generation obs) (sc_Generation c) (queue \<noteq> None)
        \<and> (acts = [CallPosture]
           \<or> acts = [CallPosture, CallApply (sc_ID c) (sc_Spec c) (sc_Generation c) (IntentKey c) queue])
    | DesiredTerminated \<Rightarrow>
        (case obs of None \<Rightarrow> acts = [CallReap (sc_ID c)]
         | Some ob \<Rightarrow> oc_State ob \<noteq> ClusterStateTerminated \<and> acts = [CallTerminate (sc_ID c)])
    | DesiredSuspended \<Rightarrow>
        (case obs of None \<Rightarrow> False
         | Some ob \<Rightarrow> queue = None \<and> \<not> inSuspendedTerminalGroup (oc_State ob) \<and> acts = [CallSuspend (sc_ID c)])
    | DesiredStateRaw _ \<Rightarrow> False))"

definition intent_open :: "StoredCluster \<Rightarrow> MemoryStore \<Rightarrow> bool" where
  "intent_open c s = (case gget (ms_intents s) (IntentKey c) of None \<Rightarrow> False
    | Some i \<Rightarrow> ir_ParamsFingerprint i = paramsFingerprint (sc_Spec c))"

definition is_apply :: "pcall \<Rightarrow> bool" where
  "is_apply call = (case call of CallApply _ _ _ _ _ \<Rightarrow> True | _ \<Rightarrow> False)"

definition fenced :: "StoredCluster \<Rightarrow> pcall list \<Rightarrow> MemoryStore \<Rightarrow> bool" where
  "fenced c cs s = (list_ex is_apply cs \<longrightarrow> intent_open c s)"

lemma intent_open_frame [simp]:
  "intent_open c (snd (RecordObservation cid st g s)) = intent_open c s"
  "intent_open c (snd (SetCondition cid con s)) = intent_open c s"
  "intent_open c (snd (RecordAttempt cid n t s)) = intent_open c s"
  by (simp_all add: intent_open_def RecordObservation_def SetCondition_def RecordAttempt_def)

lemma intent_open_complete [simp]: "intent_open c (snd (CompleteIntent k v s)) = intent_open c s"
  by (simp add: intent_open_def CompleteIntent_def map_row_def gomap_simps split: option.split)

lemma intent_open_begin:
  "io_Kind (projr (fst (BeginIntent (IntentKey c) (paramsFingerprint (sc_Spec c)) s))) \<noteq> IntentOutcomeParamMismatch \<Longrightarrow>
   intent_open c (snd (BeginIntent (IntentKey c) (paramsFingerprint (sc_Spec c)) s))"
  by (auto simp: intent_open_def BeginIntent_def gomap_simps split: option.splits if_splits)

definition acted :: "StoredCluster \<Rightarrow> QueueAssignment option \<Rightarrow> ObservedCluster option \<Rightarrow>
    (MemoryStore, pcall list \<times> 'w, 'g) rstate \<Rightarrow> (MemoryStore, pcall list \<times> 'w, 'g) rstate \<Rightarrow> bool" where
  "acted c queue obs s t =
     (\<exists>acts. call_log t = call_log s @ acts \<and> actuation c queue obs acts \<and> fenced c acts (rs_store t))"

lemma apply_calls:
  assumes "rc_store r = MemoryStoreI" "rc_provisioner r = logging pv" "sc_Desired c = DesiredRunning"
    "map_option oc_State obs \<noteq> Some ClusterStateDegraded"
    "needsApply (map_option oc_State obs) (observed_generation obs) (sc_Generation c) (queue \<noteq> None)"
  shows "wp (apply_cluster r c queue) (\<lambda>_. acted c queue obs s) (\<lambda>_. acted c queue obs s) s"
  using assms intent_open_begin [of c "rs_store s"]
  by (auto simp: apply_cluster_def Let_def wp_simps acted_def actuation_def fenced_def call_log_def is_apply_def
      intro!: wp_always)

lemma decide_calls:
  assumes "rc_store r = MemoryStoreI" "rc_provisioner r = logging pv"
  shows "wp (decide r c now obs queue) (\<lambda>_. acted c queue obs s) (\<lambda>_. acted c queue obs s) s"
proof -
  have bucket: "acted c queue obs (s\<lparr>rs_bucket := b\<rparr>) t \<Longrightarrow> acted c queue obs s t" for b t
    by (simp add: acted_def call_log_def)
  have refl: "acted c queue obs s (s\<lparr>rs_bucket := b\<rparr>)" "acted c queue obs s s" for b
    by (simp_all add: acted_def actuation_def fenced_def call_log_def)
  show ?thesis
  proof (cases "sc_Desired c")
    case DesiredRunning
    note ap = apply_calls [OF assms this, of obs queue]
    have ap': "wp (apply_cluster r c queue) (\<lambda>_. acted c queue obs s) (\<lambda>_. acted c queue obs s) (s\<lparr>rs_bucket := b\<rparr>)"
      if "map_option oc_State obs \<noteq> Some ClusterStateDegraded"
        "needsApply (map_option oc_State obs) (observed_generation obs) (sc_Generation c) (queue \<noteq> None)" for b
      by (rule wp_mono [OF ap [OF that]]) (fact bucket)+
    show ?thesis
      using DesiredRunning refl ap ap'
      by (auto simp: decide_def running_arm_def Let_def wp_simps split: option.split)
  qed (use assms refl in \<open>auto simp: decide_def terminated_arm_def suspended_arm_def Let_def wp_simps
         acted_def actuation_def fenced_def call_log_def is_apply_def
         intro!: wp_always split: option.split\<close>)
qed

lemma wp_sync [wp_simps]:
  "wp (syncGatewayRegistration r c st url) Q E s =
     Q () (s\<lparr>rs_gateway := rs_gateway (snd (syncGatewayRegistration r c st url s))\<rparr>)"
  by (simp add: syncGatewayRegistration_def wp_def prog_simps split: option.split)

lemma wp_account [wp_simps]:
  "wp (account_backoff MemoryStoreI c now p) Q E s =
     Q () (s\<lparr>rs_store := snd (if p = Some False then
         RecordAttempt (sc_ID c) (satAddU32 (sc_FailureCount c) 1)
           (satAddU64 now (backoffSecs (satAddU32 (sc_FailureCount c) 1))) (rs_store s)
       else if p = Some True \<and> (sc_FailureCount c \<noteq> 0 \<or> sc_NextAttemptAt c \<noteq> 0)
       then RecordAttempt (sc_ID c) 0 0 (rs_store s) else (Inr (), rs_store s))\<rparr>)"
  by (auto simp: account_backoff_def wp_simps Let_def)

definition observed_now :: "ClusterId \<Rightarrow> pcall list \<Rightarrow> bool" where
  "observed_now cid fin = (\<exists>res. fin = [CallObserve cid res])"

lemma finish_calls:
  assumes "rc_store r = MemoryStoreI" "rc_provisioner r = logging pv"
  shows "wp (finish_pass r c now a con)
    (\<lambda>_ t. \<exists>fin. call_log t = call_log s @ fin \<and> observed_now (sc_ID c) fin
       \<and> intent_open c (rs_store t) = intent_open c (rs_store s))
    (\<lambda>_ t. \<exists>fin. call_log t = call_log s @ fin \<and> observed_now (sc_ID c) fin
       \<and> intent_open c (rs_store t) = intent_open c (rs_store s)) s"
  using assms
  by (auto simp: finish_pass_def Let_def wp_simps call_log_def observed_now_def intro!: wp_always)

definition found :: "ProvisionError + ObservedCluster \<Rightarrow> ObservedCluster option" where
  "found res = (case res of Inl _ \<Rightarrow> None | Inr ob \<Rightarrow> Some ob)"

definition readable :: "ProvisionError + ObservedCluster \<Rightarrow> bool" where
  "readable res = (case res of Inl e \<Rightarrow> isProvisionNotFound e | Inr _ \<Rightarrow> True)"

definition pass_calls :: "bool \<Rightarrow> QueueAssignment option \<Rightarrow> StoredCluster \<Rightarrow> u64 \<Rightarrow> pcall list \<Rightarrow> bool" where
  "pass_calls quarantined queue c now cs =
     (if sc_Desired c = DesiredRunning \<and> now < sc_NextAttemptAt c then cs = []
      else \<exists>res acts fin. cs = CallObserve (sc_ID c) res # acts @ fin
        \<and> (if quarantined \<or> \<not> readable res then acts = [] \<and> fin = []
           else actuation c queue (found res) acts \<and> (fin = [] \<or> observed_now (sc_ID c) fin)))"

definition pass_traced :: "StoredCluster \<Rightarrow> u64 \<Rightarrow> (MemoryStore, pcall list \<times> 'w, 'g) rstate \<Rightarrow>
    (MemoryStore, pcall list \<times> 'w, 'g) rstate \<Rightarrow> bool" where
  "pass_traced c now s t = (\<exists>cs. call_log t = call_log s @ cs
     \<and> pass_calls (ms_quarantined (rs_store s))
          (queue_of (rs_store s) (cs_Project (sc_Spec c)) PoolPurposeCompute) c now cs
     \<and> fenced c cs (rs_store t))"

lemma fenced_cases [simp]:
  "fenced c (CallObserve i res # acts) s = fenced c acts s"
  "fenced c [] s"
  by (simp_all add: fenced_def is_apply_def)

lemma fenced_append: "observed_now i fin \<Longrightarrow> fenced c (acts @ fin) s = fenced c acts s"
  by (auto simp: fenced_def is_apply_def observed_now_def)

lemma fenced_cong: "intent_open c s = intent_open c t \<Longrightarrow> fenced c acts s = fenced c acts t"
  by (simp add: fenced_def)

lemma pass_tracedI:
  assumes "call_log t = call_log s @ CallObserve (sc_ID c) res # acts @ fin"
    "\<not> (sc_Desired c = DesiredRunning \<and> now < sc_NextAttemptAt c)"
    "if ms_quarantined (rs_store s) \<or> \<not> readable res then acts = [] \<and> fin = []
     else actuation c (queue_of (rs_store s) (cs_Project (sc_Spec c)) PoolPurposeCompute) (found res) acts
       \<and> (fin = [] \<or> observed_now (sc_ID c) fin)"
    "fenced c acts (rs_store t)"
  shows "pass_traced c now s t"
proof -
  have "fenced c (acts @ fin) (rs_store t)"
    using assms(3,4) by (auto simp: fenced_append split: if_splits)
  moreover have "pass_calls (ms_quarantined (rs_store s))
      (queue_of (rs_store s) (cs_Project (sc_Spec c)) PoolPurposeCompute) c now
      (CallObserve (sc_ID c) res # acts @ fin)"
    unfolding pass_calls_def if_not_P [OF assms(2)] using assms(3) by blast
  ultimately show ?thesis
    using assms(1) unfolding pass_traced_def by (metis fenced_cases(1))
qed

lemma after_decision:
  assumes "rc_store r = MemoryStoreI" "rc_provisioner r = logging pv"
    and start: "call_log u = call_log s @ [CallObserve (sc_ID c) res]"
      "\<not> (sc_Desired c = DesiredRunning \<and> now < sc_NextAttemptAt c)"
      "\<not> ms_quarantined (rs_store s)" "readable res" "obs = found res"
      "queue = queue_of (rs_store s) (cs_Project (sc_Spec c)) PoolPurposeCompute"
  shows "wp (pbind (decide r c now obs queue) (\<lambda>d. case d of None \<Rightarrow> preturn ActionBackoff
      | Some (a, con) \<Rightarrow> finish_pass r c now a con)) (\<lambda>_. pass_traced c now s) (\<lambda>_. pass_traced c now s) u"
proof -
  have late: "pass_traced c now s t'"
    if mid: "acted c queue obs u t" and fin: "\<exists>fin. call_log t' = call_log t @ fin
      \<and> (fin = [] \<or> observed_now (sc_ID c) fin) \<and> intent_open c (rs_store t') = intent_open c (rs_store t)"
    for t t'
  proof -
    obtain acts where a: "call_log t = call_log u @ acts" "actuation c queue obs acts" "fenced c acts (rs_store t)"
      using mid unfolding acted_def by auto
    moreover obtain fin where f: "call_log t' = call_log t @ fin" "fin = [] \<or> observed_now (sc_ID c) fin"
        "intent_open c (rs_store t') = intent_open c (rs_store t)"
      using fin by auto
    moreover have "fenced c acts (rs_store t')" using a(3) f(3) fenced_cong by blast
    ultimately show ?thesis
      using start by (intro pass_tracedI [where res = res and acts = acts and fin = fin]) auto
  qed
  have early: "pass_traced c now s t" if "acted c queue obs u t" for t
    using late [OF that, of t] by auto
  have cont: "wp (case d of None \<Rightarrow> preturn ActionBackoff | Some (a, con) \<Rightarrow> finish_pass r c now a con)
      (\<lambda>_. pass_traced c now s) (\<lambda>_. pass_traced c now s) t" if mid: "acted c queue obs u t" for d t
  proof (cases d)
    case (Some p)
    show ?thesis
      unfolding Some option.case
      by (cases p) (auto intro!: wp_mono [OF finish_calls [OF assms(1,2)]] late [OF mid])
  qed (simp add: wp_simps early [OF mid])
  show ?thesis
    unfolding wp_bind by (rule wp_mono [OF decide_calls [OF assms(1,2)]]) (fact cont early)+
qed

lemma reconcileOne_traced:
  assumes "rc_store r = MemoryStoreI" "rc_provisioner r = logging pv"
  shows "wp (reconcileOne r c now) (\<lambda>_. pass_traced c now s) (\<lambda>_. pass_traced c now s) s"
proof (cases "sc_Desired c = DesiredRunning \<and> now < sc_NextAttemptAt c")
  case True
  then show ?thesis
    by (simp add: reconcileOne_def wp_simps pass_traced_def pass_calls_def fenced_def call_log_def)
next
  case False
  have stop: "pass_traced c now s (s\<lparr>rs_world := (fst (rs_world s) @ [CallObserve (sc_ID c) res], w), rs_store := st\<rparr>)"
    if "ms_quarantined (rs_store s) \<or> \<not> readable res" for res w st
    using that False by (intro pass_tracedI [where res = res]) (auto simp: call_log_def)
  have stop': "pass_traced c now s (s\<lparr>rs_world := (fst (rs_world s) @ [CallObserve (sc_ID c) res], w)\<rparr>)"
    if "\<not> readable res" for res w
    using that False by (intro pass_tracedI [where res = res]) (auto simp: call_log_def)
  note rest = after_decision [OF assms, unfolded wp_bind]
  show ?thesis
    using False assms(1,2) stop stop'
    by (simp add: reconcileOne_def Let_def wp_simps)
      (rule conjI, blast, (rule wp_always; auto intro!: rest simp: call_log_def readable_def found_def))
qed


text \<open>
  C1. The calls of one pass.  A pass inside the backoff window makes no provider call at all.  Otherwise it
  observes first; under quarantine, or when the observation fails, that is its only call.  Otherwise it
  attempts at most the one actuation the decision table allows for what it observed (a degraded cluster is
  never re-applied, an apply is preceded by the namespace posture, a suspended cluster of a queued project is
  left to the queue) and ends with at most one more observation.  If it applied, the outbox then holds the
  row's key with the fingerprint of exactly the spec that was applied.
\<close>

theorem reconcile_pass_calls:
  assumes "rc_store r = MemoryStoreI" and "rc_provisioner r = logging pv"
    and "reconcileOne r c now s = (res, t)"
  shows "\<exists>cs. call_log t = call_log s @ cs
    \<and> pass_calls (ms_quarantined (rs_store s))
         (queue_of (rs_store s) (cs_Project (sc_Spec c)) PoolPurposeCompute) c now cs
    \<and> fenced c cs (rs_store t)"
  using reconcileOne_traced [OF assms(1,2), of c now s] assms(3)
  by (simp add: wp_iff_snd pass_traced_def)


text \<open>A backend that does what it is told, for the concrete instances below.\<close>

definition sim_backend :: "(ClusterId, ObservedCluster) gomap Provisioner" where
  "sim_backend = \<lparr>
     pv_Apply = (\<lambda>cid spec g k q w. (Inr \<lparr>ap_Generation = g, ap_ApiBaseUrl = None\<rparr>,
        gput cid \<lparr>oc_ID = cid, oc_State = ClusterStateRunning, oc_ObservedGeneration = Some g,
          oc_SpecFingerprint = None, oc_ApiBaseUrl = None\<rparr> w)),
     pv_EnsureNamespacePosture = (\<lambda>w. (Inr (), w)),
     pv_Terminate = (\<lambda>cid w. (Inr (), gdel cid w)),
     pv_ReapNetworkPolicies = (\<lambda>cid w. (Inr (), w)),
     pv_Suspend = (\<lambda>cid w. (Inr (), map_row cid (oc_State_update (\<lambda>_. ClusterStateSuspended)) w)),
     pv_Observe = (\<lambda>cid w. (case gget w cid of None \<Rightarrow> Inl (ProvisionErrNotFound cid) | Some ob \<Rightarrow> Inr ob, w))\<rparr>"

definition demo_reconciler ::
  "(MemoryStore, pcall list \<times> (ClusterId, ObservedCluster) gomap, ClusterRegistry) Reconciler" where
  "demo_reconciler = \<lparr>rc_store = MemoryStoreI, rc_provisioner = logging sim_backend,
     rc_terminatedRetentionSecs = TerminatedRetentionSecs, rc_meteringInterval = 60,
     rc_registrar = None, rc_gatewayHostname = None, rc_quantity = (\<lambda>_. None)\<rparr>"

definition demo_row :: StoredCluster where
  "demo_row = fresh_cluster ''c1'' ClusterSpec_zero 1 100"

definition demo_rstate ::
  "bool \<Rightarrow> (MemoryStore, pcall list \<times> (ClusterId, ObservedCluster) gomap, ClusterRegistry) rstate" where
  "demo_rstate q = \<lparr>rs_store = (NewMemoryStore 100)\<lparr>ms_clusters := [(''c1'', demo_row)], ms_quarantined := q\<rparr>,
     rs_world = ([], []), rs_gateway = \<lparr>cr_Clusters = [], cr_dynamic = []\<rparr>, rs_bucket = None,
     rs_metered = [], rs_lastMeter = None, rs_registered = [], rs_converged = []\<rparr>"

lemma demo_reconciler_sel [simp]:
  "rc_store demo_reconciler = MemoryStoreI" "rc_provisioner demo_reconciler = logging sim_backend"
  "rc_registrar demo_reconciler = None" "rc_quantity demo_reconciler = (\<lambda>_. None)"
  by (simp_all add: demo_reconciler_def)

lemma wp_sim [wp_simps]:
  "wp (pv_Apply sim_backend cid spec g k q) Q1 E w = Q1 \<lparr>ap_Generation = g, ap_ApiBaseUrl = None\<rparr>
     (gput cid \<lparr>oc_ID = cid, oc_State = ClusterStateRunning, oc_ObservedGeneration = Some g,
          oc_SpecFingerprint = None, oc_ApiBaseUrl = None\<rparr> w)"
  "wp (pv_EnsureNamespacePosture sim_backend) Q2 E w = Q2 () w"
  "wp (pv_Observe sim_backend cid) Q3 E w =
     (case gget w cid of None \<Rightarrow> E (ProvisionErrNotFound cid) w | Some ob \<Rightarrow> Q3 ob w)"
  by (simp_all add: wp_def sim_backend_def split: option.split)

lemma demo_pass_applies: "list_ex is_apply (call_log (snd (reconcileOne demo_reconciler demo_row 100 (demo_rstate False))))"
proof -
  have "wp (reconcileOne demo_reconciler demo_row 100) (\<lambda>_ t. list_ex is_apply (call_log t))
      (\<lambda>_ t. list_ex is_apply (call_log t)) (demo_rstate False)"
    by (simp add: reconcileOne_def decide_def running_arm_def apply_cluster_def finish_pass_def Let_def wp_simps
        demo_row_def demo_rstate_def NewMemoryStore_def fresh_cluster_def isProvisionNotFound_def needsApply_def
        gomap_simps BeginIntent_def call_log_def is_apply_def)
  then show ?thesis by (simp add: wp_iff_snd)
qed

theorem reconcile_pass_calls_witness:
  "\<exists>cs. pass_calls False None demo_row 100 cs \<and> list_ex is_apply cs
     \<and> intent_open demo_row (rs_store (snd (reconcileOne demo_reconciler demo_row 100 (demo_rstate False))))"
proof -
  have "queue_of (rs_store (demo_rstate False)) (cs_Project (sc_Spec demo_row)) PoolPurposeCompute = None"
    by (simp add: queue_of_def QueueAssignmentForProjectPurpose_def pbind_def MemoryStoreI_def ListPools_def
        demo_rstate_def NewMemoryStore_def gvals_def prog_simps)
  then show ?thesis
    using reconcile_pass_calls [OF _ _ surjective_pairing, of demo_reconciler sim_backend demo_row 100 "demo_rstate False"]
      demo_pass_applies
    by (auto simp: demo_rstate_def call_log_def fenced_def)
qed


section \<open>Quarantine\<close>

definition is_observe :: "pcall \<Rightarrow> bool" where
  "is_observe call = (case call of CallObserve _ _ \<Rightarrow> True | _ \<Rightarrow> False)"

definition unobserved :: "StoredCluster \<Rightarrow> StoredCluster" where
  "unobserved c = c\<lparr>sc_ObservedState := None, sc_ObservedGeneration := 0\<rparr>"

definition only_observed :: "(MemoryStore, pcall list \<times> 'w, 'g) rstate \<Rightarrow>
    (MemoryStore, pcall list \<times> 'w, 'g) rstate \<Rightarrow> bool" where
  "only_observed s t = (log_grows call_log is_observe s t
     \<and> (rs_store t)\<lparr>ms_clusters := []\<rparr> = (rs_store s)\<lparr>ms_clusters := []\<rparr>
     \<and> (\<forall>k. map_option unobserved (gget (ms_clusters (rs_store t)) k)
           = map_option unobserved (gget (ms_clusters (rs_store s)) k))
     \<and> rs_gateway t = rs_gateway s \<and> rs_bucket t = rs_bucket s \<and> rs_metered t = rs_metered s)"

definition frozen :: "(MemoryStore, pcall list \<times> 'w, 'g) rstate \<Rightarrow>
    (MemoryStore, pcall list \<times> 'w, 'g) rstate \<Rightarrow> bool" where
  "frozen s t = (ms_quarantined (rs_store s) \<longrightarrow> only_observed s t)"

lemma only_observed_quarantined: "only_observed s t \<Longrightarrow> ms_quarantined (rs_store t) = ms_quarantined (rs_store s)"
  unfolding only_observed_def by (drule conjunct2, drule conjunct1, drule arg_cong [where f = ms_quarantined]) simp

lemma only_observed_trans: "only_observed s t \<Longrightarrow> only_observed t u \<Longrightarrow> only_observed s u"
  unfolding only_observed_def by (auto intro: grows.frame_trans)

interpretation frozen: frame frozen
proof
  show "frozen s s" for s :: "(MemoryStore, pcall list \<times> 'w, 'g) rstate"
    by (simp add: frozen_def only_observed_def grows.frame_refl)
  show "frozen s t \<Longrightarrow> frozen t u \<Longrightarrow> frozen s u" for s t u :: "(MemoryStore, pcall list \<times> 'w, 'g) rstate"
    unfolding frozen_def using only_observed_quarantined only_observed_trans by blast
qed

lemma steps_wp: "steps R m \<longleftrightarrow> (\<forall>s. wp m (\<lambda>_. R s) (\<lambda>_. R s) s)"
  by (simp add: steps_def wp_iff_snd)

lemma unobserved_record [simp]: "unobserved (record_observation st g c) = unobserved c"
  by (simp add: unobserved_def record_observation_def Let_def)

lemma only_observedI:
  assumes "call_log t = call_log s @ cs" "list_all is_observe cs"
    "rs_store t = snd (RecordObservation cid st g (rs_store s)) \<or> rs_store t = rs_store s"
    "rs_gateway t = rs_gateway s" "rs_bucket t = rs_bucket s" "rs_metered t = rs_metered s"
  shows "only_observed s t"
  using assms
  by (auto simp: only_observed_def log_grows_def RecordObservation_def map_row_def gomap_simps
      split: option.split)

lemma reconcileOne_frozen:
  assumes "rc_store r = MemoryStoreI" "rc_provisioner r = logging pv"
  shows "steps frozen (reconcileOne r c now)"
  unfolding steps_wp
proof
  fix s :: "(MemoryStore, pcall list \<times> 'a, 'b) rstate"
  have obs: "only_observed s (s\<lparr>rs_world := (fst (rs_world s) @ [CallObserve (sc_ID c) res], w),
      rs_store := snd (RecordObservation cid so g (rs_store s))\<rparr>)" for res w cid so g
    by (rule only_observedI [where cs = "[CallObserve (sc_ID c) res]" and cid = cid and st = so and g = g])
      (simp_all add: call_log_def is_observe_def)
  have fail: "only_observed s (s\<lparr>rs_world := (fst (rs_world s) @ [CallObserve (sc_ID c) res], w)\<rparr>)" for res w
    by (rule only_observedI [where cs = "[CallObserve (sc_ID c) res]"])
      (simp_all add: call_log_def is_observe_def)
  have stay: "only_observed s s" by (simp add: only_observed_def grows.frame_refl)
  show "wp (reconcileOne r c now) (\<lambda>_. frozen s) (\<lambda>_. frozen s) s"
  proof (cases "ms_quarantined (rs_store s)")
    case True
    have "wp (reconcileOne r c now) (\<lambda>_. only_observed s) (\<lambda>_. only_observed s) s"
      using assms True obs fail stay
      by (auto simp: reconcileOne_def Let_def wp_simps intro!: wp_always)
    then show ?thesis by (rule wp_mono) (simp_all add: frozen_def)
  qed (simp add: frozen_def wp_def split: prod.split sum.split)
qed

lemma steps_on_store: "(\<And>s. wp m (\<lambda>_ t. t = s) (\<lambda>_ t. t = s) s) \<Longrightarrow> steps frozen (on_store m)"
  unfolding steps_wp wp_seams by (rule allI, rule wp_mono, assumption) (simp_all add: frozen.frame_refl)

text \<open>
  C3. Quarantine.  While the store is quarantined, a pass over any set of clusters calls the provider only to
  observe, and changes nothing but the recorded observations: no intent is opened, no condition or attempt
  counter moves, no row changes its spec, generation or desired state, the gateway and the rate budget are
  untouched, and the quarantine stays.
\<close>

theorem quarantine_only_observes:
  assumes "rc_store r = MemoryStoreI" and "rc_provisioner r = logging pv"
    and "ms_quarantined (rs_store s)" and "ReconcileAllAt r now s = (res, t)"
  shows "only_observed s t \<and> ms_quarantined (rs_store t)"
proof -
  have "steps frozen (ReconcileAllAt r now)"
    unfolding ReconcileAllAt_def collect_def
    using assms(1) reconcileOne_frozen [OF assms(1,2)]
    by (auto intro!: frozen.steps_intros frozen.steps_each steps_on_store simp: wp_simps)
  then have "frozen s (snd (ReconcileAllAt r now s))" by (simp add: steps_def)
  then have "only_observed s t" using assms(3,4) by (simp add: frozen_def)
  then show ?thesis using assms(3) only_observed_quarantined by blast
qed

theorem quarantine_only_observes_witness:
  "only_observed (demo_rstate True) (snd (ReconcileAllAt demo_reconciler 100 (demo_rstate True)))"
  using quarantine_only_observes [OF _ _ _ surjective_pairing, of demo_reconciler sim_backend "demo_rstate True" 100]
  by (simp add: demo_rstate_def)

end
