(* ===== verification/Reconcile_Live.thy ===== *)
theory Reconcile_Live
  imports Reconcile_Props
begin

text \<open>
  Convergence of the cluster engine, the reach of its reapers and of the stale-restore check, and its
  backoff schedule.
\<close>


section \<open>Convergence\<close>

lemma wp_total: "wp m Q (\<lambda>_ _. False) s \<Longrightarrow> \<exists>x t. m s = (Inr x, t) \<and> Q x t"
  by (auto simp: wp_def split: prod.splits sum.splits)

lemma wp_known: "m s = (Inr x, t) \<Longrightarrow> wp m Q E s = Q x t"
  by (simp add: wp_def)

lemma wp_known_err: "m s = (Inl e, t) \<Longrightarrow> wp m Q E s = E e t"
  by (simp add: wp_def)

text \<open>
  What the engine relies on of the backend, for one row and the queue assignment of its project.  \<^verbatim>\<open>live_at\<close>
  is an observation of the row's cluster in service: at the row's generation, with the row's fingerprint or
  none, and provisioning, running or updating; a queued cluster may also be suspended, which is Kueue holding
  an unadmitted workload.  A backend keeps its promises when the namespace posture and the apply succeed, what
  was applied is observed live, and a cluster observed live is still live when observed next, though perhaps
  in another of these states.
\<close>

definition live_at :: "quantity_parser \<Rightarrow> QueueAssignment option \<Rightarrow> StoredCluster \<Rightarrow> ObservedCluster \<Rightarrow> bool" where
  "live_at quantity q c ob =
     ((oc_State ob \<in> {ClusterStateProvisioning, ClusterStateRunning, ClusterStateUpdating}
       \<or> q \<noteq> None \<and> oc_State ob = ClusterStateSuspended)
      \<and> oc_ObservedGeneration ob = Some (sc_Generation c)
      \<and> oc_SpecFingerprint ob \<in> {None, Some (OwnedSpecFingerprint quantity (sc_Spec c))})"

definition keeps_promises ::
  "quantity_parser \<Rightarrow> QueueAssignment option \<Rightarrow> StoredCluster \<Rightarrow> 'w Provisioner \<Rightarrow> bool" where
  "keeps_promises quantity q c pv =
     ((\<forall>w. \<exists>w'. pv_EnsureNamespacePosture pv w = (Inr (), w'))
      \<and> (\<forall>w. \<exists>resp w' ob w''. pv_Apply pv (sc_ID c) (sc_Spec c) (sc_Generation c) (IntentKey c) q w = (Inr resp, w')
           \<and> pv_Observe pv (sc_ID c) w' = (Inr ob, w'') \<and> live_at quantity q c ob)
      \<and> (\<forall>w ob w'. pv_Observe pv (sc_ID c) w = (Inr ob, w') \<and> live_at quantity q c ob \<longrightarrow>
           (\<exists>ob' w''. pv_Observe pv (sc_ID c) w' = (Inr ob', w'') \<and> live_at quantity q c ob')))"

definition settled_row :: "ObservedCluster \<Rightarrow> StoredCluster \<Rightarrow> StoredCluster" where
  "settled_row ob c = c\<lparr>sc_ObservedState := Some (oc_State ob),
     sc_ObservedGeneration := max (sc_ObservedGeneration c) (sc_Generation c), sc_Condition := None,
     sc_FailureCount := 0, sc_NextAttemptAt := 0\<rparr>"

lemma settled_row_sel [simp]:
  "sc_ID (settled_row ob c) = sc_ID c" "sc_Spec (settled_row ob c) = sc_Spec c"
  "sc_Generation (settled_row ob c) = sc_Generation c" "sc_Desired (settled_row ob c) = sc_Desired c"
  "sc_NextAttemptAt (settled_row ob c) = 0" "sc_FailureCount (settled_row ob c) = 0"
  "settled_row ob' (settled_row ob c) = settled_row ob' c"
  "live_at quantity q (settled_row ob c) = live_at quantity q c"
  by (simp_all add: settled_row_def live_at_def [abs_def])

text \<open>Passes over the row as the store has it, one per reading of the clock, while each finds nothing to do.\<close>

primrec quiet_passes ::
  "(MemoryStore, 'w, 'g) Reconciler \<Rightarrow> ClusterId \<Rightarrow> u64 list \<Rightarrow> (MemoryStore, 'w, 'g) rstate \<Rightarrow>
   (MemoryStore, 'w, 'g) rstate option" where
  "quiet_passes r cid [] s = Some s"
| "quiet_passes r cid (now # nows) s = (case gget (ms_clusters (rs_store s)) cid of
     None \<Rightarrow> None
   | Some c \<Rightarrow> (case reconcileOne r c now s of
       (Inr a, t) \<Rightarrow> if a = ActionNoOp then quiet_passes r cid nows t else None
     | (Inl _, _) \<Rightarrow> None))"

lemma store_rows [simp]:
  "ms_clusters (snd (BeginIntent k fp s)) = ms_clusters s"
  "ms_clusters (snd (CompleteIntent k v s)) = ms_clusters s"
  "ms_quarantined (snd (BeginIntent k fp s)) = ms_quarantined s"
  "ms_quarantined (snd (CompleteIntent k v s)) = ms_quarantined s"
  "ms_quarantined (snd (RecordObservation cid st g s)) = ms_quarantined s"
  "ms_quarantined (snd (SetCondition cid con s)) = ms_quarantined s"
  "ms_quarantined (snd (RecordAttempt cid n t s)) = ms_quarantined s"
  by (simp_all add: BeginIntent_def CompleteIntent_def RecordObservation_def SetCondition_def RecordAttempt_def
      split: option.split)

lemma row_after [simp]:
  "gget (ms_clusters (snd (RecordObservation cid st g s))) cid =
     map_option (record_observation st g) (gget (ms_clusters s) cid)"
  "gget (ms_clusters (snd (SetCondition cid con s))) cid =
     map_option (sc_Condition_update (\<lambda>_. con)) (gget (ms_clusters s) cid)"
  "gget (ms_clusters (snd (RecordAttempt cid n t s))) cid =
     map_option (\<lambda>c. c\<lparr>sc_FailureCount := n, sc_NextAttemptAt := t\<rparr>) (gget (ms_clusters s) cid)"
  by (simp_all add: RecordObservation_def SetCondition_def RecordAttempt_def map_row_def gomap_simps
      split: option.split)

lemma store_catalog [simp]:
  "ms_pools (snd (BeginIntent k fp s)) = ms_pools s"
  "ms_pools (snd (CompleteIntent k v s)) = ms_pools s"
  "ms_pools (snd (RecordObservation cid st g s)) = ms_pools s"
  "ms_pools (snd (SetCondition cid con s)) = ms_pools s"
  "ms_pools (snd (RecordAttempt cid n t s)) = ms_pools s"
  "ms_allocations (snd (BeginIntent k fp s)) = ms_allocations s"
  "ms_allocations (snd (CompleteIntent k v s)) = ms_allocations s"
  "ms_allocations (snd (RecordObservation cid st g s)) = ms_allocations s"
  "ms_allocations (snd (SetCondition cid con s)) = ms_allocations s"
  "ms_allocations (snd (RecordAttempt cid n t s)) = ms_allocations s"
  by (simp_all add: BeginIntent_def CompleteIntent_def RecordObservation_def SetCondition_def RecordAttempt_def
      split: option.split)

text \<open>The state between two passes over a settled row: the next observation is live and the row is as recorded.\<close>

definition at_rest ::
  "(MemoryStore, 'w, 'g) Reconciler \<Rightarrow> QueueAssignment option \<Rightarrow> StoredCluster \<Rightarrow> (MemoryStore, 'w, 'g) rstate \<Rightarrow> bool" where
  "at_rest r q c t = (\<not> ms_quarantined (rs_store t)
     \<and> queue_of (rs_store t) (cs_Project (sc_Spec c)) PoolPurposeCompute = q
     \<and> (\<exists>ob. live_at (rc_quantity r) q c ob \<and> gget (ms_clusters (rs_store t)) (sc_ID c) = Some (settled_row ob c))
     \<and> (\<exists>ob w. pv_Observe (rc_provisioner r) (sc_ID c) (rs_world t) = (Inr ob, w) \<and> live_at (rc_quantity r) q c ob))"

lemma finish_settles:
  assumes "rc_store r = MemoryStoreI" "keeps_promises (rc_quantity r) q c (rc_provisioner r)"
    and obs: "pv_Observe (rc_provisioner r) (sc_ID c) (rs_world s) = (Inr ob, w)" and live: "live_at (rc_quantity r) q c ob"
    and row: "gget (ms_clusters (rs_store s)) (sc_ID c) = Some c"
    and ok: "\<not> ms_quarantined (rs_store s)" "queue_of (rs_store s) (cs_Project (sc_Spec c)) PoolPurposeCompute = q"
    and a: "a = ActionApplied \<or> a = ActionNoOp \<and> sc_Desired c = DesiredRunning"
  shows "wp (finish_pass r c now a None) (\<lambda>a' t. a' = a \<and> at_rest r q c t) (\<lambda>_ _. False) s"
proof -
  obtain ob' w' where later: "pv_Observe (rc_provisioner r) (sc_ID c) w = (Inr ob', w')" "live_at (rc_quantity r) q c ob'"
    using assms(2) obs live unfolding keeps_promises_def by meson
  have prog: "made_progress c a (Some (oc_State ob)) = Some True"
    using a live by (auto simp: made_progress_def live_at_def)
  have rest: "at_rest r q c t"
    if "rs_world t = w" "\<not> ms_quarantined (rs_store t)" "ms_pools (rs_store t) = ms_pools (rs_store s)"
      "ms_allocations (rs_store t) = ms_allocations (rs_store s)"
      "gget (ms_clusters (rs_store t)) (sc_ID c) = Some (settled_row ob c)" for t
    unfolding at_rest_def
    using that live later ok(2) queue_of_cong [of "rs_store t" "rs_store s"] by auto
  have "oc_ObservedGeneration ob = Some (sc_Generation c)" using live by (simp add: live_at_def)
  then show ?thesis
    using assms(1) row ok(1) prog
    by (auto simp: finish_pass_def Let_def wp_simps
        wp_known [where m = "pv_Observe (rc_provisioner r) (sc_ID c)", OF obs] observed_generation_def
        driftConditionEqual_def record_observation_def settled_row_def max_def intro!: rest)
qed

lemma settled_row_absorbed [simp]:
  "keeps_promises quantity q (settled_row ob c) pv = keeps_promises quantity q c pv"
  "at_rest r q (settled_row ob c) t = at_rest r q c t"
  by (simp_all add: keeps_promises_def at_rest_def IntentKey_def)

lemma quiet_step:
  assumes "rc_store r = MemoryStoreI" "keeps_promises (rc_quantity r) q c (rc_provisioner r)"
    and run: "sc_Desired c = DesiredRunning" and rest: "at_rest r q c s"
  shows "\<exists>d t. gget (ms_clusters (rs_store s)) (sc_ID c) = Some d
    \<and> reconcileOne r d now s = (Inr ActionNoOp, t) \<and> at_rest r q c t"
proof -
  obtain ob0 ob w where row: "gget (ms_clusters (rs_store s)) (sc_ID c) = Some (settled_row ob0 c)"
    and obs: "pv_Observe (rc_provisioner r) (sc_ID c) (rs_world s) = (Inr ob, w)" and live: "live_at (rc_quantity r) q c ob"
    and ok: "\<not> ms_quarantined (rs_store s)" "queue_of (rs_store s) (cs_Project (sc_Spec c)) PoolPurposeCompute = q"
    using rest unfolding at_rest_def by blast
  obtain ob' w' where later: "pv_Observe (rc_provisioner r) (sc_ID c) w = (Inr ob', w')" "live_at (rc_quantity r) q c ob'"
    using assms(2) obs live unfolding keeps_promises_def by meson
  let ?d = "settled_row ob0 c"
  have dec: "wp (decide r ?d now (Some ob) q) Q E u = Q (Some (ActionNoOp, None)) u" for u Q E
    using run live
    by (auto simp: decide_def running_arm_def Let_def needsApply_def observed_generation_def live_at_def wp_simps)
  have fin: "wp (finish_pass r ?d now ActionNoOp None) (\<lambda>a t. a = ActionNoOp \<and> at_rest r q c t) (\<lambda>_ _. False)
      (s\<lparr>rs_world := w\<rparr>)"
    using finish_settles [of r q ?d "s\<lparr>rs_world := w\<rparr>" ob' w' ActionNoOp now] assms(1,2) later row ok run by simp
  have "wp (reconcileOne r ?d now) (\<lambda>a t. a = ActionNoOp \<and> at_rest r q c t) (\<lambda>_ _. False) s"
    using assms(1) ok fin dec
    by (simp add: reconcileOne_def Let_def wp_simps
        wp_known [where m = "pv_Observe (rc_provisioner r) (sc_ID c)", OF obs])
  from wp_total [OF this] row show ?thesis by blast
qed

lemma quiet_forever:
  assumes "rc_store r = MemoryStoreI" "keeps_promises (rc_quantity r) q c (rc_provisioner r)"
    and "sc_Desired c = DesiredRunning" and "at_rest r q c s"
  shows "\<exists>t. quiet_passes r (sc_ID c) nows s = Some t \<and> at_rest r q c t"
  using assms(4)
proof (induction nows arbitrary: s)
  case (Cons now nows)
  from quiet_step [OF assms(1-3) Cons.prems, of now] obtain d t
    where "gget (ms_clusters (rs_store s)) (sc_ID c) = Some d"
      "reconcileOne r d now s = (Inr ActionNoOp, t)" "at_rest r q c t" by blast
  with Cons.IH [of t] show ?case by simp
qed simp


lemma sim_backend_promises: "keeps_promises quantity q c sim_backend"
  by (simp add: keeps_promises_def live_at_def sim_backend_def gomap_simps split: option.split)

definition sim_reconciler :: "(MemoryStore, (ClusterId, ObservedCluster) gomap, ClusterRegistry) Reconciler" where
  "sim_reconciler = \<lparr>rc_store = MemoryStoreI, rc_provisioner = sim_backend,
     rc_terminatedRetentionSecs = TerminatedRetentionSecs, rc_meteringInterval = 60,
     rc_registrar = None, rc_gatewayHostname = None, rc_quantity = (\<lambda>_. None)\<rparr>"

definition sim_state :: "MemoryStore \<Rightarrow> (MemoryStore, (ClusterId, ObservedCluster) gomap, ClusterRegistry) rstate" where
  "sim_state store = \<lparr>rs_store = store, rs_world = [], rs_gateway = \<lparr>cr_Clusters = [], cr_dynamic = []\<rparr>,
     rs_bucket = None, rs_metered = [], rs_lastMeter = None, rs_registered = [], rs_converged = []\<rparr>"

lemma sim_sel [simp]:
  "rc_store sim_reconciler = MemoryStoreI" "rc_provisioner sim_reconciler = sim_backend"
  "rc_registrar sim_reconciler = None" "rc_quantity sim_reconciler = (\<lambda>_. None)"
  "rs_store (sim_state store) = store" "rs_world (sim_state store) = []" "rs_bucket (sim_state store) = None"
  by (simp_all add: sim_reconciler_def sim_state_def)



section \<open>Saturating arithmetic and the backoff schedule\<close>

lemma unat_saturating:
  fixes a b :: "'a::len word"
  shows "unat (if a + b < a then - 1 else a + b) = min (2 ^ LENGTH('a) - 1) (unat a + unat b)"
proof (cases "unat a + unat b < 2 ^ LENGTH('a)")
  case True
  then have "unat (a + b) = unat a + unat b" by (simp add: unat_word_ariths)
  then show ?thesis using True by (simp add: word_less_nat_alt)
next
  case False
  have bounds: "unat a < 2 ^ LENGTH('a)" "unat b < 2 ^ LENGTH('a)" by (rule unsigned_less)+
  then have "unat a + unat b - 2 ^ LENGTH('a) < 2 ^ LENGTH('a)" by linarith
  then have "(unat a + unat b) mod 2 ^ LENGTH('a) = unat a + unat b - 2 ^ LENGTH('a)"
    using False by (subst le_mod_geq) (simp_all add: mod_less)
  then have "unat (a + b) < unat a"
    using False bounds unfolding unat_word_ariths by linarith
  then show ?thesis using False by (simp add: word_less_nat_alt unsigned_minus_1_eq_mask mask_eq_exp_minus_1)
qed

lemma unat_satAdd:
  "unat (satAddU64 a b) = min (2 ^ 64 - 1) (unat a + unat b)"
  "unat (satAddU32 c d) = min (2 ^ 32 - 1) (unat c + unat d)"
  using unat_saturating [of a b] unat_saturating [of c d]
  by (auto simp: satAddU64_def satAddU32_def Let_def split: if_splits)

lemma unat_satSub: "unat (satSubU64 a b) = unat a - unat b"
  by (auto simp: satSubU64_def unat_sub word_le_nat_alt not_less word_less_nat_alt)

lemma unat_backoffSecs: "unat (backoffSecs n) = min 300 (5 * 2 ^ (unat n - 1))"
proof -
  define k where "k = min 20 (unat n - 1)"
  have shift: "unat (let shift = (if 0 < n then n - 1 else n) in if 20 < shift then 20 else shift) = k"
    by (auto simp: k_def Let_def word_less_nat_alt unat_sub word_le_nat_alt)
  have "(2::nat) ^ k \<le> 2 ^ 20" by (rule power_increasing) (simp_all add: k_def)
  then have small: "(2::nat) ^ k < 2 ^ 64 div 5" by simp
  then have "unat (of_nat (2 ^ k) :: u64) = 2 ^ k" by (simp only: unat_of_nat) simp
  then have "unat (BackoffBaseSecs * push_bit k 1) = 5 * 2 ^ k"
    using small by (simp add: BackoffBaseSecs_def push_bit_eq_mult unat_word_ariths)
  then have "unat (backoffSecs n) = min 300 (5 * 2 ^ k)"
    using shift by (auto simp: backoffSecs_def BackoffCeilSecs_def Let_def word_less_nat_alt)
  also have "\<dots> = min 300 (5 * 2 ^ (unat n - 1))"
  proof (cases "unat n - 1 \<le> 20")
    case False
    then have "(2::nat) ^ 20 \<le> 2 ^ (unat n - 1)" by (intro power_increasing) auto
    then show ?thesis using False by (simp add: k_def)
  qed (simp add: k_def)
  finally show ?thesis .
qed

section \<open>The lifecycle reaper\<close>

definition busy :: "JobRecord list \<Rightarrow> bool" where
  "busy jobs = list_ex (\<lambda>j. \<not> jobIsTerminal (jr_Status j)) jobs"

definition job_end :: "JobRecord \<Rightarrow> nat" where
  "job_end j = min (2 ^ 64 - 1) (unat (jr_SubmittedAt j) + (case jr_DurationSecs j of None \<Rightarrow> 0 | Some d \<Rightarrow> unat d))"

lemma unat_last_activity:
  "unat (lastActivityAt createdAt jobs now) =
     (if busy jobs then unat now else fold max (map job_end jobs) (unat createdAt))"
proof -
  have "unat (last_activity_from now latest jobs) =
      (if busy jobs then unat now else fold max (map job_end jobs) (unat latest))" for latest
  proof (induction jobs arbitrary: latest)
    case (Cons j jobs)
    have "unat (satAddU64 (jr_SubmittedAt j) (case jr_DurationSecs j of None \<Rightarrow> 0 | Some d \<Rightarrow> d)) = job_end j"
      by (simp add: unat_satAdd job_end_def split: option.split)
    then show ?case
      by (auto simp: Cons.IH busy_def Let_def word_less_nat_alt max_absorb1 max_absorb2)
  qed (simp add: busy_def)
  then show ?thesis by (simp add: lastActivityAt_def)
qed


lemma fold_max_le: "k \<le> n - fold max xs a \<longleftrightarrow> k \<le> n - a \<and> (\<forall>x\<in>set xs. k \<le> n - x)" for k n :: nat
  by (induction xs arbitrary: a) auto

text \<open>
  The rule in numbers: a running cluster is due when its age has reached its cap, or when it has a window,
  is not busy, and the window has passed since its creation and since the end of every job of its own.
\<close>

definition lifecycle_due :: "JobRecord list \<Rightarrow> u64 \<Rightarrow> StoredCluster \<Rightarrow> bool" where
  "lifecycle_due jobs now c =
     (let own = filter (\<lambda>j. jr_Cluster j = sc_ID c) jobs in
      sc_Desired c = DesiredRunning \<and> sc_ObservedState c = Some ClusterStateRunning
      \<and> ((case cs_TtlSeconds (sc_Spec c) of None \<Rightarrow> False
          | Some ttl \<Rightarrow> unat ttl \<le> unat now - unat (sc_CreatedAt c))
        \<or> (case cs_IdleTimeoutSecs (sc_Spec c) of None \<Rightarrow> False
          | Some idle \<Rightarrow> if busy own then idle = 0
              else unat idle \<le> unat now - unat (sc_CreatedAt c)
                \<and> list_all (\<lambda>j. unat idle \<le> unat now - job_end j) own)))"

lemma reap_due_iff: "reap_due = lifecycle_due"
  by (auto simp: fun_eq_iff reap_due_def lifecycle_due_def isExpired_def isIdleExpired_def Let_def word_le_nat_alt
      unat_satSub unat_last_activity fold_max_le list_all_iff unat_eq_0 split: option.splits if_splits)

lemma busy_zero_window_due:
  assumes "sc_Desired c = DesiredRunning" and "sc_ObservedState c = Some ClusterStateRunning"
    and "cs_IdleTimeoutSecs (sc_Spec c) = Some 0"
    and "j \<in> set jobs" and "jr_Cluster j = sc_ID c" and "\<not> jobIsTerminal (jr_Status j)"
  shows "lifecycle_due jobs now c"
  using assms by (simp add: lifecycle_due_def Let_def busy_def list_all_iff)

lemma set_desired_twice [simp]: "set_desired d now (set_desired d now c) = set_desired d now c"
  by (simp add: set_desired_def Let_def)

lemma gvals_keyed:
  assumes "rows_ok P m" "\<And>k v. P k v \<Longrightarrow> key v = k"
  shows "v \<in> set (gvals m) \<longleftrightarrow> gget m (key v) = Some v"
proof
  assume "v \<in> set (gvals m)"
  then obtain k where "(k, v) \<in> set m" by (auto simp: gvals_def)
  then have "gget m k = Some v" using assms(1) by (simp add: rows_ok_def gwf_def gget_def)
  moreover from this have "key v = k" using assms rows_ok_get by metis
  ultimately show "gget m (key v) = Some v" by simp
next
  assume "gget m (key v) = Some v"
  then have "(key v, v) \<in> set m" by (auto simp: gget_def dest: map_of_SomeD)
  then show "v \<in> set (gvals m)" by (force simp: gvals_def)
qed

definition reap_all :: "(StoredCluster \<Rightarrow> bool) \<Rightarrow> StoredCluster list \<Rightarrow> MemoryStore \<Rightarrow> MemoryStore" where
  "reap_all P cs st = fold (\<lambda>c st. if P c then snd (SetDesired (sc_ID c) DesiredTerminated st) else st) cs st"

lemma terminate_row:
  "ms_clock (snd (SetDesired cid DesiredTerminated st)) = ms_clock st"
  "gget (ms_clusters (snd (SetDesired cid DesiredTerminated st))) k =
     (if k = cid then map_option (set_desired DesiredTerminated (ms_clock st)) (gget (ms_clusters st) k)
      else gget (ms_clusters st) k)"
  by (auto simp: SetDesired_def DesiredState_isValid_def NowUnix_def gomap_simps split: option.split)

lemma reap_all_clock [simp]: "ms_clock (reap_all P cs st) = ms_clock st"
  by (induction cs arbitrary: st) (auto simp: reap_all_def terminate_row)

lemma reap_all_rows:
  "gget (ms_clusters (reap_all P cs st)) k =
     (if \<exists>c\<in>set cs. P c \<and> sc_ID c = k
      then map_option (set_desired DesiredTerminated (ms_clock st)) (gget (ms_clusters st) k)
      else gget (ms_clusters st) k)"
proof (induction cs arbitrary: st)
  case (Cons c cs)
  have "reap_all P (c # cs) st =
      reap_all P cs (if P c then snd (SetDesired (sc_ID c) DesiredTerminated st) else st)"
    by (simp add: reap_all_def)
  then show ?case
    by (auto simp: Cons.IH terminate_row option.map_comp comp_def)
qed (simp add: reap_all_def)

lemma on_store_reads [prog_simps]:
  "on_store (st_List MemoryStoreI) s = (Inr (gvals (ms_clusters (rs_store s))), s)"
  "on_store (st_ListJobs MemoryStoreI) s = (Inr (projr (fst (ListJobs (rs_store s)))), s)"
  by (simp_all add: on_store_def pwrap_def pzoom_def MemoryStoreI_def List_def ListJobs_def)

lemma reap_loop:
  assumes "\<forall>c\<in>set cs. gget (ms_clusters (rs_store s)) (sc_ID c) \<noteq> None"
  shows "peach (\<lambda>c. if P c
        then pbind (on_store (st_SetDesired MemoryStoreI (sc_ID c) DesiredTerminated)) (\<lambda>_. preturn [sc_ID c])
        else preturn []) cs s
    = (Inr (map (\<lambda>c. if P c then [sc_ID c] else []) cs), s\<lparr>rs_store := reap_all P cs (rs_store s)\<rparr>)"
  using assms
proof (induction cs arbitrary: s)
  case (Cons c cs)
  let ?st = "if P c then snd (SetDesired (sc_ID c) DesiredTerminated (rs_store s)) else rs_store s"
  have run: "(if P c then pbind (on_store (st_SetDesired MemoryStoreI (sc_ID c) DesiredTerminated))
        (\<lambda>_. preturn [sc_ID c]) else preturn []) s
      = (Inr (if P c then [sc_ID c] else []), s\<lparr>rs_store := ?st\<rparr>)"
    using Cons.prems
    by (auto simp: pbind_def on_store_def pwrap_def pzoom_def prog_simps MemoryStoreI_def SetDesired_def
        DesiredState_isValid_def split: option.splits)
  have "\<forall>c\<in>set cs. gget (ms_clusters ?st) (sc_ID c) \<noteq> None"
    using Cons.prems
    by (auto simp: SetDesired_def DesiredState_isValid_def gomap_simps split: option.splits)
  then show ?case
    using Cons.IH [of "s\<lparr>rs_store := ?st\<rparr>"] run
    by (auto simp: pbind_def prog_simps reap_all_def)
qed (simp add: prog_simps reap_all_def)


text \<open>
  C17. The lifecycle reaper.  On a well-formed store it never fails, returns the ids of exactly the rows that
  are due, marks exactly those terminated at the store's clock and changes no other row.  Due means over the
  age cap, or idle: no unfinished job, and the whole window elapsed since creation and since the end of each
  of the cluster's jobs.  The one exception is a window of zero seconds, which the API admits: under it a
  cluster is due while its jobs are still running, although the comments in the source call a busy cluster
  never idle.
\<close>

theorem reap_expired_exact:
  assumes "rc_store r = MemoryStoreI" and "store_inv (rs_store s)"
  shows "\<exists>t. ReapExpired r now s =
      (Inr (map sc_ID (filter (lifecycle_due (projr (fst (ListJobs (rs_store s)))) now) (gvals (ms_clusters (rs_store s))))), t)
    \<and> t = s\<lparr>rs_store := rs_store t\<rparr>
    \<and> (\<forall>k. gget (ms_clusters (rs_store t)) k = map_option
          (\<lambda>c. if lifecycle_due (projr (fst (ListJobs (rs_store s)))) now c
               then set_desired DesiredTerminated (ms_clock (rs_store s)) c else c)
          (gget (ms_clusters (rs_store s)) k))"
proof -
  let ?st = "rs_store s" and ?rows = "gvals (ms_clusters (rs_store s))"
  let ?P = "reap_due (projr (fst (ListJobs ?st))) now"
  have keyed: "c \<in> set ?rows \<longleftrightarrow> gget (ms_clusters ?st) (sc_ID c) = Some c" for c
    using assms(2) by (intro gvals_keyed [where P = cluster_row_ok]) (auto simp: store_inv_def cluster_row_ok_def)
  have own: "gget (ms_clusters ?st) k = Some c \<Longrightarrow> sc_ID c = k" for k c
    using assms(2) rows_ok_get [of cluster_row_ok] by (auto simp: store_inv_def cluster_row_ok_def)
  have "ReapExpired r now s =
      (Inr (concat (map (\<lambda>c. if ?P c then [sc_ID c] else []) ?rows)), s\<lparr>rs_store := reap_all ?P ?rows ?st\<rparr>)"
    using reap_loop [of ?rows s ?P] keyed
    unfolding ReapExpired_def assms(1) by (simp add: pbind_def [of "on_store _"] pbind_def [of "peach _ _"] prog_simps)
  moreover have "concat (map (\<lambda>c. if ?P c then [sc_ID c] else []) cs) = map sc_ID (filter ?P cs)" for cs
    by (induction cs) auto
  moreover have "gget (ms_clusters (reap_all ?P ?rows ?st)) k = map_option
      (\<lambda>c. if ?P c then set_desired DesiredTerminated (ms_clock ?st) c else c) (gget (ms_clusters ?st) k)" for k
  proof (cases "gget (ms_clusters ?st) k")
    case (Some c)
    then have "(\<exists>d\<in>set ?rows. ?P d \<and> sc_ID d = k) = ?P c"
      unfolding Bex_def keyed using own [OF Some] by (metis option.inject)
    then show ?thesis using Some by (simp add: reap_all_rows)
  qed (simp add: reap_all_rows)
  ultimately show ?thesis by (simp add: reap_due_iff)
qed


definition demo_idle :: MemoryStore where
  "demo_idle = (NewMemoryStore 500)\<lparr>ms_clusters := [(''c1'', demo_row\<lparr>sc_ObservedState := Some ClusterStateRunning,
     sc_Spec := ClusterSpec_zero\<lparr>cs_IdleTimeoutSecs := Some 60\<rparr>\<rparr>)]\<rparr>"

theorem reap_expired_exact_witness:
  "\<exists>t. ReapExpired sim_reconciler 400 (sim_state demo_idle) = (Inr [''c1''], t)"
proof -
  have "store_inv (rs_store (sim_state demo_idle))"
    by (simp add: demo_idle_def demo_row_def fresh_cluster_def NewMemoryStore_def store_inv_def rows_ok_def gwf_def
        gget_def cluster_row_ok_def DesiredState_isValid_def audit_ok_def)
  moreover have "lifecycle_due [] 400 (demo_row\<lparr>sc_ObservedState := Some ClusterStateRunning,
     sc_Spec := ClusterSpec_zero\<lparr>cs_IdleTimeoutSecs := Some 60\<rparr>\<rparr>)"
    by (simp add: lifecycle_due_def demo_row_def fresh_cluster_def busy_def)
  ultimately show ?thesis
    using reap_expired_exact [of sim_reconciler "sim_state demo_idle" 400]
    by (auto simp: demo_idle_def NewMemoryStore_def ListJobs_def gvals_def demo_row_def fresh_cluster_def)
qed


section \<open>Stale restores\<close>

definition newer :: "pcall \<Rightarrow> StoredCluster \<Rightarrow> bool" where
  "newer call c = (case call of
      CallObserve cid (Inr ob) \<Rightarrow> cid = sc_ID c \<and>
        (case oc_ObservedGeneration ob of None \<Rightarrow> False | Some g \<Rightarrow> sc_Generation c < g)
    | _ \<Rightarrow> False)"

lemma stale_check_wp:
  assumes "rc_store r = MemoryStoreI" "rc_provisioner r = logging pv"
  shows "wp (stale_check r c) (\<lambda>b t. \<exists>res. call_log t = call_log s @ [CallObserve (sc_ID c) res]
      \<and> (b = Some True \<and> newer (CallObserve (sc_ID c) res) c \<and> rs_store t = (rs_store s)\<lparr>ms_quarantined := True\<rparr>
         \<or> b = None \<and> \<not> newer (CallObserve (sc_ID c) res) c \<and> rs_store t = rs_store s)) (\<lambda>_ _. True) s"
  using assms
  by (auto simp: stale_check_def wp_simps call_log_def newer_def SetQuarantine_def intro!: wp_always
      split: option.split)


definition stale_outcome :: "StoredCluster list \<Rightarrow> (MemoryStore, pcall list \<times> 'w, 'g) rstate \<Rightarrow> bool \<Rightarrow>
    (MemoryStore, pcall list \<times> 'w, 'g) rstate \<Rightarrow> bool" where
  "stale_outcome cs s b t = (\<exists>calls. call_log t = call_log s @ calls \<and> list_all is_observe calls
     \<and> (if b then (\<exists>c\<in>set cs. list_ex (\<lambda>call. newer call c) calls)
            \<and> rs_store t = (rs_store s)\<lparr>ms_quarantined := True\<rparr>
        else (\<forall>c\<in>set cs. \<exists>res. CallObserve (sc_ID c) res \<in> set calls \<and> \<not> newer (CallObserve (sc_ID c) res) c)
            \<and> rs_store t = rs_store s))"

lemma stale_outcome_step:
  assumes "call_log u = call_log s @ [CallObserve (sc_ID c) res]"
  shows "newer (CallObserve (sc_ID c) res) c \<Longrightarrow> rs_store u = (rs_store s)\<lparr>ms_quarantined := True\<rparr> \<Longrightarrow>
      stale_outcome (c # cs) s True u"
    and "\<not> newer (CallObserve (sc_ID c) res) c \<Longrightarrow> rs_store u = rs_store s \<Longrightarrow> stale_outcome cs u b t \<Longrightarrow>
      stale_outcome (c # cs) s b t"
proof -
  show "stale_outcome (c # cs) s True u"
    if "newer (CallObserve (sc_ID c) res) c" "rs_store u = (rs_store s)\<lparr>ms_quarantined := True\<rparr>"
    using that assms by (simp add: stale_outcome_def is_observe_def)
  show "stale_outcome (c # cs) s b t"
    if old: "\<not> newer (CallObserve (sc_ID c) res) c" "rs_store u = rs_store s" and rest: "stale_outcome cs u b t"
  proof -
    obtain calls where calls: "call_log t = call_log u @ calls" "list_all is_observe calls"
      "if b then (\<exists>c\<in>set cs. list_ex (\<lambda>call. newer call c) calls)
            \<and> rs_store t = (rs_store u)\<lparr>ms_quarantined := True\<rparr>
        else (\<forall>c\<in>set cs. \<exists>res. CallObserve (sc_ID c) res \<in> set calls \<and> \<not> newer (CallObserve (sc_ID c) res) c)
            \<and> rs_store t = rs_store u"
      using rest unfolding stale_outcome_def by blast
    then show ?thesis
      unfolding stale_outcome_def using assms old
      by (intro exI [of _ "CallObserve (sc_ID c) res # calls"]) (auto simp: is_observe_def split: if_splits)
  qed
qed

lemma stale_loop:
  assumes "rc_store r = MemoryStoreI" "rc_provisioner r = logging pv"
  shows "wp (pfirst (stale_check r) cs) (\<lambda>b. stale_outcome cs s (b = Some True)) (\<lambda>_ _. True) s"
proof (induction cs arbitrary: s)
  case Nil
  show ?case by (simp add: wp_simps stale_outcome_def call_log_def)
next
  case (Cons c cs)
  show ?case
    unfolding pfirst.simps wp_bind
  proof (rule wp_mono [OF stale_check_wp [OF assms]], goal_cases)
    case (1 b u)
    then obtain res where log: "call_log u = call_log s @ [CallObserve (sc_ID c) res]"
      and cases: "b = Some True \<and> newer (CallObserve (sc_ID c) res) c \<and> rs_store u = (rs_store s)\<lparr>ms_quarantined := True\<rparr>
         \<or> b = None \<and> \<not> newer (CallObserve (sc_ID c) res) c \<and> rs_store u = rs_store s" by blast
    show ?case
      using cases stale_outcome_step [OF log] wp_mono [OF Cons.IH [of u]]
      by (auto simp: wp_simps)
  qed simp
qed

text \<open>
  C18. The boot check.  It calls the provider only to observe.  It reports a stale restore exactly when one of
  the observations it made carries a generation above the stored one, and then leaves the store quarantined
  and otherwise as it was; when it reports none, it has observed every stored cluster, found none newer, and
  left the store alone.
\<close>

theorem stale_restore_detected:
  assumes "rc_store r = MemoryStoreI" and "rc_provisioner r = logging pv"
    and "DetectStaleRestore r s = (Inr b, t)"
  shows "stale_outcome (gvals (ms_clusters (rs_store s))) s b t"
proof -
  have "wp (DetectStaleRestore r) (\<lambda>b. stale_outcome (gvals (ms_clusters (rs_store s))) s b) (\<lambda>_ _. True) s"
    using assms(1) stale_loop [OF assms(1,2), of "gvals (ms_clusters (rs_store s))" s]
    by (simp add: DetectStaleRestore_def wp_simps)
  then show ?thesis using assms(3) by (rule wp_run)
qed

theorem stale_restore_detected_witness:
  "\<exists>t. stale_outcome [demo_row] ((demo_rstate False)\<lparr>rs_world := ([], [(''c1'',
       \<lparr>oc_ID = ''c1'', oc_State = ClusterStateRunning, oc_ObservedGeneration = Some 7, oc_SpecFingerprint = None,
        oc_ApiBaseUrl = None\<rparr>)])\<rparr>) True t"
proof -
  let ?s = "(demo_rstate False)\<lparr>rs_world := ([], [(''c1'',
       \<lparr>oc_ID = ''c1'', oc_State = ClusterStateRunning, oc_ObservedGeneration = Some 7, oc_SpecFingerprint = None,
        oc_ApiBaseUrl = None\<rparr>)])\<rparr>"
  have rows: "gvals (ms_clusters (rs_store (demo_rstate False))) = [demo_row]"
    by (simp add: demo_rstate_def gvals_def)
  have "wp (DetectStaleRestore demo_reconciler) (\<lambda>b _. b) (\<lambda>_ _. False) ?s"
    by (simp add: DetectStaleRestore_def wp_simps rows stale_check_def demo_row_def fresh_cluster_def gget_def)
  then obtain t where "DetectStaleRestore demo_reconciler ?s = (Inr True, t)"
    using wp_total by fastforce
  then show ?thesis
    using stale_restore_detected [of demo_reconciler sim_backend ?s True t] rows by auto
qed


section \<open>The backoff schedule\<close>

text \<open>
  C19. The backoff schedule.  After the n-th consecutive pass without progress the next attempt is due five
  seconds times a power of two later, never more than five minutes later, and never before the present even
  where the clock saturates; the failure counter saturates instead of wrapping, so the delay never shrinks.
\<close>

theorem backoff_schedule:
  "unat (satAddU64 now (backoffSecs n)) = min (2 ^ 64 - 1) (unat now + min 300 (5 * 2 ^ (unat n - 1)))
   \<and> now \<le> satAddU64 now (backoffSecs n)
   \<and> n \<le> satAddU32 n 1 \<and> backoffSecs n \<le> backoffSecs (satAddU32 n 1)"
proof -
  have n: "unat n \<le> 2 ^ 32 - 1" using unsigned_less [of n, where 'a = nat] by simp
  have t: "unat now \<le> 2 ^ 64 - 1" using unsigned_less [of now, where 'a = nat] by simp
  have next_n: "unat (satAddU32 n 1) = min (2 ^ 32 - 1) (unat n + 1)"
    by (simp only: unat_satAdd unsigned_1)
  then have grow: "unat n \<le> unat (satAddU32 n 1)" using n by linarith
  then have "(2::nat) ^ (unat n - 1) \<le> 2 ^ (unat (satAddU32 n 1) - 1)" by (intro power_increasing) auto
  then have delay: "unat (backoffSecs n) \<le> unat (backoffSecs (satAddU32 n 1))"
    unfolding unat_backoffSecs by linarith
  have sum: "unat (satAddU64 now (backoffSecs n)) = min (2 ^ 64 - 1) (unat now + min 300 (5 * 2 ^ (unat n - 1)))"
    by (simp only: unat_satAdd unat_backoffSecs)
  then have "unat now \<le> unat (satAddU64 now (backoffSecs n))" using t by linarith
  then show ?thesis using sum grow delay by (simp add: word_le_nat_alt)
qed

end
