(* ===== verification/Reconcile_Stale.thy ===== *)
theory Reconcile_Stale
  imports Reconcile_Live Spec_Facts
begin

text \<open>
  The outbox as a fence.  A row whose outbox key is held for other parameters is refused before any provider
  call that changes something; the parameters are the whole spec, of which the generation only covers the
  fields that the spec comparison reads, so the two can come apart.
\<close>

text \<open>
  An edit of the pinned environment alone leaves the generation where it is and changes the fingerprint.
\<close>

lemma unfenced_edit:
  assumes "spec_utf8 a" "spec_utf8 (a\<lparr>cs_EnvironmentResolved := e\<rparr>)" "e \<noteq> cs_EnvironmentResolved a"
  shows "\<not> specChanged a (a\<lparr>cs_EnvironmentResolved := e\<rparr>)
    \<and> paramsFingerprint a \<noteq> paramsFingerprint (a\<lparr>cs_EnvironmentResolved := e\<rparr>)"
proof
  show "\<not> specChanged a (a\<lparr>cs_EnvironmentResolved := e\<rparr>)"
    by (simp add: specChanged_iff compared_view_def)
  show "paramsFingerprint a \<noteq> paramsFingerprint (a\<lparr>cs_EnvironmentResolved := e\<rparr>)"
    using spec_text_inject [OF assms(1,2)] assms(3)
    by (cases a) (auto simp: paramsFingerprint_def)
qed

text \<open>
  C4. A key held for other parameters.  When a row that wants to run needs an apply, and the outbox already
  holds its key under another fingerprint, the pass fails with the stale-intent error naming the key.  It has
  made no call but the observation, and the store is exactly as before: no attempt is recorded, so the next
  pass fails in the same way.
\<close>

theorem stale_intent_refused:
  assumes "rc_store r = MemoryStoreI" and "sc_Desired c = DesiredRunning" and "sc_NextAttemptAt c \<le> now"
    and "\<not> ms_quarantined (rs_store s)" and "rs_bucket s = None"
    and "gget (ms_intents (rs_store s)) (IntentKey c) = Some i"
    and "ir_ParamsFingerprint i \<noteq> paramsFingerprint (sc_Spec c)"
    and "pv_Observe (rc_provisioner r) (sc_ID c) (rs_world s) = (res, w)" and "readable res"
    and "map_option oc_State (found res) \<noteq> Some ClusterStateDegraded"
    and "needsApply (map_option oc_State (found res)) (observed_generation (found res)) (sc_Generation c)
           (queue_of (rs_store s) (cs_Project (sc_Spec c)) PoolPurposeCompute \<noteq> None)"
  shows "reconcileOne r c now s = (Inl (ReconcileErrStaleIntent (IntentKey c)), s\<lparr>rs_world := w\<rparr>)"
proof -
  let ?q = "queue_of (rs_store s) (cs_Project (sc_Spec c)) PoolPurposeCompute"
  let ?E = "\<lambda>e t. e = ReconcileErrStaleIntent (IntentKey c) \<and> t = s\<lparr>rs_world := w\<rparr>"
  have held: "BeginIntent (IntentKey c) (paramsFingerprint (sc_Spec c)) (rs_store s)
      = (Inr \<lparr>io_Kind = IntentOutcomeParamMismatch, io_Replay = False\<rparr>, rs_store s)"
    using assms(6,7) by (simp add: BeginIntent_def)
  have dec: "wp (pbind (decide r c now (found res) ?q) (\<lambda>d. case d of None \<Rightarrow> preturn ActionBackoff
      | Some (a, con) \<Rightarrow> finish_pass r c now a con)) (\<lambda>_ _. False) ?E (s\<lparr>rs_world := w\<rparr>)"
    using assms(1,2,5,10,11)
    by (auto simp: decide_def running_arm_def apply_cluster_def Let_def wp_simps held)
  have "wp (reconcileOne r c now) (\<lambda>_ _. False) ?E s"
  proof (cases res)
    case (Inl e)
    then show ?thesis
      using assms(1,2,3,4,8,9) dec
      by (simp add: reconcileOne_def Let_def wp_simps wp_known_err readable_def found_def not_less)
  next
    case (Inr ob)
    then show ?thesis
      using assms(1,2,3,4,8,9) dec
      by (simp add: reconcileOne_def Let_def wp_simps wp_known readable_def found_def not_less)
  qed
  then show ?thesis by (auto simp: wp_def split: prod.splits sum.splits)
qed

text \<open>
  The two come apart when a row whose apply is still pending is submitted again: the API pins a fresh
  environment snapshot, the generation stays, and the outbox refuses the row.
\<close>

definition pinned_env :: ResolvedEnvironment where
  "pinned_env = \<lparr>re_Name = ''torch'', re_BaseImage = ''ray:2.9'', re_RuntimeEnvYaml = [],
     re_ResolvedAt = Some ''2025-06-01T00:00:00Z''\<rparr>"

definition resubmitted :: StoredCluster where
  "resubmitted = demo_row\<lparr>sc_Spec := ClusterSpec_zero\<lparr>cs_EnvironmentResolved := Some pinned_env\<rparr>\<rparr>"

definition pending_store :: MemoryStore where
  "pending_store = snd (BeginIntent (IntentKey demo_row) (paramsFingerprint (sc_Spec demo_row))
     ((NewMemoryStore 100)\<lparr>ms_clusters := [(''c1'', demo_row)]\<rparr>))"

lemma zero_specs_utf8:
  "spec_utf8 ClusterSpec_zero" "spec_utf8 (ClusterSpec_zero\<lparr>cs_EnvironmentResolved := Some pinned_env\<rparr>)"
  by (simp_all add: spec_utf8_def ClusterSpec_zero_def utf8_opt_def environment_utf8_def pinned_env_def Engine_String_def)

theorem stale_intent_refused_witness:
  "UpsertDesired ''c1'' (sc_Spec resubmitted) pending_store =
     (Inr 1, pending_store\<lparr>ms_clusters := [(''c1'', resubmitted)]\<rparr>)
   \<and> reconcileOne sim_reconciler resubmitted 200 (sim_state (pending_store\<lparr>ms_clusters := [(''c1'', resubmitted)]\<rparr>))
     = (Inl (ReconcileErrStaleIntent (IntentKey resubmitted)),
        sim_state (pending_store\<lparr>ms_clusters := [(''c1'', resubmitted)]\<rparr>))"
proof
  let ?spec = "ClusterSpec_zero\<lparr>cs_EnvironmentResolved := Some pinned_env\<rparr>"
  let ?s = "sim_state (pending_store\<lparr>ms_clusters := [(''c1'', resubmitted)]\<rparr>)"
  have edit: "\<not> specChanged ClusterSpec_zero ?spec"
      "paramsFingerprint ClusterSpec_zero \<noteq> paramsFingerprint ?spec"
    using unfenced_edit [OF zero_specs_utf8] by (simp_all add: ClusterSpec_zero_def)
  then show "UpsertDesired ''c1'' (sc_Spec resubmitted) pending_store =
      (Inr 1, pending_store\<lparr>ms_clusters := [(''c1'', resubmitted)]\<rparr>)"
    by (simp add: UpsertDesired_def Let_def pending_store_def BeginIntent_def NewMemoryStore_def gget_def gput_def
        demo_row_def resubmitted_def fresh_cluster_def NowUnix_def)
  have key: "IntentKey resubmitted = IntentKey demo_row"
    by (simp add: IntentKey_def resubmitted_def)
  have "pv_Observe sim_backend ''c1'' (rs_world ?s) = (Inl (ProvisionErrNotFound ''c1''), [])"
    by (simp add: sim_backend_def gomap_simps)
  moreover have "gget (ms_intents (rs_store ?s)) (IntentKey resubmitted) =
      Some \<lparr>ir_Key = IntentKey demo_row, ir_ParamsFingerprint = paramsFingerprint (sc_Spec demo_row),
        ir_Status = IntentStatusPending, ir_ResponseJSON = None, ir_CreatedAt = 100, ir_CompletedAt = None\<rparr>"
    by (simp add: key pending_store_def BeginIntent_def NewMemoryStore_def gomap_simps NowUnix_def)
  moreover have "\<not> ms_quarantined (rs_store ?s)"
    by (simp add: pending_store_def BeginIntent_def NewMemoryStore_def gomap_simps)
  ultimately show "reconcileOne sim_reconciler resubmitted 200 ?s = (Inl (ReconcileErrStaleIntent (IntentKey resubmitted)), ?s)"
    using stale_intent_refused [of sim_reconciler resubmitted 200 ?s _ "Inl (ProvisionErrNotFound ''c1'')" "[]"] edit
    by (simp add: resubmitted_def demo_row_def fresh_cluster_def readable_def found_def isProvisionNotFound_def
        needsApply_def sim_state_def)
qed

end
