(* ===== verification/Strconv.thy ===== *)
theory Strconv
  imports Float64
begin

text \<open>
  The parts of Go's \<^verbatim>\<open>strings\<close> and \<^verbatim>\<open>strconv\<close> that quantity parsing uses: \<^verbatim>\<open>strings.TrimSpace\<close> on UTF-8
  text, \<^verbatim>\<open>strings.CutSuffix\<close>, and \<^verbatim>\<open>strconv.ParseFloat\<close> with its grammar (sign, decimal or hexadecimal
  mantissa, underscores between digits, exponent, the spellings of infinity and NaN).  The value of a
  well-formed numeral is its exact rational value, rounded once; overflow is a range error.  Exponent
  digits stop accumulating at 10000, as they do in Go.
\<close>

definition byte_char :: "nat \<Rightarrow> char" where
  "byte_char n = char_of n"

definition ascii_space :: "char \<Rightarrow> bool" where
  "ascii_space c = ((of_char c :: nat) \<in> {9, 10, 11, 12, 13, 32})"

definition space_runes :: "string list" where
  "space_runes = map (map byte_char)
     ([[0xC2, 0x85], [0xC2, 0xA0], [0xE1, 0x9A, 0x80]]
      @ map (\<lambda>k. [0xE2, 0x80, 0x80 + k]) [0..<11]
      @ [[0xE2, 0x80, 0xA8], [0xE2, 0x80, 0xA9], [0xE2, 0x80, 0xAF], [0xE2, 0x81, 0x9F],
         [0xE3, 0x80, 0x80]])"

definition space_len :: "string list \<Rightarrow> string \<Rightarrow> nat" where
  "space_len encs s = (case s of [] \<Rightarrow> 0
     | c # _ \<Rightarrow> if ascii_space c then 1
       else (case find (HasPrefix s) encs of None \<Rightarrow> 0 | Some e \<Rightarrow> length e))"

function trim_front :: "string list \<Rightarrow> string \<Rightarrow> string" where
  "trim_front encs s =
     (if space_len encs s = 0 then s else trim_front encs (drop (space_len encs s) s))"
  by pat_completeness auto
termination
  by (relation "measure (\<lambda>(_, s). length s)") (auto simp: space_len_def split: list.splits)

declare trim_front.simps [simp del]

definition TrimSpace :: "string \<Rightarrow> string" where
  "TrimSpace s = rev (trim_front (map rev space_runes) (rev (trim_front space_runes s)))"

definition CutSuffix :: "string \<Rightarrow> string \<Rightarrow> string \<times> bool" where
  "CutSuffix s p = (if HasSuffix s p then (take (length s - length p) s, True) else (s, False))"

datatype num_error = ErrSyntax | ErrRange

definition char_lower :: "char \<Rightarrow> char" where
  "char_lower c = (if is_upper c then char_of ((of_char c :: nat) + 32) else c)"

definition is_hex_letter :: "char \<Rightarrow> bool" where
  "is_hex_letter c =
     (97 \<le> (of_char (char_lower c) :: nat) \<and> (of_char (char_lower c) :: nat) \<le> 102)"

definition digit_val :: "char \<Rightarrow> nat" where
  "digit_val c = (if is_digit c then of_char c - 48 else of_char (char_lower c) - 87)"

fun underscore_scan :: "bool \<Rightarrow> char \<Rightarrow> string \<Rightarrow> bool" where
  "underscore_scan hex saw [] = (saw \<noteq> CHR ''_'')"
| "underscore_scan hex saw (c # cs) =
     (if is_digit c \<or> (hex \<and> is_hex_letter c) then underscore_scan hex CHR ''0'' cs
      else if c = CHR ''_'' then (if saw \<noteq> CHR ''0'' then False else underscore_scan hex CHR ''_'' cs)
      else if saw = CHR ''_'' then False
      else underscore_scan hex CHR ''!'' cs)"

definition strip_sign :: "string \<Rightarrow> bool \<times> string" where
  "strip_sign s = (case s of [] \<Rightarrow> (False, [])
     | c # cs \<Rightarrow> if c = CHR ''+'' then (False, cs) else if c = CHR ''-'' then (True, cs) else (False, s))"

definition underscoreOK :: "string \<Rightarrow> bool" where
  "underscoreOK s = (let s = snd (strip_sign s) in case s of
     c # d # cs \<Rightarrow>
       if c = CHR ''0'' \<and> (char_lower d = CHR ''b'' \<or> char_lower d = CHR ''o'' \<or> char_lower d = CHR ''x'')
       then underscore_scan (char_lower d = CHR ''x'') CHR ''0'' cs
       else underscore_scan False CHR ''^'' s
   | _ \<Rightarrow> underscore_scan False CHR ''^'' s)"

record float_scan =
  fs_dot :: bool
  fs_digits :: bool
  fs_nd :: nat
  fs_dp :: int
  fs_mant :: nat
  fs_under :: bool

definition float_scan0 :: float_scan where
  "float_scan0 = \<lparr>fs_dot = False, fs_digits = False, fs_nd = 0, fs_dp = 0, fs_mant = 0, fs_under = False\<rparr>"

fun scan_mant :: "bool \<Rightarrow> string \<Rightarrow> float_scan \<Rightarrow> float_scan \<times> string" where
  "scan_mant hex [] st = (st, [])"
| "scan_mant hex (c # cs) st =
     (if c = CHR ''_'' then scan_mant hex cs (st\<lparr>fs_under := True\<rparr>)
      else if c = CHR ''.'' then
        (if fs_dot st then (st, c # cs)
         else scan_mant hex cs (st\<lparr>fs_dot := True, fs_dp := int (fs_nd st)\<rparr>))
      else if is_digit c then
        (if c = CHR ''0'' \<and> fs_nd st = 0
         then scan_mant hex cs (st\<lparr>fs_digits := True, fs_dp := fs_dp st - 1\<rparr>)
         else scan_mant hex cs (st\<lparr>fs_digits := True, fs_nd := fs_nd st + 1,
                fs_mant := fs_mant st * (if hex then 16 else 10) + digit_val c\<rparr>))
      else if hex \<and> is_hex_letter c then
        scan_mant hex cs (st\<lparr>fs_digits := True, fs_nd := fs_nd st + 1,
          fs_mant := fs_mant st * 16 + digit_val c\<rparr>)
      else (st, c # cs))"

fun scan_exp :: "string \<Rightarrow> int \<Rightarrow> bool \<Rightarrow> int \<times> bool \<times> string" where
  "scan_exp [] e us = (e, us, [])"
| "scan_exp (c # cs) e us =
     (if c = CHR ''_'' then scan_exp cs e True
      else if is_digit c then scan_exp cs (if e < 10000 then e * 10 + int (digit_val c) else e) us
      else (e, us, c # cs))"

definition read_exponent :: "bool \<Rightarrow> string \<Rightarrow> (int \<times> bool \<times> string) option" where
  "read_exponent hex s = (case s of
     [] \<Rightarrow> if hex then None else Some (0, False, [])
   | c # cs \<Rightarrow>
       if char_lower c = (if hex then CHR ''p'' else CHR ''e'') then
         (case strip_sign cs of (eneg, ds) \<Rightarrow>
            (case ds of [] \<Rightarrow> None
             | d # _ \<Rightarrow> if \<not> is_digit d then None
                 else (case scan_exp ds 0 False of (e, us, rest) \<Rightarrow>
                         Some (if eneg then - e else e, us, rest))))
       else if hex then None else Some (0, False, s))"

definition pow_rat :: "rat \<Rightarrow> int \<Rightarrow> rat" where
  "pow_rat b k = (if 0 \<le> k then b ^ nat k else 1 / b ^ nat (- k))"

definition float_value :: "bool \<Rightarrow> nat \<Rightarrow> int \<Rightarrow> nat \<Rightarrow> int \<Rightarrow> rat" where
  "float_value hex mant dp nd e =
     (if hex then of_nat mant * pow_rat 2 (4 * dp - 4 * int nd + e)
      else of_nat mant * pow_rat 10 (dp - int nd + e))"

definition readFloat :: "string \<Rightarrow> (bool \<times> rat \<times> string) option" where
  "readFloat s = (case strip_sign s of (neg, t) \<Rightarrow>
     let hex = (case t of c # d # _ # _ \<Rightarrow> c = CHR ''0'' \<and> char_lower d = CHR ''x'' | _ \<Rightarrow> False);
         body = (if hex then drop 2 t else t)
     in case scan_mant hex body float_scan0 of (st, rest) \<Rightarrow>
       if \<not> fs_digits st then None
       else let dp = (if fs_dot st then fs_dp st else int (fs_nd st)) in
         (case read_exponent hex rest of None \<Rightarrow> None
          | Some (e, us, rest') \<Rightarrow>
              if (fs_under st \<or> us) \<and> \<not> underscoreOK (take (length s - length rest') s) then None
              else Some (neg, float_value hex (fs_mant st) dp (fs_nd st) e, rest')))"

fun common_prefix_len :: "string \<Rightarrow> string \<Rightarrow> nat" where
  "common_prefix_len (c # cs) (p # ps) =
     (if char_lower c = p then Suc (common_prefix_len cs ps) else 0)"
| "common_prefix_len _ _ = 0"

definition special_float :: "string \<Rightarrow> (float64 \<times> nat) option" where
  "special_float s = (case s of [] \<Rightarrow> None
     | c # cs \<Rightarrow>
         if c = CHR ''+'' \<or> c = CHR ''-'' \<or> c = CHR ''i'' \<or> c = CHR ''I'' then
           (let signed = (c = CHR ''+'' \<or> c = CHR ''-'');
                n = common_prefix_len (if signed then cs else s) ''infinity'';
                n = (if 3 < n \<and> n < 8 then 3 else n)
            in if n = 3 \<or> n = 8
               then Some (if c = CHR ''-'' then NInf else PInf, (if signed then 1 else 0) + n)
               else None)
         else if c = CHR ''n'' \<or> c = CHR ''N'' then
           (if common_prefix_len s ''nan'' = 3 then Some (NaN, 3) else None)
         else None)"

definition ParseFloat :: "string \<Rightarrow> num_error + float64" where
  "ParseFloat s = (case special_float s of
     Some (v, n) \<Rightarrow> if n = length s then Inr v else Inl ErrSyntax
   | None \<Rightarrow> (case readFloat s of
       None \<Rightarrow> Inl ErrSyntax
     | Some (neg, v, rest) \<Rightarrow>
         if rest \<noteq> [] then Inl ErrSyntax
         else (case rnd (if neg then - v else v) of
             Fin x \<Rightarrow> Inr (Fin x)
           | _ \<Rightarrow> Inl ErrRange)))"


section \<open>Decimal integers parse to their value\<close>

lemma digit_val_digit_char [simp]: "n < 10 \<Longrightarrow> digit_val (digit_char n) = n"
  by (simp add: digit_val_def is_digit_def)

lemma is_digit_digit_char [simp]: "n < 10 \<Longrightarrow> is_digit (digit_char n)"
  by (simp add: is_digit_def)

lemma is_digit_not_special:
  assumes "is_digit c"
  shows "c \<noteq> CHR ''_''" "c \<noteq> CHR ''.''" "c \<noteq> CHR ''+''" "c \<noteq> CHR ''-''" "c \<noteq> CHR ''i''"
    "c \<noteq> CHR ''I''" "c \<noteq> CHR ''n''" "c \<noteq> CHR ''N''" "c \<noteq> CHR ''x''" "c \<noteq> CHR ''X''"
  using assms by (auto simp: is_digit_def)

definition dec_val :: "string \<Rightarrow> nat \<Rightarrow> nat" where
  "dec_val ds acc = foldl (\<lambda>a c. a * 10 + digit_val c) acc ds"

lemma dec_val_nat_digits: "dec_val (nat_digits n) 0 = n"
proof (induction n rule: nat_digits.induct)
  case (1 n)
  show ?case
  proof (cases "n < 10")
    case True
    then show ?thesis by (subst nat_digits.simps) (simp add: dec_val_def)
  next
    case False
    with 1 have "dec_val (nat_digits (n div 10)) 0 = n div 10" by simp
    with False show ?thesis
      by (subst nat_digits.simps) (simp add: dec_val_def)
  qed
qed

lemma hd_nat_digits: "0 < n \<Longrightarrow> hd (nat_digits n) \<noteq> CHR ''0''"
proof (induction n rule: nat_digits.induct)
  case (1 n)
  show ?case
  proof (cases "n < 10")
    case True
    have "digit_char n \<noteq> digit_char 0" using digit_char_inj [of n 0] True 1(2) by auto
    moreover have "digit_char 0 = CHR ''0''" by code_simp
    ultimately show ?thesis using True by (subst nat_digits.simps) simp
  next
    case False
    with 1(1) have "hd (nat_digits (n div 10)) \<noteq> CHR ''0''" by simp
    with False show ?thesis by (subst nat_digits.simps) simp
  qed
qed

lemma scan_mant_digits:
  assumes "list_all is_digit ds" "0 < fs_nd st \<or> ds = [] \<or> hd ds \<noteq> CHR ''0''"
  shows "scan_mant False ds st =
    (st\<lparr>fs_digits := fs_digits st \<or> ds \<noteq> [], fs_nd := fs_nd st + length ds,
        fs_mant := dec_val ds (fs_mant st)\<rparr>, [])"
  using assms
proof (induction ds arbitrary: st)
  case Nil
  then show ?case by (simp add: dec_val_def)
next
  case (Cons d ds)
  then have d: "is_digit d" by simp
  let ?st = "st\<lparr>fs_digits := True, fs_nd := fs_nd st + 1, fs_mant := fs_mant st * 10 + digit_val d\<rparr>"
  have "(d = CHR ''0'' \<and> fs_nd st = 0) = False" using Cons.prems(2) by auto
  then have "scan_mant False (d # ds) st = scan_mant False ds ?st"
    by (simp only: scan_mant.simps is_digit_not_special [OF d] d if_True if_False)
  also have "\<dots> = (?st\<lparr>fs_digits := fs_digits ?st \<or> ds \<noteq> [], fs_nd := fs_nd ?st + length ds,
        fs_mant := dec_val ds (fs_mant ?st)\<rparr>, [])"
    by (rule Cons.IH) (use Cons.prems in simp_all)
  finally show ?case by (simp add: dec_val_def)
qed

lemma special_float_digits: "is_digit c \<Longrightarrow> special_float (c # cs) = None"
  using is_digit_not_special [of c] by (simp add: special_float_def)

lemma char_lower_digit: "is_digit c \<Longrightarrow> char_lower c = c"
  by (simp add: char_lower_def is_digit_def is_upper_def)

lemma strip_sign_digits: "is_digit c \<Longrightarrow> strip_sign (c # cs) = (False, c # cs)"
  using is_digit_not_special [of c] by (simp add: strip_sign_def)

lemma readFloat_nat_digits: "readFloat (nat_digits n) = Some (False, of_nat n, [])"
proof (cases "n = 0")
  case True
  have "readFloat (nat_digits 0) = Some (False, 0, [])" by code_simp
  then show ?thesis by (simp add: True)
next
  case False
  let ?ds = "nat_digits n"
  have dig: "list_all is_digit ?ds" using nat_digits_digits by (auto simp: list_all_iff)
  obtain c cs where ds: "?ds = c # cs" by (cases ?ds) auto
  have hex: "\<not> (case ?ds of c # d # _ # _ \<Rightarrow> c = CHR ''0'' \<and> char_lower d = CHR ''x'' | _ \<Rightarrow> False)"
    using dig is_digit_not_special(9) by (auto simp: char_lower_digit split: list.split)
  have "scan_mant False ?ds float_scan0 =
     (float_scan0\<lparr>fs_digits := True, fs_nd := length ?ds, fs_mant := n\<rparr>, [])"
    using scan_mant_digits [OF dig, of float_scan0] hd_nat_digits [of n] False
    by (simp add: dec_val_nat_digits float_scan0_def)
  moreover have "strip_sign ?ds = (False, ?ds)"
    using dig ds strip_sign_digits [of c cs] by simp
  ultimately show ?thesis
    using hex
    by (simp add: readFloat_def read_exponent_def float_scan0_def float_value_def pow_rat_def)
qed

lemma ParseFloat_nat_digits:
  "ParseFloat (nat_digits n) = (case rnd (of_nat n) of Fin x \<Rightarrow> Inr (Fin x) | _ \<Rightarrow> Inl ErrRange)"
proof -
  obtain c cs where ds: "nat_digits n = c # cs" by (cases "nat_digits n") auto
  then have "is_digit c" using nat_digits_digits [of c n] by simp
  then show ?thesis
    using ds readFloat_nat_digits [of n] special_float_digits [of c cs] by (simp add: ParseFloat_def)
qed

lemma ParseFloat_nat_digits_exact: "n \<le> 2 ^ 53 \<Longrightarrow> ParseFloat (nat_digits n) = Inr (Fin (of_nat n))"
  using rnd_int [of "int n"] by (simp add: ParseFloat_nat_digits)

lemma ParseFloat_Inr_cases: "ParseFloat s = Inr v \<Longrightarrow> v \<in> {NaN, PInf, NInf} \<or> (\<exists>x. v = Fin x)"
  by (cases v) auto


section \<open>Trimming\<close>

definition plain_char :: "char \<Rightarrow> bool" where
  "plain_char c = (\<not> ascii_space c \<and> (of_char c :: nat) < 128)"

lemma space_runes_high:
  "list_all (\<lambda>e. e \<noteq> [] \<and> 128 \<le> (of_char (hd e) :: nat) \<and> 128 \<le> (of_char (last e) :: nat)) space_runes"
  by code_simp

lemma trim_front_plain:
  assumes "list_all (\<lambda>e. e \<noteq> [] \<and> 128 \<le> (of_char (hd e) :: nat)) encs" "s \<noteq> []" "plain_char (hd s)"
  shows "trim_front encs s = s"
proof -
  have "find (HasPrefix s) encs = None"
    unfolding find_None_iff
  proof
    assume "\<exists>e. e \<in> set encs \<and> HasPrefix s e"
    then obtain e where e: "e \<in> set encs" "HasPrefix s e" by blast
    with assms(1) have "e \<noteq> []" "128 \<le> (of_char (hd e) :: nat)" by (auto simp: list_all_iff)
    moreover from e(2) \<open>e \<noteq> []\<close> have "hd e = hd s" by (auto simp: HasPrefix_iff)
    ultimately show False using assms(3) by (simp add: plain_char_def)
  qed
  with assms(2,3) have "space_len encs s = 0"
    by (auto simp: space_len_def plain_char_def split: list.splits)
  then show ?thesis by (subst trim_front.simps) simp
qed

lemma TrimSpace_plain:
  assumes "s \<noteq> []" "plain_char (hd s)" "plain_char (last s)"
  shows "TrimSpace s = s"
proof -
  have "trim_front space_runes s = s"
    by (rule trim_front_plain) (use assms space_runes_high in \<open>auto simp: list_all_iff\<close>)
  moreover have "trim_front (map rev space_runes) (rev s) = rev s"
    by (rule trim_front_plain)
      (use assms space_runes_high in \<open>auto simp: list_all_iff hd_rev\<close>)
  ultimately show ?thesis by (simp add: TrimSpace_def)
qed

lemma plain_digit [simp]: "is_digit c \<Longrightarrow> plain_char c"
  by (auto simp: plain_char_def is_digit_def ascii_space_def)

lemma nat_digits_ends:
  "plain_char (hd (nat_digits n))" "plain_char (last (nat_digits n))" "is_digit (last (nat_digits n))"
  using nat_digits_digits [of "hd (nat_digits n)" n] nat_digits_digits [of "last (nat_digits n)" n]
  by simp_all

lemma TrimSpace_nat_digits [simp]: "TrimSpace (nat_digits n) = nat_digits n"
  by (rule TrimSpace_plain) (simp_all add: nat_digits_ends)

lemma TrimSpace_nat_digits_suffix:
  assumes "u \<noteq> []" "plain_char (last u)"
  shows "TrimSpace (nat_digits n @ u) = nat_digits n @ u"
  by (rule TrimSpace_plain) (simp_all add: nat_digits_ends assms)

end
