(* ===== verification/Policy.thy ===== *)
theory Policy
  imports Strconv Core_Workload Core_Pool
begin

text \<open>
  Governance policy, after \<^verbatim>\<open>internal/policy\<close>: quantity parsing (\<^verbatim>\<open>quantity.go\<close>), resource maps,
  cluster and service demand, quota and budget admission and cost estimation (\<^verbatim>\<open>policy.go\<close>), usage
  integration (\<^verbatim>\<open>usage.go\<close>) and the GPU tenant-isolation rule (\<^verbatim>\<open>gpu.go\<close>).  Amounts are \<^verbatim>\<open>float64\<close> values with
  every operation rounded on its own.  An error is a value naming the failed check; its rendering as
  text is not modelled.

  The lemmas show that parsed quantities are finite and non-negative, that demand at maximum size
  dominates demand at minimum size, that quota and budget admission hold exactly when every resource
  stays within its limit, that usage integration is the step-function integral, and that results do not
  depend on the iteration order of Go maps.
\<close>

datatype quantity_error =
  ErrInvalidQuantity string string
| ErrNotFiniteNonNeg string float64
| ErrReplicaBounds string u32 u32
| ErrBelowRayMinimum string string
| ErrLimitKey string quantity_error

definition finiteNonNeg :: "float64 \<Rightarrow> string \<Rightarrow> quantity_error + float64" where
  "finiteNonNeg v what =
     (if \<not> IsNaN v \<and> \<not> IsInf0 v \<and> fle (Fin 0) v then Inr v else Inl (ErrNotFiniteNonNeg what v))"

definition CPUCores :: "string \<Rightarrow> quantity_error + float64" where
  "CPUCores s0 =
     (let s = TrimSpace s0 in
      case CutSuffix s ''m'' of (milli, found) \<Rightarrow>
        if found then (case ParseFloat milli of
            Inl _ \<Rightarrow> Inl (ErrInvalidQuantity ''cpu'' s)
          | Inr f \<Rightarrow> finiteNonNeg (fdiv f (Fin 1000)) ''cpu'')
        else (case ParseFloat s of
            Inl _ \<Rightarrow> Inl (ErrInvalidQuantity ''cpu'' s)
          | Inr f \<Rightarrow> finiteNonNeg f ''cpu''))"

definition gib :: float64 where
  "gib = Fin 1073741824"

definition suffix_scale :: "(string \<times> float64) list \<Rightarrow> string \<Rightarrow> string \<times> float64" where
  "suffix_scale table s = (case find (\<lambda>(u, _). HasSuffix s u) table of
     None \<Rightarrow> (s, Fin 1) | Some (u, m) \<Rightarrow> (TrimSuffix s u, m))"

definition mem_units :: "(string \<times> float64) list" where
  "mem_units =
     [(''Ki'', Fin 1024), (''Mi'', Fin (1024 * 1024)), (''Gi'', gib),
      (''Ti'', Fin (1073741824 * 1024)), (''K'', Fin 1000), (''M'', Fin 1000000),
      (''G'', Fin 1000000000), (''T'', Fin 1000000000000)]"

definition MemGiB :: "string \<Rightarrow> quantity_error + float64" where
  "MemGiB s0 =
     (let s = TrimSpace s0 in
      case suffix_scale mem_units s of (num, bytesPer) \<Rightarrow>
        (case ParseFloat (TrimSpace num) of
           Inl _ \<Rightarrow> Inl (ErrInvalidQuantity ''memory'' s)
         | Inr f \<Rightarrow> finiteNonNeg (fdiv (fmul f bytesPer) gib) ''memory''))"

definition GPUCount :: "string option \<Rightarrow> quantity_error + float64" where
  "GPUCount s = (case s of None \<Rightarrow> Inr (Fin 0)
     | Some t \<Rightarrow> if t = [] then Inr (Fin 0)
         else (case ParseFloat (TrimSpace t) of
             Inl _ \<Rightarrow> Inl (ErrInvalidQuantity ''gpu'' t)
           | Inr f \<Rightarrow> finiteNonNeg f ''gpu''))"

definition quantity_units :: "(string \<times> float64) list" where
  "quantity_units =
     [(''Ki'', Fin 1024), (''Mi'', Fin (1024 ^ 2)), (''Gi'', Fin (1024 ^ 3)), (''Ti'', Fin (1024 ^ 4)),
      (''Pi'', Fin (1024 ^ 5)), (''Ei'', Fin (1024 ^ 6)),
      (''n'', rnd (1 / 10 ^ 9)), (''u'', rnd (1 / 10 ^ 6)), (''m'', rnd (1 / 10 ^ 3)),
      (''k'', Fin (10 ^ 3)), (''M'', Fin (10 ^ 6)), (''G'', Fin (10 ^ 9)), (''T'', Fin (10 ^ 12)),
      (''P'', Fin (10 ^ 15)), (''E'', Fin (10 ^ 18))]"

definition ParseQuantity :: "string \<Rightarrow> quantity_error + float64" where
  "ParseQuantity s0 =
     (let s = TrimSpace s0 in
      case suffix_scale quantity_units s of (num, mult) \<Rightarrow>
        (case ParseFloat (TrimSpace num) of
           Inl _ \<Rightarrow> Inl (ErrInvalidQuantity ''quantity'' s)
         | Inr f \<Rightarrow> finiteNonNeg (fmul f mult) ''quantity''))"

definition CPU :: string where "CPU = ''cpu''"
definition Memory :: string where "Memory = ''memory''"
definition GPU :: string where "GPU = ''nvidia.com/gpu''"

type_synonym ResourceMap = "(string, float64) gomap"

definition rget :: "ResourceMap \<Rightarrow> string \<Rightarrow> float64" where
  "rget r k = (case gget r k of None \<Rightarrow> Fin 0 | Some v \<Rightarrow> v)"

definition ResourceMap_Add :: "ResourceMap \<Rightarrow> ResourceMap \<Rightarrow> ResourceMap" where
  "ResourceMap_Add r o1 = fold (\<lambda>(k, v) out. gput k (fadd (rget out k) v) out) o1 r"

definition ResourceMap_Scale :: "ResourceMap \<Rightarrow> float64 \<Rightarrow> ResourceMap" where
  "ResourceMap_Scale r n = map (\<lambda>(k, v). (k, fmul v n)) r"

definition FitsWithin :: "ResourceMap \<Rightarrow> ResourceMap \<Rightarrow> bool" where
  "FitsWithin r limit = list_all (\<lambda>(k, v). fle v (rget limit k)) r"

definition workerUnit :: "WorkerGroup \<Rightarrow> quantity_error + ResourceMap" where
  "workerUnit g =
     ebind (CPUCores (wg_Cpu g)) (\<lambda>cpu.
     ebind (MemGiB (wg_Memory g)) (\<lambda>mem.
     ebind (GPUCount (wg_Gpu g)) (\<lambda>gpu.
       let m = gput Memory mem (gput CPU cpu [])
       in Inr (if flt (Fin 0) gpu then gput GPU gpu m else m))))"

definition headUnit :: "ClusterSpec \<Rightarrow> quantity_error + ResourceMap" where
  "headUnit spec =
     ebind (CPUCores (cs_HeadCpu spec)) (\<lambda>cpu.
     ebind (MemGiB (cs_HeadMemory spec)) (\<lambda>mem.
       Inr (gput Memory mem (gput CPU cpu []))))"

fun demand_groups ::
  "WorkerGroup list \<Rightarrow> ResourceMap \<Rightarrow> ResourceMap \<Rightarrow> quantity_error + (ResourceMap \<times> ResourceMap)" where
  "demand_groups [] lo hi = Inr (lo, hi)"
| "demand_groups (g # gs) lo hi =
     (if wg_MinReplicas g > wg_MaxReplicas g
      then Inl (ErrReplicaBounds (wg_Name g) (wg_MinReplicas g) (wg_MaxReplicas g))
      else ebind (workerUnit g) (\<lambda>unit.
        demand_groups gs
          (ResourceMap_Add lo (ResourceMap_Scale unit (float_of_nat (unat (wg_MinReplicas g)))))
          (ResourceMap_Add hi (ResourceMap_Scale unit (float_of_nat (unat (wg_MaxReplicas g)))))))"

definition ClusterDemand :: "ClusterSpec \<Rightarrow> quantity_error + (ResourceMap \<times> ResourceMap)" where
  "ClusterDemand spec = ebind (headUnit spec) (\<lambda>head. demand_groups (cs_WorkerGroups spec) head head)"

definition RayMinMemoryGiB :: float64 where
  "RayMinMemoryGiB = Fin 2"

definition worker_minimum :: "WorkerGroup \<Rightarrow> quantity_error + unit" where
  "worker_minimum g = ebind (MemGiB (wg_Memory g)) (\<lambda>mem.
     if flt mem RayMinMemoryGiB then Inl (ErrBelowRayMinimum (wg_Name g) (wg_Memory g)) else Inr ())"

definition AdmitEngineMinimums :: "ClusterSpec \<Rightarrow> quantity_error + unit" where
  "AdmitEngineMinimums spec =
     (if cs_Engine spec \<noteq> EngineRay then Inr ()
      else ebind (MemGiB (cs_HeadMemory spec)) (\<lambda>head.
        if flt head RayMinMemoryGiB then Inl (ErrBelowRayMinimum ''head_memory'' (cs_HeadMemory spec))
        else first_err worker_minimum (cs_WorkerGroups spec)))"

definition ServiceDemand :: "ServiceSpec \<Rightarrow> quantity_error + ResourceMap" where
  "ServiceDemand spec =
     ebind (headUnit (ClusterSpec_zero\<lparr>cs_HeadCpu := sv_HeadCpu spec,
              cs_HeadMemory := sv_HeadMemory spec\<rparr>)) (\<lambda>head.
     ebind (workerUnit (WorkerGroup_zero\<lparr>wg_Cpu := sv_WorkerCpu spec,
              wg_Memory := sv_WorkerMemory spec\<rparr>)) (\<lambda>worker.
       Inr (ResourceMap_Add head (ResourceMap_Scale worker (float_of_nat (unat (sv_WorkerReplicas spec)))))))"

definition limit_quantity :: "string \<Rightarrow> string \<Rightarrow> quantity_error + float64" where
  "limit_quantity k v =
     (if k = CPU then CPUCores v else if k = Memory then MemGiB v else ParseQuantity v)"

fun LimitFromQuantities :: "(string, string) gomap \<Rightarrow> quantity_error + ResourceMap" where
  "LimitFromQuantities [] = Inr []"
| "LimitFromQuantities ((k, v) # m) = (case limit_quantity k v of
     Inl e \<Rightarrow> Inl (ErrLimitKey k e)
   | Inr q \<Rightarrow> ebind (LimitFromQuantities m) (\<lambda>out. Inr ((k, q) # out)))"

type_synonym PriceSheet = "(string, float64) gomap"

definition price :: "PriceSheet \<Rightarrow> ResourceMap \<Rightarrow> float64" where
  "price p v = fold (\<lambda>k total. fadd total (fmul (rget v k) (rget p k))) (sort (gkeys v)) (Fin 0)"

record CostEstimate =
  ce_MinHourly :: float64
  ce_MaxHourly :: float64

definition Estimate :: "PriceSheet \<Rightarrow> ClusterSpec \<Rightarrow> quantity_error + CostEstimate" where
  "Estimate p spec = ebind (ClusterDemand spec) (\<lambda>(lo, hi).
     Inr \<lparr>ce_MinHourly = price p lo, ce_MaxHourly = price p hi\<rparr>)"

record QuotaExceeded =
  qe_Project :: string
  qe_Requested :: ResourceMap
  qe_InUse :: ResourceMap
  qe_Limit :: ResourceMap

definition AdmitQuota ::
  "string \<Rightarrow> ResourceMap \<Rightarrow> ResourceMap \<Rightarrow> ResourceMap \<Rightarrow> QuotaExceeded + unit" where
  "AdmitQuota project limit inUse requested =
     (let total = ResourceMap_Add inUse requested in
      if FitsWithin total limit then Inr ()
      else Inl \<lparr>qe_Project = project, qe_Requested = requested, qe_InUse = inUse, qe_Limit = limit\<rparr>)"

record Budget =
  bg_WindowSecs :: u64
  bg_Limits :: "(string, float64) gomap"

definition LimitMap :: "Budget \<Rightarrow> ResourceMap" where
  "LimitMap b = bg_Limits b"

record BudgetExceeded =
  be_Project :: string
  be_Consumed :: ResourceMap
  be_Limit :: ResourceMap
  be_WindowSecs :: u64

definition AdmitBudget :: "string \<Rightarrow> Budget \<Rightarrow> ResourceMap \<Rightarrow> BudgetExceeded + unit" where
  "AdmitBudget project budget consumed =
     (if list_ex (\<lambda>(resource, limit). \<not> flt (rget consumed resource) limit) (bg_Limits budget)
      then Inl \<lparr>be_Project = project, be_Consumed = consumed, be_Limit = LimitMap budget,
                be_WindowSecs = bg_WindowSecs budget\<rparr>
      else Inr ())"

record UsageSampleView =
  us_TS :: u64
  us_Quantity :: float64

fun integrate_steps ::
  "u64 \<Rightarrow> u64 \<Rightarrow> UsageSampleView list \<Rightarrow> float64 \<times> u64 \<times> float64 \<Rightarrow> float64 \<times> u64 \<times> float64" where
  "integrate_steps from to [] st = st"
| "integrate_steps from to (p # pts) (level, cursor, seconds) =
     (if us_TS p \<le> from then integrate_steps from to pts (us_Quantity p, cursor, seconds)
      else if to \<le> us_TS p then (level, cursor, seconds)
      else integrate_steps from to pts
        (us_Quantity p, us_TS p,
         fadd seconds (fmul level (float_of_nat (unat (us_TS p - cursor))))))"

definition ResourceHours :: "UsageSampleView list \<Rightarrow> u64 \<Rightarrow> u64 \<Rightarrow> float64" where
  "ResourceHours samples from to =
     (if to \<le> from then Fin 0
      else case integrate_steps from to (sort_key us_TS samples) (Fin 0, from, Fin 0) of
        (level, cursor, seconds) \<Rightarrow>
          fdiv (fadd seconds (fmul level (float_of_nat (unat (to - cursor))))) (Fin 3600))"

type_synonym PoolResource = "string \<times> string"

definition WindowedResourceHours ::
  "(PoolResource, UsageSampleView list) gomap \<Rightarrow> u64 \<Rightarrow> u64 \<Rightarrow> ResourceMap" where
  "WindowedResourceHours by from to =
     fold (\<lambda>key out.
         let series = (case gget by key of None \<Rightarrow> [] | Some s \<Rightarrow> s);
             hours = ResourceHours series from to
         in gput (snd key) (fadd (rget out (snd key)) hours) out)
       (sort (gkeys by)) []"

definition Cost :: "ResourceMap \<Rightarrow> PriceSheet \<Rightarrow> float64" where
  "Cost quantityHours sheet =
     fold (\<lambda>k total. fadd total (fmul (rget quantityHours k) (rget sheet k)))
       (sort (gkeys quantityHours)) (Fin 0)"

definition EffectiveGpuSharing :: "PoolSpec \<Rightarrow> GpuSharing \<Rightarrow> GpuSharing" where
  "EffectiveGpuSharing pool platformDefault = (case ps_GpuSharing pool of
     Some g \<Rightarrow> g | None \<Rightarrow> platformDefault)"

datatype GpuSharingViolation =
  CrossTenantTimeSlice string int
| CrossTenantFractionalGpu string int string string
| GpuSharingViolationQuantity quantity_error

definition CheckPoolGpuIsolation :: "PoolSpec \<Rightarrow> GpuSharing \<Rightarrow> int \<Rightarrow> GpuSharingViolation + unit" where
  "CheckPoolGpuIsolation pool platformDefault tenants =
     (if tenants > 1 \<and> EffectiveGpuSharing pool platformDefault = GpuSharingTimeSlice
      then Inl (CrossTenantTimeSlice (ps_Name pool) tenants) else Inr ())"

definition group_gpu_check :: "PoolSpec \<Rightarrow> int \<Rightarrow> WorkerGroup \<Rightarrow> GpuSharingViolation + unit" where
  "group_gpu_check pool tenants g = (case wg_Gpu g of None \<Rightarrow> Inr ()
     | Some raw \<Rightarrow> (case GPUCount (Some raw) of
         Inl e \<Rightarrow> Inl (GpuSharingViolationQuantity e)
       | Inr n \<Rightarrow> if \<not> feq n (ftrunc n)
           then Inl (CrossTenantFractionalGpu (ps_Name pool) tenants (wg_Name g) raw)
           else Inr ()))"

definition CheckClusterGpuIsolation ::
  "PoolSpec \<Rightarrow> GpuSharing \<Rightarrow> int \<Rightarrow> ClusterSpec \<Rightarrow> GpuSharingViolation + unit" where
  "CheckClusterGpuIsolation pool platformDefault tenants spec =
     ebind (CheckPoolGpuIsolation pool platformDefault tenants) (\<lambda>_.
       if tenants \<le> 1 then Inr ()
       else first_err (group_gpu_check pool tenants) (cs_WorkerGroups spec))"


section \<open>Quantities\<close>

lemma finiteNonNeg_ok: "finiteNonNeg v what = Inr x \<longleftrightarrow> x = v \<and> (\<exists>q\<ge>0. v = Fin q)"
  by (cases v) (auto simp: finiteNonNeg_def IsNaN_def IsInf0_def)

lemma finiteNonNeg_Fin: "0 \<le> q \<Longrightarrow> finiteNonNeg (Fin q) what = Inr (Fin q)"
  by (simp add: finiteNonNeg_ok)

lemma CPUCores_finite: "CPUCores s = Inr v \<Longrightarrow> \<exists>q\<ge>0. v = Fin q"
  by (auto simp: CPUCores_def Let_def finiteNonNeg_ok split: prod.splits sum.splits if_splits)

lemma MemGiB_finite: "MemGiB s = Inr v \<Longrightarrow> \<exists>q\<ge>0. v = Fin q"
  by (auto simp: MemGiB_def Let_def finiteNonNeg_ok split: prod.splits sum.splits)

lemma GPUCount_finite: "GPUCount s = Inr v \<Longrightarrow> \<exists>q\<ge>0. v = Fin q"
  by (auto simp: GPUCount_def finiteNonNeg_ok split: option.splits sum.splits if_splits)

lemma ParseQuantity_finite: "ParseQuantity s = Inr v \<Longrightarrow> \<exists>q\<ge>0. v = Fin q"
  by (auto simp: ParseQuantity_def Let_def finiteNonNeg_ok split: prod.splits sum.splits)

lemmas quantity_finite = CPUCores_finite MemGiB_finite GPUCount_finite ParseQuantity_finite

lemma HasSuffix_nat_digits: "u \<noteq> [] \<Longrightarrow> \<not> is_digit (last u) \<Longrightarrow> \<not> HasSuffix (nat_digits n) u"
  using nat_digits_ends(3) [of n] by (auto simp: HasSuffix_iff)

lemma HasSuffix_append_same_length: "length u = length v \<Longrightarrow> HasSuffix (s @ v) u \<longleftrightarrow> u = v"
  by (auto simp: HasSuffix_def)

lemma CPUCores_nat: "n \<le> 2 ^ 53 \<Longrightarrow> CPUCores (nat_digits n) = Inr (Fin (of_nat n))"
  using HasSuffix_nat_digits [of "''m''" n] ParseFloat_nat_digits_exact [of n]
  by (simp add: CPUCores_def CutSuffix_def is_digit_def finiteNonNeg_Fin)

lemma MemGiB_Gi: "n \<le> 2 ^ 23 \<Longrightarrow> MemGiB (nat_digits n @ ''Gi'') = Inr (Fin (of_nat n))"
proof -
  assume n: "n \<le> 2 ^ 23"
  have "suffix_scale mem_units (nat_digits n @ ''Gi'') = (nat_digits n, gib)"
    using TrimSuffix_append [of "nat_digits n" "''Gi''"]
    by (simp add: suffix_scale_def mem_units_def HasSuffix_append_same_length)
  moreover have "rnd (of_nat n * 1073741824) = Fin (of_nat n * 1073741824)"
    using rnd_int [of "int n * 1073741824"] n by simp
  ultimately show ?thesis
    using ParseFloat_nat_digits_exact [of n] rnd_int [of "int n"] n
    by (simp add: MemGiB_def TrimSpace_nat_digits_suffix plain_char_def ascii_space_def fmul_def
        fdiv_def gib_def finiteNonNeg_Fin)
qed

lemma ParseQuantity_nat: "n \<le> 2 ^ 53 \<Longrightarrow> ParseQuantity (nat_digits n) = Inr (Fin (of_nat n))"
proof -
  assume n: "n \<le> 2 ^ 53"
  have "suffix_scale quantity_units (nat_digits n) = (nat_digits n, Fin 1)"
    by (simp add: suffix_scale_def quantity_units_def HasSuffix_nat_digits is_digit_def)
  then show ?thesis
    using ParseFloat_nat_digits_exact [OF n] rnd_int [of "int n"] n
    by (simp add: ParseQuantity_def fmul_def finiteNonNeg_Fin)
qed

lemma rnd_finite:
  assumes "0 \<le> x" and "x \<le> pow2 1000"
  shows "\<exists>q\<ge>0. rnd x = Fin q"
proof (cases "x = 0")
  case False
  then have pos: "0 < x" using assms(1) by simp
  have "pow2 1000 < pow2 1001" by (simp add: pow2_def)
  then have "pow2 (fexp x) < pow2 1001" using fexp_bounds [OF pos] assms(2) by linarith
  then have "fexp x < 1001" by (rule pow2_less_cancel)
  then have "rnd_val x \<le> pow2 1000" using assms(2) by (intro rnd_val_le_pow2) (auto simp: ulp_exp_def)
  also have "\<dots> < pow2 1024" by (simp add: pow2_def)
  finally show ?thesis using pos rnd_val_nonneg [OF assms(1)] by (simp add: rnd_def not_le)
qed simp

lemma finiteNonNeg_rnd: "0 \<le> x \<Longrightarrow> x \<le> pow2 1000 \<Longrightarrow> finiteNonNeg (rnd x) what = Inr (rnd x)"
  using rnd_finite [of x] by (auto simp: finiteNonNeg_Fin)

lemma below_pow2_1000: "n \<le> 2 ^ 53 \<Longrightarrow> m \<le> 2 ^ 60 \<Longrightarrow> of_nat n * m \<le> pow2 1000"
proof -
  assume "n \<le> 2 ^ 53" and m: "(m :: rat) \<le> 2 ^ 60"
  then have n: "(of_nat n :: rat) \<le> of_nat (2 ^ 53)" by (simp only: of_nat_le_iff)
  have "of_nat n * m \<le> of_nat (2 ^ 53) * (2 ^ 60)"
    using m n mult_mono' [of "of_nat n :: rat"] by (meson mult_left_mono mult_right_mono of_nat_0_le_iff order_trans zero_le_numeral zero_le_power)
  also have "\<dots> \<le> pow2 1000" by (simp add: pow2_def)
  finally show ?thesis .
qed

lemma GPUCount_nat: "n \<le> 2 ^ 53 \<Longrightarrow> GPUCount (Some (nat_digits n)) = Inr (Fin (of_nat n))"
  using ParseFloat_nat_digits_exact [of n] nat_digits_ends [of n]
  by (simp add: GPUCount_def finiteNonNeg_Fin)

lemma CPUCores_m: "n \<le> 2 ^ 53 \<Longrightarrow> CPUCores (nat_digits n @ ''m'') = Inr (rnd (of_nat n / 1000))"
  using ParseFloat_nat_digits_exact [of n] finiteNonNeg_rnd [of "of_nat n / 1000"] below_pow2_1000 [of n "1 / 1000"]
  by (simp add: CPUCores_def CutSuffix_def TrimSpace_nat_digits_suffix plain_char_def ascii_space_def
      fdiv_def HasSuffix_append_same_length)

lemma scaled_quantity:
  assumes "n \<le> 2 ^ 53" and "suffix_scale quantity_units (nat_digits n @ u) = (nat_digits n, Fin m)"
    and "u \<noteq> []" and "plain_char (last u)" and "0 \<le> m" and "m \<le> 2 ^ 60"
  shows "ParseQuantity (nat_digits n @ u) = Inr (rnd (of_nat n * m))"
  using assms ParseFloat_nat_digits_exact [of n] finiteNonNeg_rnd [of "of_nat n * m"] below_pow2_1000 [of n m]
  by (simp add: ParseQuantity_def TrimSpace_nat_digits_suffix fmul_def)

lemma HasSuffix_last: "HasSuffix s u \<Longrightarrow> u \<noteq> [] \<Longrightarrow> last s = last u"
  by (auto simp: HasSuffix_iff)

lemma no_suffix: "u \<noteq> [] \<Longrightarrow> v \<noteq> [] \<Longrightarrow> last u \<noteq> last v \<Longrightarrow> HasSuffix (s @ v) u = False"
  using HasSuffix_last [of "s @ v" u] by auto

lemmas unit_suffix = suffix_scale_def no_suffix HasSuffix_append_same_length TrimSuffix_append

lemma quantity_scales:
  "list_all (\<lambda>(u, m). suffix_scale quantity_units (s @ u) = (s, m)) quantity_units"
  by (simp add: quantity_units_def unit_suffix)

lemma mem_scales:
  "list_all (\<lambda>(u, m). suffix_scale mem_units (s @ u) = (s, m)) mem_units"
  by (simp add: mem_units_def unit_suffix)

lemma ParseQuantity_units:
  assumes "n \<le> 2 ^ 53"
    and "(u, m) \<in> set [(''Ki'', 2 ^ 10), (''Mi'', 2 ^ 20), (''Gi'', 2 ^ 30), (''Ti'', 2 ^ 40), (''Pi'', 2 ^ 50), (''Ei'', 2 ^ 60),
       (''k'', 10 ^ 3), (''M'', 10 ^ 6), (''G'', 10 ^ 9), (''T'', 10 ^ 12), (''P'', 10 ^ 15), (''E'', 10 ^ 18)]"
  shows "ParseQuantity (nat_digits n @ u) = Inr (rnd (of_nat n * m))"
proof (rule scaled_quantity [OF assms(1)])
  show "suffix_scale quantity_units (nat_digits n @ u) = (nat_digits n, Fin m)"
    using quantity_scales [of "nat_digits n"] assms(2) by (auto simp: quantity_units_def)
qed (use assms(2) in \<open>auto simp: plain_char_def ascii_space_def\<close>)

lemma ParseQuantity_fractions:
  assumes "n \<le> 2 ^ 53" and "(u, e) \<in> set [(''m'', 3), (''u'', 6), (''n'', 9)]"
  shows "ParseQuantity (nat_digits n @ u) = Inr (fmul (Fin (of_nat n)) (rnd (1 / 10 ^ e)))"
proof -
  have "fle (rnd (1 / 10 ^ e)) (rnd 1)" by (rule rnd_mono_nonneg) simp_all
  moreover obtain q where "0 \<le> q" and q: "rnd (1 / 10 ^ e) = Fin q"
    using rnd_finite [of "1 / 10 ^ e"] order_trans [of "1 / 10 ^ e" 1 "pow2 1000"] by (auto simp: pow2_def)
  ultimately have "q \<le> 1" using rnd_int [of 1] by (simp add: fle_Fin)
  have "ParseQuantity (nat_digits n @ u) = Inr (rnd (of_nat n * q))"
  proof (rule scaled_quantity [OF assms(1)])
    show "suffix_scale quantity_units (nat_digits n @ u) = (nat_digits n, Fin q)"
      using quantity_scales [of "nat_digits n"] assms(2) q by (auto simp: quantity_units_def)
  qed (use assms(2) \<open>q \<le> 1\<close> \<open>0 \<le> q\<close> in \<open>auto simp: plain_char_def ascii_space_def\<close>)
  then show ?thesis by (simp add: q fmul_def)
qed

lemma MemGiB_units:
  assumes "n * b \<le> 2 ^ 53"
    and "(u, b) \<in> set [(''Ki'', 2 ^ 10), (''Mi'', 2 ^ 20), (''Gi'', 2 ^ 30), (''Ti'', 2 ^ 40),
       (''K'', 10 ^ 3), (''M'', 10 ^ 6), (''G'', 10 ^ 9), (''T'', 10 ^ 12)]"
  shows "MemGiB (nat_digits n @ u) = Inr (rnd (of_nat (n * b) / 2 ^ 30))"
proof -
  have b: "1 \<le> b" and u: "u \<noteq> []" "plain_char (last u)"
    using assms(2) by (auto simp: plain_char_def ascii_space_def)
  then have n: "n \<le> 2 ^ 53" using assms(1) by (metis mult.commute mult_le_mono1 mult_1 order_trans)
  have "suffix_scale mem_units (nat_digits n @ u) = (nat_digits n, Fin (of_nat b))"
    using mem_scales [of "nat_digits n"] assms(2) by (auto simp: mem_units_def gib_def)
  moreover have "rnd (of_nat n * of_nat b) = Fin (of_nat (n * b))" using rnd_nat [OF assms(1)] by simp
  moreover have "finiteNonNeg (rnd (of_nat (n * b) / 2 ^ 30)) what = Inr (rnd (of_nat (n * b) / 2 ^ 30))" for what
    using below_pow2_1000 [OF assms(1), of "1 / 2 ^ 30"] by (intro finiteNonNeg_rnd) simp_all
  ultimately show ?thesis
    using ParseFloat_nat_digits_exact [OF n] u
    by (simp add: MemGiB_def TrimSpace_nat_digits_suffix fmul_def fdiv_def gib_def)
qed


section \<open>Resource maps\<close>

definition rmap_ok :: "ResourceMap \<Rightarrow> bool" where
  "rmap_ok r = (gwf r \<and> (\<forall>k. fnonneg (rget r k)))"

definition rmap_fin :: "ResourceMap \<Rightarrow> bool" where
  "rmap_fin r = (gwf r \<and> (\<forall>k. \<exists>q\<ge>0. rget r k = Fin q))"

lemma rget_Nil [simp]: "rget [] k = Fin 0"
  by (simp add: rget_def gomap_simps)

lemma rget_gput: "rget (gput k v m) j = (if j = k then v else rget m j)"
  by (simp add: rget_def gomap_simps)

lemma rget_Cons: "rget ((k, v) # m) j = (if j = k then v else rget m j)"
  by (simp add: rget_def gget_def)

lemma rget_absent: "k \<notin> set (gkeys m) \<Longrightarrow> rget m k = Fin 0"
  using gget_None_iff [of m k] by (simp add: rget_def)

lemma gwf_Cons [simp]: "gwf ((k, v) # m) \<longleftrightarrow> k \<notin> set (gkeys m) \<and> gwf m"
  by (simp add: gwf_def gkeys_def)

lemma gkeys_Cons [simp]: "gkeys ((k, v) # m) = k # gkeys m"
  by (simp add: gkeys_def)

lemma gkeys_Nil [simp]: "gkeys [] = []"
  by (simp add: gkeys_def)

lemma gwf_Add: "gwf r \<Longrightarrow> gwf (ResourceMap_Add r o1)"
  unfolding ResourceMap_Add_def by (induction o1 arbitrary: r) (auto split: prod.splits)

lemma gkeys_Add: "set (gkeys (ResourceMap_Add r o1)) = set (gkeys r) \<union> set (gkeys o1)"
  unfolding ResourceMap_Add_def
  by (induction o1 arbitrary: r) (auto simp: gomap_simps split: prod.splits)

lemma rget_Add:
  "gwf o1 \<Longrightarrow> rget (ResourceMap_Add r o1) k =
     (if k \<in> set (gkeys o1) then fadd (rget r k) (rget o1 k) else rget r k)"
  unfolding ResourceMap_Add_def
  by (induction o1 arbitrary: r) (auto simp: rget_gput rget_Cons)

lemma gkeys_Scale [simp]: "gkeys (ResourceMap_Scale r n) = gkeys r"
  by (induction r) (auto simp: ResourceMap_Scale_def gkeys_def)

lemma gwf_Scale [simp]: "gwf (ResourceMap_Scale r n) = gwf r"
  using gkeys_Scale [of r n] by (simp add: gwf_def gkeys_def)

lemma rget_Scale:
  "rget (ResourceMap_Scale r n) k = (if k \<in> set (gkeys r) then fmul (rget r k) n else Fin 0)"
  by (induction r) (auto simp: ResourceMap_Scale_def rget_Cons)


section \<open>Demand\<close>

definition demand_rel :: "ResourceMap \<Rightarrow> ResourceMap \<Rightarrow> bool" where
  "demand_rel lo hi = (gwf lo \<and> gwf hi \<and> set (gkeys lo) = set (gkeys hi) \<and>
     (\<forall>k. fnonneg (rget lo k) \<and> fle (rget lo k) (rget hi k)))"

lemma unat_u64: "unat (w :: u64) < 2 ^ 64"
  using unsigned_less [where 'a = nat and w = w] by simp

lemma float_of_replicas: "float_of_nat (unat (w :: u32)) = Fin (of_nat (unat w))"
proof (rule float_of_nat_exact)
  have "unat w < 2 ^ 32" using unsigned_less [of w] by simp
  then show "unat w \<le> 2 ^ 53" by simp
qed

lemma headUnit_fin:
  "headUnit spec = Inr r \<Longrightarrow> rmap_fin r \<and> set (gkeys r) = {CPU, Memory}"
  by (auto simp: headUnit_def ebind_Inr_conv rmap_fin_def rget_gput gomap_simps CPU_def Memory_def
      dest: CPUCores_finite MemGiB_finite)

lemma workerUnit_fin:
  assumes "workerUnit g = Inr r"
  shows "rmap_fin r \<and> {CPU, Memory} \<subseteq> set (gkeys r) \<and> set (gkeys r) \<subseteq> {CPU, Memory, GPU}"
proof -
  from assms obtain cpu mem gpu where
    c: "CPUCores (wg_Cpu g) = Inr cpu" and m: "MemGiB (wg_Memory g) = Inr mem"
    and q: "GPUCount (wg_Gpu g) = Inr gpu"
    and r: "r = (if flt (Fin 0) gpu then gput GPU gpu (gput Memory mem (gput CPU cpu []))
                 else gput Memory mem (gput CPU cpu []))"
    by (auto simp: workerUnit_def ebind_Inr_conv Let_def)
  show ?thesis
    using CPUCores_finite [OF c] MemGiB_finite [OF m] GPUCount_finite [OF q]
    by (auto simp: r rmap_fin_def rget_gput gomap_simps CPU_def Memory_def GPU_def)
qed

lemma demand_rel_refl: "rmap_fin r \<Longrightarrow> demand_rel r r"
  unfolding demand_rel_def rmap_fin_def by (metis fle_Fin fnonneg_Fin order_refl)

lemma demand_rel_step:
  assumes rel: "demand_rel lo hi" and u: "rmap_fin u" and ab: "a \<le> b"
  shows "demand_rel (ResourceMap_Add lo (ResourceMap_Scale u (Fin (of_nat a))))
           (ResourceMap_Add hi (ResourceMap_Scale u (Fin (of_nat b))))"
proof -
  have unit: "fnonneg (fmul (rget u k) (Fin (of_nat a))) \<and>
      fle (fmul (rget u k) (Fin (of_nat a))) (fmul (rget u k) (Fin (of_nat b)))" for k
  proof -
    obtain q where "rget u k = Fin q" "0 \<le> q" using u by (auto simp: rmap_fin_def)
    then show ?thesis
      using ab by (simp add: fmul_def rnd_fnonneg rnd_mono_nonneg mult_left_mono)
  qed
  have "gwf u" using u by (simp add: rmap_fin_def)
  then show ?thesis
    using rel unit
    by (auto simp: demand_rel_def gwf_Add gkeys_Add rget_Add rget_Scale fadd_fnonneg fadd_mono)
qed

lemma demand_groups_rel:
  "demand_groups gs lo hi = Inr (lo', hi') \<Longrightarrow> demand_rel lo hi \<Longrightarrow>
   demand_rel lo' hi' \<and> set (gkeys lo) \<subseteq> set (gkeys lo') \<and>
   set (gkeys lo') \<subseteq> set (gkeys lo) \<union> {CPU, Memory, GPU}"
proof (induction gs arbitrary: lo hi)
  case (Cons g gs)
  from Cons.prems(1) obtain u where
    b: "wg_MinReplicas g \<le> wg_MaxReplicas g" and u: "workerUnit g = Inr u"
    and rest: "demand_groups gs
       (ResourceMap_Add lo (ResourceMap_Scale u (Fin (of_nat (unat (wg_MinReplicas g))))))
       (ResourceMap_Add hi (ResourceMap_Scale u (Fin (of_nat (unat (wg_MaxReplicas g)))))) = Inr (lo', hi')"
    by (auto simp: ebind_Inr_conv float_of_replicas not_less split: if_splits)
  have "unat (wg_MinReplicas g) \<le> unat (wg_MaxReplicas g)" using b by (simp add: word_le_nat_alt)
  note rel = demand_rel_step [OF Cons.prems(2) conjunct1 [OF workerUnit_fin [OF u]] this]
  show ?case
    using Cons.IH [OF rest rel] workerUnit_fin [OF u]
    unfolding gkeys_Add gkeys_Scale by blast
qed auto

lemma demand_groups_ok_iff:
  "ok (demand_groups gs lo hi) \<longleftrightarrow>
     (\<forall>g\<in>set gs. wg_MinReplicas g \<le> wg_MaxReplicas g \<and> ok (workerUnit g))"
proof (induction gs arbitrary: lo hi)
  case (Cons g gs)
  then show ?case by (cases "workerUnit g") (auto simp: not_less)
qed simp


section \<open>Admission\<close>

lemma rget_entry: "gwf r \<Longrightarrow> (k, v) \<in> set r \<Longrightarrow> rget r k = v"
  using gget_eq_Some [of r k v] by (simp add: rget_def)

lemma FitsWithin_iff:
  "gwf r \<Longrightarrow> FitsWithin r limit \<longleftrightarrow> (\<forall>k\<in>set (gkeys r). fle (rget r k) (rget limit k))"
  by (auto simp: FitsWithin_def list_all_iff gkeys_def rget_entry split: prod.splits)

definition quota_total :: "ResourceMap \<Rightarrow> ResourceMap \<Rightarrow> string \<Rightarrow> float64" where
  "quota_total inUse requested k =
     (if k \<in> set (gkeys requested) then fadd (rget inUse k) (rget requested k) else rget inUse k)"

lemma AdmitQuota_ok:
  assumes "gwf inUse" "gwf requested"
  shows "AdmitQuota p limit inUse requested = Inr () \<longleftrightarrow>
    (\<forall>k\<in>set (gkeys inUse) \<union> set (gkeys requested). fle (quota_total inUse requested k) (rget limit k))"
  using assms
  by (simp add: AdmitQuota_def FitsWithin_iff gwf_Add gkeys_Add rget_Add quota_total_def)

lemma AdmitBudget_ok:
  "AdmitBudget p b consumed = Inr () \<longleftrightarrow>
     (\<forall>(k, l)\<in>set (bg_Limits b). flt (rget consumed k) l)"
  by (auto simp: AdmitBudget_def list_ex_iff)

lemma AdmitEngineMinimums_ok:
  "AdmitEngineMinimums spec = Inr () \<longleftrightarrow>
     (cs_Engine spec = EngineRay \<longrightarrow>
       (\<forall>m\<in>insert (cs_HeadMemory spec) (wg_Memory ` set (cs_WorkerGroups spec)).
          \<exists>q. MemGiB m = Inr (Fin q) \<and> 2 \<le> q))"
proof -
  have fin: "(\<exists>v. MemGiB m = Inr v \<and> \<not> flt v (Fin 2)) \<longleftrightarrow> (\<exists>q. MemGiB m = Inr (Fin q) \<and> 2 \<le> q)" for m
    using MemGiB_finite [of m] by (auto simp: flt_def) 
  have "worker_minimum g = Inr () \<longleftrightarrow> (\<exists>q. MemGiB (wg_Memory g) = Inr (Fin q) \<and> 2 \<le> q)" for g
    unfolding fin [symmetric] by (auto simp: worker_minimum_def RayMinMemoryGiB_def ebind_Inr_conv)
  then show ?thesis
    unfolding ball_simps(7) fin [of "cs_HeadMemory spec", symmetric]
    by (auto simp: AdmitEngineMinimums_def RayMinMemoryGiB_def ebind_Inr_conv first_err_Inr)
qed

lemma group_gpu_check_ok:
  "group_gpu_check pool t g = Inr () \<longleftrightarrow>
     (\<forall>raw. wg_Gpu g = Some raw \<longrightarrow> (\<exists>n. GPUCount (Some raw) = Inr (Fin (of_nat n))))"
proof (cases "wg_Gpu g")
  case (Some raw)
  show ?thesis
  proof (cases "GPUCount (Some raw)")
    case (Inr v)
    then obtain q where q: "v = Fin q" "0 \<le> q" using GPUCount_finite by blast
    have "q = of_int \<lfloor>q\<rfloor> \<longleftrightarrow> (\<exists>n. q = of_nat n)"
    proof
      assume "q = of_int \<lfloor>q\<rfloor>"
      with q(2) have "q = of_nat (nat \<lfloor>q\<rfloor>)" by simp
      then show "\<exists>n. q = of_nat n" ..
    qed auto
    with Some Inr q show ?thesis
      by (simp add: group_gpu_check_def feq_def ftrunc_def)
  qed (simp add: group_gpu_check_def Some)
qed (simp add: group_gpu_check_def)

lemma CheckClusterGpuIsolation_ok:
  "CheckClusterGpuIsolation pool d t spec = Inr () \<longleftrightarrow>
     t \<le> 1 \<or> (EffectiveGpuSharing pool d \<noteq> GpuSharingTimeSlice \<and>
       (\<forall>g\<in>set (cs_WorkerGroups spec). \<forall>raw. wg_Gpu g = Some raw \<longrightarrow>
          (\<exists>n. GPUCount (Some raw) = Inr (Fin (of_nat n)))))"
  by (auto simp: CheckClusterGpuIsolation_def CheckPoolGpuIsolation_def ebind_Inr_conv first_err_Inr
      group_gpu_check_ok)


section \<open>Usage integration\<close>

text \<open>
  The level a step series has at second \<open>t\<close>: the reading of the latest sample not after \<open>t\<close>, the last one
  in input order among equal timestamps, and zero before the first sample.
\<close>

definition level_at :: "(UsageSampleView \<Rightarrow> nat) \<Rightarrow> UsageSampleView list \<Rightarrow> nat \<Rightarrow> nat" where
  "level_at q samples t =
     (let past = {unat (us_TS s) |s. s \<in> set samples \<and> unat (us_TS s) \<le> t} in
      if past = {} then 0 else q (last (filter (\<lambda>s. unat (us_TS s) = Max past) samples)))"

definition step_level ::
  "(UsageSampleView \<Rightarrow> nat) \<Rightarrow> nat \<Rightarrow> UsageSampleView list \<Rightarrow> nat \<Rightarrow> nat" where
  "step_level q lvl pts t = (case filter (\<lambda>p. unat (us_TS p) \<le> t) pts of
     [] \<Rightarrow> lvl | ps \<Rightarrow> q (last ps))"

lemma step_level_Cons_past:
  "unat (us_TS p) \<le> t \<Longrightarrow> step_level q lvl (p # pts) t = step_level q (q p) pts t"
  by (simp add: step_level_def split: list.splits)

lemma step_level_future:
  "\<forall>p\<in>set pts. t < unat (us_TS p) \<Longrightarrow> step_level q lvl pts t = lvl"
proof -
  assume "\<forall>p\<in>set pts. t < unat (us_TS p)"
  then have "filter (\<lambda>p. unat (us_TS p) \<le> t) pts = []" by (auto simp: filter_empty_conv)
  then show ?thesis by (simp add: step_level_def)
qed

lemma last_filter_sorted:
  assumes "sorted (map f xs)" "x \<in> set xs" "P x" "\<And>y. y \<in> set xs \<Longrightarrow> P y \<Longrightarrow> f y \<le> f x"
    "\<And>y. y \<in> set xs \<Longrightarrow> f y = f x \<Longrightarrow> P y"
  shows "last (filter P xs) = last (filter (\<lambda>y. f y = f x) xs)"
  using assms
proof (induction xs rule: rev_induct)
  case (snoc z zs)
  show ?case
  proof (cases "P z")
    case True
    have "x \<in> set zs \<Longrightarrow> f x \<le> f z" using snoc.prems(1) by (simp add: sorted_append)
    moreover have "f z \<le> f x" using snoc.prems(4) True by simp
    ultimately have "f z = f x" using snoc.prems(2) by auto
    with True show ?thesis by simp
  next
    case False
    then have ne: "z \<noteq> x" "f z \<noteq> f x" using snoc.prems(3,5) by auto
    have "last (filter P zs) = last (filter (\<lambda>y. f y = f x) zs)"
      by (rule snoc.IH) (use snoc.prems ne in \<open>auto simp: sorted_append\<close>)
    then show ?thesis using False ne by simp
  qed
qed simp

lemma step_level_sort:
  "step_level q 0 (sort_key us_TS samples) t = level_at q samples t"
proof (cases "\<exists>s\<in>set samples. unat (us_TS s) \<le> t")
  case False
  then have "{unat (us_TS s) |s. s \<in> set samples \<and> unat (us_TS s) \<le> t} = {}" by auto
  moreover have "step_level q 0 (sort_key us_TS samples) t = 0"
    using False by (intro step_level_future) (auto simp: not_le)
  ultimately show ?thesis by (simp add: level_at_def)
next
  case True
  let ?past = "{unat (us_TS s) |s. s \<in> set samples \<and> unat (us_TS s) \<le> t}"
  have fin: "finite ?past" and ne: "?past \<noteq> {}" using True by auto
  then have "Max ?past \<in> ?past" by (rule Max_in)
  then obtain x where x: "x \<in> set samples" "unat (us_TS x) \<le> t" "Max ?past = unat (us_TS x)" by auto
  have max: "us_TS y \<le> us_TS x" if "y \<in> set samples" "unat (us_TS y) \<le> t" for y
  proof -
    have "unat (us_TS y) \<le> Max ?past" using that fin by (intro Max_ge) auto
    then show ?thesis by (simp add: x(3) word_le_nat_alt)
  qed
  have "last (filter (\<lambda>p. unat (us_TS p) \<le> t) (sort_key us_TS samples))
      = last (filter (\<lambda>y. us_TS y = us_TS x) (sort_key us_TS samples))"
    by (rule last_filter_sorted) (use x max in auto)
  also have "\<dots> = last (filter (\<lambda>y. us_TS y = us_TS x) samples)"
    by (simp only: sort_key_stable)
  finally have last: "last (filter (\<lambda>p. unat (us_TS p) \<le> t) (sort_key us_TS samples))
      = last (filter (\<lambda>s. unat (us_TS s) = Max ?past) samples)"
    by (simp add: x(3) word_unat_eq_iff)
  have "filter (\<lambda>p. unat (us_TS p) \<le> t) (sort_key us_TS samples) \<noteq> []"
    using x by (auto simp: filter_empty_conv)
  then show ?thesis
    using ne last by (auto simp: step_level_def level_at_def Let_def split: list.splits)
qed

lemma sum_const_level:
  "a \<le> b \<Longrightarrow> (\<And>t. a \<le> t \<Longrightarrow> t < b \<Longrightarrow> f t = c) \<Longrightarrow> (\<Sum>t\<in>{a..<b}. f t) = (b - a) * (c :: nat)"
  by (subst sum.cong [where h = "\<lambda>_. c" and B = "{a..<b}"]) auto

lemma integrate_steps_exact:
  fixes q :: "UsageSampleView \<Rightarrow> nat"
  assumes "sorted (map us_TS pts)" "from \<le> cursor" "cursor \<le> to"
    and "\<forall>p\<in>set pts. us_TS p \<le> from \<longrightarrow> cursor = from"
    and "\<forall>p\<in>set pts. from < us_TS p \<longrightarrow> cursor \<le> us_TS p"
    and "\<forall>p\<in>set pts. us_Quantity p = Fin (of_nat (q p)) \<and> q p \<le> M"
    and "lvl \<le> M" "sec \<le> M * (unat cursor - unat from)" "M * (unat to - unat from) \<le> 2 ^ 53"
  shows "\<exists>lvl' cursor' sec'.
    integrate_steps from to pts (Fin (of_nat lvl), cursor, Fin (of_nat sec))
      = (Fin (of_nat lvl'), cursor', Fin (of_nat sec')) \<and>
    cursor' \<le> to \<and> lvl' \<le> M \<and> sec' \<le> M * (unat cursor' - unat from) \<and> from \<le> cursor' \<and>
    sec' + lvl' * (unat to - unat cursor')
      = sec + (\<Sum>t\<in>{unat cursor..<unat to}. step_level q lvl pts t)"
  using assms
proof (induction pts arbitrary: lvl cursor sec)
  case Nil
  have "(\<Sum>t\<in>{unat cursor..<unat to}. step_level q lvl [] t) = (unat to - unat cursor) * lvl"
    by (rule sum_const_level) (use Nil in \<open>auto simp: step_level_def word_le_nat_alt\<close>)
  with Nil show ?case by (auto simp: mult.commute)
next
  case (Cons p pts)
  have qp: "us_Quantity p = Fin (of_nat (q p))" "q p \<le> M" using Cons.prems by auto
  have srt: "sorted (map us_TS pts)" "\<forall>r\<in>set pts. us_TS p \<le> us_TS r" using Cons.prems(1) by auto
  consider "us_TS p \<le> from" | "from < us_TS p" "to \<le> us_TS p" | "from < us_TS p" "us_TS p < to"
    by fastforce
  then show ?case
  proof cases
    case 1
    then have cur: "cursor = from" using Cons.prems(4) by simp
    have "step_level q lvl (p # pts) t = step_level q (q p) pts t" if "t \<in> {unat cursor..<unat to}" for t
      using that 1 cur by (intro step_level_Cons_past) (simp add: word_le_nat_alt)
    then have "(\<Sum>t\<in>{unat cursor..<unat to}. step_level q lvl (p # pts) t)
        = (\<Sum>t\<in>{unat cursor..<unat to}. step_level q (q p) pts t)" by (rule sum.cong [OF refl])
    then show ?thesis
      using Cons.IH [of cursor "q p" sec] Cons.prems 1 qp srt by simp
  next
    case 2
    have fut: "t < unat (us_TS r)" if "t < unat to" "r \<in> set (p # pts)" for t r
    proof -
      have "us_TS p \<le> us_TS r" using that(2) srt(2) by auto
      with 2(2) have "to \<le> us_TS r" by (rule order_trans)
      then show ?thesis using that(1) by (simp add: word_le_nat_alt)
    qed
    have "(\<Sum>t\<in>{unat cursor..<unat to}. step_level q lvl (p # pts) t) = (unat to - unat cursor) * lvl"
      by (rule sum_const_level)
        (use Cons.prems(3) fut in \<open>auto simp: word_le_nat_alt intro: step_level_future\<close>)
    then show ?thesis
      using 2 Cons.prems by (auto simp: not_le mult.commute)
  next
    case 3
    have cp: "cursor \<le> us_TS p" using Cons.prems(5) 3 by simp
    have n1: "unat from \<le> unat cursor" "unat cursor \<le> unat (us_TS p)" "unat (us_TS p) < unat to"
      using Cons.prems(2) cp 3 by (simp_all add: word_le_nat_alt word_less_nat_alt)
    let ?d = "unat (us_TS p) - unat cursor"
    have d: "unat (us_TS p - cursor) = ?d" using cp by (rule unat_sub)
    have bound: "sec + lvl * ?d \<le> M * (unat (us_TS p) - unat from)"
    proof -
      have "sec + lvl * ?d \<le> M * (unat cursor - unat from) + M * ?d"
        using Cons.prems(7,8) by (intro add_mono mult_right_mono) auto
      also have "\<dots> = M * (unat (us_TS p) - unat from)" using n1 by (simp flip: distrib_left)
      finally show ?thesis .
    qed
    have "M * (unat (us_TS p) - unat from) \<le> M * (unat to - unat from)"
      using n1 by (intro mult_left_mono) auto
    with bound Cons.prems(9) have big: "sec + lvl * ?d \<le> 2 ^ 53" by linarith
    have "unat (us_TS p) < 2 ^ 64" by (rule unat_u64)
    then have "?d < 2 ^ 64" by linarith
    with big have step: "fadd (Fin (of_nat sec)) (fmul (Fin (of_nat lvl)) (float_of_nat ?d))
        = Fin (of_nat (sec + lvl * ?d))"
      by (simp only: fmul_nat_exact fadd_nat_exact)
    have lo: "(\<Sum>t\<in>{unat cursor..<unat (us_TS p)}. step_level q lvl (p # pts) t) = ?d * lvl"
      by (rule sum_const_level)
        (use n1 srt(2) in
          \<open>auto simp: word_le_nat_alt intro!: step_level_future elim: order_less_le_trans\<close>)
    have hi: "(\<Sum>t\<in>{unat (us_TS p)..<unat to}. step_level q lvl (p # pts) t)
        = (\<Sum>t\<in>{unat (us_TS p)..<unat to}. step_level q (q p) pts t)"
      by (rule sum.cong) (auto intro: step_level_Cons_past)
    have total: "(\<Sum>t\<in>{unat cursor..<unat to}. step_level q lvl (p # pts) t)
        = ?d * lvl + (\<Sum>t\<in>{unat (us_TS p)..<unat to}. step_level q (q p) pts t)"
      using sum.atLeastLessThan_concat [of "unat cursor" "unat (us_TS p)" "unat to"
          "step_level q lvl (p # pts)"] n1 lo hi by simp
    have eq: "integrate_steps from to (p # pts) (Fin (of_nat lvl), cursor, Fin (of_nat sec))
        = integrate_steps from to pts (Fin (of_nat (q p)), us_TS p, Fin (of_nat (sec + lvl * ?d)))"
      by (simp only: integrate_steps.simps qp(1) d step not_le [THEN iffD2, OF 3(1)]
          not_le [THEN iffD2, OF 3(2)] if_False)
    have "\<forall>r\<in>set pts. us_TS r \<le> from \<longrightarrow> us_TS p = from"
      using srt(2) 3(1) by (meson leD order_le_less_trans)
    then have "\<exists>lvl' cursor' sec'.
        integrate_steps from to pts (Fin (of_nat (q p)), us_TS p, Fin (of_nat (sec + lvl * ?d)))
          = (Fin (of_nat lvl'), cursor', Fin (of_nat sec')) \<and>
        cursor' \<le> to \<and> lvl' \<le> M \<and> sec' \<le> M * (unat cursor' - unat from) \<and> from \<le> cursor' \<and>
        sec' + lvl' * (unat to - unat cursor')
          = sec + lvl * ?d + (\<Sum>t\<in>{unat (us_TS p)..<unat to}. step_level q (q p) pts t)"
      by (intro Cons.IH) (use Cons.prems(6,9) bound qp(2) srt 3 in auto)
    then show ?thesis
      unfolding eq total by (simp only: add.assoc mult.commute [of ?d])
  qed
qed

lemma ResourceHours_exact:
  fixes q :: "UsageSampleView \<Rightarrow> nat"
  assumes "from < to" "\<forall>s\<in>set samples. us_Quantity s = Fin (of_nat (q s)) \<and> q s \<le> M"
    "M * (unat to - unat from) \<le> 2 ^ 53"
  shows "ResourceHours samples from to
     = rnd (of_nat (\<Sum>t\<in>{unat from..<unat to}. level_at q samples t) / 3600)"
proof -
  have le: "from \<le> to" "\<forall>p\<in>set samples. from < us_TS p \<longrightarrow> from \<le> us_TS p"
    using assms(1) by (simp_all add: less_imp_le)
  obtain lvl cursor sec where
    loop: "integrate_steps from to (sort_key us_TS samples) (Fin (of_nat 0), from, Fin (of_nat 0))
        = (Fin (of_nat lvl), cursor, Fin (of_nat sec))"
    and c: "cursor \<le> to" "from \<le> cursor" and b: "lvl \<le> M" "sec \<le> M * (unat cursor - unat from)"
    and sum: "sec + lvl * (unat to - unat cursor) =
        0 + (\<Sum>t\<in>{unat from..<unat to}. step_level q 0 (sort_key us_TS samples) t)"
    using integrate_steps_exact [of "sort_key us_TS samples" "from" "from" to q M 0 0] assms le
    by auto
  let ?d = "unat to - unat cursor"
  have d: "unat (to - cursor) = ?d" using c(1) by (rule unat_sub)
  have "sec + lvl * ?d \<le> M * (unat cursor - unat from) + M * ?d"
    using b by (intro add_mono mult_right_mono) auto
  also have "\<dots> = M * (unat to - unat from)"
    using c by (simp add: word_le_nat_alt flip: distrib_left)
  finally have "sec + lvl * ?d \<le> 2 ^ 53" using assms(3) by linarith
  moreover have "unat to < 2 ^ 64" by (rule unat_u64)
  then have "?d < 2 ^ 64" by linarith
  ultimately have "fadd (Fin (of_nat sec)) (fmul (Fin (of_nat lvl)) (float_of_nat ?d))
      = Fin (of_nat (sec + lvl * ?d))"
    by (simp only: fmul_nat_exact fadd_nat_exact)
  with loop assms(1) d show ?thesis
    by (simp add: ResourceHours_def fdiv_def not_le sum [simplified] step_level_sort del: of_nat_add)
qed


section \<open>Iteration order\<close>

lemma gkeys_sort_eq:
  assumes "gwf m" "gwf m'" "gget m = gget m'"
  shows "sort (gkeys m) = sort (gkeys (m' :: ('k :: linorder, 'v) gomap))"
proof (rule sorted_distinct_set_unique)
  show "set (sort (gkeys m)) = set (sort (gkeys m'))"
    using assms(3) gget_None_iff [of m] gget_None_iff [of m'] by auto
qed (use assms in \<open>auto simp: gwf_def gkeys_def\<close>)

lemma rget_cong: "gget m = gget m' \<Longrightarrow> rget m = rget m'"
  by (simp add: rget_def fun_eq_iff)


section \<open>Properties\<close>



text \<open>
  C27.  Cluster demand: it succeeds exactly when the head and every worker group have parseable shapes
  and no group has more minimum than maximum replicas; then the minimum and the maximum demand name the
  same resources, cpu and memory and possibly GPUs, are non-negative and never NaN, and the minimum is
  at most the maximum for every resource.
\<close>

theorem cluster_demand_min_le_max:
  "(ok (ClusterDemand spec) \<longleftrightarrow> ok (headUnit spec) \<and>
       list_all (\<lambda>g. wg_MinReplicas g \<le> wg_MaxReplicas g \<and> ok (workerUnit g)) (cs_WorkerGroups spec))
   \<and> (ClusterDemand spec = Inr (lo, hi) \<longrightarrow>
       set (gkeys lo) = set (gkeys hi) \<and> {CPU, Memory} \<subseteq> set (gkeys lo) \<and>
       set (gkeys lo) \<subseteq> {CPU, Memory, GPU} \<and> fnonneg (rget lo k) \<and> fle (rget lo k) (rget hi k))"
proof (intro conjI impI)
  show "ok (ClusterDemand spec) \<longleftrightarrow> ok (headUnit spec) \<and>
       list_all (\<lambda>g. wg_MinReplicas g \<le> wg_MaxReplicas g \<and> ok (workerUnit g)) (cs_WorkerGroups spec)"
    by (cases "headUnit spec") (simp_all add: ClusterDemand_def demand_groups_ok_iff list_all_iff)
  assume "ClusterDemand spec = Inr (lo, hi)"
  then obtain h where "headUnit spec = Inr h"
    and g: "demand_groups (cs_WorkerGroups spec) h h = Inr (lo, hi)"
    by (auto simp: ClusterDemand_def ebind_Inr_conv)
  then have h: "rmap_fin h" "set (gkeys h) = {CPU, Memory}" by (auto dest: headUnit_fin)
  note rel = demand_groups_rel [OF g demand_rel_refl [OF h(1)]]
  then show "set (gkeys lo) = set (gkeys hi)" "fnonneg (rget lo k)" "fle (rget lo k) (rget hi k)"
    by (auto simp: demand_rel_def)
  show "{CPU, Memory} \<subseteq> set (gkeys lo)" "set (gkeys lo) \<subseteq> {CPU, Memory, GPU}"
    using rel h(2) by auto
qed

theorem cluster_demand_min_le_max_witness:
  "let g = WorkerGroup_zero\<lparr>wg_Cpu := nat_digits 2, wg_Memory := nat_digits 4 @ ''Gi'',
             wg_MinReplicas := 1, wg_MaxReplicas := 3\<rparr>;
       spec = ClusterSpec_zero\<lparr>cs_HeadCpu := nat_digits 1, cs_HeadMemory := nat_digits 2 @ ''Gi'',
                cs_WorkerGroups := [g]\<rparr>
   in \<exists>lo hi. ClusterDemand spec = Inr (lo, hi) \<and> fle (rget lo CPU) (rget hi CPU)"
proof -
  let ?g = "WorkerGroup_zero\<lparr>wg_Cpu := nat_digits 2, wg_Memory := nat_digits 4 @ ''Gi'',
             wg_MinReplicas := 1, wg_MaxReplicas := 3\<rparr>"
  let ?spec = "ClusterSpec_zero\<lparr>cs_HeadCpu := nat_digits 1, cs_HeadMemory := nat_digits 2 @ ''Gi'',
                cs_WorkerGroups := [?g]\<rparr>"
  have "ok (headUnit ?spec)" "ok (workerUnit ?g)"
    by (simp_all add: headUnit_def workerUnit_def CPUCores_nat MemGiB_Gi GPUCount_def
        WorkerGroup_zero_def Let_def)
  moreover have "wg_MinReplicas ?g \<le> wg_MaxReplicas ?g" by (simp add: word_le_nat_alt)
  ultimately have "ok (ClusterDemand ?spec)" using cluster_demand_min_le_max [of ?spec] by simp
  then obtain lo hi where d: "ClusterDemand ?spec = Inr (lo, hi)" by (auto simp: ok_conv)
  with cluster_demand_min_le_max [of ?spec lo hi CPU] show ?thesis by auto
qed

text \<open>
  C25.  Quota admission: a request is admitted exactly when, for every resource either side mentions, the
  sum of what is in use and what is requested is at most the limit; a resource the limit does not name
  has limit zero, a NaN total is refused, and a refusal carries the request, the usage and the limit.
\<close>

theorem quota_admission_exact:
  assumes "gwf inUse" "gwf requested"
  shows "(AdmitQuota p limit inUse requested = Inr () \<longleftrightarrow>
           (\<forall>k\<in>set (gkeys inUse) \<union> set (gkeys requested).
              fle (if k \<in> set (gkeys requested) then fadd (rget inUse k) (rget requested k)
                   else rget inUse k) (rget limit k)))
         \<and> (k \<in> set (gkeys requested) \<and> fadd (rget inUse k) (rget requested k) = NaN \<longrightarrow>
              AdmitQuota p limit inUse requested \<noteq> Inr ())
         \<and> (k \<in> set (gkeys requested) \<and> k \<notin> set (gkeys limit) \<and>
              flt (Fin 0) (fadd (rget inUse k) (rget requested k)) \<longrightarrow>
              AdmitQuota p limit inUse requested =
                Inl \<lparr>qe_Project = p, qe_Requested = requested, qe_InUse = inUse, qe_Limit = limit\<rparr>)"
proof (intro conjI impI)
  assume k: "k \<in> set (gkeys requested) \<and> fadd (rget inUse k) (rget requested k) = NaN"
  then have "\<not> fle (quota_total inUse requested k) (rget limit k)" by (simp add: quota_total_def)
  with k show "AdmitQuota p limit inUse requested \<noteq> Inr ()"
    using AdmitQuota_ok [OF assms, of p limit] by blast
next
  assume k: "k \<in> set (gkeys requested) \<and> k \<notin> set (gkeys limit) \<and>
              flt (Fin 0) (fadd (rget inUse k) (rget requested k))"
  then have "\<not> fle (quota_total inUse requested k) (rget limit k)"
    by (cases "fadd (rget inUse k) (rget requested k)")
      (simp_all add: quota_total_def rget_absent fle_def flt_def)
  with k have "AdmitQuota p limit inUse requested \<noteq> Inr ()"
    using AdmitQuota_ok [OF assms, of p limit] by blast
  then show "AdmitQuota p limit inUse requested =
      Inl \<lparr>qe_Project = p, qe_Requested = requested, qe_InUse = inUse, qe_Limit = limit\<rparr>"
    by (simp add: AdmitQuota_def Let_def split: if_splits)
qed (use AdmitQuota_ok [OF assms, of p limit] in \<open>simp add: quota_total_def\<close>)

theorem quota_admission_exact_witness:
  "AdmitQuota ''p'' [(''cpu'', Fin 8)] [(''cpu'', Fin 4)] [(''cpu'', Fin 4)] = Inr () \<and>
   AdmitQuota ''p'' [(''cpu'', Fin 8)] [] [(''gpu'', Fin 1)] \<noteq> Inr ()"
proof -
  have "fadd (Fin 4) (Fin 4) = Fin 8" "fadd (Fin 0) (Fin 1) = Fin 1"
    using fadd_nat_exact [of 4 4] fadd_nat_exact [of 0 1] by simp_all
  then show ?thesis
    using quota_admission_exact [of "[(''cpu'', Fin 4)]" "[(''cpu'', Fin 4)]" "''p''"
        "[(''cpu'', Fin 8)]" "''cpu''"]
      quota_admission_exact [of "[]" "[(''gpu'', Fin 1)]" "''p''" "[(''cpu'', Fin 8)]" "''gpu''"]
    by (simp add: rget_Cons flt_def)
qed

text \<open>
  C26.  Budget admission: a project is admitted exactly when its consumption is strictly below the cap of
  every resource the budget lists.  A NaN on either side refuses, a resource the budget does not list is
  unconstrained, and a cap of zero admits nothing.
\<close>

theorem budget_admission_exact:
  "(AdmitBudget p b consumed = Inr () \<longleftrightarrow>
       list_all (\<lambda>(r, limit). flt (rget consumed r) limit) (bg_Limits b))
   \<and> ((r, limit) \<in> set (bg_Limits b) \<and>
        (limit = NaN \<or> rget consumed r = NaN \<or> (limit = Fin 0 \<and> fnonneg (rget consumed r))) \<longrightarrow>
      AdmitBudget p b consumed = Inl \<lparr>be_Project = p, be_Consumed = consumed,
        be_Limit = bg_Limits b, be_WindowSecs = bg_WindowSecs b\<rparr>)"
proof (intro conjI impI)
  assume h: "(r, limit) \<in> set (bg_Limits b) \<and>
        (limit = NaN \<or> rget consumed r = NaN \<or> (limit = Fin 0 \<and> fnonneg (rget consumed r)))"
  then have "\<not> flt (rget consumed r) limit"
    by (cases "rget consumed r") (auto simp: flt_def fnonneg_def)
  with h have "AdmitBudget p b consumed \<noteq> Inr ()" by (auto simp: AdmitBudget_ok)
  then show "AdmitBudget p b consumed = Inl \<lparr>be_Project = p, be_Consumed = consumed,
        be_Limit = bg_Limits b, be_WindowSecs = bg_WindowSecs b\<rparr>"
    by (simp add: AdmitBudget_def LimitMap_def split: if_splits)
qed (simp add: AdmitBudget_ok list_all_iff)

theorem budget_admission_exact_witness:
  "AdmitBudget ''p'' \<lparr>bg_WindowSecs = 3600, bg_Limits = [(''cpu'', Fin 0)]\<rparr> [] \<noteq> Inr ()"
  using budget_admission_exact [of "''p''" "\<lparr>bg_WindowSecs = 3600, bg_Limits = [(''cpu'', Fin 0)]\<rparr>" "[]"
      "''cpu''" "Fin 0"] by simp

text \<open>
  C24.  Usage integration: for integer readings whose total stays within the exactly representable range,
  the resource-hours of a window are the sum over its seconds of the level then in force, divided by 3600
  and rounded once, where the level is the reading of the latest sample at or before that second and zero
  when there is none; samples may come in any order, and an empty window yields zero.
\<close>

theorem resource_hours_step_integral:
  fixes q :: "UsageSampleView \<Rightarrow> nat"
  assumes "\<forall>s\<in>set samples. us_Quantity s = Fin (of_nat (q s)) \<and> q s \<le> M"
    and "M * (unat to - unat from) \<le> 2 ^ 53"
  shows "ResourceHours samples from to
     = (if to \<le> from then Fin 0
        else rnd (of_nat (\<Sum>t\<in>{unat from..<unat to}. level_at q samples t) / 3600))"
  using ResourceHours_exact [OF _ assms] by (simp add: ResourceHours_def not_le)

theorem resource_hours_step_integral_witness:
  "ResourceHours [\<lparr>us_TS = 10, us_Quantity = Fin 2\<rparr>] 0 20
     = rnd (of_nat (\<Sum>t\<in>{0..<20}. level_at (\<lambda>_. 2) [\<lparr>us_TS = 10, us_Quantity = Fin 2\<rparr>] t) / 3600)"
  using resource_hours_step_integral [of "[\<lparr>us_TS = 10, us_Quantity = Fin 2\<rparr>]" "\<lambda>_. 2" 2 20 0]
  by simp

text \<open>
  Determinism: the windowed roll-up, the cost of a roll-up and the price of a demand depend only on
  what the maps contain, not on the order in which Go happens to iterate over them.
\<close>

lemma usage_rollup_order_independent:
  assumes "gwf by" "gwf by'" "gget by = gget by'" "gwf r" "gwf r'" "gget r = gget r'"
    and "gget sheet = gget sheet'"
  shows "WindowedResourceHours by from to = WindowedResourceHours by' from to
    \<and> Cost r sheet = Cost r' sheet' \<and> price sheet r = price sheet' r'"
  using gkeys_sort_eq [OF assms(1-3)] gkeys_sort_eq [OF assms(4-6)] rget_cong [OF assms(6)]
    rget_cong [OF assms(7)]
  by (simp add: WindowedResourceHours_def Cost_def price_def assms(3))

lemma usage_rollup_order_independent_witness:
  "WindowedResourceHours [((''a'', ''cpu''), []), ((''b'', ''cpu''), [])] 0 9
     = WindowedResourceHours [((''b'', ''cpu''), []), ((''a'', ''cpu''), [])] 0 9"
  using usage_rollup_order_independent [of "[((''a'', ''cpu''), []), ((''b'', ''cpu''), [])]"
      "[((''b'', ''cpu''), []), ((''a'', ''cpu''), [])]" "[]" "[]" "[]" "[]"]
  by (simp add: gget_def fun_eq_iff)

text \<open>
  C29.  GPU tenant isolation: a cluster is admitted to a pool exactly when the pool has at most one tenant,
  or it does not resolve to time-slicing and every GPU request of the cluster is a whole number of devices.
\<close>

theorem gpu_tenant_isolation:
  "CheckClusterGpuIsolation pool platformDefault tenants spec = Inr () \<longleftrightarrow>
     tenants \<le> 1 \<or> (EffectiveGpuSharing pool platformDefault \<noteq> GpuSharingTimeSlice \<and>
       list_all (\<lambda>g. wg_Gpu g = None \<or> (\<exists>n. GPUCount (wg_Gpu g) = Inr (Fin (of_nat n))))
         (cs_WorkerGroups spec))"
  unfolding CheckClusterGpuIsolation_ok list_all_iff
  by (metis option.exhaust option.distinct(1))

text \<open>
  Engine floor: a Ray cluster is admitted exactly when its head and every worker group request at
  least two GiB of memory; no floor applies to another engine.
\<close>

lemma ray_memory_floor:
  "AdmitEngineMinimums spec = Inr () \<longleftrightarrow>
     (if cs_Engine spec = EngineRay
      then list_all (\<lambda>m. \<exists>x. MemGiB m = Inr (Fin x) \<and> 2 \<le> x)
             (cs_HeadMemory spec # map wg_Memory (cs_WorkerGroups spec))
      else True)"
  by (auto simp: AdmitEngineMinimums_ok list_all_iff)

end
