(* ===== verification/Metering.thy ===== *)
theory Metering
  imports Reconcile Policy
begin

text \<open>
  The usage producer and the control loop of the cluster engine, after \<^verbatim>\<open>internal/controller/metering.go\<close>
  and the end of \<^verbatim>\<open>reconcile.go\<close>: one metering pass, one tick of the loop, and the construction of the engine
  from its options.  The readings of the wall clock a tick makes are its arguments.

  What is proved about a metering pass is in \<^verbatim>\<open>Metering_Props\<close>.
\<close>


section \<open>Metering\<close>

datatype MeterError = MeterErrStore StoreError | MeterErrRecord StoreError

definition at_store :: "('s, StoreError, 'a) prog \<Rightarrow> (('s, 'w, 'g) rstate, StoreError, 'a) prog" where
  "at_store m = pzoom rs_store (\<lambda>s r. r\<lparr>rs_store := s\<rparr>) m"

definition derefOr :: "string option \<Rightarrow> string \<Rightarrow> string" where
  "derefOr p d = (case p of None \<Rightarrow> d | Some s \<Rightarrow> s)"

definition jobMeterKey :: "ClusterId \<Rightarrow> ClusterId" where
  "jobMeterKey cid = ''job:'' @ cid"

definition jobDemandSpec :: "RayJobSpec \<Rightarrow> ClusterSpec" where
  "jobDemandSpec j = ClusterSpec_zero\<lparr>cs_Project := rj_Project j, cs_HeadCpu := rj_HeadCpu j,
     cs_HeadMemory := rj_HeadMemory j, cs_WorkerGroups := rj_WorkerGroups j\<rparr>"

fun pool_search :: "'s StoreI \<Rightarrow> string \<Rightarrow> StoredPool list \<Rightarrow> ('s, StoreError, string) prog" where
  "pool_search st project [] = preturn []"
| "pool_search st project (p # ps) =
     (if PoolPurpose_OrDefault (ps_Purpose (sp_Spec p)) \<noteq> PoolPurposeCompute then pool_search st project ps
      else pbind (pattempt (st_ListAllocations st (sp_Name p))) (\<lambda>res. case res of
          Inl _ \<Rightarrow> pool_search st project ps
        | Inr allocs \<Rightarrow> if list_ex (\<lambda>a. al_Project a = project) allocs then preturn (sp_Name p)
                        else pool_search st project ps))"

definition poolFor :: "'s StoreI \<Rightarrow> string \<Rightarrow> ('s, StoreError, string) prog" where
  "poolFor st project = pbind (pattempt (st_ListPools st)) (\<lambda>res. case res of
      Inl _ \<Rightarrow> preturn []
    | Inr pools \<Rightarrow> pool_search st project pools)"

definition usage_sample :: "u64 \<Rightarrow> string \<Rightarrow> string \<Rightarrow> string \<Rightarrow> string \<Rightarrow> float64 \<Rightarrow> UsageSample" where
  "usage_sample now project pool owner resource qty =
     \<lparr>smp_Ts = now, smp_Project = project, smp_Pool = pool, smp_Resource = resource, smp_Quantity = qty,
      smp_Source = UsageSourceObservedSpec, smp_Owner = owner\<rparr>"

definition zeroSamples ::
  "'s StoreI \<Rightarrow> ClusterSpec \<Rightarrow> string \<Rightarrow> u64 \<Rightarrow> (('s, 'w, 'g) rstate, StoreError, UsageSample list) prog" where
  "zeroSamples st spec owner now = (case ClusterDemand spec of
      Inl _ \<Rightarrow> preturn []
    | Inr (minDemand, _) \<Rightarrow> pbind (at_store (poolFor st (cs_Project spec))) (\<lambda>pool.
        preturn (map (\<lambda>resource. usage_sample now (cs_Project spec) pool owner resource (Fin 0)) (gkeys minDemand))))"

definition meterOne ::
  "'s StoreI \<Rightarrow> ClusterId \<Rightarrow> ClusterSpec \<Rightarrow> string \<Rightarrow> bool \<Rightarrow> u64 \<Rightarrow>
   (('s, 'w, 'g) rstate, StoreError, UsageSample list) prog" where
  "meterOne st key spec owner running now =
     pbind (pget (\<lambda>r. key \<in> set (rs_metered r))) (\<lambda>wasMetered.
     if \<not> running then
       (if wasMetered then
          pbind (zeroSamples st spec owner now) (\<lambda>samples.
          pbind (pmodify (\<lambda>r. r\<lparr>rs_metered := removeAll key (rs_metered r)\<rparr>)) (\<lambda>_.
          preturn samples))
        else preturn [])
     else case ClusterDemand spec of
         Inl _ \<Rightarrow> preturn []
       | Inr (minDemand, _) \<Rightarrow>
           pbind (at_store (poolFor st (cs_Project spec))) (\<lambda>pool.
           pbind (pmodify (\<lambda>r. r\<lparr>rs_metered := List.insert key (rs_metered r)\<rparr>)) (\<lambda>_.
           preturn (map (\<lambda>(resource, qty). usage_sample now (cs_Project spec) pool owner resource qty) minDemand))))"

definition meter_cluster ::
  "'s StoreI \<Rightarrow> u64 \<Rightarrow> StoredCluster \<Rightarrow> (('s, 'w, 'g) rstate, StoreError, UsageSample list) prog" where
  "meter_cluster st now c = meterOne st (sc_ID c) (sc_Spec c) (derefOr (cs_Owner (sc_Spec c)) [])
     (sc_ObservedState c = Some ClusterStateRunning \<and> sc_Desired c = DesiredRunning) now"

definition meter_job ::
  "'s StoreI \<Rightarrow> u64 \<Rightarrow> StoredRayJob \<Rightarrow> (('s, 'w, 'g) rstate, StoreError, UsageSample list) prog" where
  "meter_job st now j = meterOne st (jobMeterKey (sj_ID j)) (jobDemandSpec (sj_Spec j)) (derefOr (sj_Owner j) [])
     (sj_DeploymentStatus j = ''Running'' \<and> sj_Desired j = DesiredRunning) now"

definition Meter :: "('s, 'w, 'g) Reconciler \<Rightarrow> u64 \<Rightarrow> (('s, 'w, 'g) rstate, MeterError, nat) prog" where
  "Meter r now =
     (let st = rc_store r in
      pbind (pwrap MeterErrStore (at_store (st_List st))) (\<lambda>clusters.
      pbind (pwrap MeterErrStore (peach (meter_cluster st now) clusters)) (\<lambda>xs.
      pbind (pwrap MeterErrStore (at_store (st_ListRayJobs st))) (\<lambda>jobs.
      pbind (pwrap MeterErrStore (peach (meter_job st now) jobs)) (\<lambda>ys.
      let samples = concat xs @ concat ys in
      if samples = [] then preturn 0
      else pbind (pwrap MeterErrRecord (at_store (st_RecordUsageSamples st samples))) (\<lambda>_.
        preturn (length samples)))))))"


section \<open>The loop\<close>

text \<open>
  One tick.  \<^verbatim>\<open>now\<close>, \<^verbatim>\<open>now1\<close> and \<^verbatim>\<open>now2\<close> are its three readings of the Unix clock, \<^verbatim>\<open>clock\<close> and \<^verbatim>\<open>clock1\<close> its two
  readings of the monotonic clock in nanoseconds.  Every error is logged and dropped.
\<close>

definition tick ::
  "('s, 'w, 'g) Reconciler \<Rightarrow> u64 \<Rightarrow> u64 \<Rightarrow> int \<Rightarrow> int \<Rightarrow> u64 \<Rightarrow>
   (('s, 'w, 'g) rstate, ReconcileError, ReconcileResult list) prog" where
  "tick r now now1 clock clock1 now2 =
     pbind (pattempt (ReapExpired r now)) (\<lambda>_.
     pbind (pattempt (on_store (st_ReapIntents (rc_store r) (satSubU64 now IntentRetentionSecs)))) (\<lambda>_.
     pbind (pattempt (ReapTerminated r now)) (\<lambda>_.
     pbind (ReconcileAllAt r now1) (\<lambda>results.
     pbind (pget rs_lastMeter) (\<lambda>last.
     if 0 < rc_meteringInterval r \<and> (case last of None \<Rightarrow> True | Some t \<Rightarrow> rc_meteringInterval r \<le> clock - t)
     then
       pbind (pmodify (\<lambda>s. s\<lparr>rs_lastMeter := Some clock1\<rparr>)) (\<lambda>_.
       pbind (pattempt (Meter r now2)) (\<lambda>_. preturn results))
     else preturn results)))))"

record 'g Options =
  op_Interval :: int
  op_Limits :: "RateLimits option"
  op_TerminatedRetentionSecs :: "u64 option"
  op_MeteringInterval :: int
  op_Registrar :: "'g Registrar option"
  op_GatewayHostname :: "(ClusterId \<Rightarrow> string) option"

definition DefaultReconcileInterval :: int where "DefaultReconcileInterval = 30 * 1000000000"
definition DefaultMeteringInterval :: int where "DefaultMeteringInterval = 60 * 1000000000"

definition NewReconciler :: "'s StoreI \<Rightarrow> 'w Provisioner \<Rightarrow> quantity_parser \<Rightarrow> ('s, 'w, 'g) Reconciler" where
  "NewReconciler st pv quantity = \<lparr>rc_store = st, rc_provisioner = pv,
     rc_terminatedRetentionSecs = TerminatedRetentionSecs, rc_meteringInterval = DefaultMeteringInterval,
     rc_registrar = None, rc_gatewayHostname = None, rc_quantity = quantity\<rparr>"

definition WithTerminatedRetention :: "u64 \<Rightarrow> ('s, 'w, 'g) Reconciler \<Rightarrow> ('s, 'w, 'g) Reconciler" where
  "WithTerminatedRetention secs r = r\<lparr>rc_terminatedRetentionSecs := secs\<rparr>"

definition newReconcilerFromOptions ::
  "'s StoreI \<Rightarrow> 'w Provisioner \<Rightarrow> quantity_parser \<Rightarrow> 'g Options \<Rightarrow> ('s, 'w, 'g) Reconciler" where
  "newReconcilerFromOptions st pv quantity opts =
     (let r = NewReconciler st pv quantity;
          r = (case op_TerminatedRetentionSecs opts of None \<Rightarrow> r | Some secs \<Rightarrow> WithTerminatedRetention secs r);
          r = (if op_MeteringInterval opts \<noteq> 0 then r\<lparr>rc_meteringInterval := op_MeteringInterval opts\<rparr> else r)
      in r\<lparr>rc_registrar := op_Registrar opts, rc_gatewayHostname := op_GatewayHostname opts\<rparr>)"

text \<open>The mutable part at construction: a bucket that starts at the epoch, nothing metered yet.\<close>

definition boot_state :: "'g Options \<Rightarrow> 's \<Rightarrow> 'w \<Rightarrow> 'g \<Rightarrow> ('s, 'w, 'g) rstate" where
  "boot_state opts store world gateway = \<lparr>rs_store = store, rs_world = world, rs_gateway = gateway,
     rs_bucket = map_option (\<lambda>limits. newTokenBucket limits 0) (op_Limits opts),
     rs_metered = [], rs_lastMeter = None, rs_registered = [], rs_converged = []\<rparr>"

definition loop_interval :: "'g Options \<Rightarrow> int" where
  "loop_interval opts = (if op_Interval opts \<le> 0 then DefaultReconcileInterval else op_Interval opts)"

text \<open>
  \<^verbatim>\<open>RunReconciler\<close> up to a number of ticks: the boot check, whose error is only logged, then one tick per entry of
  the schedule of clock readings.
\<close>

definition RunReconciler ::
  "('s, 'w, 'g) Reconciler \<Rightarrow> (u64 \<times> u64 \<times> int \<times> int \<times> u64) list \<Rightarrow>
   (('s, 'w, 'g) rstate, ReconcileError, ReconcileResult list list) prog" where
  "RunReconciler r clocks =
     pbind (pattempt (DetectStaleRestore r)) (\<lambda>_.
     peach (\<lambda>(now, now1, clock, clock1, now2). tick r now now1 clock clock1 now2) clocks)"

end
