(* ===== verification/Metering_Props.thy ===== *)
theory Metering_Props
  imports Metering Store_Contracts
begin

text \<open>
  What one metering pass writes.  \<^verbatim>\<open>workloads\<close> is the abstract input of a pass (key, demand, owner, running) and
  \<^verbatim>\<open>workload_samples\<close> the samples one workload owes; \<^verbatim>\<open>meter_pass_exact\<close> says the pass over the in-memory
  store records exactly those and nothing else.
\<close>


section \<open>Abstract pass\<close>

type_synonym workload = "ClusterId \<times> ClusterSpec \<times> string \<times> bool"

definition cluster_workload :: "StoredCluster \<Rightarrow> workload" where
  "cluster_workload c = (sc_ID c, sc_Spec c, derefOr (cs_Owner (sc_Spec c)) [],
     sc_ObservedState c = Some ClusterStateRunning \<and> sc_Desired c = DesiredRunning)"

definition job_workload :: "StoredRayJob \<Rightarrow> workload" where
  "job_workload j = (jobMeterKey (sj_ID j), jobDemandSpec (sj_Spec j), derefOr (sj_Owner j) [],
     sj_DeploymentStatus j = ''Running'' \<and> sj_Desired j = DesiredRunning)"

definition workloads :: "MemoryStore \<Rightarrow> workload list" where
  "workloads m = map cluster_workload (projr (fst (List m))) @ map job_workload (projr (fst (ListRayJobs m)))"

definition pool_of :: "MemoryStore \<Rightarrow> string \<Rightarrow> string" where
  "pool_of m project = (case find (\<lambda>p. PoolPurpose_OrDefault (ps_Purpose (sp_Spec p)) = PoolPurposeCompute
        \<and> list_ex (\<lambda>a. al_Project a = project) (projr (fst (ListAllocations (sp_Name p) m))))
      (projr (fst (ListPools m))) of None \<Rightarrow> [] | Some p \<Rightarrow> sp_Name p)"

fun workload_samples :: "MemoryStore \<Rightarrow> ClusterId list \<Rightarrow> u64 \<Rightarrow> workload \<Rightarrow> UsageSample list" where
  "workload_samples m metered now (key, spec, owner, running) = (case ClusterDemand spec of
      Inl _ \<Rightarrow> []
    | Inr (demand, _) \<Rightarrow>
        if running then
          map (\<lambda>(r, q). usage_sample now (cs_Project spec) (pool_of m (cs_Project spec)) owner r q) demand
        else if key \<in> set metered then
          map (\<lambda>r. usage_sample now (cs_Project spec) (pool_of m (cs_Project spec)) owner r (Fin 0)) (gkeys demand)
        else [])"

fun metered_after :: "workload \<Rightarrow> ClusterId list \<Rightarrow> ClusterId list" where
  "metered_after (key, spec, owner, running) M =
     (if \<not> running then removeAll key M else if ok (ClusterDemand spec) then List.insert key M else M)"


section \<open>Running the pass\<close>

lemma at_store_run:
  "m (rs_store s) = (Inr x, rs_store s) \<Longrightarrow> at_store m s = (Inr x, s)"
  by (simp add: at_store_def pzoom_def)

lemma memory_reads:
  "st_List MemoryStoreI m = (Inr (projr (fst (List m))), m)"
  "st_ListRayJobs MemoryStoreI m = (Inr (projr (fst (ListRayJobs m))), m)"
  "st_ListPools MemoryStoreI m = (Inr (projr (fst (ListPools m))), m)"
  "st_ListAllocations MemoryStoreI pool m = (Inr (projr (fst (ListAllocations pool m))), m)"
  by (simp_all add: MemoryStoreI_def List_def ListRayJobs_def ListPools_def ListAllocations_def)

lemma pool_search_run:
  "pool_search MemoryStoreI project ps m =
     (Inr (case find (\<lambda>p. PoolPurpose_OrDefault (ps_Purpose (sp_Spec p)) = PoolPurposeCompute
        \<and> list_ex (\<lambda>a. al_Project a = project) (projr (fst (ListAllocations (sp_Name p) m)))) ps of
        None \<Rightarrow> [] | Some p \<Rightarrow> sp_Name p), m)"
  by (induction ps) (simp_all add: prog_simps pattempt_def pbind_def memory_reads)

lemma poolFor_run: "poolFor MemoryStoreI project m = (Inr (pool_of m project), m)"
  by (simp add: poolFor_def pool_of_def pbind_def pattempt_def memory_reads pool_search_run)

lemma meterOne_run:
  "meterOne MemoryStoreI key spec owner running now s =
     (Inr (workload_samples (rs_store s) (rs_metered s) now (key, spec, owner, running)),
      s\<lparr>rs_metered := metered_after (key, spec, owner, running) (rs_metered s)\<rparr>)"
proof -
  have noop: "s\<lparr>rs_metered := rs_metered s\<rparr> = s" by simp
  show ?thesis
    by (cases "ClusterDemand spec")
      (auto simp: meterOne_def zeroSamples_def prog_simps pbind_def at_store_def pzoom_def poolFor_run ok_def noop
        split: prod.splits)
qed

lemma workload_samples_cong:
  "(fst w \<in> set M \<longleftrightarrow> fst w \<in> set M') \<Longrightarrow> workload_samples m M now w = workload_samples m M' now w"
  by (cases w) (simp split: sum.split)

lemma metered_after_other:
  "fst w \<noteq> k \<Longrightarrow> k \<in> set (metered_after w M) \<longleftrightarrow> k \<in> set M"
  by (cases w) auto

lemma meter_list_run:
  assumes "distinct (map fst ws)"
  shows "peach (\<lambda>(key, spec, owner, running). meterOne MemoryStoreI key spec owner running now) ws s =
     (Inr (map (workload_samples (rs_store s) (rs_metered s) now) ws),
      s\<lparr>rs_metered := fold metered_after ws (rs_metered s)\<rparr>)"
  using assms
proof (induction ws arbitrary: s)
  case Nil
  then show ?case by (simp add: prog_simps)
next
  case (Cons w ws)
  let ?t = "s\<lparr>rs_metered := metered_after w (rs_metered s)\<rparr>"
  have same: "workload_samples m (metered_after w (rs_metered s)) now v = workload_samples m (rs_metered s) now v"
    if "v \<in> set ws" for m v
    using that Cons.prems by (intro workload_samples_cong metered_after_other) auto
  from Cons.IH [of ?t] Cons.prems same show ?case
    by (cases w) (simp add: pbind_def prog_simps meterOne_run del: workload_samples.simps metered_after.simps)
qed

lemma peach_append:
  "pbind (peach f xs) (\<lambda>ys. pbind (peach f zs) (\<lambda>us. k (ys @ us))) = pbind (peach f (xs @ zs)) k"
proof (induction xs arbitrary: k)
  case (Cons x xs)
  have "pbind (peach f xs) (\<lambda>ys. pbind (peach f zs) (\<lambda>us. k (y # ys @ us))) =
      pbind (peach f (xs @ zs)) (\<lambda>vs. k (y # vs))" for y
    by (rule Cons.IH [of "\<lambda>vs. k (y # vs)"])
  then show ?case by (simp add: pbind_laws)
qed (simp add: pbind_laws)

lemma peach_map: "peach f (map g xs) = peach (f \<circ> g) xs"
  by (induction xs) simp_all

lemma metered_keys:
  "distinct (map fst ws) \<Longrightarrow> k \<in> set (fold metered_after ws M) \<longleftrightarrow>
     (if k \<in> fst ` set ws
      then \<exists>spec owner. (k, spec, owner, True) \<in> set ws \<and> (ok (ClusterDemand spec) \<or> k \<in> set M)
      else k \<in> set M)"
proof (induction ws arbitrary: M)
  case (Cons w ws)
  obtain key spec owner running where w: "w = (key, spec, owner, running)" by (cases w)
  show ?case
  proof (cases "key = k")
    case True
    then have "k \<notin> fst ` set ws" using Cons.prems w by auto
    then have "(k, spec', owner', True) \<notin> set ws" for spec' owner' by (metis fst_conv imageI)
    with True \<open>k \<notin> fst ` set ws\<close> Cons w show ?thesis by auto
  next
    case False
    with Cons w show ?thesis by auto
  qed
qed simp


section \<open>The pass\<close>

lemma Meter_run:
  fixes s :: "(MemoryStore, 'w, 'g) rstate"
  assumes "distinct (map fst (workloads (rs_store s)))" "rc_store r = MemoryStoreI"
  shows "Meter r now s =
     (let S = concat (map (workload_samples (rs_store s) (rs_metered s) now) (workloads (rs_store s))) in
      (Inr (length S), s\<lparr>rs_store := (rs_store s)\<lparr>ms_usage := ms_usage (rs_store s) @ S\<rparr>,
         rs_metered := fold metered_after (workloads (rs_store s)) (rs_metered s)\<rparr>))"
proof -
  let ?f = "\<lambda>(key, spec, owner, running). meterOne MemoryStoreI key spec owner running now"
  let ?cs = "map cluster_workload (projr (fst (List (rs_store s))))"
  let ?js = "map job_workload (projr (fst (ListRayJobs (rs_store s))))"
  have c: "meter_cluster MemoryStoreI now = ?f \<circ> cluster_workload"
    and j: "meter_job MemoryStoreI now = ?f \<circ> job_workload"
    by (simp_all add: fun_eq_iff meter_cluster_def meter_job_def cluster_workload_def job_workload_def)
  have d: "distinct (map fst ?cs)" "distinct (map fst ?js)" "fst ` set ?cs \<inter> fst ` set ?js = {}"
    using assms(1) by (auto simp: workloads_def)
  have far: "workload_samples m (fold metered_after ?cs M) now w = workload_samples m M now w"
    if "w \<in> set ?js" for m M w
  proof (rule workload_samples_cong)
    have "fst w \<in> fst ` set ?js" using that by (rule imageI)
    with d(3) have "fst w \<notin> fst ` set ?cs" by blast
    then show "fst w \<in> set (fold metered_after ?cs M) \<longleftrightarrow> fst w \<in> set M"
      by (simp only: metered_keys [OF d(1)] if_False)
  qed
  let ?s1 = "s\<lparr>rs_metered := fold metered_after ?cs (rs_metered s)\<rparr>"
  let ?s2 = "s\<lparr>rs_metered := fold metered_after (?cs @ ?js) (rs_metered s)\<rparr>"
  let ?xs = "map (workload_samples (rs_store s) (rs_metered s) now) ?cs"
  let ?ys = "map (workload_samples (rs_store s) (rs_metered s) now) ?js"
  have 1: "pwrap MeterErrStore (at_store (st_List MemoryStoreI)) s = (Inr (projr (fst (List (rs_store s)))), s)"
    by (simp add: pwrap_def at_store_run [where m = "st_List MemoryStoreI"] memory_reads)
  have 2: "pwrap MeterErrStore (peach (meter_cluster MemoryStoreI now) (projr (fst (List (rs_store s))))) s = (Inr ?xs, ?s1)"
    unfolding c peach_map [symmetric] pwrap_def meter_list_run [OF d(1)] by simp
  have 3: "pwrap MeterErrStore (at_store (st_ListRayJobs MemoryStoreI)) ?s1 = (Inr (projr (fst (ListRayJobs (rs_store s)))), ?s1)"
    by (simp add: pwrap_def at_store_run [where m = "st_ListRayJobs MemoryStoreI"] memory_reads)
  have 4: "pwrap MeterErrStore (peach (meter_job MemoryStoreI now) (projr (fst (ListRayJobs (rs_store s))))) ?s1 = (Inr ?ys, ?s2)"
    unfolding j peach_map [symmetric] pwrap_def meter_list_run [OF d(2)] using far by simp
  have 5: "pwrap MeterErrRecord (at_store (st_RecordUsageSamples MemoryStoreI S)) t =
      (Inr (), t\<lparr>rs_store := (rs_store t)\<lparr>ms_usage := ms_usage (rs_store t) @ S\<rparr>\<rparr>)" for S and t :: "(MemoryStore, 'w, 'g) rstate"
    by (simp add: pwrap_def at_store_def pzoom_def MemoryStoreI_def RecordUsageSamples_def)
  show ?thesis
    unfolding Meter_def assms(2) Let_def
    by (simp only: pbind_unfold 1 2 3 4 prod.case sum.case workloads_def map_append concat_append fold_append)
      (simp add: pbind_unfold 5 prog_simps del: workload_samples.simps metered_after.simps)
qed

lemma rows_ids: "rows_ok P m \<Longrightarrow> (\<And>k v. P k v \<Longrightarrow> f v = k) \<Longrightarrow> map f (gvals m) = gkeys m"
  by (force simp: rows_ok_def gvals_def gkeys_def gget_def gwf_def intro!: map_cong)

lemma workloads_distinct:
  assumes "store_inv m" "list_all (\<lambda>c. take 4 c \<noteq> ''job:'') (gkeys (ms_clusters m))"
  shows "distinct (map fst (workloads m))"
proof -
  have c: "map fst (map cluster_workload (gvals (ms_clusters m))) = gkeys (ms_clusters m)"
    and j: "map sj_ID (gvals (ms_rayJobs m)) = gkeys (ms_rayJobs m)"
    and wf: "distinct (gkeys (ms_clusters m))" "distinct (gkeys (ms_rayJobs m))"
    using assms(1) rows_ids [of cluster_row_ok "ms_clusters m" sc_ID] rows_ids [of rayjob_row_ok "ms_rayJobs m" sj_ID]
    by (auto simp: store_inv_def row_defs cluster_workload_def rows_ok_def gwf_def gkeys_def comp_def)
  let ?js = "projr (fst (ListRayJobs m))"
  have "mset (map sj_ID ?js) = mset (gkeys (ms_rayJobs m))"
    by (simp add: ListRayJobs_def mset_map j [symmetric])
  with wf(2) have "distinct (map sj_ID ?js)" by (metis mset_eq_imp_distinct_iff)
  then have "distinct (map fst (map job_workload ?js))"
    by (simp add: job_workload_def jobMeterKey_def comp_def distinct_map inj_on_def)
  moreover have "set (gkeys (ms_clusters m)) \<inter> set (map fst (map job_workload ?js)) = {}"
    using assms(2) by (auto simp: job_workload_def jobMeterKey_def list_all_iff)
  ultimately show ?thesis
    using wf(1) by (simp only: workloads_def List_def fst_conv sum.sel map_append distinct_append c simp_thms)
qed

text \<open>A store with two identical running clusters of one project, for the witness and for the report of their usage.\<close>

definition metered_spec :: ClusterSpec where
  "metered_spec = ClusterSpec_zero\<lparr>cs_Project := ''p'', cs_HeadCpu := nat_digits 1, cs_HeadMemory := nat_digits 2 @ ''Gi''\<rparr>"

definition two_clusters :: MemoryStore where
  "two_clusters = (let c = (fresh_cluster [] metered_spec 1 0)\<lparr>sc_ObservedState := Some ClusterStateRunning\<rparr>
     in (NewMemoryStore 0)\<lparr>ms_clusters := [(''a'', c\<lparr>sc_ID := ''a''\<rparr>), (''b'', c\<lparr>sc_ID := ''b''\<rparr>)]\<rparr>)"

definition two_clusters_state :: "(MemoryStore, unit, unit) rstate" where
  "two_clusters_state = \<lparr>rs_store = two_clusters, rs_world = (), rs_gateway = (), rs_bucket = None, rs_metered = [''gone''],
     rs_lastMeter = None, rs_registered = [], rs_converged = []\<rparr>"

lemma metered_spec_demand:
  "ClusterDemand metered_spec = Inr ([(CPU, Fin 1), (Memory, Fin 2)], [(CPU, Fin 1), (Memory, Fin 2)])"
  by (simp add: ClusterDemand_def headUnit_def metered_spec_def CPUCores_nat MemGiB_Gi ClusterSpec_zero_def gput_def
      CPU_def Memory_def)

lemma two_clusters_inv: "store_inv two_clusters"
  by (auto simp: store_inv_def two_clusters_def NewMemoryStore_def rows_ok_def gwf_def gget_def Let_def
      cluster_row_ok_def fresh_cluster_def DesiredState_isValid_def audit_ok_def)

lemma two_clusters_workloads:
  "workloads two_clusters = [(''a'', metered_spec, [], True), (''b'', metered_spec, [], True)]"
  by (simp add: workloads_def two_clusters_def NewMemoryStore_def List_def ListRayJobs_def gvals_def Let_def
      cluster_workload_def fresh_cluster_def derefOr_def metered_spec_def ClusterSpec_zero_def)

lemma two_clusters_samples:
  "concat (map (workload_samples two_clusters M now) (workloads two_clusters)) =
     concat (replicate 2 [usage_sample now ''p'' [] [] CPU (Fin 1), usage_sample now ''p'' [] [] Memory (Fin 2)])"
proof -
  have "pool_of two_clusters x = []" for x
    by (simp add: pool_of_def two_clusters_def NewMemoryStore_def ListPools_def gvals_def Let_def)
  moreover have "cs_Project metered_spec = ''p''" by (simp add: metered_spec_def)
  ultimately show ?thesis by (simp add: two_clusters_workloads metered_spec_demand numeral_2_eq_2)
qed

text \<open>
  C20.  The metering pass: for any reachable store no cluster of which is named like a job key, a pass never
  fails, leaves everything but the usage series and the metered set alone, and appends exactly the samples the
  workloads owe at that instant - the minimum demand of every running workload whose demand parses, one zero per
  resource for a workload that was metered and no longer runs, nothing else.  Afterwards the metered set has
  exactly the running workloads (those whose demand parses, and those it already had) and the keys it had that
  belong to no listed workload, so a stopped workload is closed once.
\<close>

theorem meter_pass_exact:
  assumes "store_inv (rs_store s)"
    and "list_all (\<lambda>c. take 4 c \<noteq> ''job:'') (gkeys (ms_clusters (rs_store s)))"
    and "rc_store r = MemoryStoreI"
  shows "let m = rs_store s; ws = workloads m;
             samples = concat (map (workload_samples m (rs_metered s) now) ws);
             metered = rs_metered (snd (Meter r now s))
         in Meter r now s = (Inr (length samples),
              s\<lparr>rs_store := m\<lparr>ms_usage := ms_usage m @ samples\<rparr>, rs_metered := metered\<rparr>)
          \<and> (\<forall>key. key \<in> set metered \<longleftrightarrow>
               (if key \<in> fst ` set ws
                then \<exists>spec owner. (key, spec, owner, True) \<in> set ws
                       \<and> (ok (ClusterDemand spec) \<or> key \<in> set (rs_metered s))
                else key \<in> set (rs_metered s)))"
  using Meter_run [OF workloads_distinct [OF assms(1,2)] assms(3), of now]
    metered_keys [OF workloads_distinct [OF assms(1,2)], of _ "rs_metered s"]
  by (simp add: Let_def del: workload_samples.simps metered_after.simps)

theorem meter_pass_exact_witness:
  "\<forall>pv quantity. let t = Meter (NewReconciler MemoryStoreI pv quantity) 60 two_clusters_state in
     fst t = Inr 4 \<and> set (rs_metered (snd t)) = {''a'', ''b'', ''gone''}"
proof (intro allI)
  fix pv quantity
  let ?r = "NewReconciler MemoryStoreI pv quantity :: (MemoryStore, unit, unit) Reconciler"
  have st: "rs_store two_clusters_state = two_clusters" "rs_metered two_clusters_state = [''gone'']"
    by (simp_all add: two_clusters_state_def)
  have h: "list_all (\<lambda>c. take 4 c \<noteq> ''job:'') (gkeys (ms_clusters two_clusters))" "rc_store ?r = MemoryStoreI"
    by (simp_all add: two_clusters_def gkeys_def Let_def NewReconciler_def)
  note all = meter_pass_exact [of two_clusters_state ?r 60, unfolded Let_def st two_clusters_samples,
      OF two_clusters_inv h]
  have "fst (Meter ?r 60 two_clusters_state) = Inr 4"
    using arg_cong [where f = fst, OF conjunct1 [OF all]] by (simp add: numeral_2_eq_2)
  moreover have "set (rs_metered (snd (Meter ?r 60 two_clusters_state))) = {''a'', ''b'', ''gone''}"
    unfolding set_eq_iff all [THEN conjunct2, THEN spec] two_clusters_workloads by (auto simp: metered_spec_demand)
  ultimately show "let t = Meter ?r 60 two_clusters_state in
     fst t = Inr 4 \<and> set (rs_metered (snd t)) = {''a'', ''b'', ''gone''}" by (simp add: Let_def)
qed

end
