(* ===== verification/Job_Reconcile.thy ===== *)
theory Job_Reconcile
  imports Reconcile
begin

text \<open>
  The engine of ephemeral Ray jobs, after \<^verbatim>\<open>internal/controller/job_reconcile.go\<close> and the job vocabulary of
  \<^verbatim>\<open>internal/provision/rayjob.go\<close>: apply once through the outbox, then observe, keep the gateway's routing
  table and the job history in step, and tear down and tombstone on a delete.

  What a pass guarantees is in \<^verbatim>\<open>Job_Props\<close>.
\<close>


section \<open>Vocabulary\<close>

definition JobRunningDeploymentStatus :: string where "JobRunningDeploymentStatus = ''Running''"
definition JobCompleteDeploymentStatus :: string where "JobCompleteDeploymentStatus = ''Complete''"
definition JobFailedDeploymentStatus :: string where "JobFailedDeploymentStatus = ''Failed''"
definition JobValidationFailedDeploymentStatus :: string where
  "JobValidationFailedDeploymentStatus = ''ValidationFailed''"

definition JobDeploymentIsTerminal :: "string \<Rightarrow> bool" where
  "JobDeploymentIsTerminal d =
     (d \<in> {JobCompleteDeploymentStatus, JobFailedDeploymentStatus, JobValidationFailedDeploymentStatus})"

definition JobGeneration :: u64 where "JobGeneration = 1"

definition jobIntentKey :: "ClusterId \<Rightarrow> string" where
  "jobIntentKey cid = ''job/'' @ cid @ ''/1''"

definition jobParamsFingerprint :: "RayJobSpec \<Rightarrow> string" where
  "jobParamsFingerprint spec = json_text (RayJobSpec_MarshalJSON spec)"

record ('s, 'w, 'g) JobReconciler =
  jc_store :: "'s StoreI"
  jc_jobs :: "'w JobProvisioner"
  jc_registrar :: "'g Registrar option"
  jc_gatewayHostname :: "(ClusterId \<Rightarrow> string) option"
  jc_terminatedRetentionSecs :: u64

definition NewJobReconciler :: "'s StoreI \<Rightarrow> 'w JobProvisioner \<Rightarrow> ('s, 'w, 'g) JobReconciler" where
  "NewJobReconciler st jobs = \<lparr>jc_store = st, jc_jobs = jobs, jc_registrar = None, jc_gatewayHostname = None,
     jc_terminatedRetentionSecs = TerminatedRetentionSecs\<rparr>"

definition job_WithRegistrar ::
  "'g Registrar \<Rightarrow> (ClusterId \<Rightarrow> string) \<Rightarrow> ('s, 'w, 'g) JobReconciler \<Rightarrow> ('s, 'w, 'g) JobReconciler" where
  "job_WithRegistrar registrar hostname r = r\<lparr>jc_registrar := Some registrar, jc_gatewayHostname := Some hostname\<rparr>"

definition job_WithTerminatedRetention :: "u64 \<Rightarrow> ('s, 'w, 'g) JobReconciler \<Rightarrow> ('s, 'w, 'g) JobReconciler" where
  "job_WithTerminatedRetention secs r = r\<lparr>jc_terminatedRetentionSecs := secs\<rparr>"


section \<open>Gateway registration\<close>

definition job_register ::
  "('s, 'w, 'g) JobReconciler \<Rightarrow> StoredRayJob \<Rightarrow> string \<Rightarrow> ('s, 'w, 'g, unit) rprog" where
  "job_register r j apiBaseURL = (case (jc_registrar r, jc_gatewayHostname r) of
      (Some reg, Some hostname) \<Rightarrow> pmodify (\<lambda>rs. rs\<lparr>rs_gateway := snd (rg_Register reg
          \<lparr>ep_Id = sj_ID j, ep_Hostname = hostname (sj_ID j), ep_ApiBaseUrl = apiBaseURL,
           ep_AuthToken = None, ep_AuthTokenEnv = None, ep_Project = rj_Project (sj_Spec j),
           ep_Target = RegistryTargetJobs, ep_Source = RegistrySourceDynamic\<rparr> (rs_gateway rs))\<rparr>)
    | _ \<Rightarrow> preturn ())"

definition job_deregister :: "('s, 'w, 'g) JobReconciler \<Rightarrow> ClusterId \<Rightarrow> ('s, 'w, 'g, unit) rprog" where
  "job_deregister r cid = (case jc_registrar r of
      None \<Rightarrow> preturn ()
    | Some reg \<Rightarrow> pmodify (\<lambda>rs. rs\<lparr>rs_gateway := rg_Deregister reg cid (rs_gateway rs)\<rparr>))"


section \<open>Recording\<close>

definition jobObservedTerminal :: "ObservedJob \<Rightarrow> bool" where
  "jobObservedTerminal obs = (jobIsTerminal (oj_JobStatus obs) \<or> JobDeploymentIsTerminal (oj_DeploymentStatus obs))"

definition historyStatus :: "ObservedJob \<Rightarrow> string" where
  "historyStatus obs =
     (if oj_JobStatus obs \<noteq> [] then oj_JobStatus obs
      else if oj_DeploymentStatus obs = JobCompleteDeploymentStatus then ''SUCCEEDED''
      else if oj_DeploymentStatus obs \<in> {JobFailedDeploymentStatus, JobValidationFailedDeploymentStatus} then ''FAILED''
      else [])"

definition jobHistoryRecord ::
  "StoredRayJob \<Rightarrow> string \<Rightarrow> string option \<Rightarrow> u64 option \<Rightarrow> u64 option \<Rightarrow> JobRecord" where
  "jobHistoryRecord j status clusterName start end_at =
     \<lparr>jr_Id = sj_ID j,
      jr_Cluster = (case clusterName of None \<Rightarrow> [] | Some c \<Rightarrow> c),
      jr_Submitter = (case sj_Owner j of None \<Rightarrow> ''-'' | Some s \<Rightarrow> s),
      jr_Status = status,
      jr_DurationSecs = (case (start, end_at) of (Some a, Some b) \<Rightarrow> Some (satSubU64 b a) | _ \<Rightarrow> None),
      jr_SubmittedAt = sj_SubmittedAt j\<rparr>"

definition recordFailure :: "('s, 'w, 'g) JobReconciler \<Rightarrow> StoredRayJob \<Rightarrow> u64 \<Rightarrow> ('s, 'w, 'g, unit) rprog" where
  "recordFailure r j now =
     (let failureCount = satAddU32 (sj_FailureCount j) 1 in
      on_store (st_RecordRayJobAttempt (jc_store r) (sj_ID j) failureCount
        (satAddU64 now (backoffSecs failureCount))))"

definition recordObserved ::
  "('s, 'w, 'g) JobReconciler \<Rightarrow> StoredRayJob \<Rightarrow> ObservedJob \<Rightarrow> u64 \<Rightarrow> ('s, 'w, 'g, unit) rprog" where
  "recordObserved r j obs now =
     (let end_at = (if jobObservedTerminal obs \<and> oj_EndTime obs = None then Some now else oj_EndTime obs) in
      pbind (pwhen (jobObservedTerminal obs \<and> \<not> jobIsTerminal (sj_Status j) \<and> sj_FinishedAt j = None)
        (on_store (st_RecordJob (jc_store r)
          (jobHistoryRecord j (historyStatus obs) (oj_ClusterName obs) (oj_StartTime obs) end_at)))) (\<lambda>_.
      pbind (on_store (st_RecordRayJobObservation (jc_store r) (sj_ID j)
        \<lparr>ro_Status = oj_JobStatus obs, ro_DeploymentStatus = oj_DeploymentStatus obs,
         ro_ClusterName = oj_ClusterName obs, ro_DashboardURL = oj_DashboardURL obs, ro_Message = oj_Message obs,
         ro_StartedAt = oj_StartTime obs, ro_FinishedAt = end_at\<rparr>)) (\<lambda>_.
      if sj_Desired j = DesiredRunning \<and> oj_DeploymentStatus obs = JobRunningDeploymentStatus
      then (case oj_DashboardURL obs of Some url \<Rightarrow> job_register r j url | None \<Rightarrow> job_deregister r (sj_ID j))
      else job_deregister r (sj_ID j))))"

definition RayJobObservedGone :: "StoredRayJob \<Rightarrow> bool" where
  "RayJobObservedGone j = (sj_ClusterName j = None \<and> sj_DashboardURL j = None \<and> sj_FinishedAt j \<noteq> None)"

definition recordGone :: "('s, 'w, 'g) JobReconciler \<Rightarrow> StoredRayJob \<Rightarrow> u64 \<Rightarrow> ('s, 'w, 'g, unit) rprog" where
  "recordGone r j now =
     (if RayJobObservedGone j then preturn ()
      else
        let status = (if \<not> jobIsTerminal (sj_Status j) then ''STOPPED'' else sj_Status j);
            finishedAt = (if sj_FinishedAt j = None then Some now else sj_FinishedAt j)
        in
        pbind (pwhen (\<not> jobIsTerminal (sj_Status j) \<and> sj_FinishedAt j = None)
          (on_store (st_RecordJob (jc_store r)
            (jobHistoryRecord j status (sj_ClusterName j) (sj_StartedAt j) finishedAt)))) (\<lambda>_.
        on_store (st_RecordRayJobObservation (jc_store r) (sj_ID j)
          \<lparr>ro_Status = status, ro_DeploymentStatus = sj_DeploymentStatus j, ro_ClusterName = None,
           ro_DashboardURL = None, ro_Message = sj_Message j, ro_StartedAt = sj_StartedAt j,
           ro_FinishedAt = finishedAt\<rparr>)))"


section \<open>One job\<close>

definition job_observe :: "'w JobProvisioner \<Rightarrow> ClusterId \<Rightarrow> ('s, 'w, 'g, ObservedJob option) rprog" where
  "job_observe jp cid = pbind (pattempt (on_world (jp_ObserveJob jp cid))) (\<lambda>res. case res of
      Inr obs \<Rightarrow> preturn (Some obs)
    | Inl e \<Rightarrow> if isProvisionNotFound e then preturn None else praise (ReconcileErrProvision e))"

text \<open>
  The apply of a job that is not there.  A failed apply records the attempt before the error is returned.
\<close>

definition apply_job :: "('s, 'w, 'g) JobReconciler \<Rightarrow> StoredRayJob \<Rightarrow> u64 \<Rightarrow> ('s, 'w, 'g, unit) rprog" where
  "apply_job r j now =
     (let key = jobIntentKey (sj_ID j) in
      pbind (on_store (st_BeginIntent (jc_store r) key (jobParamsFingerprint (sj_Spec j)))) (\<lambda>outcome.
      if io_Kind outcome = IntentOutcomeParamMismatch then praise (ReconcileErrStaleIntent key)
      else
      pbind (on_store (queueAssignmentForProject (jc_store r) (rj_Project (sj_Spec j)))) (\<lambda>queue.
      pbind (pattempt (on_world (jp_ApplyJob (jc_jobs r) (sj_ID j) (sj_Spec j) JobGeneration queue))) (\<lambda>res. case res of
          Inl e \<Rightarrow> pbind (recordFailure r j now) (\<lambda>_. praise (ReconcileErrProvision e))
        | Inr _ \<Rightarrow> on_store (st_CompleteIntent (jc_store r) key [])))))"

definition act_on_job ::
  "('s, 'w, 'g) JobReconciler \<Rightarrow> StoredRayJob \<Rightarrow> u64 \<Rightarrow> ObservedJob option \<Rightarrow>
   ('s, 'w, 'g, Action \<times> ObservedJob option) rprog" where
  "act_on_job r j now obs = (case sj_Desired j of
      DesiredRunning \<Rightarrow>
        (if obs \<noteq> None \<or> jobIsTerminal (sj_Status j) \<or> sj_FinishedAt j \<noteq> None then preturn (ActionNoOp, obs)
         else pbind (apply_job r j now) (\<lambda>_.
           pbind (job_observe (jc_jobs r) (sj_ID j)) (\<lambda>obs'. preturn (ActionApplied, obs'))))
    | DesiredTerminated \<Rightarrow>
        (if obs = None then preturn (ActionNoOp, obs)
         else pbind (on_provisioner (jp_DeleteJob (jc_jobs r) (sj_ID j))) (\<lambda>_.
           pbind (job_observe (jc_jobs r) (sj_ID j)) (\<lambda>obs'. preturn (ActionTerminated, obs'))))
    | _ \<Rightarrow> preturn (ActionNoOp, obs))"

definition settle_job ::
  "('s, 'w, 'g) JobReconciler \<Rightarrow> StoredRayJob \<Rightarrow> u64 \<Rightarrow> Action \<Rightarrow> ObservedJob option \<Rightarrow> ('s, 'w, 'g, Action) rprog" where
  "settle_job r j now action obs =
     pbind (case obs of
        Some ob \<Rightarrow> recordObserved r j ob now
      | None \<Rightarrow> pbind (job_deregister r (sj_ID j)) (\<lambda>_.
          pwhen (sj_Desired j = DesiredTerminated) (recordGone r j now))) (\<lambda>_.
     pbind (if action = ActionApplied \<and> obs = None then recordFailure r j now
        else pwhen (obs \<noteq> None \<and> sj_Desired j = DesiredRunning \<and> (sj_FailureCount j \<noteq> 0 \<or> sj_NextAttemptAt j \<noteq> 0))
          (on_store (st_RecordRayJobAttempt (jc_store r) (sj_ID j) 0 0))) (\<lambda>_.
     preturn action))"

definition job_reconcileOne ::
  "('s, 'w, 'g) JobReconciler \<Rightarrow> StoredRayJob \<Rightarrow> u64 \<Rightarrow> ('s, 'w, 'g, Action) rprog" where
  "job_reconcileOne r j now =
     (if sj_Desired j = DesiredRunning \<and> now < sj_NextAttemptAt j then preturn ActionBackoff
      else
      pbind (job_observe (jc_jobs r) (sj_ID j)) (\<lambda>obs.
      pbind (on_store (st_IsQuarantined (jc_store r))) (\<lambda>quarantined.
      if quarantined then
        pbind (case obs of Some ob \<Rightarrow> recordObserved r j ob now | None \<Rightarrow> preturn ()) (\<lambda>_. preturn ActionNoOp)
      else
      pbind (act_on_job r j now obs) (\<lambda>(action, obs'). settle_job r j now action obs'))))"

definition job_ReconcileAllAt ::
  "('s, 'w, 'g) JobReconciler \<Rightarrow> u64 \<Rightarrow> ('s, 'w, 'g, ReconcileResult list) rprog" where
  "job_ReconcileAllAt r now = pbind (pattempt (on_store (st_ListRayJobs (jc_store r)))) (\<lambda>res. case res of
      Inl e \<Rightarrow> preturn [\<lparr>rr_ID = ''<list>'', rr_Action = ActionNoOp, rr_Err = Some e\<rparr>]
    | Inr jobs \<Rightarrow> peach (collect sj_ID (\<lambda>j. job_reconcileOne r j now)) jobs)"

definition purgeable_job :: "u64 \<Rightarrow> u64 \<Rightarrow> StoredRayJob \<Rightarrow> bool" where
  "purgeable_job retentionSecs now j =
     (sj_Desired j = DesiredTerminated \<and> RayJobObservedGone j
      \<and> (case sj_FinishedAt j of None \<Rightarrow> False | Some t \<Rightarrow> \<not> satSubU64 now t < retentionSecs))"

definition ReapTerminatedJobs :: "('s, 'w, 'g) JobReconciler \<Rightarrow> u64 \<Rightarrow> ('s, 'w, 'g, string list) rprog" where
  "ReapTerminatedJobs r now =
     pbind (on_store (st_ListRayJobs (jc_store r))) (\<lambda>jobs.
     pbind (peach (\<lambda>j.
        if \<not> purgeable_job (jc_terminatedRetentionSecs r) now j then preturn []
        else pbind (on_store (st_RemoveRayJob (jc_store r) (sj_ID j))) (\<lambda>gone.
          if gone then pbind (job_deregister r (sj_ID j)) (\<lambda>_. preturn [sj_ID j]) else preturn [])) jobs) (\<lambda>removed.
     preturn (concat removed)))"

definition job_tick :: "('s, 'w, 'g) JobReconciler \<Rightarrow> u64 \<Rightarrow> ('s, 'w, 'g, ReconcileResult list) rprog" where
  "job_tick r now = pbind (pattempt (ReapTerminatedJobs r now)) (\<lambda>_. job_ReconcileAllAt r now)"

end
