(* ===== verification/Job_Props.thy ===== *)
theory Job_Props
  imports Reconcile_Props Job_Reconcile
begin

text \<open>
  What a pass of the job engine guarantees: a finished job is never run again and its history is never
  rewritten, and the pass that first sees a job over writes its history, then stamps its finish, and keeps the
  routing table in step with the deployment.
\<close>

lemma wp_job_memory [wp_simps]:
  "wp (st_RecordJob MemoryStoreI rec) Q E s = Q () (snd (RecordJob rec s))"
  "wp (st_RecordRayJobObservation MemoryStoreI cid obs) Q E s = Q () (snd (RecordRayJobObservation cid obs s))"
  "wp (st_RecordRayJobAttempt MemoryStoreI cid n t) Q E s = Q () (snd (RecordRayJobAttempt cid n t s))"
  by (simp_all add: wp_def MemoryStoreI_def RecordJob_def RecordRayJobObservation_def RecordRayJobAttempt_def)

lemma job_store_frame [simp]:
  "ms_jobs (snd (RecordRayJobObservation cid obs s)) = ms_jobs s"
  "ms_jobs (snd (RecordRayJobAttempt cid n t s)) = ms_jobs s"
  "ms_jobs (snd (CompleteIntent k v s)) = ms_jobs s"
  "ms_jobs (snd (RecordJob rec s)) = gput (jr_Id rec) rec (ms_jobs s)"
  "ms_rayJobs (snd (RecordJob rec s)) = ms_rayJobs s"
  "ms_quarantined (snd (RecordJob rec s)) = ms_quarantined s"
  by (simp_all add: RecordRayJobObservation_def RecordRayJobAttempt_def CompleteIntent_def RecordJob_def
      split: option.split)

lemma wp_job_gateway [wp_simps]:
  "wp (job_register r j url) Q E s = Q () (s\<lparr>rs_gateway := rs_gateway (snd (job_register r j url s))\<rparr>)"
  "wp (job_deregister r cid) Q E s = Q () (s\<lparr>rs_gateway := rs_gateway (snd (job_deregister r cid s))\<rparr>)"
  by (simp_all add: job_register_def job_deregister_def wp_def prog_simps split: option.split)

lemma wp_job_observe [wp_simps]:
  "wp (job_observe jp cid) Q E s = wp (jp_ObserveJob jp cid) (\<lambda>ob t. Q (Some ob) (s\<lparr>rs_world := t\<rparr>))
     (\<lambda>e t. if isProvisionNotFound e then Q None (s\<lparr>rs_world := t\<rparr>)
            else E (ReconcileErrProvision e) (s\<lparr>rs_world := t\<rparr>)) (rs_world s)"
  by (simp add: job_observe_def wp_simps cong: if_cong)


section \<open>A finished job is history\<close>

datatype jcall =
  CallObserveJob ClusterId | CallApplyJob ClusterId RayJobSpec "QueueAssignment option" | CallDeleteJob ClusterId

definition job_logging :: "'w JobProvisioner \<Rightarrow> (jcall list \<times> 'w) JobProvisioner" where
  "job_logging jp = \<lparr>
     jp_ApplyJob = (\<lambda>cid spec g q. logged (CallApplyJob cid spec q) (jp_ApplyJob jp cid spec g q)),
     jp_ObserveJob = (\<lambda>cid. logged (CallObserveJob cid) (jp_ObserveJob jp cid)),
     jp_DeleteJob = (\<lambda>cid. logged (CallDeleteJob cid) (jp_DeleteJob jp cid))\<rparr>"

lemma job_logging_sel [wp_simps]:
  "jp_ApplyJob (job_logging jp) cid spec g q = logged (CallApplyJob cid spec q) (jp_ApplyJob jp cid spec g q)"
  "jp_ObserveJob (job_logging jp) cid = logged (CallObserveJob cid) (jp_ObserveJob jp cid)"
  "jp_DeleteJob (job_logging jp) cid = logged (CallDeleteJob cid) (jp_DeleteJob jp cid)"
  by (simp_all add: job_logging_def)

definition job_finished :: "StoredRayJob \<Rightarrow> bool" where
  "job_finished j = (jobIsTerminal (sj_Status j) \<or> sj_FinishedAt j \<noteq> None)"

definition is_job_apply :: "jcall \<Rightarrow> bool" where
  "is_job_apply call = (case call of CallApplyJob _ _ _ \<Rightarrow> True | _ \<Rightarrow> False)"

text \<open>The run so far: calls other than an apply, and the history as it was.\<close>

definition quiet :: "(MemoryStore, jcall list \<times> 'w, 'g) rstate \<Rightarrow> (MemoryStore, jcall list \<times> 'w, 'g) rstate \<Rightarrow> bool" where
  "quiet s t = ((\<exists>cs. call_log t = call_log s @ cs \<and> list_all (\<lambda>c. \<not> is_job_apply c) cs)
     \<and> ms_jobs (rs_store t) = ms_jobs (rs_store s))"

lemma quiet_trans: "quiet s t \<Longrightarrow> quiet t u \<Longrightarrow> quiet s u"
  unfolding quiet_def by (metis append_assoc list_all_append)

lemma quiet_job_step:
  "quiet s s"
  "quiet s (s\<lparr>rs_gateway := g\<rparr>)"
  "rs_world t = rs_world s \<Longrightarrow> ms_jobs (rs_store t) = ms_jobs (rs_store s) \<Longrightarrow> quiet s t"
  "rs_store t = rs_store s \<Longrightarrow> rs_world t = (fst (rs_world s) @ [c], w) \<Longrightarrow> \<not> is_job_apply c \<Longrightarrow> quiet s t"
  by (auto simp: quiet_def call_log_def)

lemma quiet_same: "rs_world t = rs_world s \<Longrightarrow> quiet s t = (ms_jobs (rs_store t) = ms_jobs (rs_store s))"
  by (auto simp: quiet_def call_log_def)

lemma quiet_store: "ms_jobs u = ms_jobs (rs_store t) \<Longrightarrow> quiet s (t\<lparr>rs_store := u\<rparr>) = quiet s t"
  by (simp add: quiet_def call_log_def)

lemma recordObserved_quiet:
  assumes "jc_store r = MemoryStoreI" "job_finished j"
  shows "wp (recordObserved r j ob now) (\<lambda>_. quiet s) (\<lambda>_. quiet s) s"
proof -
  from assms(2) consider "jobIsTerminal (sj_Status j)" | e where "sj_FinishedAt j = Some e"
    by (auto simp: job_finished_def)
  then show ?thesis
    using assms(1) by cases (simp_all add: recordObserved_def Let_def wp_simps quiet_same split: option.split)
qed

lemma recordGone_quiet:
  assumes "jc_store r = MemoryStoreI" "job_finished j"
  shows "wp (recordGone r j now) (\<lambda>_. quiet s) (\<lambda>_. quiet s) s"
  using assms by (auto simp: recordGone_def Let_def wp_simps job_finished_def quiet_same)

lemma settle_quiet:
  assumes "jc_store r = MemoryStoreI" "job_finished j" "a \<noteq> ActionApplied"
  shows "wp (settle_job r j now a obs) (\<lambda>_. quiet s) (\<lambda>_. quiet s) s"
proof -
  have saved: "wp (case obs of Some ob \<Rightarrow> recordObserved r j ob now
      | None \<Rightarrow> pbind (job_deregister r (sj_ID j)) (\<lambda>_. pwhen (sj_Desired j = DesiredTerminated) (recordGone r j now)))
      (\<lambda>_. quiet s) (\<lambda>_. quiet s) s"
  proof (cases obs)
    case None
    have "wp (recordGone r j now) (\<lambda>_. quiet s) (\<lambda>_. quiet s) (s\<lparr>rs_gateway := g\<rparr>)" for g
      by (rule wp_mono [OF recordGone_quiet [OF assms(1,2)]]) (auto intro: quiet_trans quiet_job_step(2))
    then show ?thesis using None by (simp add: wp_simps quiet_job_step(2))
  qed (simp add: recordObserved_quiet assms)
  show ?thesis
    unfolding settle_job_def wp_bind
    by (rule wp_mono [OF saved])
      (use assms in \<open>auto simp: wp_simps quiet_store\<close>)
qed

lemma act_quiet:
  assumes "jc_store r = MemoryStoreI" "jc_jobs r = job_logging jp" "job_finished j"
  shows "wp (act_on_job r j now obs) (\<lambda>(a, _) t. a \<noteq> ActionApplied \<and> quiet s t) (\<lambda>_. quiet s) s"
proof -
  have calls: "quiet s (s\<lparr>rs_world := (fst (rs_world s) @ [CallDeleteJob (sj_ID j)], w)\<rparr>)"
    "quiet s (s\<lparr>rs_world := ((fst (rs_world s) @ [CallDeleteJob (sj_ID j)]) @ [CallObserveJob (sj_ID j)], w)\<rparr>)" for w
    by (auto simp: quiet_def call_log_def is_job_apply_def)
  show ?thesis
    using assms quiet_job_step(1) calls
    by (cases "sj_Desired j") (auto simp: act_on_job_def wp_simps job_finished_def intro!: wp_always)
qed

text \<open>
  C15. A finished job is history.  Once a job row carries a terminal status or a finish time, a pass over it
  never applies the job again, whatever the backend answers and whatever is wanted of it, and leaves the job
  history as it is.
\<close>

theorem finished_job_not_rerun:
  assumes "jc_store r = MemoryStoreI" and "jc_jobs r = job_logging jp" and "job_finished j"
  shows "(\<exists>cs. call_log (snd (job_reconcileOne r j now s)) = call_log s @ cs \<and> list_all (\<lambda>c. \<not> is_job_apply c) cs)
    \<and> ms_jobs (rs_store (snd (job_reconcileOne r j now s))) = ms_jobs (rs_store s)"
proof -
  have seen: "quiet s (s\<lparr>rs_world := (fst (rs_world s) @ [CallObserveJob (sj_ID j)], w)\<rparr>)" for w
    by (auto simp: quiet_def call_log_def is_job_apply_def)
  let ?seen = "\<lambda>w. s\<lparr>rs_world := (fst (rs_world s) @ [CallObserveJob (sj_ID j)], w)\<rparr>"
  have rec: "wp (recordObserved r j ob now) (\<lambda>_. quiet s) (\<lambda>_. quiet s) (?seen w)" for ob w
    by (rule wp_mono [OF recordObserved_quiet [OF assms(1,3)]]) (auto intro: quiet_trans seen)
  have settle: "wp (settle_job r j now a obs) (\<lambda>_. quiet s) (\<lambda>_. quiet s) t"
    if "a \<noteq> ActionApplied" "quiet s t" for a obs t
    by (rule wp_mono [OF settle_quiet [OF assms(1,3) that(1)]]) (auto intro: quiet_trans that)
  have act: "wp (pbind (act_on_job r j now obs) (\<lambda>(a, obs'). settle_job r j now a obs')) (\<lambda>_. quiet s) (\<lambda>_. quiet s) (?seen w)"
    for obs w
    unfolding wp_bind
    by (rule wp_mono [OF act_quiet [OF assms]]) (auto intro: settle quiet_trans seen)
  have "wp (job_reconcileOne r j now) (\<lambda>_. quiet s) (\<lambda>_. quiet s) s"
    using assms(1,2) seen rec act quiet_job_step(1)
    by (auto simp: job_reconcileOne_def wp_simps intro!: wp_always split: option.split)
  then show ?thesis by (simp add: wp_iff_snd quiet_def)
qed


text \<open>A backend that holds one job resource, or none.\<close>

definition one_job :: "(ObservedJob option) JobProvisioner" where
  "one_job = \<lparr>
     jp_ApplyJob = (\<lambda>cid spec g q w. (Inr (), w)),
     jp_ObserveJob = (\<lambda>cid w. (case w of None \<Rightarrow> (Inl (ProvisionErrNotFound cid), w) | Some ob \<Rightarrow> (Inr ob, w))),
     jp_DeleteJob = (\<lambda>cid w. (Inr (), None))\<rparr>"

definition demo_job :: StoredRayJob where
  "demo_job = \<lparr>sj_ID = ''j1'', sj_Spec = \<lparr>rj_Project = ''p'', rj_Entrypoint = ''python run.py'', rj_Image = ''ray:2.9'',
     rj_RayVersion = ''2.9'', rj_RuntimeEnvYaml = [], rj_HeadCpu = ''1'', rj_HeadMemory = ''2Gi'', rj_WorkerGroups = [],
     rj_Profile = None, rj_Environment = None, rj_EnvironmentResolved = None, rj_Storage = [],
     rj_StorageResolved = [], rj_ServiceAccountResolved = None, rj_NamespaceResolved = [],
     rj_TtlSecondsAfterFinished = None, rj_Owner = None\<rparr>, sj_Owner = Some ''alice'', sj_Desired = DesiredRunning,
     sj_Status = [], sj_DeploymentStatus = [], sj_ClusterName = None, sj_DashboardURL = None, sj_Message = None,
     sj_SubmittedAt = 100, sj_StartedAt = None, sj_FinishedAt = None, sj_FailureCount = 0, sj_NextAttemptAt = 0\<rparr>"

definition job_state :: "StoredRayJob \<Rightarrow> 'w \<Rightarrow> (MemoryStore, 'w, ClusterRegistry) rstate" where
  "job_state j w = \<lparr>rs_store = (NewMemoryStore 100)\<lparr>ms_rayJobs := [(sj_ID j, j)]\<rparr>, rs_world = w,
     rs_gateway = \<lparr>cr_Clusters = [], cr_dynamic = []\<rparr>, rs_bucket = None, rs_metered = [], rs_lastMeter = None,
     rs_registered = [], rs_converged = []\<rparr>"

theorem finished_job_not_rerun_witness:
  "\<exists>cs. call_log (snd (job_reconcileOne (NewJobReconciler MemoryStoreI (job_logging one_job))
        (demo_job\<lparr>sj_FinishedAt := Some 150\<rparr>) 200 (job_state (demo_job\<lparr>sj_FinishedAt := Some 150\<rparr>) ([], None)))) = cs
    \<and> list_all (\<lambda>c. \<not> is_job_apply c) cs"
  using finished_job_not_rerun [of "NewJobReconciler MemoryStoreI (job_logging one_job)" one_job
      "demo_job\<lparr>sj_FinishedAt := Some 150\<rparr>" 200 "job_state (demo_job\<lparr>sj_FinishedAt := Some 150\<rparr>) ([], None)"]
  by (simp add: NewJobReconciler_def job_finished_def job_state_def call_log_def)


section \<open>The end of a job\<close>

definition job_end_time :: "ObservedJob \<Rightarrow> u64 \<Rightarrow> u64" where
  "job_end_time ob now = (case oj_EndTime ob of None \<Rightarrow> now | Some t \<Rightarrow> t)"

lemma end_time_recorded:
  "jobObservedTerminal ob \<Longrightarrow>
   (if jobObservedTerminal ob \<and> oj_EndTime ob = None then Some now else oj_EndTime ob) = Some (job_end_time ob now)"
  by (simp add: job_end_time_def split: option.split)

lemma job_row_after [simp]:
  "gget (ms_rayJobs (snd (RecordRayJobObservation cid obs s))) cid = map_option (\<lambda>j.
     j\<lparr>sj_Status := ro_Status obs, sj_DeploymentStatus := ro_DeploymentStatus obs,
       sj_ClusterName := ro_ClusterName obs, sj_DashboardURL := ro_DashboardURL obs,
       sj_Message := ro_Message obs, sj_StartedAt := ro_StartedAt obs, sj_FinishedAt := ro_FinishedAt obs\<rparr>)
     (gget (ms_rayJobs s) cid)"
  "gget (ms_rayJobs (snd (RecordRayJobAttempt cid n t s))) cid =
     map_option (\<lambda>j. j\<lparr>sj_FailureCount := n, sj_NextAttemptAt := t\<rparr>) (gget (ms_rayJobs s) cid)"
  by (simp_all add: RecordRayJobObservation_def RecordRayJobAttempt_def map_row_def gomap_simps split: option.split)

definition ended_row :: "ObservedJob \<Rightarrow> u64 \<Rightarrow> StoredRayJob \<Rightarrow> StoredRayJob" where
  "ended_row ob now j = j\<lparr>sj_Status := oj_JobStatus ob, sj_DeploymentStatus := oj_DeploymentStatus ob,
     sj_ClusterName := oj_ClusterName ob, sj_DashboardURL := oj_DashboardURL ob, sj_Message := oj_Message ob,
     sj_StartedAt := oj_StartTime ob, sj_FinishedAt := Some (job_end_time ob now)\<rparr>"

definition ended_record :: "ObservedJob \<Rightarrow> u64 \<Rightarrow> StoredRayJob \<Rightarrow> JobRecord" where
  "ended_record ob now j =
     \<lparr>jr_Id = sj_ID j,
      jr_Cluster = (case oj_ClusterName ob of None \<Rightarrow> [] | Some c \<Rightarrow> c),
      jr_Submitter = (case sj_Owner j of None \<Rightarrow> ''-'' | Some owner \<Rightarrow> owner),
      jr_Status = (if oj_JobStatus ob \<noteq> [] then oj_JobStatus ob
        else if oj_DeploymentStatus ob = ''Complete'' then ''SUCCEEDED'' else ''FAILED''),
      jr_DurationSecs = map_option (\<lambda>start. of_nat (unat (job_end_time ob now) - unat start)) (oj_StartTime ob),
      jr_SubmittedAt = sj_SubmittedAt j\<rparr>"

definition history_after :: "ObservedJob \<Rightarrow> u64 \<Rightarrow> StoredRayJob \<Rightarrow> MemoryStore \<Rightarrow> (string, JobRecord) gomap" where
  "history_after ob now j s =
     (if job_finished j then ms_jobs s else gput (sj_ID j) (ended_record ob now j) (ms_jobs s))"

lemma satSubU64_nat: "satSubU64 a b = of_nat (unat a - unat b)"
  using unat_sub [of b a] word_nat_cases [of "a - b"]
  by (auto simp: satSubU64_def not_less word_less_nat_alt simp flip: unat_sub)

lemma ended_record_eq:
  assumes "jobObservedTerminal ob"
  shows "jobHistoryRecord j (historyStatus ob) (oj_ClusterName ob) (oj_StartTime ob) (Some (job_end_time ob now)) =
    ended_record ob now j"
proof -
  have "jobIsTerminal [] = False" by code_simp
  then show ?thesis
    using assms
    by (auto simp: ended_record_def jobHistoryRecord_def historyStatus_def jobObservedTerminal_def satSubU64_nat
        JobDeploymentIsTerminal_def JobCompleteDeploymentStatus_def split: option.split)
qed

definition route_after :: "'g Registrar \<Rightarrow> (ClusterId \<Rightarrow> string) \<Rightarrow> ObservedJob \<Rightarrow> StoredRayJob \<Rightarrow> 'g \<Rightarrow> 'g" where
  "route_after reg hostname ob j g = (case (oj_DeploymentStatus ob = ''Running'', oj_DashboardURL ob) of
     (True, Some url) \<Rightarrow> snd (rg_Register reg
        \<lparr>ep_Id = sj_ID j, ep_Hostname = hostname (sj_ID j), ep_ApiBaseUrl = url, ep_AuthToken = None,
         ep_AuthTokenEnv = None, ep_Project = rj_Project (sj_Spec j), ep_Target = RegistryTargetJobs,
         ep_Source = RegistrySourceDynamic\<rparr> g)
   | _ \<Rightarrow> rg_Deregister reg (sj_ID j) g)"

lemma wp_failing: "wp (\<lambda>u. (Inl e, u)) Q E s = E e s"
  by (simp add: wp_def)

lemma job_gateway_after:
  assumes "jc_registrar r = Some reg" and "jc_gatewayHostname r = Some hostname"
  shows "rs_gateway (snd (job_deregister r cid u)) = rg_Deregister reg cid (rs_gateway u)"
    and "rs_gateway (snd (job_register r j url u)) = snd (rg_Register reg
        \<lparr>ep_Id = sj_ID j, ep_Hostname = hostname (sj_ID j), ep_ApiBaseUrl = url, ep_AuthToken = None,
         ep_AuthTokenEnv = None, ep_Project = rj_Project (sj_Spec j), ep_Target = RegistryTargetJobs,
         ep_Source = RegistrySourceDynamic\<rparr> (rs_gateway u))"
  using assms by (simp_all add: job_deregister_def job_register_def prog_simps)

lemma recordObserved_ended:
  assumes "jobObservedTerminal ob"
  shows "recordObserved r j ob now =
     pbind (pwhen (\<not> job_finished j) (on_store (st_RecordJob (jc_store r) (ended_record ob now j)))) (\<lambda>_.
     pbind (on_store (st_RecordRayJobObservation (jc_store r) (sj_ID j)
        \<lparr>ro_Status = oj_JobStatus ob, ro_DeploymentStatus = oj_DeploymentStatus ob,
         ro_ClusterName = oj_ClusterName ob, ro_DashboardURL = oj_DashboardURL ob, ro_Message = oj_Message ob,
         ro_StartedAt = oj_StartTime ob, ro_FinishedAt = Some (job_end_time ob now)\<rparr>)) (\<lambda>_.
     if sj_Desired j = DesiredRunning \<and> oj_DeploymentStatus ob = ''Running''
     then (case oj_DashboardURL ob of Some url \<Rightarrow> job_register r j url | None \<Rightarrow> job_deregister r (sj_ID j))
     else job_deregister r (sj_ID j)))"
  unfolding recordObserved_def Let_def end_time_recorded [OF assms] ended_record_eq [OF assms]
  using assms by (simp add: job_finished_def JobRunningDeploymentStatus_def)

lemma recordObserved_end:
  assumes "jc_store r = MemoryStoreI" and "jc_registrar r = Some reg" and "jc_gatewayHostname r = Some hostname"
    and "sj_Desired j = DesiredRunning" and "jobObservedTerminal ob"
    and "gget (ms_rayJobs (rs_store s)) (sj_ID j) = Some j"
  shows "wp (recordObserved r j ob now) (\<lambda>_ t. rs_world t = rs_world s
      \<and> ms_jobs (rs_store t) = history_after ob now j (rs_store s)
      \<and> gget (ms_rayJobs (rs_store t)) (sj_ID j) = Some (ended_row ob now j)
      \<and> rs_gateway t = route_after reg hostname ob j (rs_gateway s)) (\<lambda>_ _. False) s"
  using assms(1,4,6)
  by (auto simp: recordObserved_ended [OF assms(5)] wp_simps job_gateway_after [OF assms(2,3)] history_after_def
      ended_row_def ended_record_def route_after_def split: option.split)

text \<open>
  C16. The end of a job.  The pass that observes a wanted job to be over writes its history record, unless the
  row was finished before, with the time of the pass as the end when the backend has not stamped one, and
  then records the observation with that end on the row, which clears the backoff outside quarantine.  The
  order is a crash fence: if recording the observation fails, the history is already written and the row is
  not yet finished, so the next pass writes it again under the same key; if writing the history fails, nothing
  has changed.  The job leaves the gateway's routing table, except while the backend still reports the
  deployment as running with a dashboard (Ray's status is terminal first): then it is registered.
\<close>

theorem job_end_recorded:
  assumes "jc_store r = MemoryStoreI" and "jc_registrar r = Some reg" and "jc_gatewayHostname r = Some hostname"
    and "sj_Desired j = DesiredRunning" and "sj_NextAttemptAt j \<le> now"
    and "gget (ms_rayJobs (rs_store s)) (sj_ID j) = Some j"
    and "jp_ObserveJob (jc_jobs r) (sj_ID j) (rs_world s) = (Inr ob, w)" and "jobObservedTerminal ob"
  shows "(\<exists>t. job_reconcileOne r j now s = (Inr ActionNoOp, t) \<and> rs_world t = w
      \<and> ms_jobs (rs_store t) = history_after ob now j (rs_store s)
      \<and> gget (ms_rayJobs (rs_store t)) (sj_ID j) = Some (if ms_quarantined (rs_store s) then ended_row ob now j
           else (ended_row ob now j)\<lparr>sj_FailureCount := 0, sj_NextAttemptAt := 0\<rparr>)
      \<and> rs_gateway t = route_after reg hostname ob j (rs_gateway s))
    \<and> job_reconcileOne (r\<lparr>jc_store := MemoryStoreI\<lparr>st_RecordRayJobObservation := \<lambda>_ _ u. (Inl e, u)\<rparr>\<rparr>) j now s =
        (Inl (ReconcileErrStore e),
         s\<lparr>rs_world := w, rs_store := (rs_store s)\<lparr>ms_jobs := history_after ob now j (rs_store s)\<rparr>\<rparr>)
    \<and> (\<not> job_finished j \<longrightarrow>
        job_reconcileOne (r\<lparr>jc_store := MemoryStoreI\<lparr>st_RecordJob := \<lambda>_ u. (Inl e, u)\<rparr>\<rparr>) j now s =
        (Inl (ReconcileErrStore e), s\<lparr>rs_world := w\<rparr>))"
proof -
  let ?s = "s\<lparr>rs_world := w\<rparr>"
  note rec = recordObserved_end [OF assms(1-4,8), of ?s now, simplified, OF assms(6)]
  have settle: "wp (settle_job r j now ActionNoOp (Some ob)) (\<lambda>a t. a = ActionNoOp \<and> rs_world t = w
      \<and> ms_jobs (rs_store t) = history_after ob now j (rs_store s)
      \<and> gget (ms_rayJobs (rs_store t)) (sj_ID j) = Some ((ended_row ob now j)\<lparr>sj_FailureCount := 0, sj_NextAttemptAt := 0\<rparr>)
      \<and> rs_gateway t = route_after reg hostname ob j (rs_gateway s)) (\<lambda>_ _. False) ?s"
    unfolding settle_job_def wp_bind option.case
    by (rule wp_mono [OF rec]) (use assms(1,4) in \<open>auto simp: wp_simps ended_row_def\<close>)
  have "wp (job_reconcileOne r j now) (\<lambda>a t. a = ActionNoOp \<and> rs_world t = w
      \<and> ms_jobs (rs_store t) = history_after ob now j (rs_store s)
      \<and> gget (ms_rayJobs (rs_store t)) (sj_ID j) = Some (if ms_quarantined (rs_store s) then ended_row ob now j
           else (ended_row ob now j)\<lparr>sj_FailureCount := 0, sj_NextAttemptAt := 0\<rparr>)
      \<and> rs_gateway t = route_after reg hostname ob j (rs_gateway s)) (\<lambda>_ _. False) s"
    using assms(1,4,5,7) rec settle
    by (simp add: job_reconcileOne_def act_on_job_def wp_simps wp_def [of "jp_ObserveJob (jc_jobs r) (sj_ID j)"] not_less)
  moreover have "wp (job_reconcileOne (r\<lparr>jc_store := MemoryStoreI\<lparr>st_RecordRayJobObservation := \<lambda>_ _ u. (Inl e, u)\<rparr>\<rparr>) j now)
      (\<lambda>_ _. False) (\<lambda>e' t. e' = ReconcileErrStore e
        \<and> t = s\<lparr>rs_world := w, rs_store := (rs_store s)\<lparr>ms_jobs := history_after ob now j (rs_store s)\<rparr>\<rparr>) s"
    using assms(4,5,7,8)
    by (simp add: job_reconcileOne_def act_on_job_def settle_job_def recordObserved_ended [OF assms(8)] wp_simps
        wp_failing wp_def [of "jp_ObserveJob (jc_jobs r) (sj_ID j)"] not_less history_after_def ended_record_def
        RecordJob_def)
  moreover have "wp (job_reconcileOne (r\<lparr>jc_store := MemoryStoreI\<lparr>st_RecordJob := \<lambda>_ u. (Inl e, u)\<rparr>\<rparr>) j now)
      (\<lambda>_ _. False) (\<lambda>e' t. e' = ReconcileErrStore e \<and> t = s\<lparr>rs_world := w\<rparr>) s" if "\<not> job_finished j"
    using assms(4,5,7,8) that
    by (simp add: job_reconcileOne_def act_on_job_def settle_job_def recordObserved_ended [OF assms(8)] wp_simps
        wp_failing wp_def [of "jp_ObserveJob (jc_jobs r) (sj_ID j)"] not_less)
  ultimately show ?thesis by (auto simp: wp_def split: prod.splits sum.splits)
qed

definition job_over :: ObservedJob where
  "job_over = \<lparr>oj_ID = ''j1'', oj_JobStatus = [], oj_DeploymentStatus = ''Failed'', oj_ClusterName = Some ''j1-raycluster'',
     oj_DashboardURL = None, oj_Message = None, oj_StartTime = Some 120, oj_EndTime = None\<rparr>"

definition routed_jobs :: "(MemoryStore, ObservedJob option, ClusterRegistry) JobReconciler" where
  "routed_jobs = job_WithRegistrar (ClusterRegistryI id) (\<lambda>cid. cid) (NewJobReconciler MemoryStoreI one_job)"

definition job_lagging :: ObservedJob where
  "job_lagging = job_over\<lparr>oj_JobStatus := ''SUCCEEDED'', oj_DeploymentStatus := ''Running'',
     oj_DashboardURL := Some ''http://j1:8265''\<rparr>"

lemma job_ends [simp]: "jobObservedTerminal job_over" "jobObservedTerminal job_lagging" "jobIsTerminal [] = False"
  by code_simp+

lemma routed_jobs_sel [simp]:
  "jc_store routed_jobs = MemoryStoreI" "jc_registrar routed_jobs = Some (ClusterRegistryI id)"
  "jc_gatewayHostname routed_jobs = Some (\<lambda>cid. cid)" "jc_jobs routed_jobs = one_job"
  by (simp_all add: routed_jobs_def job_WithRegistrar_def NewJobReconciler_def)

lemma demo_job_sel [simp]:
  "sj_Desired demo_job = DesiredRunning" "sj_NextAttemptAt demo_job = 0" "sj_ID demo_job = ''j1''"
  "gget (ms_rayJobs (rs_store (job_state demo_job w))) ''j1'' = Some demo_job"
  "rs_world (job_state demo_job w) = w"
  by (simp_all add: job_state_def demo_job_def gget_def)

theorem job_end_recorded_witness:
  "(\<exists>t. job_reconcileOne routed_jobs demo_job 200 (job_state demo_job (Some job_over)) = (Inr ActionNoOp, t)
     \<and> gget (ms_jobs (rs_store t)) ''j1'' = Some \<lparr>jr_Id = ''j1'', jr_Cluster = ''j1-raycluster'', jr_Submitter = ''alice'',
         jr_Status = ''FAILED'', jr_DurationSecs = Some 80, jr_SubmittedAt = 100\<rparr>)
   \<and> (\<exists>t. job_reconcileOne routed_jobs demo_job 200 (job_state demo_job (Some job_lagging)) = (Inr ActionNoOp, t)
     \<and> rs_gateway t = route_after (ClusterRegistryI id) (\<lambda>cid. cid) job_lagging demo_job
         (rs_gateway (job_state demo_job (Some job_lagging))))"
proof -
  have obs: "jp_ObserveJob (jc_jobs routed_jobs) (sj_ID demo_job) (rs_world (job_state demo_job (Some ob))) =
      (Inr ob, Some ob)" for ob
    by (simp add: one_job_def)
  have hist: "gget (history_after job_over 200 demo_job (rs_store (job_state demo_job (Some job_over)))) ''j1'' =
      Some \<lparr>jr_Id = ''j1'', jr_Cluster = ''j1-raycluster'', jr_Submitter = ''alice'',
         jr_Status = ''FAILED'', jr_DurationSecs = Some 80, jr_SubmittedAt = 100\<rparr>"
    by (simp add: history_after_def ended_record_def job_finished_def demo_job_def job_over_def job_end_time_def
        gomap_simps)
  have ends: "\<exists>t. job_reconcileOne routed_jobs demo_job 200 (job_state demo_job (Some ob)) = (Inr ActionNoOp, t)
      \<and> ms_jobs (rs_store t) = history_after ob 200 demo_job (rs_store (job_state demo_job (Some ob)))
      \<and> rs_gateway t = route_after (ClusterRegistryI id) (\<lambda>cid. cid) ob demo_job
          (rs_gateway (job_state demo_job (Some ob)))" if "jobObservedTerminal ob" for ob
    using conjunct1 [OF job_end_recorded [OF _ _ _ _ _ _ obs that, of "ClusterRegistryI id" "\<lambda>cid. cid" 200]] by auto
  show ?thesis using ends [of job_over] ends [of job_lagging] hist by auto
qed

end
