(* ===== verification/Service_Reconcile.thy ===== *)
theory Service_Reconcile
  imports Reconcile
begin

text \<open>
  The engine of Ray services, after \<^verbatim>\<open>internal/controller/service_reconcile.go\<close>: observe, record, deploy what is
  missing or behind its generation, delete and tombstone what is no longer wanted, and keep the gateway's serve
  entries in step with what is serving.

  What a pass guarantees is in \<^verbatim>\<open>Service_Props\<close>.
\<close>

datatype ServiceAction = ServiceActionNone | ServiceActionDeploy | ServiceActionDelete | ServiceActionReap

record ServiceReconcileResult =
  srr_Name :: string
  srr_Action :: ServiceAction
  srr_Err :: "ReconcileError option"

record ('s, 'w, 'g) ServiceReconciler =
  vc_store :: "'s StoreI"
  vc_provisioner :: "'w ServiceProvisioner"
  vc_terminatedRetentionSecs :: u64
  vc_registrar :: "'g Registrar option"
  vc_gatewayHostname :: "(ClusterId \<Rightarrow> string) option"

definition NewServiceReconciler :: "'s StoreI \<Rightarrow> 'w ServiceProvisioner \<Rightarrow> ('s, 'w, 'g) ServiceReconciler" where
  "NewServiceReconciler st pv = \<lparr>vc_store = st, vc_provisioner = pv,
     vc_terminatedRetentionSecs = TerminatedRetentionSecs, vc_registrar = None, vc_gatewayHostname = None\<rparr>"

record 'g ServiceOptions =
  so_Interval :: int
  so_TerminatedRetentionSecs :: "u64 option"
  so_Registrar :: "'g Registrar option"
  so_GatewayHostname :: "(ClusterId \<Rightarrow> string) option"

definition newServiceReconcilerFromOptions ::
  "'s StoreI \<Rightarrow> 'w ServiceProvisioner \<Rightarrow> 'g ServiceOptions \<Rightarrow> ('s, 'w, 'g) ServiceReconciler" where
  "newServiceReconcilerFromOptions st pv opts =
     (let r = NewServiceReconciler st pv;
          r = (case so_TerminatedRetentionSecs opts of None \<Rightarrow> r | Some secs \<Rightarrow> r\<lparr>vc_terminatedRetentionSecs := secs\<rparr>)
      in r\<lparr>vc_registrar := so_Registrar opts, vc_gatewayHostname := so_GatewayHostname opts\<rparr>)"

definition ptrStringEqual :: "string option \<Rightarrow> string option \<Rightarrow> bool" where
  "ptrStringEqual a b = (a = b)"

definition record_service ::
  "('s, 'w, 'g) ServiceReconciler \<Rightarrow> StoredService \<Rightarrow> ClusterState \<Rightarrow> string option \<Rightarrow> ('s, 'w, 'g, unit) rprog" where
  "record_service r svc state url =
     (if ss_ObservedState svc = Some state \<and> ptrStringEqual (ss_ObservedURL svc) url then preturn ()
      else on_store (st_RecordServiceObservation (vc_store r) (ss_Name svc) (Some state) url))"

definition serve_endpoint :: "(ClusterId \<Rightarrow> string) \<Rightarrow> StoredService \<Rightarrow> string \<Rightarrow> ClusterEndpoint" where
  "serve_endpoint hostname svc url =
     \<lparr>ep_Id = ss_Name svc, ep_Hostname = hostname (ss_Name svc), ep_ApiBaseUrl = url,
      ep_AuthToken = None, ep_AuthTokenEnv = None, ep_Project = sv_Project (ss_Spec svc),
      ep_Target = RegistryTargetServe, ep_Source = RegistrySourceDynamic\<rparr>"

definition service_register ::
  "('s, 'w, 'g) ServiceReconciler \<Rightarrow> StoredService \<Rightarrow> string \<Rightarrow> ('s, 'w, 'g, unit) rprog" where
  "service_register r svc url = (case (vc_registrar r, vc_gatewayHostname r) of
      (Some reg, Some hostname) \<Rightarrow> pmodify (\<lambda>rs.
        let ep = serve_endpoint hostname svc url in
        if gget (rs_registered rs) (ss_Name svc) = Some ep then rs
        else case rg_Register reg ep (rs_gateway rs) of
            (Inl _, g) \<Rightarrow> rs\<lparr>rs_gateway := g\<rparr>
          | (Inr _, g) \<Rightarrow> rs\<lparr>rs_gateway := g, rs_registered := gput (ss_Name svc) ep (rs_registered rs)\<rparr>)
    | _ \<Rightarrow> preturn ())"

definition service_deregister :: "('s, 'w, 'g) ServiceReconciler \<Rightarrow> string \<Rightarrow> ('s, 'w, 'g, unit) rprog" where
  "service_deregister r name = (case vc_registrar r of
      None \<Rightarrow> preturn ()
    | Some reg \<Rightarrow> pmodify (\<lambda>rs.
        if gget (rs_registered rs) name = None then rs
        else rs\<lparr>rs_gateway := rg_Deregister reg name (rs_gateway rs), rs_registered := gdel name (rs_registered rs)\<rparr>))"

definition terminate_service ::
  "('s, 'w, 'g) ServiceReconciler \<Rightarrow> StoredService \<Rightarrow> u64 \<Rightarrow> ObservedService option \<Rightarrow> ('s, 'w, 'g, ServiceAction) rprog" where
  "terminate_service r svc now observed =
     pbind (service_deregister r (ss_Name svc)) (\<lambda>_.
     case observed of
       None \<Rightarrow>
         pbind (record_service r svc ClusterStateTerminated None) (\<lambda>_.
         if (case ss_TerminatedAt svc of None \<Rightarrow> False
             | Some t \<Rightarrow> satAddU64 t (vc_terminatedRetentionSecs r) \<le> now)
         then pbind (on_store (st_RemoveService (vc_store r) (ss_Name svc))) (\<lambda>_. preturn ServiceActionReap)
         else preturn ServiceActionNone)
     | Some _ \<Rightarrow>
         pbind (record_service r svc ClusterStateTerminating None) (\<lambda>_.
         pbind (on_provisioner (sp_Delete (vc_provisioner r) (ss_Name svc))) (\<lambda>_.
         preturn ServiceActionDelete)))"

definition service_behind :: "StoredService \<Rightarrow> ObservedService option \<Rightarrow> bool" where
  "service_behind svc observed = (case observed of
      None \<Rightarrow> True
    | Some ob \<Rightarrow> (case os_Generation ob of None \<Rightarrow> True | Some g \<Rightarrow> g < ss_Generation svc))"

definition deploy_service ::
  "('s, 'w, 'g) ServiceReconciler \<Rightarrow> StoredService \<Rightarrow> ObservedService option \<Rightarrow> ('s, 'w, 'g, ServiceAction) rprog" where
  "deploy_service r svc observed =
     (let state = (if observed = None then ClusterStateProvisioning else ClusterStateUpdating);
          url = Option.bind observed os_Url
      in
      pbind (record_service r svc state url) (\<lambda>_.
      pbind (service_deregister r (ss_Name svc)) (\<lambda>_.
      pbind (on_store (QueueAssignmentForProjectPurpose (vc_store r) (sv_Project (ss_Spec svc)) PoolPurposeServing)) (\<lambda>queue.
      pbind (on_provisioner (sp_Deploy (vc_provisioner r) (ss_Name svc) (ss_Spec svc) (ss_Generation svc) queue)) (\<lambda>_.
      preturn ServiceActionDeploy)))))"

definition act_on_service ::
  "('s, 'w, 'g) ServiceReconciler \<Rightarrow> StoredService \<Rightarrow> u64 \<Rightarrow> ObservedService option \<Rightarrow> ('s, 'w, 'g, ServiceAction) rprog" where
  "act_on_service r svc now observed =
     (if ss_Desired svc = DesiredTerminated then terminate_service r svc now observed
      else if service_behind svc observed then deploy_service r svc observed
      else case observed of
          None \<Rightarrow> preturn ServiceActionNone
        | Some ob \<Rightarrow>
            pbind (record_service r svc (os_State ob) (os_Url ob)) (\<lambda>_.
            pbind (case os_Url ob of
                 Some url \<Rightarrow> if os_State ob = ClusterStateRunning then service_register r svc url
                             else service_deregister r (ss_Name svc)
               | None \<Rightarrow> service_deregister r (ss_Name svc)) (\<lambda>_.
            preturn ServiceActionNone)))"

definition service_reconcileOne ::
  "('s, 'w, 'g) ServiceReconciler \<Rightarrow> StoredService \<Rightarrow> u64 \<Rightarrow> ('s, 'w, 'g, ServiceAction) rprog" where
  "service_reconcileOne r svc now =
     pbind (pattempt (on_world (sp_Get (vc_provisioner r) (ss_Name svc)))) (\<lambda>res.
     pbind (case res of
        Inr observed \<Rightarrow> preturn observed
      | Inl e \<Rightarrow> if isProvisionNotFound e then preturn None else praise (ReconcileErrProvision e)) (\<lambda>observed.
     act_on_service r svc now observed))"

definition service_collect ::
  "('s, 'w, 'g) ServiceReconciler \<Rightarrow> u64 \<Rightarrow> StoredService \<Rightarrow> ('s, 'w, 'g, ServiceReconcileResult) rprog" where
  "service_collect r now svc = pbind (pattempt (service_reconcileOne r svc now)) (\<lambda>res. preturn (case res of
      Inr a \<Rightarrow> \<lparr>srr_Name = ss_Name svc, srr_Action = a, srr_Err = None\<rparr>
    | Inl e \<Rightarrow> \<lparr>srr_Name = ss_Name svc, srr_Action = ServiceActionNone, srr_Err = Some e\<rparr>))"

definition service_ReconcileAllAt ::
  "('s, 'w, 'g) ServiceReconciler \<Rightarrow> u64 \<Rightarrow> ('s, 'w, 'g, ServiceReconcileResult list) rprog" where
  "service_ReconcileAllAt r now = pbind (pattempt (on_store (st_ListServices (vc_store r)))) (\<lambda>res. case res of
      Inl e \<Rightarrow> preturn [\<lparr>srr_Name = [], srr_Action = ServiceActionNone, srr_Err = Some e\<rparr>]
    | Inr services \<Rightarrow> peach (service_collect r now) services)"

end
