(* ===== verification/Service_Props.thy ===== *)
theory Service_Props
  imports Reconcile_Live Service_Reconcile
begin

text \<open>
  What a pass of the service engine guarantees: the calls it makes, the action it reports, the row it leaves and
  the routing table are determined by what is wanted and what is observed, and a service is routed only while
  it is observed serving at its current generation.
\<close>

lemma wp_service_memory [wp_simps]:
  "wp (st_RecordServiceObservation MemoryStoreI name st url) Q E s = Q () (snd (RecordServiceObservation name st url s))"
  "wp (st_RemoveService MemoryStoreI name) Q' E s = Q' (projr (fst (RemoveService name s))) (snd (RemoveService name s))"
  by (simp_all add: wp_def MemoryStoreI_def RecordServiceObservation_def RemoveService_def split: option.split)

lemma service_store_frame [simp]:
  "ms_pools (snd (RecordServiceObservation name st url s)) = ms_pools s"
  "ms_allocations (snd (RecordServiceObservation name st url s)) = ms_allocations s"
  "queue_of (snd (RecordServiceObservation name st url s)) p purpose = queue_of s p purpose"
  by (rule queue_of_cong | simp add: RecordServiceObservation_def)+

lemma service_row_after [simp]:
  "gget (ms_services (snd (RecordServiceObservation name st url s))) k =
     (if k = name then map_option (\<lambda>c. c\<lparr>ss_ObservedState := st, ss_ObservedURL := url\<rparr>) (gget (ms_services s) name)
      else gget (ms_services s) k)"
  "gget (ms_services (snd (RemoveService name s))) k = (if k = name then None else gget (ms_services s) k)"
  by (auto simp: RecordServiceObservation_def RemoveService_def map_row_def gomap_simps split: option.split)

datatype scall =
  CallGet string | CallDeploy string ServiceSpec u64 "QueueAssignment option" | CallDelete string

definition service_logging :: "'w ServiceProvisioner \<Rightarrow> (scall list \<times> 'w) ServiceProvisioner" where
  "service_logging sp = \<lparr>
     sp_Deploy = (\<lambda>name spec g q. logged (CallDeploy name spec g q) (sp_Deploy sp name spec g q)),
     sp_Get = (\<lambda>name. logged (CallGet name) (sp_Get sp name)),
     sp_Delete = (\<lambda>name. logged (CallDelete name) (sp_Delete sp name))\<rparr>"

lemma service_logging_sel [wp_simps]:
  "sp_Deploy (service_logging sp) name spec g q = logged (CallDeploy name spec g q) (sp_Deploy sp name spec g q)"
  "sp_Get (service_logging sp) name = logged (CallGet name) (sp_Get sp name)"
  "sp_Delete (service_logging sp) name = logged (CallDelete name) (sp_Delete sp name)"
  by (simp_all add: service_logging_def)

text \<open>What the pass makes of the answer to its one read: an error, or what is there.\<close>

definition service_seen :: "ProvisionError + ObservedService option \<Rightarrow> ProvisionError + ObservedService option" where
  "service_seen got = (case got of
      Inr obs \<Rightarrow> Inr obs
    | Inl e \<Rightarrow> if isProvisionNotFound e then Inr None else Inl e)"

text \<open>
  The specification of a pass, in terms of the row and of what is there.  \<^verbatim>\<open>up_to_date\<close> is an observation that
  carries the row's generation or a later one; \<^verbatim>\<open>tombstone_due\<close> is a tombstone whose retention has run out.
\<close>

definition up_to_date :: "StoredService \<Rightarrow> ObservedService option \<Rightarrow> bool" where
  "up_to_date svc obs = (case Option.bind obs os_Generation of
     None \<Rightarrow> False | Some g \<Rightarrow> unat (ss_Generation svc) \<le> unat g)"

definition tombstone_due :: "u64 \<Rightarrow> u64 \<Rightarrow> StoredService \<Rightarrow> bool" where
  "tombstone_due retention now svc = (case ss_TerminatedAt svc of
     None \<Rightarrow> False | Some t \<Rightarrow> min (2 ^ 64 - 1) (unat t + unat retention) \<le> unat now)"

definition service_calls :: "StoredService \<Rightarrow> ObservedService option \<Rightarrow> QueueAssignment option \<Rightarrow> scall list" where
  "service_calls svc obs queue =
     (if ss_Desired svc = DesiredTerminated then (if obs = None then [] else [CallDelete (ss_Name svc)])
      else if up_to_date svc obs then []
      else [CallDeploy (ss_Name svc) (ss_Spec svc) (ss_Generation svc) queue])"

definition after_call :: "ServiceAction \<Rightarrow> ProvisionError + unit \<Rightarrow> ReconcileError + ServiceAction" where
  "after_call a res = (case res of Inl e \<Rightarrow> Inl (ReconcileErrProvision e) | Inr _ \<Rightarrow> Inr a)"

definition service_result :: "'w ServiceProvisioner \<Rightarrow> u64 \<Rightarrow> u64 \<Rightarrow> StoredService \<Rightarrow> ObservedService option \<Rightarrow>
    QueueAssignment option \<Rightarrow> 'w \<Rightarrow> ReconcileError + ServiceAction" where
  "service_result sp retention now svc obs queue w =
     (if ss_Desired svc = DesiredTerminated then
        (if obs \<noteq> None then after_call ServiceActionDelete (fst (sp_Delete sp (ss_Name svc) w))
         else Inr (if tombstone_due retention now svc then ServiceActionReap else ServiceActionNone))
      else if up_to_date svc obs then Inr ServiceActionNone
      else after_call ServiceActionDeploy (fst (sp_Deploy sp (ss_Name svc) (ss_Spec svc) (ss_Generation svc) queue w)))"

definition service_row :: "u64 \<Rightarrow> u64 \<Rightarrow> StoredService \<Rightarrow> ObservedService option \<Rightarrow> StoredService option" where
  "service_row retention now svc obs =
     (if ss_Desired svc = DesiredTerminated then
        (case obs of
           None \<Rightarrow> if tombstone_due retention now svc then None
                   else Some (svc\<lparr>ss_ObservedState := Some ClusterStateTerminated, ss_ObservedURL := None\<rparr>)
         | Some _ \<Rightarrow> Some (svc\<lparr>ss_ObservedState := Some ClusterStateTerminating, ss_ObservedURL := None\<rparr>))
      else
        (case obs of
           None \<Rightarrow> Some (svc\<lparr>ss_ObservedState := Some ClusterStateProvisioning, ss_ObservedURL := None\<rparr>)
         | Some ob \<Rightarrow> Some (svc\<lparr>ss_ObservedState :=
               Some (if up_to_date svc obs then os_State ob else ClusterStateUpdating), ss_ObservedURL := os_Url ob\<rparr>)))"

definition serving_url :: "StoredService \<Rightarrow> ObservedService option \<Rightarrow> string option" where
  "serving_url svc obs = (case obs of
      None \<Rightarrow> None
    | Some ob \<Rightarrow> if ss_Desired svc \<noteq> DesiredTerminated \<and> up_to_date svc obs \<and> os_State ob = ClusterStateRunning
                then os_Url ob else None)"

lemma service_behind_iff: "service_behind svc obs \<longleftrightarrow> \<not> up_to_date svc obs"
  by (auto simp: service_behind_def up_to_date_def word_less_nat_alt split: option.split)

lemma tombstone_due_iff:
  "(case ss_TerminatedAt svc of None \<Rightarrow> False | Some t \<Rightarrow> satAddU64 t retention \<le> now) \<longleftrightarrow> tombstone_due retention now svc"
  by (simp add: tombstone_due_def word_le_nat_alt unat_satAdd split: option.split)

text \<open>The routing step: off unless serving, and a new registration only where the registry takes it.\<close>

definition service_routing ::
  "'g Registrar \<Rightarrow> (ClusterId \<Rightarrow> string) \<Rightarrow> StoredService \<Rightarrow> ObservedService option \<Rightarrow>
   (string, ClusterEndpoint) gomap \<times> 'g \<Rightarrow> (string, ClusterEndpoint) gomap \<times> 'g" where
  "service_routing reg hostname svc obs = (\<lambda>(table, g). case serving_url svc obs of
      None \<Rightarrow> if gget table (ss_Name svc) = None then (table, g)
              else (gdel (ss_Name svc) table, rg_Deregister reg (ss_Name svc) g)
    | Some url \<Rightarrow>
        let ep = \<lparr>ep_Id = ss_Name svc, ep_Hostname = hostname (ss_Name svc), ep_ApiBaseUrl = url, ep_AuthToken = None,
                  ep_AuthTokenEnv = None, ep_Project = sv_Project (ss_Spec svc), ep_Target = RegistryTargetServe,
                  ep_Source = RegistrySourceDynamic\<rparr> in
        if gget table (ss_Name svc) = Some ep then (table, g)
        else case rg_Register reg ep g of
            (Inl _, g') \<Rightarrow> (table, g')
          | (Inr _, g') \<Rightarrow> (gput (ss_Name svc) ep table, g'))"

definition routing :: "('s, 'w, 'g) rstate \<Rightarrow> (string, ClusterEndpoint) gomap \<times> 'g" where
  "routing rs = (rs_registered rs, rs_gateway rs)"

lemma wp_service_deregister:
  assumes "vc_registrar r = Some reg"
  shows "wp (service_deregister r name) Q E s = Q () (snd (service_deregister r name s))"
    "call_log (snd (service_deregister r name s)) = call_log s"
    "rs_store (snd (service_deregister r name s)) = rs_store s"
    "rs_world (snd (service_deregister r name s)) = rs_world s"
    "routing (snd (service_deregister r name s)) =
       (if gget (rs_registered s) name = None then routing s
        else (gdel name (rs_registered s), rg_Deregister reg name (rs_gateway s)))"
  using assms by (simp_all add: service_deregister_def wp_simps prog_simps call_log_def routing_def)

lemma wp_service_register:
  assumes "vc_registrar r = Some reg" "vc_gatewayHostname r = Some hostname"
  shows "wp (service_register r svc url) Q E s = Q () (snd (service_register r svc url s))"
    "call_log (snd (service_register r svc url s)) = call_log s"
    "rs_store (snd (service_register r svc url s)) = rs_store s"
    "routing (snd (service_register r svc url s)) =
       (let ep = serve_endpoint hostname svc url in
        if gget (rs_registered s) (ss_Name svc) = Some ep then routing s
        else case rg_Register reg ep (rs_gateway s) of
            (Inl _, g') \<Rightarrow> (rs_registered s, g')
          | (Inr _, g') \<Rightarrow> (gput (ss_Name svc) ep (rs_registered s), g'))"
  using assms
  by (simp_all add: service_register_def wp_simps prog_simps call_log_def routing_def Let_def split: prod.split sum.split)

lemma wp_record_service [wp_simps]:
  assumes "vc_store r = MemoryStoreI"
  shows "wp (record_service r svc st url) Q E s = Q () (snd (record_service r svc st url s))"
    "call_log (snd (record_service r svc st url s)) = call_log s"
    "rs_world (snd (record_service r svc st url s)) = rs_world s"
    "routing (snd (record_service r svc st url s)) = routing s"
    "rs_registered (snd (record_service r svc st url s)) = rs_registered s"
    "rs_gateway (snd (record_service r svc st url s)) = rs_gateway s"
    "queue_of (rs_store (snd (record_service r svc st url s))) p purpose = queue_of (rs_store s) p purpose"
    "gget (ms_services (rs_store s)) (ss_Name svc) = Some svc \<Longrightarrow>
      gget (ms_services (rs_store (snd (record_service r svc st url s)))) k =
        (if k = ss_Name svc then Some (svc\<lparr>ss_ObservedState := Some st, ss_ObservedURL := url\<rparr>)
         else gget (ms_services (rs_store s)) k)"
proof -
  have eq: "record_service r svc st url s = (Inr (), if ss_ObservedState svc = Some st \<and> ss_ObservedURL svc = url then s
      else s\<lparr>rs_store := snd (RecordServiceObservation (ss_Name svc) (Some st) url (rs_store s))\<rparr>)"
    using assms
    by (simp add: record_service_def prog_simps on_store_def pwrap_def pzoom_def MemoryStoreI_def ptrStringEqual_def
        RecordServiceObservation_def)
  show "wp (record_service r svc st url) Q E s = Q () (snd (record_service r svc st url s))"
    "call_log (snd (record_service r svc st url s)) = call_log s"
    "rs_world (snd (record_service r svc st url s)) = rs_world s"
    "routing (snd (record_service r svc st url s)) = routing s"
    "rs_registered (snd (record_service r svc st url s)) = rs_registered s"
    "rs_gateway (snd (record_service r svc st url s)) = rs_gateway s"
    "queue_of (rs_store (snd (record_service r svc st url s))) p purpose = queue_of (rs_store s) p purpose"
    by (simp_all add: eq wp_def call_log_def routing_def)
  have "svc\<lparr>ss_ObservedState := Some st, ss_ObservedURL := url\<rparr> = svc"
    if "ss_ObservedState svc = Some st" "ss_ObservedURL svc = url" using that by (cases svc) simp
  then show "gget (ms_services (rs_store (snd (record_service r svc st url s)))) k =
        (if k = ss_Name svc then Some (svc\<lparr>ss_ObservedState := Some st, ss_ObservedURL := url\<rparr>)
         else gget (ms_services (rs_store s)) k)" if "gget (ms_services (rs_store s)) (ss_Name svc) = Some svc"
    using that by (auto simp: eq)
qed


text \<open>The three branches after the read, each from any state.\<close>

definition service_post :: "('s, scall list \<times> 'w, 'g) ServiceReconciler \<Rightarrow> 'w ServiceProvisioner \<Rightarrow>
   'g Registrar \<Rightarrow> (ClusterId \<Rightarrow> string) \<Rightarrow> StoredService \<Rightarrow> u64 \<Rightarrow> ObservedService option \<Rightarrow>
   (MemoryStore, scall list \<times> 'w, 'g) rstate \<Rightarrow> ReconcileError + ServiceAction \<Rightarrow>
   (MemoryStore, scall list \<times> 'w, 'g) rstate \<Rightarrow> bool" where
  "service_post r sp reg hostname svc now obs s res t =
     (let queue = queue_of (rs_store s) (sv_Project (ss_Spec svc)) PoolPurposeServing in
      call_log t = call_log s @ service_calls svc obs queue
      \<and> res = service_result sp (vc_terminatedRetentionSecs r) now svc obs queue (snd (rs_world s))
      \<and> (\<forall>k. gget (ms_services (rs_store t)) k = (if k = ss_Name svc
           then service_row (vc_terminatedRetentionSecs r) now svc obs else gget (ms_services (rs_store s)) k))
      \<and> routing t = service_routing reg hostname svc obs (routing s))"

abbreviation service_meets :: "('s, scall list \<times> 'w, 'g) ServiceReconciler \<Rightarrow> 'w ServiceProvisioner \<Rightarrow>
   'g Registrar \<Rightarrow> (ClusterId \<Rightarrow> string) \<Rightarrow> StoredService \<Rightarrow> u64 \<Rightarrow> ObservedService option \<Rightarrow>
   (MemoryStore, scall list \<times> 'w, 'g, ServiceAction) rprog \<Rightarrow> (MemoryStore, scall list \<times> 'w, 'g) rstate \<Rightarrow> bool" where
  "service_meets r sp reg hostname svc now obs m s \<equiv>
     wp m (\<lambda>a. service_post r sp reg hostname svc now obs s (Inr a)) (\<lambda>e. service_post r sp reg hostname svc now obs s (Inl e)) s"

lemmas service_wp = wp_service_deregister wp_service_register wp_record_service

lemma service_logged_state:
  "call_log (s\<lparr>rs_world := (fst (rs_world s) @ [c], w)\<rparr>) = call_log s @ [c]"
  "routing (s\<lparr>rs_world := v\<rparr>) = routing s" "routing (s\<lparr>rs_store := u\<rparr>) = routing s"
  "call_log (s\<lparr>rs_store := u\<rparr>) = call_log s"
  by (simp_all add: call_log_def routing_def)

lemma service_routing_at:
  "service_routing reg hostname svc obs (routing s) = (case serving_url svc obs of
      None \<Rightarrow> if gget (rs_registered s) (ss_Name svc) = None then routing s
              else (gdel (ss_Name svc) (rs_registered s), rg_Deregister reg (ss_Name svc) (rs_gateway s))
    | Some url \<Rightarrow>
        let ep = serve_endpoint hostname svc url in
        if gget (rs_registered s) (ss_Name svc) = Some ep then routing s
        else case rg_Register reg ep (rs_gateway s) of
            (Inl _, g') \<Rightarrow> (rs_registered s, g')
          | (Inr _, g') \<Rightarrow> (gput (ss_Name svc) ep (rs_registered s), g'))"
  by (simp only: service_routing_def routing_def prod.case serve_endpoint_def)

lemma terminate_post:
  assumes "vc_store r = MemoryStoreI" "vc_provisioner r = service_logging sp" "vc_registrar r = Some reg"
    "ss_Desired svc = DesiredTerminated" "gget (ms_services (rs_store s)) (ss_Name svc) = Some svc"
  shows "service_meets r sp reg hostname svc now obs (terminate_service r svc now obs) s"
proof -
  have off: "serving_url svc obs = None"
    using assms(4) by (simp add: serving_url_def split: option.split)
  show ?thesis
  proof (cases obs)
    case None
    then show ?thesis
      using assms off
      by (auto simp: terminate_service_def tombstone_due_iff wp_simps service_wp service_post_def service_calls_def
          service_result_def service_row_def service_routing_at service_logged_state)
  next
    case (Some ob)
    then show ?thesis
      using assms off
      by (cases "sp_Delete sp (ss_Name svc) (snd (rs_world s))")
        (auto simp: terminate_service_def wp_simps service_wp wp_def [of "sp_Delete sp (ss_Name svc)"] service_post_def
          service_calls_def service_result_def after_call_def service_row_def service_routing_at service_logged_state
          call_log_def split: sum.split)
  qed
qed


lemma deploy_post:
  assumes "vc_store r = MemoryStoreI" "vc_provisioner r = service_logging sp" "vc_registrar r = Some reg"
    "ss_Desired svc \<noteq> DesiredTerminated" "\<not> up_to_date svc obs"
    "gget (ms_services (rs_store s)) (ss_Name svc) = Some svc"
  shows "service_meets r sp reg hostname svc now obs (deploy_service r svc obs) s"
proof -
  let ?q = "queue_of (rs_store s) (sv_Project (ss_Spec svc)) PoolPurposeServing"
  let ?deploy = "sp_Deploy sp (ss_Name svc) (ss_Spec svc) (ss_Generation svc) ?q"
  have off: "serving_url svc obs = None"
    using assms(5) by (auto simp: serving_url_def split: option.split)
  show ?thesis
    using assms off
    by (cases obs; cases "?deploy (snd (rs_world s))")
      (auto simp: deploy_service_def Let_def wp_simps service_wp wp_def [of ?deploy] service_post_def service_calls_def
        service_result_def after_call_def service_row_def service_routing_at service_logged_state call_log_def
        split: sum.split)
qed

lemma steady_post:
  assumes "vc_store r = MemoryStoreI" "vc_registrar r = Some reg" "vc_gatewayHostname r = Some hostname"
    "ss_Desired svc \<noteq> DesiredTerminated" "up_to_date svc (Some ob)"
    "gget (ms_services (rs_store s)) (ss_Name svc) = Some svc"
  shows "service_meets r sp reg hostname svc now (Some ob)
    (pbind (record_service r svc (os_State ob) (os_Url ob)) (\<lambda>_.
      pbind (case os_Url ob of
          Some url \<Rightarrow> if os_State ob = ClusterStateRunning then service_register r svc url
                      else service_deregister r (ss_Name svc)
        | None \<Rightarrow> service_deregister r (ss_Name svc)) (\<lambda>_. preturn ServiceActionNone))) s"
  using assms
  by (cases "os_Url ob"; cases "os_State ob = ClusterStateRunning")
    (simp_all add: wp_simps service_wp service_post_def service_calls_def service_result_def service_row_def
      service_routing_at serving_url_def Let_def split: prod.split sum.split)

text \<open>
  C13. A pass over a service.  It reads the service once; an unreadable answer ends the pass there and changes
  nothing.  Otherwise what it does is determined by the row and by what is there.

  A service no longer wanted: if it is there, it is recorded as terminating and deleted with one call; if it is
  gone, it is recorded as a terminated tombstone, and the row is removed once the retention window (added to
  the termination time without wrapping) has passed, not before.  A wanted service that is missing, or carries
  no generation, or an older one than the row: it is recorded as provisioning, or as updating with its URL, and
  deployed with one call, of the row's spec at the row's generation into the queue of the project's serving
  pool.  A wanted service at the row's generation or a later one: its state and URL are recorded and nothing is
  called.  The reported action is the one taken, or the error of the call; the record is made before the call,
  so it stands when the call fails, and no other row changes.  The service is in the routing table after the
  pass only if it is wanted and observed running at its generation with a URL; in every other case an entry made
  earlier is withdrawn, also when a call fails.
\<close>

theorem service_pass_exact:
  assumes "vc_store r = MemoryStoreI" and "vc_provisioner r = service_logging sp"
    and "vc_registrar r = Some reg" and "vc_gatewayHostname r = Some hostname"
    and "gget (ms_services (rs_store s)) (ss_Name svc) = Some svc"
    and "sp_Get sp (ss_Name svc) (snd (rs_world s)) = (got, w)"
    and "queue = queue_of (rs_store s) (sv_Project (ss_Spec svc)) PoolPurposeServing"
    and "service_reconcileOne r svc now s = (res, t)"
  shows "case service_seen got of
      Inl e \<Rightarrow> res = Inl (ReconcileErrProvision e) \<and> call_log t = call_log s @ [CallGet (ss_Name svc)]
        \<and> rs_store t = rs_store s \<and> routing t = routing s
    | Inr obs \<Rightarrow>
        call_log t = call_log s @ CallGet (ss_Name svc) # service_calls svc obs queue
        \<and> res = service_result sp (vc_terminatedRetentionSecs r) now svc obs queue w
        \<and> (\<forall>k. gget (ms_services (rs_store t)) k = (if k = ss_Name svc
             then service_row (vc_terminatedRetentionSecs r) now svc obs else gget (ms_services (rs_store s)) k))
        \<and> routing t = service_routing reg hostname svc obs (routing s)"
proof -
  let ?s = "s\<lparr>rs_world := (fst (rs_world s) @ [CallGet (ss_Name svc)], w)\<rparr>"
  have row: "gget (ms_services (rs_store ?s)) (ss_Name svc) = Some svc" using assms(5) by simp
  have rest: "service_meets r sp reg hostname svc now obs (act_on_service r svc now obs) ?s" for obs
    using terminate_post [OF assms(1,2,3) _ row] deploy_post [OF assms(1,2,3) _ _ row] steady_post [OF assms(1,3,4) _ _ row]
    by (auto simp: act_on_service_def service_behind_iff up_to_date_def split: option.splits)
  have post: "wp (service_reconcileOne r svc now)
      (\<lambda>a t. \<exists>obs. service_seen got = Inr obs \<and> service_post r sp reg hostname svc now obs ?s (Inr a) t)
      (\<lambda>e t. case service_seen got of Inr obs \<Rightarrow> service_post r sp reg hostname svc now obs ?s (Inl e) t
         | Inl e' \<Rightarrow> e = ReconcileErrProvision e' \<and> t = ?s) s"
    using assms(2,6) rest
    by (cases got)
      (simp_all add: service_reconcileOne_def wp_simps wp_def [of "sp_Get sp (ss_Name svc)"] service_seen_def)
  have log: "call_log ?s = call_log s @ [CallGet (ss_Name svc)]" "routing ?s = routing s"
      "rs_store ?s = rs_store s" "snd (rs_world ?s) = w"
    by (simp_all add: call_log_def routing_def)
  show ?thesis
    using post assms(7,8) log
    by (cases "service_seen got"; cases res) (auto simp: wp_def service_post_def Let_def)
qed


text \<open>A service that is missing: the pass deploys it and leaves the routing table empty.\<close>

definition no_services :: "unit ServiceProvisioner" where
  "no_services = \<lparr>sp_Deploy = (\<lambda>name spec g q w. (Inr (), w)), sp_Get = (\<lambda>name w. (Inr None, w)),
     sp_Delete = (\<lambda>name w. (Inr (), w))\<rparr>"

definition routed_services :: "(MemoryStore, scall list \<times> unit, ClusterRegistry) ServiceReconciler" where
  "routed_services = newServiceReconcilerFromOptions MemoryStoreI (service_logging no_services)
     \<lparr>so_Interval = 0, so_TerminatedRetentionSecs = None, so_Registrar = Some (ClusterRegistryI id),
      so_GatewayHostname = Some (\<lambda>name. name)\<rparr>"

definition demo_service :: StoredService where
  "demo_service = fresh_service ''svc'' \<lparr>sv_Name = ''svc'', sv_Project = ''p'', sv_RayVersion = ''2.9'', sv_Image = ''ray:2.9'',
     sv_ServeConfigV2 = [], sv_HeadCpu = ''1'', sv_HeadMemory = ''2Gi'', sv_WorkerReplicas = 1, sv_WorkerCpu = ''1'',
     sv_WorkerMemory = ''2Gi'', sv_Upgrade = UpgradeStrategyCanary, sv_Storage = [], sv_StorageResolved = [],
     sv_ServiceAccountResolved = None, sv_NamespaceResolved = []\<rparr> None 3 100"

definition service_state :: "(MemoryStore, scall list \<times> unit, ClusterRegistry) rstate" where
  "service_state = \<lparr>rs_store = (NewMemoryStore 100)\<lparr>ms_services := [(''svc'', demo_service)]\<rparr>, rs_world = ([], ()), rs_gateway = \<lparr>cr_Clusters = [], cr_dynamic = []\<rparr>,
     rs_bucket = None, rs_metered = [], rs_lastMeter = None, rs_registered = [], rs_converged = []\<rparr>"

theorem service_pass_exact_witness:
  "\<exists>t. service_reconcileOne routed_services demo_service 200 service_state = (Inr ServiceActionDeploy, t)
   \<and> call_log t = [CallGet ''svc'', CallDeploy ''svc'' (ss_Spec demo_service) 3 None]
   \<and> gget (ms_services (rs_store t)) ''svc'' =
       Some (demo_service\<lparr>ss_ObservedState := Some ClusterStateProvisioning, ss_ObservedURL := None\<rparr>)
   \<and> routing t = routing service_state"
proof -
  have queue: "None = queue_of (rs_store service_state) p q" for p q
    by (simp add: queue_of_def QueueAssignmentForProjectPurpose_def pbind_def MemoryStoreI_def ListPools_def
        service_state_def NewMemoryStore_def gvals_def prog_simps)
  have row: "ss_Name demo_service = ''svc''" "ss_Desired demo_service = DesiredRunning" "ss_Generation demo_service = 3"
      "gget (ms_services (rs_store service_state)) (ss_Name demo_service) = Some demo_service"
    by (simp_all add: service_state_def demo_service_def fresh_service_def gget_def)
  have rs: "vc_store routed_services = MemoryStoreI" "vc_provisioner routed_services = service_logging no_services"
      "vc_registrar routed_services = Some (ClusterRegistryI id)" "vc_gatewayHostname routed_services = Some (\<lambda>name. name)"
    by (simp_all add: routed_services_def newServiceReconcilerFromOptions_def NewServiceReconciler_def)
  have got: "sp_Get no_services (ss_Name demo_service) (snd (rs_world service_state)) = (Inr None, ())"
    by (simp add: no_services_def service_state_def)
  obtain res t where run: "service_reconcileOne routed_services demo_service 200 service_state = (res, t)" by fastforce
  show ?thesis
    using service_pass_exact [OF rs row(4) got queue run] row run
    by (simp add: service_seen_def service_calls_def service_result_def service_row_def up_to_date_def after_call_def
        no_services_def service_routing_def serving_url_def service_state_def routing_def call_log_def gomap_simps)
qed

end
