(* ===== verification/Json_Float.thy ===== *)
theory Json_Float
  imports Float64 Json_Text
begin

text \<open>
  The text \<^verbatim>\<open>encoding/json\<close> writes for a \<^verbatim>\<open>float64\<close>: the shortest decimal that reads back as the same number,
  in positional notation between \<open>10 ^ -6\<close> and \<open>10 ^ 21\<close> and with an exponent outside.  Infinities and NaN have
  no JSON form.
\<close>

definition pow10 :: "int \<Rightarrow> rat" where
  "pow10 k = (if 0 \<le> k then 10 ^ nat k else 1 / 10 ^ nat (- k))"

text \<open>The decimal exponent: \<open>pow10 (dec_exp x - 1) \<le> x < pow10 (dec_exp x)\<close> for positive \<open>x\<close>.\<close>

definition dec_exp :: "rat \<Rightarrow> int" where
  "dec_exp x = (case quotient_of x of (p, q) \<Rightarrow>
     let e = int (length (nat_digits (nat p))) - int (length (nat_digits (nat q)))
     in if pow10 e \<le> x then e + 1 else e)"

text \<open>The decimals with \<open>n\<close> significant digits next to \<open>x\<close> that round to it, the closer one first.\<close>

definition near_decimals :: "rat \<Rightarrow> nat \<Rightarrow> int list" where
  "near_decimals x n =
     (let unit = pow10 (dec_exp x - int n); lo = \<lfloor>x / unit\<rfloor>; hi = \<lceil>x / unit\<rceil>
      in filter (\<lambda>c. rnd (of_int c * unit) = Fin x)
        (if x - of_int lo * unit \<le> of_int hi * unit - x then [lo, hi] else [hi, lo]))"

fun shortest_from :: "rat \<Rightarrow> nat list \<Rightarrow> int \<times> int" where
  "shortest_from x [] = (0, 0)"
| "shortest_from x (n # ns) = (case near_decimals x n of
      c # _ \<Rightarrow> (c, dec_exp x - int n)
    | [] \<Rightarrow> shortest_from x ns)"

text \<open>Seventeen digits always suffice for binary64.  The result is a coefficient and a power of ten.\<close>

definition shortest_decimal :: "rat \<Rightarrow> int \<times> int" where
  "shortest_decimal x = shortest_from x [1..<18]"

definition strip_zeros :: "string \<Rightarrow> string" where
  "strip_zeros ds = rev (dropWhile (\<lambda>c. c = CHR ''0'') (rev ds))"

definition pad_zeros :: "nat \<Rightarrow> string" where
  "pad_zeros n = replicate n CHR ''0''"

definition positional :: "string \<Rightarrow> int \<Rightarrow> string" where
  "positional ds dp =
     (if dp \<le> 0 then ''0.'' @ pad_zeros (nat (- dp)) @ ds
      else if int (length ds) \<le> dp then ds @ pad_zeros (nat dp - length ds)
      else take (nat dp) ds @ ''.'' @ drop (nat dp) ds)"

definition scientific :: "string \<Rightarrow> int \<Rightarrow> string" where
  "scientific ds dp =
     (let e = dp - 1 in
      take 1 ds @ (if length ds \<le> 1 then [] else ''.'' @ drop 1 ds) @ ''e''
      @ (if e < 0 then ''-'' else ''+'') @ nat_digits (nat \<bar>e\<bar>))"

definition positive_float_text :: "rat \<Rightarrow> string" where
  "positive_float_text x =
     (case shortest_decimal x of (c, k) \<Rightarrow>
      let all = nat_digits (nat c); dp = k + int (length all); ds = strip_zeros all
      in if x < 1 / 10 ^ 6 \<or> 10 ^ 21 \<le> x then scientific ds dp else positional ds dp)"

definition json_float :: "float64 \<Rightarrow> json option" where
  "json_float f = (case f of
      Fin x \<Rightarrow> Some (JLit (if x = 0 then ''0'' else if 0 < x then positive_float_text x
                           else CHR ''-'' # positive_float_text (- x)))
    | _ \<Rightarrow> None)"

text \<open>What is found reads back as the number.\<close>

lemma shortest_from_sound:
  "shortest_from x ns = (c, k) \<Longrightarrow> c \<noteq> 0 \<Longrightarrow> rnd (of_int c * pow10 k) = Fin x"
proof (induction ns)
  case (Cons n ns)
  show ?case
  proof (cases "near_decimals x n")
    case (Cons a as)
    then have "a \<in> set (near_decimals x n)" by simp
    with Cons Cons.prems show ?thesis by (auto simp: near_decimals_def Let_def split: if_splits)
  qed (use Cons in simp)
qed simp

end
