(* ===== verification/Pool_Reconcile.thy ===== *)
theory Pool_Reconcile
  imports Reconcile Json_Float
begin

text \<open>
  The pool engine, after \<^verbatim>\<open>internal/controller/pool_reconcile.go\<close>, with the wire form of pools and allocations
  that fingerprints their desired state (\<^verbatim>\<open>internal/core/pool.go\<close>): every pass records the queue status of every
  pool, applies what the outbox does not show as applied, and tears down the pools that vanished.

  What a pass guarantees is in \<^verbatim>\<open>Pool_Props\<close>.
\<close>


section \<open>Wire forms\<close>

definition TaintSpec_json :: "TaintSpec \<Rightarrow> json" where
  "TaintSpec_json t = JObj [(''key'', JStr (tn_Key t)), (''value'', JStr (tn_Value t)), (''effect'', JStr (tn_Effect t))]"

definition FlavorSpec_MarshalJSON :: "FlavorSpec \<Rightarrow> json" where
  "FlavorSpec_MarshalJSON f = JObj [(''name'', JStr (fl_Name f)), (''resources'', json_string_map (fl_Resources f)),
     (''node_labels'', json_string_map (fl_NodeLabels f)), (''taints'', JArr (map TaintSpec_json (fl_Taints f)))]"

definition PoolSpec_MarshalJSON :: "PoolSpec \<Rightarrow> json option" where
  "PoolSpec_MarshalJSON p = map_option (\<lambda>w. JObj
     ([(''name'', JStr (ps_Name p)), (''flavors'', JArr (map FlavorSpec_MarshalJSON (ps_Flavors p))),
       (''cohort'', JStr (ps_Cohort p)), (''fair_sharing_weight'', w), (''elastic'', JBool (ps_Elastic p))]
      @ (case ps_GpuSharing p of None \<Rightarrow> [] | Some g \<Rightarrow> [(''gpu_sharing'', JStr (GpuSharing_String g))])
      @ [(''purpose'', JStr (PoolPurpose_String (PoolPurpose_OrDefault (ps_Purpose p))))]))
     (json_float (ps_FairSharingWeight p))"

definition AllocationSpec_MarshalJSON :: "AllocationSpec \<Rightarrow> json" where
  "AllocationSpec_MarshalJSON a = JObj [(''pool'', JStr (al_Pool a)), (''project'', JStr (al_Project a)),
     (''namespace'', JStr (al_Namespace a)), (''nominal'', json_string_map (al_Nominal a)),
     (''borrowing_limit'', json_string_map (al_BorrowingLimit a)),
     (''lending_limit'', json_string_map (al_LendingLimit a))]"

definition desiredFingerprint :: "PoolSpec \<Rightarrow> AllocationSpec list \<Rightarrow> string" where
  "desiredFingerprint spec allocs = (case PoolSpec_MarshalJSON spec of
      None \<Rightarrow> []
    | Some j \<Rightarrow> json_text (JObj [(''spec'', j),
        (''allocations'', JArr (map AllocationSpec_MarshalJSON (sort_key al_Project allocs)))]))"

definition fnv_step :: "u64 \<Rightarrow> char \<Rightarrow> u64" where
  "fnv_step h c = (h XOR of_nat (of_char c)) * 0x100000001b3"

definition hex64 :: "u64 \<Rightarrow> string" where
  "hex64 h = map (\<lambda>i. json_hex (unat (drop_bit (4 * i) h AND 15))) (rev [0..<16])"

definition fnv1aDigest :: "string \<Rightarrow> string" where
  "fnv1aDigest s = hex64 (foldl fnv_step 0xcbf29ce484222325 s)"

definition poolIntentKey :: "StoredPool \<Rightarrow> string \<Rightarrow> string" where
  "poolIntentKey pool fingerprint =
     ''pool:'' @ sp_Name pool @ ''/'' @ itoa (uint (sp_Generation pool)) @ '':'' @ fnv1aDigest fingerprint"


section \<open>The engine\<close>

datatype PoolAction = PoolActionNoOp | PoolActionApplied | PoolActionDeleted

record PoolReconcileResult =
  prr_Name :: string
  prr_Action :: PoolAction
  prr_Err :: "ReconcileError option"

record ('s, 'w) PoolReconciler =
  pc_store :: "'s StoreI"
  pc_provisioner :: "'w PoolProvisioner"

definition mark_converged :: "string \<Rightarrow> ('s, 'w, 'g, unit) rprog" where
  "mark_converged name = pmodify (\<lambda>r. r\<lparr>rs_converged := List.insert name (rs_converged r)\<rparr>)"

definition pool_actuate :: "('s, 'w) PoolReconciler \<Rightarrow> StoredPool \<Rightarrow> ('s, 'w, 'g, PoolAction) rprog" where
  "pool_actuate r pool =
     pbind (on_store (st_ListAllocations (pc_store r) (sp_Name pool))) (\<lambda>allocs.
     let fp = desiredFingerprint (sp_Spec pool) allocs; key = poolIntentKey pool fp in
     pbind (on_store (st_GetIntent (pc_store r) key)) (\<lambda>existing.
     if (case existing of None \<Rightarrow> False
         | Some i \<Rightarrow> ir_Status i = IntentStatusApplied \<and> ir_ParamsFingerprint i = fp)
     then pbind (mark_converged (sp_Name pool)) (\<lambda>_. preturn PoolActionNoOp)
     else
     pbind (on_store (st_BeginIntent (pc_store r) key fp)) (\<lambda>outcome.
     if io_Kind outcome = IntentOutcomeParamMismatch then praise (ReconcileErrStaleIntent key)
     else
     pbind (on_provisioner (pp_ApplyPool (pc_provisioner r) (sp_Spec pool) allocs)) (\<lambda>_.
     pbind (on_store (st_CompleteIntent (pc_store r) key ''{}'')) (\<lambda>_.
     pbind (mark_converged (sp_Name pool)) (\<lambda>_.
     preturn PoolActionApplied))))))"

definition pool_reconcileOne :: "('s, 'w) PoolReconciler \<Rightarrow> StoredPool \<Rightarrow> ('s, 'w, 'g, PoolAction) rprog" where
  "pool_reconcileOne r pool =
     pbind (on_provisioner (pp_ObservePool (pc_provisioner r) (sp_Name pool))) (\<lambda>obs.
     pbind (case obs of None \<Rightarrow> preturn ()
       | Some ob \<Rightarrow> on_store (st_RecordPoolObservation (pc_store r) (sp_Name pool)
           (json_text (PoolObservation_MarshalJSON ob)))) (\<lambda>_.
     pbind (on_store (st_IsQuarantined (pc_store r))) (\<lambda>quarantined.
     if quarantined then preturn PoolActionNoOp else pool_actuate r pool)))"

definition pool_collect :: "('s, 'w) PoolReconciler \<Rightarrow> StoredPool \<Rightarrow> ('s, 'w, 'g, PoolReconcileResult) rprog" where
  "pool_collect r pool = pbind (pattempt (pool_reconcileOne r pool)) (\<lambda>res. preturn (case res of
      Inr a \<Rightarrow> \<lparr>prr_Name = sp_Name pool, prr_Action = a, prr_Err = None\<rparr>
    | Inl e \<Rightarrow> \<lparr>prr_Name = sp_Name pool, prr_Action = PoolActionNoOp, prr_Err = Some e\<rparr>))"

definition pool_teardown :: "('s, 'w) PoolReconciler \<Rightarrow> string \<Rightarrow> ('s, 'w, 'g, PoolReconcileResult) rprog" where
  "pool_teardown r name =
     pbind (pattempt (on_provisioner (pp_DeletePool (pc_provisioner r) name))) (\<lambda>res. case res of
        Inl e \<Rightarrow> preturn \<lparr>prr_Name = name, prr_Action = PoolActionNoOp, prr_Err = Some e\<rparr>
      | Inr _ \<Rightarrow> pbind (pmodify (\<lambda>rs. rs\<lparr>rs_converged := removeAll name (rs_converged rs)\<rparr>)) (\<lambda>_.
          preturn \<lparr>prr_Name = name, prr_Action = PoolActionDeleted, prr_Err = None\<rparr>))"

definition pool_ReconcileAll :: "('s, 'w) PoolReconciler \<Rightarrow> ('s, 'w, 'g, PoolReconcileResult list) rprog" where
  "pool_ReconcileAll r =
     pbind (on_provisioner (\<lambda>w. case pp_KueuePresent (pc_provisioner r) w of (b, w') \<Rightarrow> (Inr b, w'))) (\<lambda>present.
     if \<not> present then preturn []
     else
     pbind (pattempt (on_store (st_ListPools (pc_store r)))) (\<lambda>res. case res of
       Inl e \<Rightarrow> preturn [\<lparr>prr_Name = ''<list>'', prr_Action = PoolActionNoOp, prr_Err = Some e\<rparr>]
     | Inr pools \<Rightarrow>
         pbind (peach (pool_collect r) pools) (\<lambda>out.
         pbind (pattempt (on_store (st_IsQuarantined (pc_store r)))) (\<lambda>quarantined. case quarantined of
           Inl e \<Rightarrow> preturn (out @ [\<lparr>prr_Name = ''<quarantine>'', prr_Action = PoolActionNoOp, prr_Err = Some e\<rparr>])
         | Inr True \<Rightarrow> preturn out
         | Inr False \<Rightarrow>
             pbind (pget (\<lambda>rs. sort (filter (\<lambda>n. n \<notin> sp_Name ` set pools) (rs_converged rs)))) (\<lambda>vanished.
             pbind (peach (pool_teardown r) vanished) (\<lambda>torn. preturn (out @ torn)))))))"

end
