(* ===== verification/Pool_Props.thy ===== *)
theory Pool_Props
  imports Reconcile_Props Pool_Reconcile Spec_Facts "HOL-Library.Multiset"
begin

text \<open>
  What a pass of the pool engine guarantees: it applies a pool exactly when the outbox does not show the pool's
  desired state as applied, and records it as applied when the apply succeeds.  The outbox key tells pools,
  generations and digests apart, and the fingerprint tells sets of allocations apart.
\<close>

section \<open>Keys and fingerprints\<close>

lemma length_hex64 [simp]: "length (hex64 h) = 16"
  by (simp add: hex64_def)

lemma poolIntentKey_inj:
  "poolIntentKey p fp = poolIntentKey p' fp' \<longleftrightarrow>
     sp_Name p = sp_Name p' \<and> sp_Generation p = sp_Generation p' \<and> fnv1aDigest fp = fnv1aDigest fp'"
proof
  assume "poolIntentKey p fp = poolIntentKey p' fp'"
  then have "(sp_Name p @ CHR ''/'' # itoa (uint (sp_Generation p)) @ '':'') @ fnv1aDigest fp =
      (sp_Name p' @ CHR ''/'' # itoa (uint (sp_Generation p')) @ '':'') @ fnv1aDigest fp'"
    by (simp add: poolIntentKey_def)
  moreover have "length (fnv1aDigest fp) = length (fnv1aDigest fp')" by (simp add: fnv1aDigest_def)
  ultimately have name: "sp_Name p @ CHR ''/'' # itoa (uint (sp_Generation p)) @ '':'' =
      sp_Name p' @ CHR ''/'' # itoa (uint (sp_Generation p')) @ '':''" and fp: "fnv1aDigest fp = fnv1aDigest fp'"
    using append_eq_append_conv [of _ _ "fnv1aDigest fp" "fnv1aDigest fp'"] by blast+
  from name have "sp_Name p = sp_Name p' \<and> itoa (uint (sp_Generation p)) @ '':'' = itoa (uint (sp_Generation p')) @ '':''"
    by (rule last_sep_unique) (use itoa_no_slash in auto)
  then show "sp_Name p = sp_Name p' \<and> sp_Generation p = sp_Generation p' \<and> fnv1aDigest fp = fnv1aDigest fp'"
    using fp itoa_uint_inj by auto
qed (simp add: poolIntentKey_def)

definition map_text_ok :: "(string, string) gomap \<Rightarrow> bool" where
  "map_text_ok m = (gwf m \<and> list_all (\<lambda>(k, v). utf8 k \<and> utf8 v) m)"

definition alloc_ok :: "AllocationSpec \<Rightarrow> bool" where
  "alloc_ok a = (utf8 (al_Pool a) \<and> utf8 (al_Project a) \<and> utf8 (al_Namespace a) \<and> map_text_ok (al_Nominal a)
     \<and> map_text_ok (al_BorrowingLimit a) \<and> map_text_ok (al_LendingLimit a))"

definition alloc_view ::
  "AllocationSpec \<Rightarrow> string \<times> string \<times> string \<times> (string \<rightharpoonup> string) \<times> (string \<rightharpoonup> string) \<times> (string \<rightharpoonup> string)" where
  "alloc_view a = (al_Pool a, al_Project a, al_Namespace a, gget (al_Nominal a), gget (al_BorrowingLimit a),
     gget (al_LendingLimit a))"

lemma json_string_map_inj:
  assumes "gwf m" and "gwf m'"
  shows "json_string_map m = json_string_map m' \<longleftrightarrow> gget m = gget m'"
proof
  assume "json_string_map m = json_string_map m'"
  then have "map (\<lambda>(k, v). (k, JStr v)) (sort_key fst m) = map (\<lambda>(k, v). (k, JStr v)) (sort_key fst m')"
    by (simp add: json_string_map_def)
  then have "sort_key fst m = sort_key fst m'"
    by (rule map_injective) (auto simp: inj_def)
  then show "gget m = gget m'" by (metis assms gget_eq_iff_set set_sort)
next
  assume "gget m = gget m'"
  then have eq: "set m = set m'" using assms gget_eq_iff_set by blast
  have "distinct m" "distinct m'" "inj_on fst (set m)"
    using assms by (auto simp: gwf_def distinct_map)
  then have "mset m = mset m'" using eq by (simp add: set_eq_iff_mset_eq_distinct)
  then have "sort_key fst m = sort_key fst m'"
    using \<open>inj_on fst (set m)\<close> by (intro sort_key_inj_key_eq) simp_all
  then show "json_string_map m = json_string_map m'" by (simp add: json_string_map_def)
qed

lemma alloc_json_inj:
  "alloc_ok a \<Longrightarrow> alloc_ok b \<Longrightarrow>
   AllocationSpec_MarshalJSON a = AllocationSpec_MarshalJSON b \<longleftrightarrow> alloc_view a = alloc_view b"
  by (simp add: AllocationSpec_MarshalJSON_def alloc_view_def alloc_ok_def map_text_ok_def json_string_map_inj)

lemma map_text_wf: "map_text_ok m \<Longrightarrow> wf_json (json_string_map m)"
  by (auto simp: map_text_ok_def json_string_map_def list_all_iff)

lemma alloc_json_wf: "alloc_ok a \<Longrightarrow> wf_json (AllocationSpec_MarshalJSON a)"
  by (simp add: alloc_ok_def AllocationSpec_MarshalJSON_def map_text_wf)

lemma map_eq_same_kernel:
  assumes "\<And>x y. x \<in> set xs \<Longrightarrow> y \<in> set ys \<Longrightarrow> f x = f y \<longleftrightarrow> g x = g y"
  shows "map f xs = map f ys \<longleftrightarrow> map g xs = map g ys"
  using assms
proof (induction xs arbitrary: ys)
  case (Cons x xs)
  then show ?case by (cases ys) auto
qed simp

lemma alloc_view_project: "fst (snd (alloc_view a)) = al_Project a"
  by (simp add: alloc_view_def)

lemma sorted_alloc_views:
  assumes "distinct (map al_Project as)" and "distinct (map al_Project bs)"
  shows "map alloc_view (sort_key al_Project as) = map alloc_view (sort_key al_Project bs) \<longleftrightarrow>
    alloc_view ` set as = alloc_view ` set bs"
proof
  assume "map alloc_view (sort_key al_Project as) = map alloc_view (sort_key al_Project bs)"
  then show "alloc_view ` set as = alloc_view ` set bs"
    by (metis list.set_map set_sort)
next
  assume eq: "alloc_view ` set as = alloc_view ` set bs"
  let ?key = "\<lambda>v. fst (snd v)" and ?views = "\<lambda>cs. map alloc_view (sort_key al_Project cs)"
  have keys: "map ?key (?views cs) = map al_Project (sort_key al_Project cs)" for cs
    by (simp add: alloc_view_project)
  have ordered: "sorted (map ?key (?views cs))" for cs unfolding keys by simp
  have unique: "distinct (map ?key (?views cs))" if "distinct (map al_Project cs)" for cs
    unfolding keys using that mset_eq_imp_distinct_iff [of "map al_Project (sort_key al_Project cs)" "map al_Project cs"] by simp
  have same: "set (?views as) = set (?views bs)" using eq by simp
  have "inj_on ?key (set (?views as) \<union> set (?views bs))"
    using unique [OF assms(1)] unfolding same [symmetric] by (simp only: distinct_map Un_absorb)
  then show "?views as = ?views bs"
    using ordered unique assms same by (intro map_sorted_distinct_set_unique) simp_all
qed

lemma desiredFingerprint_inj:
  assumes "PoolSpec_MarshalJSON spec \<noteq> None" and "list_all alloc_ok as" and "list_all alloc_ok bs"
    and "distinct (map al_Project as)" and "distinct (map al_Project bs)"
  shows "desiredFingerprint spec as = desiredFingerprint spec bs \<longleftrightarrow> alloc_view ` set as = alloc_view ` set bs"
proof -
  obtain j where "PoolSpec_MarshalJSON spec = Some j" using assms(1) by blast
  then have "desiredFingerprint spec as = desiredFingerprint spec bs \<longleftrightarrow>
      json_text (JArr (map AllocationSpec_MarshalJSON (sort_key al_Project as))) =
      json_text (JArr (map AllocationSpec_MarshalJSON (sort_key al_Project bs)))"
    by (simp add: desiredFingerprint_def)
  also have "\<dots> \<longleftrightarrow> map AllocationSpec_MarshalJSON (sort_key al_Project as) =
      map AllocationSpec_MarshalJSON (sort_key al_Project bs)"
  proof
    assume "json_text (JArr (map AllocationSpec_MarshalJSON (sort_key al_Project as))) =
      json_text (JArr (map AllocationSpec_MarshalJSON (sort_key al_Project bs)))"
    moreover have "wf_json (JArr (map AllocationSpec_MarshalJSON (sort_key al_Project cs)))" if "list_all alloc_ok cs" for cs
      using that alloc_json_wf by (simp add: list_all_iff)
    ultimately show "map AllocationSpec_MarshalJSON (sort_key al_Project as) =
        map AllocationSpec_MarshalJSON (sort_key al_Project bs)"
      using json_text_inject assms(2,3) by blast
  qed simp
  also have "\<dots> \<longleftrightarrow> map alloc_view (sort_key al_Project as) = map alloc_view (sort_key al_Project bs)"
    using assms(2,3) by (intro map_eq_same_kernel alloc_json_inj) (auto simp: list_all_iff)
  finally show ?thesis unfolding sorted_alloc_views [OF assms(4,5)] .
qed


section \<open>A pass over one pool\<close>

definition pool_allocs :: "MemoryStore \<Rightarrow> string \<Rightarrow> AllocationSpec list" where
  "pool_allocs s name = projr (fst (ListAllocations name s))"

definition pool_fp :: "MemoryStore \<Rightarrow> StoredPool \<Rightarrow> string" where
  "pool_fp s p = desiredFingerprint (sp_Spec p) (pool_allocs s (sp_Name p))"

definition pool_applied :: "MemoryStore \<Rightarrow> StoredPool \<Rightarrow> bool" where
  "pool_applied s p = (case gget (ms_intents s) (poolIntentKey p (pool_fp s p)) of None \<Rightarrow> False
    | Some i \<Rightarrow> ir_Status i = IntentStatusApplied \<and> ir_ParamsFingerprint i = pool_fp s p)"

definition pool_conflict :: "MemoryStore \<Rightarrow> StoredPool \<Rightarrow> bool" where
  "pool_conflict s p = (case gget (ms_intents s) (poolIntentKey p (pool_fp s p)) of None \<Rightarrow> False
    | Some i \<Rightarrow> ir_ParamsFingerprint i \<noteq> pool_fp s p)"

lemma wp_pool_memory [wp_simps]:
  "wp (st_RecordPoolObservation MemoryStoreI name js) Q E s = Q () (snd (RecordPoolObservation name js s))"
  by (simp add: wp_def MemoryStoreI_def RecordPoolObservation_def)

lemma pool_observation_frame [simp]:
  "ms_intents (snd (RecordPoolObservation name js s)) = ms_intents s"
  "ms_allocations (snd (RecordPoolObservation name js s)) = ms_allocations s"
  "ms_quarantined (snd (RecordPoolObservation name js s)) = ms_quarantined s"
  by (simp_all add: RecordPoolObservation_def)

lemma pool_allocs_frame: "ms_allocations t = ms_allocations s \<Longrightarrow> pool_allocs t = pool_allocs s"
  by (simp add: fun_eq_iff pool_allocs_def ListAllocations_def)

datatype poolcall = CallObservePool string | CallApplyPool PoolSpec "AllocationSpec list" | CallDeletePool string

definition pool_logging :: "'w PoolProvisioner \<Rightarrow> (poolcall list \<times> 'w) PoolProvisioner" where
  "pool_logging pp = \<lparr>
     pp_ApplyPool = (\<lambda>spec allocs. logged (CallApplyPool spec allocs) (pp_ApplyPool pp spec allocs)),
     pp_DeletePool = (\<lambda>name. logged (CallDeletePool name) (pp_DeletePool pp name)),
     pp_ObservePool = (\<lambda>name. logged (CallObservePool name) (pp_ObservePool pp name)),
     pp_KueuePresent = (\<lambda>w. case pp_KueuePresent pp (snd w) of (b, w') \<Rightarrow> (b, (fst w, w')))\<rparr>"

lemma pool_logging_sel [wp_simps]:
  "pp_ApplyPool (pool_logging pp) spec allocs = logged (CallApplyPool spec allocs) (pp_ApplyPool pp spec allocs)"
  "pp_DeletePool (pool_logging pp) name = logged (CallDeletePool name) (pp_DeletePool pp name)"
  "pp_ObservePool (pool_logging pp) name = logged (CallObservePool name) (pp_ObservePool pp name)"
  by (simp_all add: pool_logging_def)

lemma pool_begin:
  "\<not> pool_applied s p \<Longrightarrow> \<not> pool_conflict s p \<Longrightarrow>
   io_Kind (projr (fst (BeginIntent (poolIntentKey p (pool_fp s p)) (pool_fp s p) s))) = IntentOutcomeProceed"
  by (auto simp: BeginIntent_def pool_conflict_def split: option.splits)

lemma pool_completed:
  "\<not> pool_conflict s p \<Longrightarrow>
   pool_applied (snd (CompleteIntent (poolIntentKey p (pool_fp s p)) v
     (snd (BeginIntent (poolIntentKey p (pool_fp s p)) (pool_fp s p) s)))) p"
  by (auto simp: pool_applied_def pool_conflict_def BeginIntent_def CompleteIntent_def map_row_def gomap_simps
      pool_fp_def pool_allocs_def ListAllocations_def split: option.splits)

text \<open>
  What is true after a pass over one pool, given the store it started from, the calls made before and what the
  backend answers an apply.
\<close>

definition pool_result ::
  "ProvisionError + unit \<Rightarrow> StoredPool \<Rightarrow> MemoryStore \<Rightarrow> poolcall list \<Rightarrow> PoolAction \<Rightarrow>
   (MemoryStore, poolcall list \<times> 'w, 'g) rstate \<Rightarrow> bool" where
  "pool_result ans p s calls a t =
     (if ms_quarantined s then a = PoolActionNoOp \<and> call_log t = calls
      else sp_Name p \<in> set (rs_converged t) \<and> pool_applied (rs_store t) p
        \<and> (if pool_applied s p then a = PoolActionNoOp \<and> call_log t = calls
           else a = PoolActionApplied \<and> ans = Inr () \<and> call_log t = calls @ [CallApplyPool (sp_Spec p) (pool_allocs s (sp_Name p))]))"

definition pool_error ::
  "ProvisionError + unit \<Rightarrow> StoredPool \<Rightarrow> MemoryStore \<Rightarrow> poolcall list \<Rightarrow> ReconcileError \<Rightarrow>
   (MemoryStore, poolcall list \<times> 'w, 'g) rstate \<Rightarrow> bool" where
  "pool_error ans p s calls e t =
     (\<not> ms_quarantined s \<and> \<not> pool_applied s p \<and> \<not> pool_applied (rs_store t) p
      \<and> (if pool_conflict s p
         then e = ReconcileErrStaleIntent (poolIntentKey p (pool_fp s p)) \<and> call_log t = calls
         else (\<exists>e'. ans = Inl e' \<and> e = ReconcileErrProvision e')
           \<and> call_log t = calls @ [CallApplyPool (sp_Spec p) (pool_allocs s (sp_Name p))]))"

lemma pool_frame:
  assumes "ms_intents t = ms_intents s" "ms_allocations t = ms_allocations s"
  shows "pool_allocs t = pool_allocs s" "pool_fp t = pool_fp s" "pool_applied t = pool_applied s"
    "pool_conflict t = pool_conflict s"
proof -
  show a: "pool_allocs t = pool_allocs s" using assms(2) by (rule pool_allocs_frame)
  then show fp: "pool_fp t = pool_fp s" by (simp add: fun_eq_iff pool_fp_def)
  show "pool_applied t = pool_applied s" "pool_conflict t = pool_conflict s"
    unfolding fun_eq_iff pool_applied_def pool_conflict_def fp assms(1) by simp_all
qed

lemma begin_not_applied:
  "\<not> pool_applied s p \<Longrightarrow>
   \<not> pool_applied (snd (BeginIntent (poolIntentKey p (pool_fp s p)) (pool_fp s p) s)) p"
  by (auto simp: pool_applied_def BeginIntent_def gomap_simps pool_fp_def pool_allocs_def ListAllocations_def
      split: option.splits)

lemma pool_outcome_frame:
  assumes "ms_intents t = ms_intents s" "ms_allocations t = ms_allocations s" "ms_quarantined t = ms_quarantined s"
  shows "pool_result ans p t = pool_result ans p s" "pool_error ans p t = pool_error ans p s"
  unfolding fun_eq_iff pool_result_def pool_error_def pool_frame [OF assms(1,2)] assms(3) by simp_all

lemma actuate_pool:
  assumes "pc_store r = MemoryStoreI" "pc_provisioner r = pool_logging pp" "\<not> ms_quarantined (rs_store s)"
    and "ans = fst (pp_ApplyPool pp (sp_Spec p) (pool_allocs (rs_store s) (sp_Name p)) (snd (rs_world s)))"
  shows "wp (pool_actuate r p) (pool_result ans p (rs_store s) (call_log s)) (pool_error ans p (rs_store s) (call_log s)) s"
proof -
  let ?apply = "pp_ApplyPool pp (sp_Spec p) (pool_allocs (rs_store s) (sp_Name p))"
  let ?st = "rs_store s" and ?key = "poolIntentKey p (pool_fp (rs_store s) p)"
  note unfolded = pool_actuate_def Let_def wp_simps mark_converged_def pool_allocs_def [symmetric] pool_fp_def [symmetric]
  consider "pool_applied ?st p" | "\<not> pool_applied ?st p" "pool_conflict ?st p" | "\<not> pool_applied ?st p" "\<not> pool_conflict ?st p"
    by blast
  then show ?thesis
  proof cases
    case 1
    then obtain i where "gget (ms_intents ?st) ?key = Some i" "ir_Status i = IntentStatusApplied"
        "ir_ParamsFingerprint i = pool_fp ?st p"
      by (auto simp: pool_applied_def split: option.splits)
    then show ?thesis using 1 assms by (simp add: unfolded pool_result_def call_log_def)
  next
    case 2
    then obtain i where i: "gget (ms_intents ?st) ?key = Some i" "ir_ParamsFingerprint i \<noteq> pool_fp ?st p"
      by (auto simp: pool_conflict_def split: option.splits)
    then show ?thesis using 2 assms
      by (simp add: unfolded pool_error_def call_log_def BeginIntent_def)
  next
    case 3
    note completed = pool_completed [OF 3(2)] and begun = pool_begin [OF 3] begin_not_applied [OF 3(1)]
    consider "gget (ms_intents ?st) ?key = None"
      | i where "gget (ms_intents ?st) ?key = Some i" "ir_ParamsFingerprint i = pool_fp ?st p"
          "ir_Status i \<noteq> IntentStatusApplied"
      using 3 by (auto simp: pool_applied_def pool_conflict_def split: option.splits)
    then show ?thesis
      using assms 3
      by cases (auto simp: unfolded begun wp_def [of ?apply] pool_result_def pool_error_def call_log_def completed
          split: prod.split sum.split)
  qed
qed

lemma pool_pass:
  assumes "pc_store r = MemoryStoreI" and "pc_provisioner r = pool_logging pp"
    and "pp_ObservePool pp (sp_Name p) (snd (rs_world s)) = (Inr obs, w)"
    and "ans = fst (pp_ApplyPool pp (sp_Spec p) (pool_allocs (rs_store s) (sp_Name p)) w)"
    and "pool_reconcileOne r p s = (res, t)"
  shows "case res of
      Inr a \<Rightarrow> pool_result ans p (rs_store s) (call_log s @ [CallObservePool (sp_Name p)]) a t
    | Inl e \<Rightarrow> pool_error ans p (rs_store s) (call_log s @ [CallObservePool (sp_Name p)]) e t"
proof -
  let ?seen = "\<lambda>st. s\<lparr>rs_world := (fst (rs_world s) @ [CallObservePool (sp_Name p)], w), rs_store := st\<rparr>"
  have step: "wp (pool_actuate r p) (pool_result ans p (rs_store s) (call_log s @ [CallObservePool (sp_Name p)]))
      (pool_error ans p (rs_store s) (call_log s @ [CallObservePool (sp_Name p)])) (?seen st)"
    if "ms_intents st = ms_intents (rs_store s)" "ms_allocations st = ms_allocations (rs_store s)"
      "ms_quarantined st = ms_quarantined (rs_store s)" "\<not> ms_quarantined (rs_store s)" for st
    using actuate_pool [OF assms(1,2), of "?seen st" ans p] that assms(4)
    by (simp add: pool_outcome_frame [OF that(1-3)] pool_allocs_frame [OF that(2)] call_log_def)
  have "wp (pool_reconcileOne r p) (pool_result ans p (rs_store s) (call_log s @ [CallObservePool (sp_Name p)]))
      (pool_error ans p (rs_store s) (call_log s @ [CallObservePool (sp_Name p)])) s"
    using assms(1,2,3) step [of "rs_store s"] step
    by (cases obs) (simp_all add: pool_reconcileOne_def wp_simps wp_def [of "pp_ObservePool pp (sp_Name p)"]
        pool_result_def call_log_def)
  then show ?thesis using assms(5) by (simp add: wp_def split: sum.splits)
qed

lemma store_pools [simp]:
  "ms_pools (snd (BeginIntent k fp s)) = ms_pools s" "ms_pools (snd (CompleteIntent k v s)) = ms_pools s"
  by (simp_all add: BeginIntent_def CompleteIntent_def split: option.split)

lemma pool_pass_rows:
  assumes "pc_store r = MemoryStoreI" and "pc_provisioner r = pool_logging pp"
    and "pp_ObservePool pp (sp_Name p) (snd (rs_world s)) = (Inr obs, w)"
  shows "ms_pools (rs_store (snd (pool_reconcileOne r p s))) = (case obs of None \<Rightarrow> ms_pools (rs_store s)
    | Some ob \<Rightarrow> ms_pools (snd (RecordPoolObservation (sp_Name p) (json_text (PoolObservation_MarshalJSON ob)) (rs_store s))))"
proof -
  have act: "wp (pool_actuate r p) (\<lambda>_ t. ms_pools (rs_store t) = ms_pools (rs_store u))
      (\<lambda>_ t. ms_pools (rs_store t) = ms_pools (rs_store u)) u" for u :: "(MemoryStore, poolcall list \<times> 'a, 'b) rstate"
    using assms(1,2)
    by (auto simp: pool_actuate_def Let_def wp_simps mark_converged_def intro!: wp_always split: option.split)
  have "wp (pool_reconcileOne r p) (\<lambda>_ t. ms_pools (rs_store t) = (case obs of None \<Rightarrow> ms_pools (rs_store s)
    | Some ob \<Rightarrow> ms_pools (snd (RecordPoolObservation (sp_Name p) (json_text (PoolObservation_MarshalJSON ob)) (rs_store s)))))
      (\<lambda>_ t. ms_pools (rs_store t) = (case obs of None \<Rightarrow> ms_pools (rs_store s)
    | Some ob \<Rightarrow> ms_pools (snd (RecordPoolObservation (sp_Name p) (json_text (PoolObservation_MarshalJSON ob)) (rs_store s))))) s"
    using assms act [of "s\<lparr>rs_world := (fst (rs_world s) @ [CallObservePool (sp_Name p)], w), rs_store := st\<rparr>" for st]
      act [of "s\<lparr>rs_world := (fst (rs_world s) @ [CallObservePool (sp_Name p)], w)\<rparr>"]
    by (cases obs) (simp_all add: pool_reconcileOne_def wp_simps wp_def [of "pp_ObservePool pp (sp_Name p)"])
  then show ?thesis by (simp only: wp_iff_snd)
qed

text \<open>
  C14. A pass over a pool.  The pass observes the pool once; if that fails, it ends there with nothing changed.
  An observation is recorded on the pool's row, and no pass changes the pool rows otherwise.  In quarantine
  that is all.  Otherwise the pass applies the pool, with the allocations of the moment, exactly when the outbox
  does not hold the desired state as applied; on success the outbox holds it and the pool counts as converged,
  so the next pass is quiet.  If the key is held for another desired state the pass fails without a call, and a
  failed apply leaves the state unapplied.

  What counts as the same desired state: keys agree exactly when the pool, its generation and the digest of
  the fingerprint do, and for a pool's spec fingerprints agree exactly when the sets of allocations do, each
  compared with its name, namespace and quotas but not by the order they are listed in.  An allocation edit is
  therefore applied, under a key of its own; but an edit that restores an earlier set under the same generation
  finds the earlier key, and while that one is held as applied the pass makes no call.
\<close>

theorem pool_pass_exact:
  assumes "pc_store r = MemoryStoreI" and "pc_provisioner r = pool_logging pp"
    and "pp_ObservePool pp (sp_Name p) (snd (rs_world s)) = (got, w)"
    and "ans = fst (pp_ApplyPool pp (sp_Spec p) (pool_allocs (rs_store s) (sp_Name p)) w)"
    and "pool_reconcileOne r p s = (res, t)"
  shows "(case got of
      Inl e \<Rightarrow> res = Inl (ReconcileErrProvision e) \<and> rs_store t = rs_store s
        \<and> call_log t = call_log s @ [CallObservePool (sp_Name p)]
    | Inr obs \<Rightarrow>
        (case res of
           Inr a \<Rightarrow> pool_result ans p (rs_store s) (call_log s @ [CallObservePool (sp_Name p)]) a t
         | Inl e \<Rightarrow> pool_error ans p (rs_store s) (call_log s @ [CallObservePool (sp_Name p)]) e t)
        \<and> ms_pools (rs_store t) = (case obs of None \<Rightarrow> ms_pools (rs_store s)
            | Some ob \<Rightarrow> ms_pools (snd (RecordPoolObservation (sp_Name p)
                (json_text (PoolObservation_MarshalJSON ob)) (rs_store s)))))
    \<and> (poolIntentKey p fp = poolIntentKey p' fp' \<longleftrightarrow>
         sp_Name p = sp_Name p' \<and> sp_Generation p = sp_Generation p' \<and> fnv1aDigest fp = fnv1aDigest fp')
    \<and> (ps_FairSharingWeight spec = Fin x \<and> list_all alloc_ok as \<and> list_all alloc_ok bs
        \<and> distinct (map al_Project as) \<and> distinct (map al_Project bs) \<longrightarrow>
         (desiredFingerprint spec as = desiredFingerprint spec bs \<longleftrightarrow> alloc_view ` set as = alloc_view ` set bs))"
proof (intro conjI impI)
  show "case got of
      Inl e \<Rightarrow> res = Inl (ReconcileErrProvision e) \<and> rs_store t = rs_store s
        \<and> call_log t = call_log s @ [CallObservePool (sp_Name p)]
    | Inr obs \<Rightarrow>
        (case res of
           Inr a \<Rightarrow> pool_result ans p (rs_store s) (call_log s @ [CallObservePool (sp_Name p)]) a t
         | Inl e \<Rightarrow> pool_error ans p (rs_store s) (call_log s @ [CallObservePool (sp_Name p)]) e t)
        \<and> ms_pools (rs_store t) = (case obs of None \<Rightarrow> ms_pools (rs_store s)
            | Some ob \<Rightarrow> ms_pools (snd (RecordPoolObservation (sp_Name p)
                (json_text (PoolObservation_MarshalJSON ob)) (rs_store s))))"
  proof (cases got)
    case (Inl e)
    have "wp (pool_reconcileOne r p) (\<lambda>_ _. False) (\<lambda>e' u. e' = ReconcileErrProvision e \<and> rs_store u = rs_store s
        \<and> call_log u = call_log s @ [CallObservePool (sp_Name p)]) s"
      using assms(2,3) Inl
      by (simp add: pool_reconcileOne_def wp_simps wp_def [of "pp_ObservePool pp (sp_Name p)"] call_log_def)
    then show ?thesis using Inl assms(5) by (simp add: wp_def split: sum.splits)
  next
    case (Inr obs)
    with assms(3) have seen: "pp_ObservePool pp (sp_Name p) (snd (rs_world s)) = (Inr obs, w)" by simp
    show ?thesis
      using pool_pass [OF assms(1,2) seen assms(4,5)] pool_pass_rows [OF assms(1,2) seen] assms(5) Inr by simp
  qed
  show "desiredFingerprint spec as = desiredFingerprint spec bs \<longleftrightarrow> alloc_view ` set as = alloc_view ` set bs"
    if "ps_FairSharingWeight spec = Fin x \<and> list_all alloc_ok as \<and> list_all alloc_ok bs
        \<and> distinct (map al_Project as) \<and> distinct (map al_Project bs)"
    using that by (intro desiredFingerprint_inj) (simp_all add: PoolSpec_MarshalJSON_def json_float_def)
qed (rule poolIntentKey_inj)


text \<open>
  A backend that holds the allocations it was last given, here another project's.  The outbox still shows the pool's
  present state as applied, from before the allocations were changed and changed back, so the pass trusts it and the
  backend keeps what it has.
\<close>

definition holding_pools :: "(AllocationSpec list) PoolProvisioner" where
  "holding_pools = \<lparr>pp_ApplyPool = (\<lambda>spec allocs w. (Inr (), allocs)), pp_DeletePool = (\<lambda>name w. (Inr (), [])),
     pp_ObservePool = (\<lambda>name w. (Inr None, w)), pp_KueuePresent = (\<lambda>w. (True, w))\<rparr>"

definition demo_alloc :: "string \<Rightarrow> AllocationSpec" where
  "demo_alloc project = \<lparr>al_Pool = ''gpu'', al_Project = project, al_Namespace = ''ns'', al_Nominal = [],
     al_BorrowingLimit = [], al_LendingLimit = []\<rparr>"

definition demo_pool :: StoredPool where
  "demo_pool = \<lparr>sp_Name = ''gpu'', sp_Spec = \<lparr>ps_Name = ''gpu'', ps_Flavors = [], ps_Cohort = ''c'',
     ps_FairSharingWeight = Fin 1, ps_Elastic = False, ps_GpuSharing = None, ps_Purpose = PoolPurposeCompute\<rparr>,
     sp_Generation = 1, sp_ObservedJSON = None, sp_ObservedAt = None, sp_CreatedAt = 80\<rparr>"

definition reverted_store :: MemoryStore where
  "reverted_store = (let fp = desiredFingerprint (sp_Spec demo_pool) [demo_alloc ''a''] in
     (NewMemoryStore 100)\<lparr>ms_allocations := [((''gpu'', ''a''), demo_alloc ''a'')],
       ms_intents := [(poolIntentKey demo_pool fp, \<lparr>ir_Key = poolIntentKey demo_pool fp, ir_ParamsFingerprint = fp,
         ir_Status = IntentStatusApplied, ir_ResponseJSON = Some ''{}'', ir_CreatedAt = 90, ir_CompletedAt = Some 91\<rparr>)]\<rparr>)"

definition reverted_state :: "(MemoryStore, poolcall list \<times> AllocationSpec list, ClusterRegistry) rstate" where
  "reverted_state = \<lparr>rs_store = reverted_store, rs_world = ([], [demo_alloc ''b'']),
     rs_gateway = \<lparr>cr_Clusters = [], cr_dynamic = []\<rparr>, rs_bucket = None, rs_metered = [], rs_lastMeter = None,
     rs_registered = [], rs_converged = []\<rparr>"

lemma reverted_allocations_not_applied:
  "\<exists>t. pool_reconcileOne \<lparr>pc_store = MemoryStoreI, pc_provisioner = pool_logging holding_pools\<rparr> demo_pool reverted_state
      = (Inr PoolActionNoOp, t) \<and> call_log t = [CallObservePool ''gpu'']"
proof -
  let ?r = "\<lparr>pc_store = MemoryStoreI, pc_provisioner = pool_logging holding_pools\<rparr>"
  obtain res t where run: "pool_reconcileOne ?r demo_pool reverted_state = (res, t)" by (rule prod.exhaust)
  have held: "pool_applied reverted_store demo_pool" "\<not> ms_quarantined reverted_store"
    by (simp_all add: pool_applied_def pool_fp_def pool_allocs_def ListAllocations_def reverted_store_def gvals_def gget_def
        demo_alloc_def demo_pool_def NewMemoryStore_def Let_def)
  have "pp_ObservePool holding_pools (sp_Name demo_pool) (snd (rs_world reverted_state)) = (Inr None, [demo_alloc ''b''])"
    by (simp add: holding_pools_def reverted_state_def)
  from pool_pass [OF _ _ this refl run] held
  have "res = Inr PoolActionNoOp \<and> call_log t = [CallObservePool ''gpu'']"
    by (simp add: reverted_state_def pool_result_def pool_error_def call_log_def demo_pool_def split: sum.splits)
  with run show ?thesis by blast
qed

text \<open>The same backend and pool with an empty outbox: the allocations are applied.\<close>

definition fresh_state :: "(MemoryStore, poolcall list \<times> AllocationSpec list, ClusterRegistry) rstate" where
  "fresh_state = reverted_state\<lparr>rs_store := reverted_store\<lparr>ms_intents := []\<rparr>\<rparr>"

theorem pool_pass_exact_witness:
  "\<exists>t. (pool_reconcileOne \<lparr>pc_store = MemoryStoreI, pc_provisioner = pool_logging holding_pools\<rparr> demo_pool fresh_state
      = (Inr PoolActionApplied, t)
    \<and> call_log t = [CallObservePool ''gpu'', CallApplyPool (sp_Spec demo_pool) [demo_alloc ''a'']])
    \<and> desiredFingerprint (sp_Spec demo_pool) [demo_alloc ''a''] \<noteq> desiredFingerprint (sp_Spec demo_pool) [demo_alloc ''b'']"
proof -
  let ?r = "\<lparr>pc_store = MemoryStoreI, pc_provisioner = pool_logging holding_pools\<rparr>"
  obtain res t where run: "pool_reconcileOne ?r demo_pool fresh_state = (res, t)" by (rule prod.exhaust)
  have store: "rs_store fresh_state = reverted_store\<lparr>ms_intents := []\<rparr>" "rs_world fresh_state = ([], [demo_alloc ''b''])"
    by (simp_all add: fresh_state_def reverted_state_def)
  have open_key: "\<not> pool_applied (rs_store fresh_state) demo_pool" "\<not> pool_conflict (rs_store fresh_state) demo_pool"
    "\<not> ms_quarantined (rs_store fresh_state)" "pool_allocs (rs_store fresh_state) ''gpu'' = [demo_alloc ''a'']"
    by (simp_all add: store pool_applied_def pool_conflict_def pool_allocs_def ListAllocations_def reverted_store_def
        gvals_def gget_def demo_alloc_def NewMemoryStore_def Let_def)
  have seen: "pp_ObservePool holding_pools (sp_Name demo_pool) (snd (rs_world fresh_state)) = (Inr None, [demo_alloc ''b''])"
    by (simp add: holding_pools_def store)
  have names: "sp_Name demo_pool = ''gpu''" "ps_FairSharingWeight (sp_Spec demo_pool) = Fin 1"
    by (simp_all add: demo_pool_def)
  have ok: "alloc_ok (demo_alloc ''a'')" "alloc_ok (demo_alloc ''b'')"
    "alloc_view (demo_alloc ''a'') \<noteq> alloc_view (demo_alloc ''b'')"
    by (simp_all add: alloc_ok_def demo_alloc_def map_text_ok_def gwf_def alloc_view_def)
  have ans: "Inr () = fst (pp_ApplyPool holding_pools (sp_Spec demo_pool)
      (pool_allocs (rs_store fresh_state) (sp_Name demo_pool)) [demo_alloc ''b''])"
    by (simp add: holding_pools_def)
  have log: "call_log fresh_state = []" by (simp add: call_log_def store)
  have pass: "(case res of
       Inr a \<Rightarrow> pool_result (Inr ()) demo_pool (rs_store fresh_state) [CallObservePool ''gpu''] a t
     | Inl e \<Rightarrow> pool_error (Inr ()) demo_pool (rs_store fresh_state) [CallObservePool ''gpu''] e t)
     \<and> desiredFingerprint (sp_Spec demo_pool) [demo_alloc ''a''] \<noteq> desiredFingerprint (sp_Spec demo_pool) [demo_alloc ''b'']"
    using pool_pass_exact [OF _ _ seen ans run, where spec = "sp_Spec demo_pool" and x = 1
        and as = "[demo_alloc ''a'']" and bs = "[demo_alloc ''b'']" and fp = "[]" and fp' = "[]" and p' = demo_pool] ok
    by (cases res) (simp_all add: names log)
  then show ?thesis
    using run open_key
    by (auto simp: pool_result_def pool_error_def names split: sum.splits)
qed

end
