(* ===== verification/Api_Authz.thy ===== *)
theory Api_Authz
  imports Reconcile Rbac Policy
begin

text \<open>
  What every handler of the API server shares, after \<^verbatim>\<open>internal/api/authz.go\<close>, \<^verbatim>\<open>errors.go\<close> and the head of
  \<^verbatim>\<open>clusters.go\<close>: the store methods the handlers call, the HTTP errors they return, audit emission, and the
  authorization helpers.  A handler is a program over the store state; a nil identity (development mode, no
  authentication configured) is \<^verbatim>\<open>None\<close>, and \<^verbatim>\<open>now\<close> is the reading of the clock a request makes.

  The text of an error is kept as its format string, shortened to its first clause, and its arguments.  The server is taken with a store, so
  the \<^verbatim>\<open>Store == nil\<close> answers (503) do not occur.

  The lemmas are about the in-memory store: who is admitted, exactly, and that a refusal leaves one deny row
  in the audit trail and nothing else.
\<close>


section \<open>Errors\<close>

datatype arg =
  ArgStr string | ArgRunes "nat list" | ArgInt int | ArgStrings "string list" | ArgQuantity quantity_error
| ArgQuota QuotaExceeded | ArgBudget BudgetExceeded | ArgGpu GpuSharingViolation | ArgMsg message
  and message = Msg string "arg list"

datatype ApiError =
  HTTPError (he_Status: nat) (he_Code: string) (he_Message: message)
| environmentRefusal string ApiError
| PlainError message

definition badRequest :: "message \<Rightarrow> ApiError" where
  "badRequest msg = HTTPError 400 ''bad_request'' msg"

definition notFound :: "message \<Rightarrow> ApiError" where
  "notFound msg = HTTPError 404 ''not_found'' msg"

definition conflict :: "message \<Rightarrow> ApiError" where
  "conflict msg = HTTPError 409 ''conflict'' msg"

definition ErrForbidden :: ApiError where
  "ErrForbidden = HTTPError 403 ''insufficient_permission'' (Msg ''insufficient permission'' [])"

definition errStore :: ApiError where
  "errStore = HTTPError 500 ''internal_error'' (Msg ''store error'' [])"


section \<open>The store methods of the handlers\<close>

record 's ApiStore =
  as_core :: "'s StoreI"
  as_Get :: "ClusterId \<Rightarrow> ('s, StoreError, StoredCluster option) prog"
  as_UpsertDesired :: "ClusterId \<Rightarrow> ClusterSpec \<Rightarrow> ('s, StoreError, u64) prog"
  as_TombstoneByID :: "ClusterId \<Rightarrow> ('s, StoreError, DesiredState \<times> bool \<times> bool) prog"
  as_UsageSamples :: "string option \<Rightarrow> string option \<Rightarrow> string option \<Rightarrow> u64 \<Rightarrow> u64 \<Rightarrow> ('s, StoreError, UsageSample list) prog"
  as_GetPolicy :: "('s, StoreError, StoredPolicy option) prog"
  as_SetPolicy :: "StoredPolicy \<Rightarrow> ('s, StoreError, unit) prog"
  as_SeedPolicy :: "StoredPolicy \<Rightarrow> ('s, StoreError, bool) prog"
  as_RecordAudit :: "AuditEvent \<Rightarrow> ('s, StoreError, u64) prog"
  as_AuditChain :: "u64 option \<Rightarrow> u32 \<Rightarrow> ('s, StoreError, AuditChainWindow) prog"
  as_ListAudit :: "AuditFilter \<Rightarrow> ('s, StoreError, AuditRow list \<times> u64 option) prog"
  as_UpsertRoleAssignment :: "string \<Rightarrow> string \<Rightarrow> string \<Rightarrow> ('s, StoreError, unit) prog"
  as_ListRoleAssignments :: "string option \<Rightarrow> ('s, StoreError, RoleAssignment list) prog"
  as_DeleteRoleAssignment :: "string \<Rightarrow> string \<Rightarrow> string \<Rightarrow> ('s, StoreError, unit) prog"
  as_UpsertPool :: "string \<Rightarrow> PoolSpec \<Rightarrow> ('s, StoreError, u64) prog"
  as_GetPool :: "string \<Rightarrow> ('s, StoreError, StoredPool option) prog"
  as_DeletePool :: "string \<Rightarrow> ('s, StoreError, unit) prog"
  as_UpsertAllocation :: "AllocationSpec \<Rightarrow> ('s, StoreError, unit) prog"
  as_DeleteAllocation :: "string \<Rightarrow> string \<Rightarrow> ('s, StoreError, unit) prog"
  as_UpsertRayJob :: "ClusterId \<Rightarrow> RayJobSpec \<Rightarrow> string option \<Rightarrow> ('s, StoreError, unit) prog"
  as_GetRayJob :: "ClusterId \<Rightarrow> ('s, StoreError, StoredRayJob option) prog"
  as_SetRayJobDesired :: "ClusterId \<Rightarrow> DesiredState \<Rightarrow> ('s, StoreError, unit) prog"
  as_UpsertService :: "string \<Rightarrow> ServiceSpec \<Rightarrow> string option \<Rightarrow> ('s, StoreError, u64) prog"
  as_GetService :: "string \<Rightarrow> ('s, StoreError, StoredService option) prog"
  as_SetServiceDesired :: "string \<Rightarrow> DesiredState \<Rightarrow> ('s, StoreError, unit) prog"

definition MemoryApi :: "MemoryStore ApiStore" where
  "MemoryApi = \<lparr>as_core = MemoryStoreI, as_Get = Get, as_UpsertDesired = UpsertDesired,
     as_TombstoneByID = TombstoneByID, as_UsageSamples = UsageSamples, as_GetPolicy = GetPolicy,
     as_SetPolicy = SetPolicy, as_SeedPolicy = SeedPolicy, as_RecordAudit = RecordAudit,
     as_AuditChain = AuditChain, as_ListAudit = ListAudit, as_UpsertRoleAssignment = UpsertRoleAssignment,
     as_ListRoleAssignments = ListRoleAssignments, as_DeleteRoleAssignment = DeleteRoleAssignment,
     as_UpsertPool = UpsertPool, as_GetPool = GetPool, as_DeletePool = DeletePool,
     as_UpsertAllocation = UpsertAllocation, as_DeleteAllocation = DeleteAllocation,
     as_UpsertRayJob = UpsertRayJob, as_GetRayJob = GetRayJob, as_SetRayJobDesired = SetRayJobDesired,
     as_UpsertService = UpsertService, as_GetService = GetService, as_SetServiceDesired = SetServiceDesired\<rparr>"

type_synonym ('s, 'a) handler = "('s, ApiError, 'a) prog"

definition wrapStoreErr :: "('s, StoreError, 'a) prog \<Rightarrow> ('s, 'a) handler" where
  "wrapStoreErr m = pwrap (\<lambda>_. errStore) m"


section \<open>Audit emission\<close>

definition AuditEvent_zero :: AuditEvent where
  "AuditEvent_zero = \<lparr>ae_Ts = 0, ae_Subject = None, ae_Decision = AuditDecisionRaw [], ae_Reason = None,
     ae_Action = None, ae_Cluster = None, ae_Method = None, ae_Path = None, ae_Status = None,
     ae_LatencyMs = None, ae_Required = None, ae_GrantedRoles = []\<rparr>"

definition EmitAudit :: "'s ApiStore \<Rightarrow> AuditEvent \<Rightarrow> ('s, 'e, unit) prog" where
  "EmitAudit st event = pbind (pattempt (as_RecordAudit st event)) (\<lambda>_. preturn ())"

definition identitySubject :: "Identity option \<Rightarrow> string option" where
  "identitySubject ident = map_option id_Subject ident"

definition grantedRoleStrs :: "Role list \<Rightarrow> string list" where
  "grantedRoleStrs roles = map Role_AsStr roles"

definition authz_denial :: "Identity \<Rightarrow> PermissionType \<Rightarrow> Target \<Rightarrow> u64 \<Rightarrow> AuditEvent" where
  "authz_denial ident action target now = AuditEvent_zero\<lparr>ae_Ts := now, ae_Subject := Some (id_Subject ident),
     ae_Decision := AuditDecisionDeny, ae_Reason := Some ''insufficient_permission'', ae_Status := Some 403,
     ae_Required := Some \<lparr>aq_Action = PermissionType_AsStr action, aq_Target = Target_AsStr target\<rparr>,
     ae_GrantedRoles := grantedRoleStrs (id_Roles ident)\<rparr>"

definition emitAuthzDenial :: "'s ApiStore \<Rightarrow> Identity \<Rightarrow> PermissionType \<Rightarrow> Target \<Rightarrow> u64 \<Rightarrow> ('s, 'e, unit) prog" where
  "emitAuthzDenial st ident action target now = EmitAudit st (authz_denial ident action target now)"


section \<open>Authorization\<close>

definition assignmentsFor :: "'s ApiStore \<Rightarrow> string \<Rightarrow> ('s, 'e, RoleScope list) prog" where
  "assignmentsFor st subject = pbind (pattempt (as_ListRoleAssignments st (Some subject))) (\<lambda>res. case res of
      Inl _ \<Rightarrow> preturn []
    | Inr rows \<Rightarrow> preturn (List.map_filter (\<lambda>a. map_option (\<lambda>role. \<lparr>rs_Role = role, rs_Scope = ra_Scope a\<rparr>)
        (ParseRole (ra_Role a))) rows))"

fun add_missing :: "'a list \<Rightarrow> 'a list \<Rightarrow> 'a list" where
  "add_missing out [] = out"
| "add_missing out (a # as) = add_missing (if a \<in> set out then out else out @ [a]) as"

definition storeAssignmentsForIdentity :: "'s ApiStore \<Rightarrow> Identity \<Rightarrow> ('s, 'e, RoleScope list) prog" where
  "storeAssignmentsForIdentity st ident = pbind (assignmentsFor st (id_Subject ident)) (\<lambda>out.
     case id_Username ident of
       None \<Rightarrow> preturn out
     | Some username \<Rightarrow>
         if username = id_Subject ident then preturn out
         else pbind (assignmentsFor st username) (\<lambda>more_rows. preturn (add_missing out more_rows)))"

definition EffectiveAssignments :: "'s ApiStore \<Rightarrow> Identity \<Rightarrow> ('s, 'e, RoleScope list) prog" where
  "EffectiveAssignments st ident = pbind (storeAssignmentsForIdentity st ident) (\<lambda>rows.
     preturn (add_missing (id_ProjectRoles ident) rows))"

definition Authorize ::
  "'s ApiStore \<Rightarrow> Identity option \<Rightarrow> PermissionType \<Rightarrow> Target \<Rightarrow> u64 \<Rightarrow> ('s, unit) handler" where
  "Authorize st identity action target now = (case identity of
      None \<Rightarrow> preturn ()
    | Some ident \<Rightarrow>
        if Permits ident action target then preturn ()
        else pbind (emitAuthzDenial st ident action target now) (\<lambda>_. praise ErrForbidden))"

definition AuthorizeScoped ::
  "'s ApiStore \<Rightarrow> Identity option \<Rightarrow> PermissionType \<Rightarrow> Target \<Rightarrow> string \<Rightarrow> u64 \<Rightarrow> ('s, unit) handler" where
  "AuthorizeScoped st identity action target project now = (case identity of
      None \<Rightarrow> preturn ()
    | Some ident \<Rightarrow>
        if Permits ident action target then preturn ()
        else pbind (EffectiveAssignments st ident) (\<lambda>assignments.
          if PermitsScoped ident action target assignments project then preturn ()
          else pbind (emitAuthzDenial st ident action target now) (\<lambda>_. praise ErrForbidden)))"

definition hasRole :: "Identity option \<Rightarrow> Role list \<Rightarrow> bool" where
  "hasRole identity roles = (case identity of None \<Rightarrow> False
     | Some ident \<Rightarrow> list_ex (\<lambda>r. r \<in> set roles) (id_Roles ident))"

definition projectAssignmentGrants ::
  "'s ApiStore \<Rightarrow> Identity option \<Rightarrow> string \<Rightarrow> PermissionType \<Rightarrow> Target \<Rightarrow> ('s, 'e, bool) prog" where
  "projectAssignmentGrants st identity project action target = (case identity of
      None \<Rightarrow> preturn False
    | Some ident \<Rightarrow> pbind (EffectiveAssignments st ident) (\<lambda>assignments. preturn (list_ex (\<lambda>a.
        rs_Scope a \<noteq> GlobalScope \<and> ScopeCovers (rs_Scope a) project \<and> Grants (rs_Role a) action target) assignments)))"

definition clusterTenantAccess ::
  "'s ApiStore \<Rightarrow> Identity option \<Rightarrow> StoredCluster \<Rightarrow> PermissionType \<Rightarrow> Target \<Rightarrow> bool \<Rightarrow> ('s, 'e, bool) prog" where
  "clusterTenantAccess st identity c action target auditorAll = (case identity of
      None \<Rightarrow> preturn True
    | Some ident \<Rightarrow>
        if hasRole identity [RoleAdmin] then preturn True
        else if auditorAll \<and> action = Read \<and> hasRole identity [RoleAuditor] then preturn True
        else if cs_Owner (sc_Spec c) = Some (Identity_Owner ident) then preturn True
        else projectAssignmentGrants st identity (cs_Project (sc_Spec c)) action target)"

definition readGate :: "'s ApiStore \<Rightarrow> Identity option \<Rightarrow> Target \<Rightarrow> u64 \<Rightarrow> ('s, unit) handler" where
  "readGate st identity target now = (case identity of
      None \<Rightarrow> preturn ()
    | Some ident \<Rightarrow>
        if hasRole identity [RoleAdmin, RoleAuditor] \<or> Permits ident Read target then preturn ()
        else pbind (EffectiveAssignments st ident) (\<lambda>assignments.
          if assignments \<noteq> [] then preturn () else Authorize st identity Read target now))"

definition readScope :: "'s ApiStore \<Rightarrow> Identity option \<Rightarrow> ('s, 'e, RoleScope list \<times> string list) prog" where
  "readScope st identity = (case identity of
      None \<Rightarrow> preturn ([], [])
    | Some ident \<Rightarrow>
        if RoleAdmin \<in> set (id_Roles ident) then preturn ([], [])
        else pbind (EffectiveAssignments st ident) (\<lambda>assignments.
          preturn (assignments, List.map_filter (\<lambda>a. case CutPrefix (rs_Scope a) ''project:'' of
            (p, okp) \<Rightarrow> if okp then Some p else None) assignments)))"


section \<open>On the in-memory store\<close>

lemma set_add_missing [simp]: "set (add_missing out xs) = set out \<union> set xs"
  by (induction xs arbitrary: out) auto

lemma EmitAudit_run: "EmitAudit MemoryApi e s = (Inr (), snd (RecordAudit e s))"
  by (simp add: EmitAudit_def pbind_def pattempt_def prog_simps MemoryApi_def RecordAudit_def Let_def)

lemma assignmentsFor_run:
  "assignmentsFor MemoryApi subject s =
     (Inr (List.map_filter (\<lambda>a. map_option (\<lambda>role. \<lparr>rs_Role = role, rs_Scope = ra_Scope a\<rparr>) (ParseRole (ra_Role a)))
        (projr (fst (ListRoleAssignments (Some subject) s)))), s)"
  by (simp add: assignmentsFor_def pbind_def pattempt_def prog_simps MemoryApi_def ListRoleAssignments_def)

definition held :: "MemoryStore \<Rightarrow> Identity \<Rightarrow> RoleScope list" where
  "held s ident = projr (fst (EffectiveAssignments MemoryApi ident s :: (unit + RoleScope list) \<times> MemoryStore))"

lemma EffectiveAssignments_run: "EffectiveAssignments MemoryApi ident s = (Inr (held s ident), s)"
  by (simp add: held_def EffectiveAssignments_def storeAssignmentsForIdentity_def pbind_def prog_simps
      assignmentsFor_run split: option.split)

text \<open>What an identity holds: its group-derived grants and the stored rows that name its subject or user name.\<close>

lemma set_held:
  "a \<in> set (held s ident) \<longleftrightarrow> a \<in> set (id_ProjectRoles ident) \<or>
     (\<exists>row\<in>set (gvals (ms_assignments s)). ra_Principal row \<in> insert (id_Subject ident) (set_option (id_Username ident))
        \<and> ParseRole (ra_Role row) = Some (rs_Role a) \<and> ra_Scope row = rs_Scope a)"
proof -
  have rows: "a \<in> set (projr (fst (assignmentsFor MemoryApi subject s :: (unit + RoleScope list) \<times> MemoryStore))) \<longleftrightarrow>
      (\<exists>row\<in>set (gvals (ms_assignments s)). ra_Principal row = subject
        \<and> ParseRole (ra_Role row) = Some (rs_Role a) \<and> ra_Scope row = rs_Scope a)" for subject
    by (cases a) (auto simp: assignmentsFor_run ListRoleAssignments_def List.map_filter_def intro!: rev_image_eqI)
  show ?thesis
    using rows by (auto simp: held_def EffectiveAssignments_def storeAssignmentsForIdentity_def pbind_def prog_simps
        assignmentsFor_run split: option.split)
qed

definition may :: "MemoryStore \<Rightarrow> Identity option \<Rightarrow> PermissionType \<Rightarrow> Target \<Rightarrow> string \<Rightarrow> bool" where
  "may s identity action target project = (case identity of None \<Rightarrow> True
     | Some ident \<Rightarrow> (\<exists>role. Grants role action target \<and> (role \<in> set (id_Roles ident) \<or>
         (\<exists>a\<in>set (held s ident). rs_Role a = role \<and> rs_Scope a \<in> {GlobalScope, ''project:'' @ project}))))"

lemma may_iff: "may s (Some ident) action target project \<longleftrightarrow> PermitsScoped ident action target (held s ident) project"
  by (auto simp: may_def PermitsScoped_def Permits_def list_ex_iff ScopeCovers_def)

lemma Authorize_run:
  "Authorize MemoryApi identity action target now s =
     (case identity of None \<Rightarrow> (Inr (), s)
      | Some ident \<Rightarrow> if Permits ident action target then (Inr (), s)
          else (Inl ErrForbidden, snd (RecordAudit (authz_denial ident action target now) s)))"
  by (simp add: Authorize_def emitAuthzDenial_def pbind_def prog_simps EmitAudit_run split: option.split)

lemma AuthorizeScoped_run:
  "AuthorizeScoped MemoryApi identity action target project now s =
     (if may s identity action target project then (Inr (), s)
      else (Inl ErrForbidden, snd (RecordAudit (authz_denial (the identity) action target now) s)))"
proof (cases identity)
  case (Some ident)
  then show ?thesis
    by (auto simp: AuthorizeScoped_def may_iff emitAuthzDenial_def pbind_def prog_simps EmitAudit_run
        EffectiveAssignments_run PermitsScoped_def)
qed (simp add: AuthorizeScoped_def may_def prog_simps)

text \<open>Inside the tenant boundary of a cluster.\<close>

definition tenant :: "MemoryStore \<Rightarrow> Identity option \<Rightarrow> StoredCluster \<Rightarrow> PermissionType \<Rightarrow> Target \<Rightarrow> bool \<Rightarrow> bool" where
  "tenant s identity c action target auditorAll = (case identity of None \<Rightarrow> True
     | Some ident \<Rightarrow> RoleAdmin \<in> set (id_Roles ident)
         \<or> (auditorAll \<and> action = Read \<and> RoleAuditor \<in> set (id_Roles ident))
         \<or> cs_Owner (sc_Spec c) = Some (Identity_Owner ident)
         \<or> (\<exists>a\<in>set (held s ident). rs_Scope a = ''project:'' @ cs_Project (sc_Spec c) \<and> Grants (rs_Role a) action target))"

lemma clusterTenantAccess_run:
  "clusterTenantAccess MemoryApi identity c action target auditorAll s =
     (Inr (tenant s identity c action target auditorAll), s)"
proof (cases identity)
  case (Some ident)
  have "''project:'' @ p \<noteq> GlobalScope" for p by (simp add: GlobalScope_def)
  then have "list_ex (\<lambda>a. rs_Scope a \<noteq> GlobalScope \<and> ScopeCovers (rs_Scope a) p \<and> Grants (rs_Role a) action target)
        (held s ident) \<longleftrightarrow>
      (\<exists>a\<in>set (held s ident). rs_Scope a = ''project:'' @ p \<and> Grants (rs_Role a) action target)" for p
    unfolding list_ex_iff ScopeCovers_def by (intro bex_cong refl) metis
  with Some show ?thesis
    by (auto simp: clusterTenantAccess_def tenant_def projectAssignmentGrants_def pbind_def prog_simps hasRole_def
        EffectiveAssignments_run list_ex_iff)
qed (simp add: clusterTenantAccess_def tenant_def prog_simps)

lemma held_frame: "ms_assignments t = ms_assignments s \<Longrightarrow> held t = held s"
  by (rule ext) (simp add: held_def EffectiveAssignments_def storeAssignmentsForIdentity_def pbind_def prog_simps
      assignmentsFor_run ListRoleAssignments_def split: option.split)

lemma access_frame:
  assumes "ms_assignments t = ms_assignments s"
  shows "may t = may s" "tenant t = tenant s"
  unfolding fun_eq_iff may_def tenant_def held_frame [OF assms] by simp_all

lemma wp_handlers [wp_simps]:
  "wp (EmitAudit MemoryApi e) Q E s = Q () (snd (RecordAudit e s))"
  "wp (EffectiveAssignments MemoryApi ident) Q1 E s = Q1 (held s ident) s"
  "wp (AuthorizeScoped MemoryApi identity action target project now) Q E1 s =
     (if may s identity action target project then Q () s
      else E1 ErrForbidden (snd (RecordAudit (authz_denial (the identity) action target now) s)))"
  "wp (clusterTenantAccess MemoryApi identity c action target b) Q2 E s = Q2 (tenant s identity c action target b) s"
  "wp (wrapStoreErr m) Q3 E1 s = wp m Q3 (\<lambda>_. E1 errStore) s"
  by (simp_all add: wp_def EmitAudit_run EffectiveAssignments_run AuthorizeScoped_run clusterTenantAccess_run
      wrapStoreErr_def pwrap_def split: prod.split sum.split)

lemma wp_memory_api [wp_simps]:
  "wp (as_Get MemoryApi cid) Q E s = Q (gget (ms_clusters s) cid) s"
  "wp (as_GetPolicy MemoryApi) Q1 E s = Q1 (ms_policy s) s"
  "wp (as_SeedPolicy MemoryApi p) Q2 E s =
     (if ms_policy s = None then Q2 True (s\<lparr>ms_policy := Some p\<rparr>) else Q2 False s)"
  "wp (as_SetPolicy MemoryApi p) Q3 E s = Q3 () (s\<lparr>ms_policy := Some p\<rparr>)"
  "wp (as_UpsertDesired MemoryApi cid spec) Q4 E s =
     Q4 (projr (fst (UpsertDesired cid spec s))) (snd (UpsertDesired cid spec s))"
  "as_core MemoryApi = MemoryStoreI"
  by (simp_all add: wp_def MemoryApi_def Get_def GetPolicy_def SeedPolicy_def SetPolicy_def UpsertDesired_def Let_def)

text \<open>
  C11.  Scoped authorization on the store: a caller is admitted to an action in a project exactly when there is no
  authentication configured, or a role that grants the action is one of the caller's global roles, or is granted
  by a group or by a stored assignment to the caller's subject or user name with the scope of everything or of that
  project.  An admitted call changes nothing; a refused one is answered 403 and adds exactly the deny row for
  that caller, verb and target to the audit trail.
\<close>

theorem authorize_scoped_exact:
  "let grants = (\<lambda>ident role. role \<in> set (id_Roles ident)
         \<or> (\<exists>a\<in>set (id_ProjectRoles ident). rs_Role a = role \<and> rs_Scope a \<in> {''*'', ''project:'' @ project})
         \<or> (\<exists>row\<in>set (gvals (ms_assignments s)).
              ra_Principal row \<in> insert (id_Subject ident) (set_option (id_Username ident))
              \<and> ParseRole (ra_Role row) = Some role \<and> ra_Scope row \<in> {''*'', ''project:'' @ project}))
   in AuthorizeScoped MemoryApi identity action target project now s =
     (case identity of None \<Rightarrow> (Inr (), s)
      | Some ident \<Rightarrow>
          if \<exists>role. Grants role action target \<and> grants ident role then (Inr (), s)
          else (Inl ErrForbidden, snd (RecordAudit (authz_denial ident action target now) s)))"
proof (cases identity)
  case (Some ident)
  have "may s (Some ident) action target project \<longleftrightarrow> (\<exists>role. Grants role action target \<and> (role \<in> set (id_Roles ident)
         \<or> (\<exists>a\<in>set (id_ProjectRoles ident). rs_Role a = role \<and> rs_Scope a \<in> {''*'', ''project:'' @ project})
         \<or> (\<exists>row\<in>set (gvals (ms_assignments s)).
              ra_Principal row \<in> insert (id_Subject ident) (set_option (id_Username ident))
              \<and> ParseRole (ra_Role row) = Some role \<and> ra_Scope row \<in> {''*'', ''project:'' @ project})))"
    (is "_ = ?grants")
  proof
    assume "may s (Some ident) action target project"
    then show ?grants unfolding may_def GlobalScope_def Bex_def set_held by simp metis
  next
    assume ?grants
    then obtain role where g: "Grants role action target" and "role \<in> set (id_Roles ident)
         \<or> (\<exists>a\<in>set (id_ProjectRoles ident). rs_Role a = role \<and> rs_Scope a \<in> {''*'', ''project:'' @ project})
         \<or> (\<exists>row\<in>set (gvals (ms_assignments s)).
              ra_Principal row \<in> insert (id_Subject ident) (set_option (id_Username ident))
              \<and> ParseRole (ra_Role row) = Some role \<and> ra_Scope row \<in> {''*'', ''project:'' @ project})" by blast
    then consider "role \<in> set (id_Roles ident)"
      | a where "a \<in> set (held s ident)" "rs_Role a = role" "rs_Scope a \<in> {''*'', ''project:'' @ project}"
      using set_held [of _ s ident]
      by (metis (no_types, lifting) RoleScope.select_convs(1) RoleScope.select_convs(2))
    then show "may s (Some ident) action target project"
      using g by cases (auto simp: may_def GlobalScope_def)
  qed
  then show ?thesis unfolding Some Let_def AuthorizeScoped_run by (simp only: option.case option.sel)
qed (simp add: AuthorizeScoped_run may_def)

end
