(* ===== verification/Net_Url.thy ===== *)
theory Net_Url
  imports Core_Registry Strconv
begin

text \<open>
  What the source uses of the Go package \<^verbatim>\<open>net/url\<close>: the host name of a parsed URL, \<^verbatim>\<open>url.Parse(s).Hostname()\<close>,
  with a failed parse as the empty host, which is how every caller treats it.
\<close>


section \<open>Escapes\<close>

definition is_hex :: "char \<Rightarrow> bool" where
  "is_hex c = (hex_value c \<noteq> None)"

definition hex_byte :: "char \<Rightarrow> char \<Rightarrow> nat" where
  "hex_byte c d = 16 * the (hex_value c) + the (hex_value d)"

text \<open>
  \<^verbatim>\<open>unescape\<close> in its modes: a percent sign takes two hex digits.  In a host only bytes outside ASCII may be
  escaped, in a zone also the percent sign itself and the bytes that need no escape in a host; unescaped bytes
  of a host that are not allowed there are refused.
\<close>

datatype encoding = encodePath | encodeUserPassword | encodeFragment | encodeHost | encodeZone

definition host_plain :: "char \<Rightarrow> bool" where
  "host_plain c = (is_lower c \<or> is_upper c \<or> is_digit c \<or> c \<in> set ''-_.~!$&()*+,;=:[]<>'' \<or> of_char c = (39 :: nat)
     \<or> of_char c = (34 :: nat))"

fun unescape :: "encoding \<Rightarrow> string \<Rightarrow> string option" where
  "unescape mode [] = Some []"
| "unescape mode (c # s) =
     (if c = CHR ''%'' then
        (case s of
           a # b # rest \<Rightarrow>
             if \<not> is_hex a \<or> \<not> is_hex b then None
             else if mode = encodeHost \<and> hex_byte a b < 128 \<and> \<not> (a = CHR ''2'' \<and> b = CHR ''5'') then None
             else if mode = encodeZone \<and> \<not> (a = CHR ''2'' \<and> b = CHR ''5'')
                     \<and> hex_byte a b \<noteq> 32 \<and> \<not> host_plain (char_of (hex_byte a b)) then None
             else map_option ((#) (char_of (hex_byte a b))) (unescape mode rest)
         | _ \<Rightarrow> None)
      else if (mode = encodeHost \<or> mode = encodeZone) \<and> (of_char c :: nat) < 128 \<and> \<not> host_plain c then None
      else map_option ((#) c) (unescape mode s))"


section \<open>Parsing\<close>

definition ctl_byte :: "char \<Rightarrow> bool" where
  "ctl_byte c = ((of_char c :: nat) < 32 \<or> of_char c = (127 :: nat))"

definition cut_byte :: "char \<Rightarrow> string \<Rightarrow> string \<times> string" where
  "cut_byte c s = (takeWhile (\<lambda>d. d \<noteq> c) s, tl (dropWhile (\<lambda>d. d \<noteq> c) s))"

text \<open>\<^verbatim>\<open>getScheme\<close>: \<^verbatim>\<open>None\<close> is the error of a URL that starts with a colon.\<close>

definition getScheme :: "string \<Rightarrow> (string \<times> string) option" where
  "getScheme raw =
     (let name = takeWhile (\<lambda>c. is_lower c \<or> is_upper c \<or> is_digit c \<or> c \<in> set ''+-.'') raw;
          rest = drop (length name) raw
      in if raw = [] then Some ([], raw)
         else if hd raw = CHR '':'' then None
         else if \<not> (is_lower (hd raw) \<or> is_upper (hd raw)) then Some ([], raw)
         else if rest \<noteq> [] \<and> hd rest = CHR '':'' then Some (name, tl rest)
         else Some ([], raw))"

definition validOptionalPort :: "string \<Rightarrow> bool" where
  "validOptionalPort port = (port = [] \<or> (hd port = CHR '':'' \<and> list_all is_digit (tl port)))"

definition last_cut :: "char \<Rightarrow> string \<Rightarrow> (string \<times> string) option" where
  "last_cut c s = (if c \<notin> set s then None
     else let tail = rev (takeWhile (\<lambda>d. d \<noteq> c) (rev s)) in Some (take (length s - length tail - 1) s, tail))"

definition zone_cut :: "string \<Rightarrow> string \<times> string" where
  "zone_cut s = (let n = length (takeWhile (\<lambda>i. \<not> HasPrefix (drop i s) ''%25'') [0..<length s])
     in (take n s, drop n s))"

text \<open>
  \<^verbatim>\<open>parseHost\<close>: a bracketed literal must be an IPv6 address with an optional zone; elsewhere the text from the
  first colon on (the last one for PostgreSQL schemes) must be a port.
\<close>

definition parseHost :: "string \<Rightarrow> string \<Rightarrow> string option" where
  "parseHost scheme host =
     (if CHR ''['' \<in> set host then
        (if hd host \<noteq> CHR ''['' \<or> CHR ''['' \<in> set (tl host) then None
         else case last_cut CHR '']'' (tl host) of
           None \<Rightarrow> None
         | Some (lit, port) \<Rightarrow>
             if \<not> validOptionalPort port then None
             else case zone_cut lit of (addr, zone) \<Rightarrow>
               (case (unescape encodeHost addr, unescape encodeZone zone) of
                  (Some a, Some z) \<Rightarrow> if parseIPv6 a = None \<or> length z = 1 then None else Some (CHR ''['' # a @ z @ CHR '']'' # port)
                | _ \<Rightarrow> None))
      else if \<not> validOptionalPort
          (if scheme = ''postgresql'' \<or> scheme = ''postgres''
           then (case last_cut CHR '':'' host of None \<Rightarrow> [] | Some (_, port) \<Rightarrow> CHR '':'' # port)
           else dropWhile (\<lambda>c. c \<noteq> CHR '':'') host) then None
      else unescape encodeHost host)"

definition validUserinfo :: "string \<Rightarrow> bool" where
  "validUserinfo s = list_all (\<lambda>c. is_lower c \<or> is_upper c \<or> is_digit c \<or> c \<in> set ''-._:~!$&()*+,;=%@''
     \<or> of_char c = (39 :: nat)) s"

definition parseAuthority :: "string \<Rightarrow> string \<Rightarrow> string option" where
  "parseAuthority scheme authority = (case last_cut CHR ''@'' authority of
      None \<Rightarrow> parseHost scheme authority
    | Some (userinfo, host) \<Rightarrow> (case parseHost scheme host of
          None \<Rightarrow> None
        | Some h \<Rightarrow> if \<not> validUserinfo userinfo \<or> unescape encodeUserPassword userinfo = None then None else Some h))"

definition url_host :: "string \<Rightarrow> string option" where
  "url_host raw = (case cut_byte CHR ''#'' raw of (u, frag) \<Rightarrow>
     if list_ex ctl_byte u \<or> unescape encodeFragment frag = None then None
     else if u = ''*'' then Some []
     else case getScheme u of
       None \<Rightarrow> None
     | Some (scheme, rest0) \<Rightarrow>
         let rest = fst (cut_byte CHR ''?'' rest0) in
         if \<not> HasPrefix rest ''/'' \<and> scheme \<noteq> [] then Some []
         else if \<not> HasPrefix rest ''/'' \<and> CHR '':'' \<in> set (fst (cut_byte CHR ''/'' rest)) then None
         else if HasPrefix rest ''//'' \<and> (scheme \<noteq> [] \<or> \<not> HasPrefix rest ''///'') then
           let authority = takeWhile (\<lambda>c. c \<noteq> CHR ''/'') (drop 2 rest);
               path = dropWhile (\<lambda>c. c \<noteq> CHR ''/'') (drop 2 rest)
           in (case parseAuthority (map char_lower scheme) authority of
                 None \<Rightarrow> None
               | Some host \<Rightarrow> if unescape encodePath path = None then None else Some host)
         else if unescape encodePath rest = None then None
         else Some [])"

text \<open>\<^verbatim>\<open>Hostname\<close>: the host without its port and without the brackets of an IPv6 literal.\<close>

definition host_only :: "string \<Rightarrow> string" where
  "host_only hostPort =
     (let host = (case last_cut CHR '':'' hostPort of
            Some (h, port) \<Rightarrow> if validOptionalPort (CHR '':'' # port) then h else hostPort
          | None \<Rightarrow> hostPort)
      in if HasPrefix host ''['' \<and> HasSuffix host '']'' then butlast (tl host) else host)"

definition url_Hostname :: "string \<Rightarrow> string" where
  "url_Hostname raw = (case url_host raw of None \<Rightarrow> [] | Some h \<Rightarrow> host_only h)"

end
