(* ===== verification/Runtime_Env.thy ===== *)
theory Runtime_Env
  imports Net_Url Api_Authz
begin

text \<open>
  Governance of a submitted \<^verbatim>\<open>runtime_env_yaml\<close>, after \<^verbatim>\<open>internal/api/runtimeenv.go\<close>: the rule set, the
  validator with its field checks, and the injection of a bounded setup timeout.  The YAML library is not part
  of the repository: \<^verbatim>\<open>decode\<close> and \<^verbatim>\<open>marshal\<close> are arguments, over the values a decode into \<^verbatim>\<open>interface{}\<close>
  produces.  The Unicode case tables are arguments as in \<^verbatim>\<open>Core_Registry\<close>.

  A Go map is read in the order of its list here, so where several fields are at fault the error is that of the
  first one.  What an accepted document can contain is in \<^verbatim>\<open>Runtime_Env_Props\<close>.
\<close>

datatype yaml =
  YNull | YBool bool | YInt int | YFloat float64 | YStr string | YSeq "yaml list"
| YMap "(string \<times> yaml) list" | YOther string

type_synonym yaml_doc = "(string, yaml) gomap"

record yaml_codec =
  yc_decode :: "string \<Rightarrow> message + yaml_doc"
  yc_marshal :: "yaml_doc \<Rightarrow> message + string"

record unicode =
  uc_fold :: "nat \<Rightarrow> nat"
  uc_lower :: "nat \<Rightarrow> nat"

record RuntimeEnvPolicy =
  rp_AllowPyExecutable :: bool
  rp_AllowImageURI :: bool
  rp_AllowConda :: bool
  rp_AllowUnpinnedPackages :: bool
  rp_DeniedPackages :: "string list"
  rp_AllowedIndexHosts :: "string list"
  rp_AllowedRemoteSchemes :: "string list"
  rp_AllowedRemoteHosts :: "string list"
  rp_MaxSetupTimeoutSeconds :: int
  rp_MaxDocumentBytes :: int

definition RuntimeEnvPolicy_zero :: RuntimeEnvPolicy where
  "RuntimeEnvPolicy_zero = \<lparr>rp_AllowPyExecutable = False, rp_AllowImageURI = False, rp_AllowConda = False,
     rp_AllowUnpinnedPackages = False, rp_DeniedPackages = [], rp_AllowedIndexHosts = [],
     rp_AllowedRemoteSchemes = [], rp_AllowedRemoteHosts = [], rp_MaxSetupTimeoutSeconds = 0,
     rp_MaxDocumentBytes = 0\<rparr>"

definition DefaultSetupTimeoutSeconds :: int where "DefaultSetupTimeoutSeconds = 600"
definition DefaultMaxDocumentBytes :: int where "DefaultMaxDocumentBytes = 64 * 1024"


section \<open>Patterns\<close>

definition is_alnum :: "char \<Rightarrow> bool" where
  "is_alnum c = (is_lower c \<or> is_upper c \<or> is_digit c)"

text \<open>\<^verbatim>\<open>remoteURIScheme\<close>: the scheme of a text that starts with one and \<^verbatim>\<open>://\<close>.\<close>

definition remoteURIScheme :: "string \<Rightarrow> string option" where
  "remoteURIScheme s =
     (let scheme = takeWhile (\<lambda>c. is_alnum c \<or> c \<in> set ''+.-'') s in
      if scheme \<noteq> [] \<and> (is_lower (hd scheme) \<or> is_upper (hd scheme)) \<and> HasPrefix (drop (length scheme) s) ''://''
      then Some scheme else None)"

text \<open>\<^verbatim>\<open>pinnedPackageRe\<close>: a name, optional extras in brackets, two equal signs and a version.\<close>

definition pinned_name :: "string \<Rightarrow> bool" where
  "pinned_name s = (s \<noteq> [] \<and> is_alnum (hd s) \<and> is_alnum (last s) \<and> list_all (\<lambda>c. is_alnum c \<or> c \<in> set ''._-'') s)"

definition pinned_version :: "string \<Rightarrow> bool" where
  "pinned_version s = (HasPrefix s ''=='' \<and> (let v = drop 2 s in
     v \<noteq> [] \<and> is_alnum (hd v) \<and> list_all (\<lambda>c. is_alnum c \<or> c \<in> set ''.!+_-'') v))"

definition pinned_tail :: "string \<Rightarrow> bool" where
  "pinned_tail s =
     (if HasPrefix s ''['' then
        (let extras = takeWhile (\<lambda>c. is_alnum c \<or> c \<in> set ''_,.-'') (tl s); rest = drop (length extras) (tl s)
         in extras \<noteq> [] \<and> HasPrefix rest '']'' \<and> pinned_version (tl rest))
      else pinned_version s)"

definition pinnedPackageRe :: "string \<Rightarrow> bool" where
  "pinnedPackageRe s =
     (let name = takeWhile (\<lambda>c. is_alnum c \<or> c \<in> set ''._-'') s
      in pinned_name name \<and> pinned_tail (drop (length name) s))"


section \<open>Packages\<close>

definition is_separator :: "nat \<Rightarrow> bool" where
  "is_separator r = (r = 45 \<or> r = 95 \<or> r = 46)"

fun normalize_runes :: "nat list \<Rightarrow> bool \<Rightarrow> nat list \<Rightarrow> nat list" where
  "normalize_runes out dash [] = out"
| "normalize_runes out dash (r # rs) =
     (if is_separator r then normalize_runes (if \<not> dash \<and> out \<noteq> [] then out @ [45] else out) True rs
      else normalize_runes (out @ [r]) False rs)"

definition normalizePackageName :: "unicode \<Rightarrow> string \<Rightarrow> nat list" where
  "normalizePackageName u name =
     (let out = normalize_runes [] False (ToLower_runes (uc_lower u) name)
      in if out \<noteq> [] \<and> last out = 45 then butlast out else out)"

definition contains_at :: "string \<Rightarrow> string \<Rightarrow> bool" where
  "contains_at s p = list_ex (\<lambda>i. HasPrefix (drop i s) p) [0..<Suc (length s)]"

definition pipPackageName :: "unicode \<Rightarrow> string \<Rightarrow> nat list" where
  "pipPackageName u entry0 =
     (let entry = TrimSpace entry0 in
      if entry = [] \<or> HasPrefix entry ''-'' \<or> contains_at entry ''://'' then []
      else normalizePackageName u (takeWhile (\<lambda>c. c \<notin> set ''[=<>!~;@ '' \<and> of_char c \<noteq> (9 :: nat)) entry))"

definition packageDenied :: "unicode \<Rightarrow> RuntimeEnvPolicy \<Rightarrow> nat list \<Rightarrow> bool" where
  "packageDenied u p name = list_ex (\<lambda>d. normalizePackageName u d = name) (rp_DeniedPackages p)"

definition check_pip_entry :: "unicode \<Rightarrow> RuntimeEnvPolicy \<Rightarrow> yaml \<Rightarrow> message + unit" where
  "check_pip_entry u p e = (case e of
      YStr entry \<Rightarrow>
        let name = pipPackageName u entry in
        if name = [] then Inl (Msg ''runtime_env_yaml pip entry %q is not a package requirement'' [ArgStr entry])
        else if packageDenied u p name then Inl (Msg ''runtime_env_yaml pip package %q is on the platform denylist'' [ArgRunes name])
        else if \<not> rp_AllowUnpinnedPackages p \<and> \<not> pinnedPackageRe entry
          then Inl (Msg ''runtime_env_yaml pip entry %q is not pinned to an exact version'' [ArgStr entry])
        else Inr ()
    | _ \<Rightarrow> Inl (Msg ''runtime_env_yaml pip entries must be strings'' []))"

definition checkPipEntries :: "unicode \<Rightarrow> RuntimeEnvPolicy \<Rightarrow> yaml list \<Rightarrow> message + unit" where
  "checkPipEntries u p entries = first_err (check_pip_entry u p) entries"


section \<open>Installer options\<close>

definition pipIndexOptions :: "(string \<times> bool) list" where
  "pipIndexOptions = [(''--index-url'', True), (''-i'', True), (''--extra-index-url'', True), (''--find-links'', True),
     (''-f'', True), (''--pre'', False)]"

definition pip_index_option :: "unicode \<Rightarrow> string \<Rightarrow> bool option" where
  "pip_index_option u name = map_option snd (find (\<lambda>(opt, _). runes opt = ToLower_runes (uc_lower u) name) pipIndexOptions)"

definition containsFold :: "unicode \<Rightarrow> string list \<Rightarrow> string \<Rightarrow> bool" where
  "containsFold u xs s = list_ex (\<lambda>e. EqualFold (uc_fold u) e s) xs"

definition indexHostAllowed :: "unicode \<Rightarrow> RuntimeEnvPolicy \<Rightarrow> string \<Rightarrow> bool" where
  "indexHostAllowed u p v = (if url_Hostname v = [] then False else containsFold u (rp_AllowedIndexHosts p) (url_Hostname v))"

fun checkPipInstallOptions :: "unicode \<Rightarrow> RuntimeEnvPolicy \<Rightarrow> yaml list \<Rightarrow> message + unit" where
  "checkPipInstallOptions u p [] = Inr ()"
| "checkPipInstallOptions u p (opt # opts) = (case opt of
      YStr token \<Rightarrow>
        let hasValue = CHR ''='' \<in> set token;
            name = (if hasValue then fst (cut_byte CHR ''='' token) else token);
            v = (if hasValue then snd (cut_byte CHR ''='' token) else [])
        in (case pip_index_option u name of
              None \<Rightarrow> checkPipInstallOptions u p opts
            | Some takesValue \<Rightarrow>
                if rp_AllowedIndexHosts p = []
                then Inl (Msg ''runtime_env_yaml pip_install_options %q redirects where packages come from'' [ArgStr name])
                else if \<not> takesValue then checkPipInstallOptions u p opts
                else if hasValue then
                  (if \<not> indexHostAllowed u p v
                   then Inl (Msg ''runtime_env_yaml pip_install_options %q value %q is not an allowed index host'' [ArgStr name, ArgStr v])
                   else checkPipInstallOptions u p opts)
                else (case opts of
                    [] \<Rightarrow> Inl (Msg ''runtime_env_yaml pip_install_options %q needs a value'' [ArgStr name])
                  | YStr v' # rest \<Rightarrow>
                      if \<not> indexHostAllowed u p v'
                      then Inl (Msg ''runtime_env_yaml pip_install_options %q value %q is not an allowed index host'' [ArgStr name, ArgStr v'])
                      else checkPipInstallOptions u p rest
                  | _ # rest \<Rightarrow> Inl (Msg ''runtime_env_yaml pip_install_options %q needs a string value'' [ArgStr name])))
    | _ \<Rightarrow> Inl (Msg ''runtime_env_yaml pip_install_options entries must be strings'' []))"

definition check_pip_key :: "unicode \<Rightarrow> RuntimeEnvPolicy \<Rightarrow> string \<times> yaml \<Rightarrow> message + unit" where
  "check_pip_key u p kv = (case kv of (key, v) \<Rightarrow>
     if key = ''packages'' then
       (case v of YSeq entries \<Rightarrow> checkPipEntries u p entries
        | _ \<Rightarrow> Inl (Msg ''runtime_env_yaml pip.packages must be a list of requirement strings'' []))
     else if key = ''pip_install_options'' then
       (case v of YSeq opts \<Rightarrow> checkPipInstallOptions u p opts
        | _ \<Rightarrow> Inl (Msg ''runtime_env_yaml pip.pip_install_options must be a list of option strings'' []))
     else if key = ''pip_check'' \<or> key = ''pip_version'' then Inr ()
     else Inl (Msg ''runtime_env_yaml pip key %q is not governed'' [ArgStr key]))"

definition checkPip :: "unicode \<Rightarrow> RuntimeEnvPolicy \<Rightarrow> yaml \<Rightarrow> message + unit" where
  "checkPip u p v = (case v of
      YSeq entries \<Rightarrow> checkPipEntries u p entries
    | YMap pip \<Rightarrow> first_err (check_pip_key u p) pip
    | _ \<Rightarrow> Inl (Msg ''runtime_env_yaml pip must be a list of pinned packages or an object with a packages list'' []))"


section \<open>The other fields\<close>

definition checkLocalOrAllowedURI :: "unicode \<Rightarrow> RuntimeEnvPolicy \<Rightarrow> string \<Rightarrow> yaml \<Rightarrow> message + unit" where
  "checkLocalOrAllowedURI u p field v = (case v of
      YStr s \<Rightarrow> (case remoteURIScheme s of
          None \<Rightarrow> Inr ()
        | Some m \<Rightarrow>
            let scheme = map char_lower m; host = url_Hostname s in
            if containsFold u (rp_AllowedRemoteSchemes p) scheme \<and> host \<noteq> [] \<and> containsFold u (rp_AllowedRemoteHosts p) host
            then Inr ()
            else Inl (Msg ''runtime_env_yaml %s %q is a remote URI'' [ArgStr field, ArgStr s]))
    | _ \<Rightarrow> Inl (Msg ''runtime_env_yaml %s must be a path or URI string'' [ArgStr field]))"

definition checkPyModules :: "unicode \<Rightarrow> RuntimeEnvPolicy \<Rightarrow> yaml \<Rightarrow> message + unit" where
  "checkPyModules u p v = (case v of
      YSeq entries \<Rightarrow> first_err (checkLocalOrAllowedURI u p ''py_modules'') entries
    | _ \<Rightarrow> Inl (Msg ''runtime_env_yaml py_modules must be a list of paths or URIs'' []))"

definition check_env_var :: "string \<times> yaml \<Rightarrow> message + unit" where
  "check_env_var kv = (case snd kv of YStr _ \<Rightarrow> Inr ()
     | _ \<Rightarrow> Inl (Msg ''runtime_env_yaml env_vars[%q] must be a string'' [ArgStr (fst kv)]))"

definition checkEnvVars :: "yaml \<Rightarrow> message + unit" where
  "checkEnvVars v = (case v of
      YMap m \<Rightarrow> first_err check_env_var m
    | _ \<Rightarrow> Inl (Msg ''runtime_env_yaml env_vars must be a mapping of variable names to values'' []))"

text \<open>
  \<^verbatim>\<open>yamlInt\<close>: the decoder's integers that fit 64 bits signed, and floating-point numbers that are such integers.
\<close>

definition yamlInt :: "yaml \<Rightarrow> int option" where
  "yamlInt v = (case v of
      YInt n \<Rightarrow> if - (2 ^ 63) \<le> n \<and> n < 2 ^ 63 then Some n else None
    | YFloat f \<Rightarrow> (case f of
          Fin q \<Rightarrow> if of_int \<lfloor>q\<rfloor> = q \<and> - (2 ^ 63) \<le> q \<and> q < 2 ^ 63 then Some \<lfloor>q\<rfloor> else None
        | _ \<Rightarrow> None)
    | _ \<Rightarrow> None)"

definition setup_cap :: "RuntimeEnvPolicy \<Rightarrow> int" where
  "setup_cap p = (if rp_MaxSetupTimeoutSeconds p \<le> 0 then DefaultSetupTimeoutSeconds else rp_MaxSetupTimeoutSeconds p)"

definition check_config_key :: "RuntimeEnvPolicy \<Rightarrow> string \<times> yaml \<Rightarrow> message + unit" where
  "check_config_key p kv = (case kv of (key, v) \<Rightarrow>
     if key = ''setup_timeout_seconds'' then
       (case yamlInt v of
          None \<Rightarrow> Inl (Msg ''runtime_env_yaml config.setup_timeout_seconds must be a positive integer'' [])
        | Some secs \<Rightarrow>
            if secs \<le> 0 then Inl (Msg ''runtime_env_yaml config.setup_timeout_seconds must be a positive integer'' [])
            else if setup_cap p < secs
            then Inl (Msg ''runtime_env_yaml config.setup_timeout_seconds is %d; the policy cap is %d'' [ArgInt secs, ArgInt (setup_cap p)])
            else Inr ())
     else if key = ''eager_install'' then
       (case v of YBool _ \<Rightarrow> Inr () | _ \<Rightarrow> Inl (Msg ''runtime_env_yaml config.eager_install must be a boolean'' []))
     else Inl (Msg ''runtime_env_yaml config key %q is not governed'' [ArgStr key]))"

definition checkConfig :: "RuntimeEnvPolicy \<Rightarrow> yaml \<Rightarrow> message + unit" where
  "checkConfig p v = (case v of
      YMap m \<Rightarrow> first_err (check_config_key p) m
    | _ \<Rightarrow> Inl (Msg ''runtime_env_yaml config must be a mapping'' []))"

definition runtimeEnvDeniedFields :: "string list" where
  "runtimeEnvDeniedFields = [''py_executable'', ''image_uri'', ''conda'']"

definition deniedFieldEnabled :: "RuntimeEnvPolicy \<Rightarrow> string \<Rightarrow> bool" where
  "deniedFieldEnabled p field =
     (if field = ''py_executable'' then rp_AllowPyExecutable p
      else if field = ''image_uri'' then rp_AllowImageURI p
      else if field = ''conda'' then rp_AllowConda p
      else False)"


section \<open>Validation and the setup timeout\<close>

definition check_field :: "unicode \<Rightarrow> RuntimeEnvPolicy \<Rightarrow> string \<times> yaml \<Rightarrow> message + unit" where
  "check_field u p kv = (case kv of (field, v) \<Rightarrow>
     if field = ''pip'' then checkPip u p v
     else if field = ''env_vars'' then checkEnvVars v
     else if field = ''config'' then checkConfig p v
     else if field = ''working_dir'' then checkLocalOrAllowedURI u p ''working_dir'' v
     else if field = ''py_modules'' then checkPyModules u p v
     else if field \<in> set runtimeEnvDeniedFields then
       (if deniedFieldEnabled p field then Inr ()
        else Inl (Msg ''runtime_env_yaml field %q is denied by policy'' [ArgStr field]))
     else Inl (Msg ''runtime_env_yaml field %q is not in the governance allowlist'' [ArgStr field]))"

definition RuntimeEnvPolicy_Validate :: "yaml_codec \<Rightarrow> unicode \<Rightarrow> RuntimeEnvPolicy \<Rightarrow> string \<Rightarrow> message + unit" where
  "RuntimeEnvPolicy_Validate yc u p raw =
     (let maxBytes = (if rp_MaxDocumentBytes p \<le> 0 then DefaultMaxDocumentBytes else rp_MaxDocumentBytes p) in
      if TrimSpace raw = [] then Inr ()
      else if maxBytes < int (length raw)
      then Inl (Msg ''runtime_env_yaml is %d bytes; the governance limit is %d'' [ArgInt (int (length raw)), ArgInt maxBytes])
      else case yc_decode yc raw of
          Inl e \<Rightarrow> Inl (Msg ''runtime_env_yaml is not a valid YAML mapping: %v'' [ArgMsg e])
        | Inr doc \<Rightarrow> first_err (check_field u p) doc)"

definition setupTimeoutDefault :: "RuntimeEnvPolicy \<Rightarrow> int" where
  "setupTimeoutDefault p =
     (let capSecs = rp_MaxSetupTimeoutSeconds p in
      if capSecs \<le> 0 \<or> DefaultSetupTimeoutSeconds < capSecs then DefaultSetupTimeoutSeconds else capSecs)"

definition doc_config :: "yaml_doc \<Rightarrow> (string, yaml) gomap" where
  "doc_config doc = (case gget doc ''config'' of Some (YMap m) \<Rightarrow> m | _ \<Rightarrow> [])"

definition EnforceSetupTimeout :: "yaml_codec \<Rightarrow> RuntimeEnvPolicy \<Rightarrow> string \<Rightarrow> message + string" where
  "EnforceSetupTimeout yc p raw =
     (if TrimSpace raw = [] then Inr raw
      else case yc_decode yc raw of
          Inl e \<Rightarrow> Inl (Msg ''runtime_env_yaml is not a valid YAML mapping: %v'' [ArgMsg e])
        | Inr doc \<Rightarrow>
            if doc = [] then Inr raw
            else
              let cfg = doc_config doc in
              if gget cfg ''setup_timeout_seconds'' \<noteq> None then Inr raw
              else
                let doc' = gput ''config'' (YMap (gput ''setup_timeout_seconds'' (YInt (setupTimeoutDefault p)) cfg)) doc in
                (case yc_marshal yc doc' of
                   Inl e \<Rightarrow> Inl (Msg ''runtime_env_yaml does not re-render: %v'' [ArgMsg e])
                 | Inr out \<Rightarrow> Inr out))"

text \<open>
  The effective rule set of a project: the knobs of the rule for every project, overridden by the project's own
  rule where that one sets them.
\<close>

definition AdmissionEveryProject :: string where "AdmissionEveryProject = ''*''"

definition apply_env_rule :: "AdmissionRule \<Rightarrow> RuntimeEnvPolicy \<Rightarrow> RuntimeEnvPolicy" where
  "apply_env_rule rule out = \<lparr>
     rp_AllowPyExecutable = (if ar_AllowPyExecutable rule then True else rp_AllowPyExecutable out),
     rp_AllowImageURI = (if ar_AllowImageURI rule then True else rp_AllowImageURI out),
     rp_AllowConda = (if ar_AllowConda rule then True else rp_AllowConda out),
     rp_AllowUnpinnedPackages = (if ar_AllowUnpinnedPackages rule then True else rp_AllowUnpinnedPackages out),
     rp_DeniedPackages = (if ar_PackageDenylist rule \<noteq> [] then ar_PackageDenylist rule else rp_DeniedPackages out),
     rp_AllowedIndexHosts = (if ar_AllowedIndexHosts rule \<noteq> [] then ar_AllowedIndexHosts rule else rp_AllowedIndexHosts out),
     rp_AllowedRemoteSchemes = (if ar_AllowedRemoteSchemes rule \<noteq> [] then ar_AllowedRemoteSchemes rule else rp_AllowedRemoteSchemes out),
     rp_AllowedRemoteHosts = (if ar_AllowedRemoteHosts rule \<noteq> [] then ar_AllowedRemoteHosts rule else rp_AllowedRemoteHosts out),
     rp_MaxSetupTimeoutSeconds = (if 0 < ar_MaxSetupTimeoutSeconds rule then ar_MaxSetupTimeoutSeconds rule else rp_MaxSetupTimeoutSeconds out),
     rp_MaxDocumentBytes = (if 0 < ar_MaxDocumentBytes rule then ar_MaxDocumentBytes rule else rp_MaxDocumentBytes out)\<rparr>"

definition project_rules :: "StoredPolicy option \<Rightarrow> string \<Rightarrow> AdmissionRule list" where
  "project_rules p project = (case p of None \<Rightarrow> []
     | Some row \<Rightarrow> List.map_filter (gget (spo_Admission row)) [AdmissionEveryProject, project])"

definition runtime_env_policy :: "StoredPolicy option \<Rightarrow> string \<Rightarrow> RuntimeEnvPolicy" where
  "runtime_env_policy p project = fold apply_env_rule (project_rules p project) RuntimeEnvPolicy_zero"

end
