(* ===== verification/Runtime_Env_Props.thy ===== *)
theory Runtime_Env_Props
  imports Runtime_Env
begin

text \<open>
  What the governance of a runtime environment lets through.  \<^verbatim>\<open>governed\<close> is the rule set as a predicate on the
  decoded document, without an order of checks; the validator decides exactly that.  That an admitted document
  leaves with a bounded setup timeout is in \<^verbatim>\<open>Setup_Timeout\<close>.
\<close>

declare checkPipInstallOptions.simps [simp del]


section \<open>The rule set\<close>

definition governed_entry :: "unicode \<Rightarrow> RuntimeEnvPolicy \<Rightarrow> yaml \<Rightarrow> bool" where
  "governed_entry u p e = (\<exists>entry. e = YStr entry \<and> pipPackageName u entry \<noteq> []
     \<and> (\<forall>d\<in>set (rp_DeniedPackages p). normalizePackageName u d \<noteq> pipPackageName u entry)
     \<and> (rp_AllowUnpinnedPackages p \<or> pinnedPackageRe entry))"

definition governed_pip_key :: "unicode \<Rightarrow> RuntimeEnvPolicy \<Rightarrow> string \<times> yaml \<Rightarrow> bool" where
  "governed_pip_key u p kv = (case kv of (key, w) \<Rightarrow>
     if key = ''packages'' then \<exists>es. w = YSeq es \<and> (\<forall>e\<in>set es. governed_entry u p e)
     else if key = ''pip_install_options'' then \<exists>os. w = YSeq os \<and> checkPipInstallOptions u p os = Inr ()
     else key = ''pip_check'' \<or> key = ''pip_version'')"

definition governed_pip :: "unicode \<Rightarrow> RuntimeEnvPolicy \<Rightarrow> yaml \<Rightarrow> bool" where
  "governed_pip u p v = (case v of
      YSeq es \<Rightarrow> \<forall>e\<in>set es. governed_entry u p e
    | YMap m \<Rightarrow> \<forall>kv\<in>set m. governed_pip_key u p kv
    | _ \<Rightarrow> False)"

definition governed_uri :: "unicode \<Rightarrow> RuntimeEnvPolicy \<Rightarrow> yaml \<Rightarrow> bool" where
  "governed_uri u p v = (\<exists>s. v = YStr s \<and> (remoteURIScheme s = None \<or>
     (containsFold u (rp_AllowedRemoteSchemes p) (map char_lower (the (remoteURIScheme s)))
      \<and> url_Hostname s \<noteq> [] \<and> containsFold u (rp_AllowedRemoteHosts p) (url_Hostname s))))"

definition governed_config_key :: "RuntimeEnvPolicy \<Rightarrow> string \<times> yaml \<Rightarrow> bool" where
  "governed_config_key p kv = (case kv of (key, w) \<Rightarrow>
     (key = ''setup_timeout_seconds'' \<and> (\<exists>n. yamlInt w = Some n \<and> 0 < n \<and> n \<le> setup_cap p))
     \<or> (key = ''eager_install'' \<and> (\<exists>b. w = YBool b)))"

definition governed_config :: "RuntimeEnvPolicy \<Rightarrow> yaml \<Rightarrow> bool" where
  "governed_config p v = (\<exists>m. v = YMap m \<and> (\<forall>kv\<in>set m. governed_config_key p kv))"

definition governed_field :: "unicode \<Rightarrow> RuntimeEnvPolicy \<Rightarrow> string \<times> yaml \<Rightarrow> bool" where
  "governed_field u p kv = (case kv of (field, v) \<Rightarrow>
     (field = ''pip'' \<and> governed_pip u p v)
     \<or> (field = ''env_vars'' \<and> (\<exists>m. v = YMap m \<and> (\<forall>(k, w)\<in>set m. \<exists>s. w = YStr s)))
     \<or> (field = ''config'' \<and> governed_config p v)
     \<or> (field = ''working_dir'' \<and> governed_uri u p v)
     \<or> (field = ''py_modules'' \<and> (\<exists>es. v = YSeq es \<and> (\<forall>e\<in>set es. governed_uri u p e)))
     \<or> (field = ''py_executable'' \<and> rp_AllowPyExecutable p)
     \<or> (field = ''image_uri'' \<and> rp_AllowImageURI p)
     \<or> (field = ''conda'' \<and> rp_AllowConda p))"

lemma check_pip_entry_ok: "check_pip_entry u p e = Inr () \<longleftrightarrow> governed_entry u p e"
  by (cases e) (auto simp: check_pip_entry_def governed_entry_def packageDenied_def list_ex_iff Let_def)

lemma checkPipEntries_ok: "checkPipEntries u p es = Inr () \<longleftrightarrow> (\<forall>e\<in>set es. governed_entry u p e)"
  by (simp add: checkPipEntries_def first_err_Inr check_pip_entry_ok)

lemma check_pip_key_ok: "check_pip_key u p (key, w) = Inr () \<longleftrightarrow> governed_pip_key u p (key, w)"
  unfolding check_pip_key_def governed_pip_key_def prod.case by (cases w) (simp_all add: checkPipEntries_ok)

lemma checkPip_ok: "checkPip u p v = Inr () \<longleftrightarrow> governed_pip u p v"
  by (cases v) (simp_all add: checkPip_def governed_pip_def checkPipEntries_ok first_err_Inr check_pip_key_ok split_paired_Ball_Sigma Ball_def)

lemma checkURI_ok: "checkLocalOrAllowedURI u p field v = Inr () \<longleftrightarrow> governed_uri u p v"
  by (cases v) (auto simp: checkLocalOrAllowedURI_def governed_uri_def Let_def split: option.splits)

lemma check_config_key_ok:
  "check_config_key p kv = Inr () \<longleftrightarrow> governed_config_key p kv"
proof -
  obtain key w where kv: "kv = (key, w)" by (cases kv)
  consider "key = ''setup_timeout_seconds''" | "key = ''eager_install''"
    | "key \<noteq> ''setup_timeout_seconds''" "key \<noteq> ''eager_install''" by blast
  then show ?thesis
    by cases (cases "yamlInt w"; cases w; auto simp: kv check_config_key_def governed_config_key_def)+
qed

lemma checkConfig_ok: "checkConfig p v = Inr () \<longleftrightarrow> governed_config p v"
  by (cases v) (simp_all add: checkConfig_def governed_config_def first_err_Inr check_config_key_ok)

lemma check_env_var_ok: "check_env_var kv = Inr () \<longleftrightarrow> (case kv of (k, w) \<Rightarrow> \<exists>s. w = YStr s)"
  by (cases kv; cases "snd kv") (simp_all add: check_env_var_def)

lemma checkEnvVars_ok: "checkEnvVars v = Inr () \<longleftrightarrow> (\<exists>m. v = YMap m \<and> (\<forall>(k, w)\<in>set m. \<exists>s. w = YStr s))"
  by (cases v) (simp_all add: checkEnvVars_def first_err_Inr check_env_var_ok)

lemma checkPyModules_ok: "checkPyModules u p v = Inr () \<longleftrightarrow> (\<exists>es. v = YSeq es \<and> (\<forall>e\<in>set es. governed_uri u p e))"
  by (cases v) (simp_all add: checkPyModules_def first_err_Inr checkURI_ok)

lemmas field_checks = check_field_def governed_field_def checkPip_ok checkEnvVars_ok checkConfig_ok checkURI_ok
  checkPyModules_ok runtimeEnvDeniedFields_def deniedFieldEnabled_def

lemma check_field_ok: "check_field u p (field, v) = Inr () \<longleftrightarrow> governed_field u p (field, v)"
  by (cases "field = ''pip''", simp add: field_checks,
      cases "field = ''env_vars''", simp add: field_checks,
      cases "field = ''config''", simp add: field_checks,
      cases "field = ''working_dir''", simp add: field_checks,
      cases "field = ''py_modules''", simp add: field_checks,
      cases "field = ''py_executable''", simp add: field_checks,
      cases "field = ''image_uri''", simp add: field_checks,
      cases "field = ''conda''", simp add: field_checks, simp add: field_checks)

lemma Validate_ok:
  "RuntimeEnvPolicy_Validate yc u p raw = Inr () \<longleftrightarrow> TrimSpace raw = [] \<or>
     (int (length raw) \<le> (if rp_MaxDocumentBytes p \<le> 0 then DefaultMaxDocumentBytes else rp_MaxDocumentBytes p)
      \<and> (\<exists>doc. yc_decode yc raw = Inr doc \<and> (\<forall>(field, v)\<in>set doc. governed_field u p (field, v))))"
  by (auto simp: RuntimeEnvPolicy_Validate_def Let_def first_err_Inr check_field_ok Ball_def split: sum.splits)


section \<open>Installer options\<close>

definition option_name :: "string \<Rightarrow> string" where
  "option_name token = takeWhile (\<lambda>c. c \<noteq> CHR ''='') token"

lemma options_without_hosts:
  assumes "rp_AllowedIndexHosts p = []"
  shows "checkPipInstallOptions u p opts = Inr () \<longleftrightarrow>
     list_all (\<lambda>opt. \<exists>token. opt = YStr token \<and> pip_index_option u (option_name token) = None) opts"
proof (induction opts)
  case (Cons opt opts)
  have "takeWhile (\<lambda>c. c \<noteq> CHR ''='') token = token" if "CHR ''='' \<notin> set token" for token
    using that by (auto simp: takeWhile_eq_all_conv)
  then have name: "(if CHR ''='' \<in> set token then fst (cut_byte CHR ''='' token) else token) = option_name token" for token
    by (metis option_name_def cut_byte_def fst_conv)
  show ?case
  proof (cases opt)
    case (YStr token)
    then show ?thesis
      using Cons assms
      by (cases "pip_index_option u (option_name token)") (simp_all only: checkPipInstallOptions.simps Let_def name, simp_all)
  qed (simp_all add: checkPipInstallOptions.simps)
qed (simp add: checkPipInstallOptions.simps)

lemma setupTimeoutDefault_bounds: "0 < setupTimeoutDefault p" "setupTimeoutDefault p \<le> setup_cap p" "setupTimeoutDefault p \<le> 600"
  by (simp_all add: setupTimeoutDefault_def setup_cap_def DefaultSetupTimeoutSeconds_def Let_def)


section \<open>Properties\<close>

text \<open>
  C12.  Admission of a runtime environment: a document is admitted exactly when it is blank, or is within the
  size limit, decodes, and every field of it is governed - packages are named, not on the denylist and pinned
  unless the policy lifts the pin, working directories and modules are local unless scheme and host are both on the
  allowlist, environment variables are strings, the configuration has only an install flag and a positive timeout
  within the cap, and an interpreter, an image or a conda file appears only where the policy enables it.  With no index
  host allowed, installer options are admitted exactly when each is a string and none of them names an index option
  before its first equal sign.  The comments in the source promise that then no option mentions an index, in either
  spelling; an index attached to its short option, or in one string with its option after a space, is admitted.
\<close>

theorem runtime_env_admission_exact:
  "(RuntimeEnvPolicy_Validate yc u p raw = Inr () \<longleftrightarrow> TrimSpace raw = [] \<or>
     (int (length raw) \<le> (if rp_MaxDocumentBytes p \<le> 0 then 65536 else rp_MaxDocumentBytes p)
      \<and> (case yc_decode yc raw of Inl _ \<Rightarrow> False | Inr doc \<Rightarrow> list_all (governed_field u p) doc)))
   \<and> (rp_AllowedIndexHosts p = [] \<longrightarrow> (checkPipInstallOptions u p opts = Inr () \<longleftrightarrow>
        list_all (\<lambda>opt. \<exists>token. opt = YStr token \<and> pip_index_option u (option_name token) = None) opts))"
proof (intro conjI impI options_without_hosts)
  have "(\<exists>doc. yc_decode yc raw = Inr doc \<and> (\<forall>(field, v)\<in>set doc. governed_field u p (field, v))) \<longleftrightarrow>
      (case yc_decode yc raw of Inl _ \<Rightarrow> False | Inr doc \<Rightarrow> list_all (governed_field u p) doc)"
    by (cases "yc_decode yc raw") (simp_all add: list_all_iff)
  then show "RuntimeEnvPolicy_Validate yc u p raw = Inr () \<longleftrightarrow> TrimSpace raw = [] \<or>
     (int (length raw) \<le> (if rp_MaxDocumentBytes p \<le> 0 then 65536 else rp_MaxDocumentBytes p)
      \<and> (case yc_decode yc raw of Inl _ \<Rightarrow> False | Inr doc \<Rightarrow> list_all (governed_field u p) doc))"
    unfolding Validate_ok DefaultMaxDocumentBytes_def by simp
qed

definition ascii_case :: unicode where
  "ascii_case = (let f = (\<lambda>r. if 65 \<le> r \<and> r \<le> 90 then r + 32 else r) in \<lparr>uc_fold = f, uc_lower = f\<rparr>)"

definition pip_codec :: "yaml_doc \<Rightarrow> yaml_codec" where
  "pip_codec doc = \<lparr>yc_decode = (\<lambda>raw. if raw = ''doc'' then Inr doc else Inl (Msg ''syntax'' [])),
     yc_marshal = (\<lambda>d. if d = doc then Inr ''doc'' else Inl (Msg ''unsupported'' []))\<rparr>"

lemma pattern_examples:
  "pinnedPackageRe ''ray==2.9'' \<and> normalizePackageName ascii_case ''ray'' = [114, 97, 121]
   \<and> \<not> contains_at ''ray==2.9'' ''://''
   \<and> pip_index_option ascii_case (option_name ''--index-url=https://evil.example'') \<noteq> None
   \<and> pip_index_option ascii_case (option_name ''-ihttps://evil.example/simple'') = None
   \<and> pip_index_option ascii_case (option_name ''--extra-index-url https://evil.example/simple'') = None"
  by code_simp

lemma trim_examples: "TrimSpace ''ray==2.9'' = ''ray==2.9''" "TrimSpace ''doc'' = ''doc''"
  by (rule TrimSpace_plain; simp add: plain_char_def ascii_space_def)+

lemma ray_package: "pipPackageName ascii_case ''ray==2.9'' = [114, 97, 121]"
  using pattern_examples by (simp add: pipPackageName_def trim_examples Let_def HasPrefix_def)

lemma pinned_ray: "governed_field ascii_case RuntimeEnvPolicy_zero (''pip'', YSeq [YStr ''ray==2.9''])"
  using pattern_examples ray_package
  by (simp add: governed_field_def governed_pip_def governed_entry_def RuntimeEnvPolicy_zero_def)

theorem runtime_env_admission_exact_witness:
  "RuntimeEnvPolicy_Validate (pip_codec [(''pip'', YSeq [YStr ''ray==2.9''])]) ascii_case RuntimeEnvPolicy_zero ''doc'' = Inr ()
   \<and> checkPipInstallOptions ascii_case RuntimeEnvPolicy_zero [YStr ''--index-url=https://evil.example''] \<noteq> Inr ()"
  using pattern_examples runtime_env_admission_exact [of "pip_codec [(''pip'', YSeq [YStr ''ray==2.9''])]" ascii_case
        RuntimeEnvPolicy_zero "''doc''" "[YStr ''--index-url=https://evil.example'']"] pinned_ray
  by (simp add: pip_codec_def RuntimeEnvPolicy_zero_def)

text \<open>
  The option check compares whole tokens up to an equal sign, so an index given in one token with its short option
  passes although no index host is allowed, and so does a long option with its value after a space.
\<close>

lemma attached_index_option_accepted:
  "checkPipInstallOptions ascii_case RuntimeEnvPolicy_zero
     [YStr ''-ihttps://evil.example/simple'', YStr ''--extra-index-url https://evil.example/simple''] = Inr ()"
  using pattern_examples by (simp add: options_without_hosts RuntimeEnvPolicy_zero_def)

lemma set_gput: "set (gput k v m) \<subseteq> insert (k, v) (set m)"
  by (induction m) (auto simp: gput_def split: if_splits)

lemma governed_lookup:
  assumes "list_all (governed_field u p) doc" "gget doc ''config'' = Some v"
  shows "governed_config p v"
proof -
  have "governed_field u p (''config'', v)"
    using assms map_of_SomeD [of doc "''config''" v] by (auto simp: list_all_iff gget_def)
  then show ?thesis by (simp add: governed_field_def)
qed

lemma governed_add_timeout:
  assumes "governed_config p (YMap m)"
  shows "governed_config p (YMap (gput ''setup_timeout_seconds'' (YInt (setupTimeoutDefault p)) m))"
proof -
  have "governed_config_key p (''setup_timeout_seconds'', YInt (setupTimeoutDefault p))"
    using setupTimeoutDefault_bounds [of p] by (simp add: governed_config_key_def yamlInt_def)
  then show ?thesis
    using assms set_gput [of "''setup_timeout_seconds''" "YInt (setupTimeoutDefault p)" m] by (auto simp: governed_config_def)
qed

lemma governed_put_config:
  assumes "list_all (governed_field u p) doc" "governed_config p v"
  shows "list_all (governed_field u p) (gput ''config'' v doc)"
proof -
  have "governed_field u p (''config'', v)" using assms(2) by (simp add: governed_field_def)
  with assms(1) set_gput [of "''config''" v doc] show ?thesis by (auto simp: list_all_iff)
qed

end
