(* ===== verification/Setup_Timeout.thy ===== *)
theory Setup_Timeout
  imports Runtime_Env_Props "HOL-Library.Multiset"
begin

text \<open>
  The setup timeout of an admitted runtime environment.  The document is decoded, changed and written again by
  the YAML library, which is not part of the repository, so the theory first says what it means for two YAML
  values to be the same once written and read back, and shows that the rule set does not tell such values
  apart.  \<^verbatim>\<open>prefix_codec\<close>, at the end, is a codec that meets what is relied on.
\<close>


section \<open>The same YAML value\<close>

definition yaml_number :: "yaml \<Rightarrow> rat option" where
  "yaml_number v = (case v of YInt n \<Rightarrow> Some (of_int n) | YFloat (Fin q) \<Rightarrow> Some q | _ \<Rightarrow> None)"

inductive yaml_same :: "yaml \<Rightarrow> yaml \<Rightarrow> bool" where
  refl: "yaml_same v v"
| number: "yaml_number v = Some q \<Longrightarrow> yaml_number w = Some q \<Longrightarrow> yaml_same v w"
| seq: "list_all2 yaml_same xs ys \<Longrightarrow> yaml_same (YSeq xs) (YSeq ys)"
| mapping: "gwf m' \<Longrightarrow> \<forall>k. rel_option yaml_same (gget m k) (gget m' k) \<Longrightarrow> yaml_same (YMap m) (YMap m')"
monos list_all2_mono option.rel_mono

lemma yaml_same_cases:
  "yaml_same (YStr s) w \<longleftrightarrow> w = YStr s"
  "yaml_same v (YStr s) \<longleftrightarrow> v = YStr s"
  "yaml_same (YBool b) w \<longleftrightarrow> w = YBool b"
  "yaml_same v (YSeq ys) \<longleftrightarrow> (\<exists>xs. v = YSeq xs \<and> (xs = ys \<or> list_all2 yaml_same xs ys))"
  "yaml_same (YSeq xs) w \<longleftrightarrow> (\<exists>ys. w = YSeq ys \<and> (xs = ys \<or> list_all2 yaml_same xs ys))"
  "yaml_same (YMap m) w \<longleftrightarrow> (\<exists>m'. w = YMap m' \<and> (m' = m \<or> gwf m' \<and> (\<forall>k. rel_option yaml_same (gget m k) (gget m' k))))"
  "yaml_same v (YMap m') \<longleftrightarrow> (\<exists>m. v = YMap m \<and> (m' = m \<or> gwf m' \<and> (\<forall>k. rel_option yaml_same (gget m k) (gget m' k))))"
  by (auto simp: yaml_same.simps [of "YStr s"] yaml_same.simps [of v] yaml_same.simps [of "YBool b"] yaml_same.simps [of "YSeq xs"]
      yaml_same.simps [of "YMap m"] yaml_number_def)

definition mapping_same :: "(string, yaml) gomap \<Rightarrow> (string, yaml) gomap \<Rightarrow> bool" where
  "mapping_same m m' = (m' = m \<or> gwf m' \<and> (\<forall>k. rel_option yaml_same (gget m k) (gget m' k)))"

lemma mapping_same_refl: "mapping_same m m"
  by (simp add: mapping_same_def)

lemma yaml_same_map: "yaml_same (YMap m) w \<longleftrightarrow> (\<exists>m'. w = YMap m' \<and> mapping_same m m')"
  by (simp add: yaml_same_cases(6) mapping_same_def)

lemma mapping_same_all:
  assumes "mapping_same m m'" and "\<forall>kv\<in>set m. P kv"
    and "\<And>k v w. yaml_same v w \<Longrightarrow> P (k, v) \<Longrightarrow> P (k, w)"
  shows "\<forall>kv\<in>set m'. P kv"
proof (cases "m' = m")
  case False
  then have wf: "gwf m'" and rel: "\<forall>k. rel_option yaml_same (gget m k) (gget m' k)"
    using assms(1) by (simp_all add: mapping_same_def)
  show ?thesis
  proof safe
    fix k w
    assume "(k, w) \<in> set m'"
    then have "gget m' k = Some w" using wf by (simp add: gwf_def gget_def)
    then obtain v where "gget m k = Some v" "yaml_same v w"
      using rel [rule_format, of k] by (cases "gget m k") auto
    then show "P (k, w)" using assms(2,3) map_of_SomeD [of m k v] by (auto simp: gget_def)
  qed
qed (use assms(2) in simp)

lemma yaml_same_seq: "yaml_same (YSeq xs) w \<longleftrightarrow> (\<exists>ys. w = YSeq ys \<and> list_all2 yaml_same xs ys)"
  using list_all2_refl [of yaml_same, OF yaml_same.refl] by (auto simp: yaml_same_cases)

lemma governed_seq_same:
  assumes "yaml_same v w" and "\<exists>es. v = YSeq es \<and> Q es" and "\<And>xs ys. list_all2 yaml_same xs ys \<Longrightarrow> Q xs \<Longrightarrow> Q ys"
  shows "\<exists>es. w = YSeq es \<and> Q es"
proof -
  obtain es where es: "v = YSeq es" "Q es" using assms(2) by blast
  then obtain es' where "w = YSeq es'" "list_all2 yaml_same es es'" using assms(1) by (auto simp: yaml_same_seq)
  then show ?thesis using assms(3) [OF _ es(2)] by blast
qed

lemma same_elements:
  assumes "list_all2 yaml_same xs ys" and "\<forall>x\<in>set xs. P x" and "\<And>v w. yaml_same v w \<Longrightarrow> P v \<Longrightarrow> P w"
  shows "\<forall>y\<in>set ys. P y"
  using assms(1,2) by (induction xs ys rule: list_all2_induct) (simp_all add: assms(3))

lemma options_are_strings:
  "checkPipInstallOptions u p opts = Inr () \<Longrightarrow> \<forall>opt\<in>set opts. \<exists>token. opt = YStr token"
proof (induction opts rule: length_induct)
  case (1 opts)
  show ?case
  proof (cases opts)
    case (Cons opt rest)
    show ?thesis
    proof (cases opt)
      case (YStr token)
      let ?strings = "\<lambda>os. \<forall>opt\<in>set os. \<exists>token. opt = YStr token"
      have ih: "checkPipInstallOptions u p os = Inr () \<Longrightarrow> ?strings os" if "length os \<le> length rest" for os
        using 1(1) Cons that by (metis le_imp_less_Suc length_Cons)
      have "checkPipInstallOptions u p rest = Inr () \<or>
          (\<exists>v rest'. rest = YStr v # rest' \<and> checkPipInstallOptions u p rest' = Inr ())"
        using 1(2) unfolding Cons YStr checkPipInstallOptions.simps Let_def
        by (simp split: option.splits if_splits list.splits yaml.splits)
      then show ?thesis using ih [of rest] ih [of "tl rest"] Cons YStr by auto
    qed (use 1(2) Cons in \<open>simp_all add: checkPipInstallOptions.simps\<close>)
  qed simp
qed

lemma same_strings:
  assumes "list_all2 yaml_same xs ys" and "\<forall>x\<in>set xs. \<exists>s. x = YStr s"
  shows "ys = xs"
  using assms by (induction xs ys rule: list_all2_induct) (auto simp: yaml_same_cases)

lemma governed_entry_same: "yaml_same v w \<Longrightarrow> governed_entry u p v \<Longrightarrow> governed_entry u p w"
  by (auto simp: governed_entry_def yaml_same_cases)

lemma governed_pip_key_same:
  assumes "yaml_same v w" and "governed_pip_key u p (k, v)"
  shows "governed_pip_key u p (k, w)"
proof -
  consider "k = ''packages''" | "k \<noteq> ''packages''" "k = ''pip_install_options''"
    | "k \<noteq> ''packages''" "k \<noteq> ''pip_install_options''" by blast
  then show ?thesis
  proof cases
    case 1
    then have "\<exists>es. v = YSeq es \<and> (\<forall>e\<in>set es. governed_entry u p e)" using assms(2) by (simp add: governed_pip_key_def)
    then have "\<exists>es. w = YSeq es \<and> (\<forall>e\<in>set es. governed_entry u p e)"
      by (rule governed_seq_same [OF assms(1)]) (erule (1) same_elements, erule (1) governed_entry_same)
    then show ?thesis using 1 by (simp add: governed_pip_key_def)
  next
    case 2
    then have "\<exists>os. v = YSeq os \<and> checkPipInstallOptions u p os = Inr ()" using assms(2) by (simp add: governed_pip_key_def)
    then have "\<exists>os. w = YSeq os \<and> checkPipInstallOptions u p os = Inr ()"
      by (rule governed_seq_same [OF assms(1)]) (use same_strings options_are_strings in metis)
    then show ?thesis using 2 by (simp add: governed_pip_key_def)
  qed (use assms(2) in \<open>simp add: governed_pip_key_def\<close>)
qed

lemma governed_pip_same:
  assumes "yaml_same v w" and "governed_pip u p v"
  shows "governed_pip u p w"
proof (cases v)
  case (YSeq es)
  then have "\<exists>es. v = YSeq es \<and> (\<forall>e\<in>set es. governed_entry u p e)" using assms(2) by (simp add: governed_pip_def)
  then have "\<exists>es. w = YSeq es \<and> (\<forall>e\<in>set es. governed_entry u p e)"
    by (rule governed_seq_same [OF assms(1)]) (erule (1) same_elements, erule (1) governed_entry_same)
  then show ?thesis by (auto simp: governed_pip_def)
next
  case (YMap m)
  obtain m' where m': "w = YMap m'" "mapping_same m m'"
    using assms(1) unfolding YMap yaml_same_map by blast
  have "\<forall>kv\<in>set m. governed_pip_key u p kv" using assms(2) YMap by (simp add: governed_pip_def)
  from mapping_same_all [OF m'(2) this governed_pip_key_same] show ?thesis
    using m'(1) by (simp add: governed_pip_def)
qed (use assms(2) in \<open>simp_all add: governed_pip_def\<close>)

lemma yamlInt_same: "yaml_same v w \<Longrightarrow> yamlInt v = Some n \<Longrightarrow> yamlInt w = Some n"
  by (auto elim!: yaml_same.cases simp: yamlInt_def yaml_number_def split: yaml.splits float64.splits if_splits)

lemma governed_config_key_same: "yaml_same v w \<Longrightarrow> governed_config_key p (k, v) \<Longrightarrow> governed_config_key p (k, w)"
  by (auto simp: governed_config_key_def yaml_same_cases dest: yamlInt_same)

lemma governed_uri_same: "yaml_same v w \<Longrightarrow> governed_uri u p v \<Longrightarrow> governed_uri u p w"
  by (auto simp: governed_uri_def yaml_same_cases)

lemma governed_config_same:
  assumes "yaml_same v w" and "governed_config p v"
  shows "governed_config p w"
proof -
  obtain m where m: "v = YMap m" "\<forall>kv\<in>set m. governed_config_key p kv" using assms(2) by (auto simp: governed_config_def)
  then obtain m' where "w = YMap m'" "mapping_same m m'" using assms(1) by (auto simp: yaml_same_map)
  with mapping_same_all [OF _ m(2) governed_config_key_same] show ?thesis by (simp add: governed_config_def)
qed

lemma governed_env_same:
  assumes "yaml_same v w" and "\<exists>m. v = YMap m \<and> (\<forall>(k, x)\<in>set m. \<exists>s. x = YStr s)"
  shows "\<exists>m. w = YMap m \<and> (\<forall>(k, x)\<in>set m. \<exists>s. x = YStr s)"
proof -
  obtain m where m: "v = YMap m" "\<forall>kv\<in>set m. case kv of (k, x) \<Rightarrow> \<exists>s. x = YStr s" using assms(2) by blast
  then obtain m' where "w = YMap m'" "mapping_same m m'" using assms(1) by (auto simp: yaml_same_map)
  then have "\<forall>kv\<in>set m'. case kv of (k, x) \<Rightarrow> \<exists>s. x = YStr s"
    by (intro mapping_same_all [OF _ m(2)]) (auto simp: yaml_same_cases)
  with \<open>w = YMap m'\<close> show ?thesis by simp
qed

lemma governed_modules_same:
  assumes "yaml_same v w" and "\<exists>es. v = YSeq es \<and> (\<forall>e\<in>set es. governed_uri u p e)"
  shows "\<exists>es. w = YSeq es \<and> (\<forall>e\<in>set es. governed_uri u p e)"
  by (rule governed_seq_same [OF assms]) (erule (1) same_elements, erule (1) governed_uri_same)

lemma governed_field_same:
  assumes "yaml_same v w" and "governed_field u p (k, v)"
  shows "governed_field u p (k, w)"
  by (insert assms(2), unfold governed_field_def prod.case, elim disj_forward conj_forward)
    (assumption | erule governed_pip_same [OF assms(1)] governed_env_same [OF assms(1)] governed_config_same [OF assms(1)]
        governed_uri_same [OF assms(1)] governed_modules_same [OF assms(1)])+

text \<open>
  What is relied on of the YAML library, which is not part of the repository.  A decode fills a Go map, so no
  key is bound twice.  What it writes it can read back as the same value: a mapping with its keys in another
  order (the library sorts them on writing) and a number of the other kind with the same value (an integral
  floating-point number is written without a point and is read back as an integer) count as the same.
\<close>

definition reads_back :: "yaml_codec \<Rightarrow> bool" where
  "reads_back yc = ((\<forall>raw d. yc_decode yc raw = Inr d \<longrightarrow> gwf d)
     \<and> (\<forall>d t. gwf d \<and> yc_marshal yc d = Inr t \<longrightarrow> (\<exists>d'. yc_decode yc t = Inr d' \<and> mapping_same d d')))"

lemma mapping_same_get: "mapping_same m m' \<Longrightarrow> rel_option yaml_same (gget m k) (gget m' k)"
  by (auto simp: mapping_same_def option.rel_refl yaml_same.refl)

lemma setupTimeoutDefault_min: "setupTimeoutDefault p = min 600 (setup_cap p)"
  by (auto simp: setupTimeoutDefault_def setup_cap_def DefaultSetupTimeoutSeconds_def Let_def)

definition timeout_of :: "RuntimeEnvPolicy \<Rightarrow> yaml_doc \<Rightarrow> yaml_doc \<Rightarrow> bool" where
  "timeout_of p sent doc = (\<exists>m w n. gget doc ''config'' = Some (YMap m) \<and> gget m ''setup_timeout_seconds'' = Some w
     \<and> yamlInt w = Some n \<and> 0 < n \<and> n \<le> setup_cap p
     \<and> (case gget (doc_config sent) ''setup_timeout_seconds'' of
          None \<Rightarrow> n = min 600 (setup_cap p) | Some v \<Rightarrow> yamlInt v = Some n)
     \<and> (\<forall>k. k = ''setup_timeout_seconds'' \<or> rel_option yaml_same (gget (doc_config sent) k) (gget m k)))"

lemma governed_doc_config:
  assumes "list_all (governed_field u p) sent"
  shows "governed_config p (YMap (doc_config sent))"
    and "gget (doc_config sent) k = Some v \<Longrightarrow> gget sent ''config'' = Some (YMap (doc_config sent))"
proof -
  consider "gget sent ''config'' = None" | m where "gget sent ''config'' = Some (YMap m)" "governed_config p (YMap m)"
    using governed_lookup [OF assms] by (cases "gget sent ''config''") (auto simp: governed_config_def)
  then show "governed_config p (YMap (doc_config sent))"
    "gget (doc_config sent) k = Some v \<Longrightarrow> gget sent ''config'' = Some (YMap (doc_config sent))"
    by (cases; simp add: doc_config_def governed_config_def gomap_simps)+
qed

lemma kept_timeout:
  assumes "list_all (governed_field u p) sent" and "gget (doc_config sent) ''setup_timeout_seconds'' = Some w"
  shows "timeout_of p sent sent"
proof -
  have "governed_config_key p (''setup_timeout_seconds'', w)"
    using governed_doc_config(1) [OF assms(1)] assms(2) map_of_SomeD [of "doc_config sent" "''setup_timeout_seconds''" w]
    by (auto simp: governed_config_def gget_def)
  then obtain n where "yamlInt w = Some n" "0 < n" "n \<le> setup_cap p" by (auto simp: governed_config_key_def)
  then show ?thesis
    using governed_doc_config(2) [OF assms] assms(2)
    by (auto simp: timeout_of_def option.rel_refl yaml_same.refl)
qed

lemma added_timeout:
  assumes "gget (doc_config sent) ''setup_timeout_seconds'' = None"
    and "mapping_same (gput ''config'' (YMap (gput ''setup_timeout_seconds'' (YInt (setupTimeoutDefault p)) (doc_config sent))) sent) doc"
  shows "timeout_of p sent doc"
proof -
  let ?new = "gput ''setup_timeout_seconds'' (YInt (setupTimeoutDefault p)) (doc_config sent)"
  obtain m where m: "gget doc ''config'' = Some (YMap m)" "mapping_same ?new m"
    using mapping_same_get [OF assms(2), of "''config''"] by (auto simp: gomap_simps option_rel_Some1 yaml_same_map)
  obtain w where w: "gget m ''setup_timeout_seconds'' = Some w" "yaml_same (YInt (setupTimeoutDefault p)) w"
    using mapping_same_get [OF m(2), of "''setup_timeout_seconds''"] by (auto simp: gomap_simps option_rel_Some1)
  have "yamlInt (YInt (setupTimeoutDefault p)) = Some (setupTimeoutDefault p)"
    using setupTimeoutDefault_bounds [of p] by (simp add: yamlInt_def)
  then have "yamlInt w = Some (setupTimeoutDefault p)" using yamlInt_same [OF w(2)] by blast
  moreover have "\<forall>k. k = ''setup_timeout_seconds'' \<or> rel_option yaml_same (gget (doc_config sent) k) (gget m k)"
  proof
    fix k
    show "k = ''setup_timeout_seconds'' \<or> rel_option yaml_same (gget (doc_config sent) k) (gget m k)"
      using mapping_same_get [OF m(2), of k] by (cases "k = ''setup_timeout_seconds''") (simp_all add: gomap_simps)
  qed
  ultimately show ?thesis
    unfolding timeout_of_def
    by (intro exI [of _ m] exI [of _ w] exI [of _ "setupTimeoutDefault p"] conjI)
      (simp_all only: m(1) w(1) assms(1) setupTimeoutDefault_bounds [unfolded setupTimeoutDefault_min]
        setupTimeoutDefault_min option.case simp_thms)
qed

lemma timeout_injected:
  assumes "reads_back yc"
    and "TrimSpace raw \<noteq> []" and "RuntimeEnvPolicy_Validate yc u p raw = Inr ()"
    and "EnforceSetupTimeout yc p raw = Inr out" and "yc_decode yc raw = Inr sent"
  shows "\<exists>doc. yc_decode yc out = Inr doc \<and> list_all (governed_field u p) doc
     \<and> (\<forall>field. field = ''config'' \<or> rel_option yaml_same (gget sent field) (gget doc field))
     \<and> (if sent = [] then out = raw else timeout_of p sent doc)"
proof -
  let ?cfg = "doc_config sent"
  let ?new = "gput ''setup_timeout_seconds'' (YInt (setupTimeoutDefault p)) ?cfg"
  have gov: "list_all (governed_field u p) sent" and wf: "gwf sent"
    using assms(1-3,5) by (auto simp: Validate_ok list_all_iff reads_back_def)
  have kept: "rel_option yaml_same x x" for x by (simp add: option.rel_refl yaml_same.refl)
  have run: "EnforceSetupTimeout yc p raw = (if sent = [] then Inr raw
      else if gget ?cfg ''setup_timeout_seconds'' \<noteq> None then Inr raw
      else case yc_marshal yc (gput ''config'' (YMap ?new) sent) of
          Inl e \<Rightarrow> Inl (Msg ''runtime_env_yaml does not re-render: %v'' [ArgMsg e]) | Inr out \<Rightarrow> Inr out)"
    using assms(2,5) by (simp add: EnforceSetupTimeout_def Let_def)
  consider "sent = []" "out = raw" | w where "sent \<noteq> []" "gget ?cfg ''setup_timeout_seconds'' = Some w" "out = raw"
    | "sent \<noteq> []" "gget ?cfg ''setup_timeout_seconds'' = None" "yc_marshal yc (gput ''config'' (YMap ?new) sent) = Inr out"
    using assms(4) unfolding run
    by (cases "sent = []"; cases "gget ?cfg ''setup_timeout_seconds''"; cases "yc_marshal yc (gput ''config'' (YMap ?new) sent)")
      simp_all
  then show ?thesis
  proof cases
    case 1
    then show ?thesis using assms(5) gov kept by auto
  next
    case 2
    then show ?thesis using assms(5) gov kept kept_timeout [OF gov 2(2)] by auto
  next
    case 3
    then obtain doc where doc: "yc_decode yc out = Inr doc" "mapping_same (gput ''config'' (YMap ?new) sent) doc"
      using assms(1) wf unfolding reads_back_def by (metis gwf_gput)
    have "list_all (governed_field u p) (gput ''config'' (YMap ?new) sent)"
      using gov governed_add_timeout [OF governed_doc_config(1) [OF gov]] by (rule governed_put_config)
    then have "list_all (governed_field u p) doc"
      using mapping_same_all [where P = "governed_field u p", OF doc(2) _ governed_field_same] by (simp add: list_all_iff)
    moreover have "\<forall>field. field = ''config'' \<or> rel_option yaml_same (gget sent field) (gget doc field)"
    proof
      fix field
      show "field = ''config'' \<or> rel_option yaml_same (gget sent field) (gget doc field)"
        using mapping_same_get [OF doc(2), of field] by (cases "field = ''config''") (simp_all add: gomap_simps)
    qed
    ultimately show ?thesis using doc(1) added_timeout [OF 3(2) doc(2)] 3(1) by auto
  qed
qed

text \<open>
  C23.  The setup timeout of an admitted document: a document that passes validation and is then given its
  timeout is returned as it was if it carries no field at all.  Otherwise it decodes to one whose configuration
  sets a positive number of seconds within the policy's cap: the caller's own where the caller set one, and the
  smaller of 600 and the cap where not.  Every other field and every other configuration key is what the caller
  sent, and the result passes the field checks again.  The step fails only where the YAML library refuses to
  write the document with its timeout added.  The library is only relied on to read back what it writes up to
  key order and kind of number.
\<close>

theorem setup_timeout_bounded:
  assumes "reads_back yc"
    and "TrimSpace raw \<noteq> []" and "RuntimeEnvPolicy_Validate yc u p raw = Inr ()" and "yc_decode yc raw = Inr sent"
  shows "case EnforceSetupTimeout yc p raw of
      Inl _ \<Rightarrow> \<exists>e doc. yc_marshal yc doc = Inl e \<and> timeout_of p sent doc
        \<and> gget (doc_config sent) ''setup_timeout_seconds'' = None
    | Inr out \<Rightarrow> \<exists>doc. yc_decode yc out = Inr doc \<and> list_all (governed_field u p) doc
        \<and> (\<forall>field. field = ''config'' \<or> rel_option yaml_same (gget sent field) (gget doc field))
        \<and> (if sent = [] then out = raw else timeout_of p sent doc)"
proof (cases "EnforceSetupTimeout yc p raw")
  case (Inl msg)
  let ?doc = "gput ''config'' (YMap (gput ''setup_timeout_seconds'' (YInt (setupTimeoutDefault p)) (doc_config sent))) sent"
  obtain e where "gget (doc_config sent) ''setup_timeout_seconds'' = None" "yc_marshal yc ?doc = Inl e"
    using Inl assms(2,4) by (auto simp: EnforceSetupTimeout_def Let_def split: if_splits sum.splits)
  then have "yc_marshal yc ?doc = Inl e \<and> timeout_of p sent ?doc
      \<and> gget (doc_config sent) ''setup_timeout_seconds'' = None"
    using added_timeout [OF _ mapping_same_refl, of sent p] by blast
  then show ?thesis unfolding Inl sum.case by blast
next
  case (Inr out)
  show ?thesis unfolding Inr sum.case by (rule timeout_injected [OF assms(1-3) Inr assms(4)])
qed

text \<open>
  A codec that reads back what it writes: it puts every mapping in key order, writes an integral number as an
  integer and refuses what it cannot write.  Its texts are values in prefix form, with every length in unary,
  after the nesting depth of the document.
\<close>

fun settle :: "yaml \<Rightarrow> yaml" where
  "settle (YFloat (Fin q)) = (if of_int \<lfloor>q\<rfloor> = q then YInt \<lfloor>q\<rfloor> else YFloat (Fin q))"
| "settle (YSeq xs) = YSeq (map settle xs)"
| "settle (YMap m) = YMap (sort_key fst (map (\<lambda>(k, v). (k, settle v)) m))"
| "settle v = v"

fun writable :: "yaml \<Rightarrow> bool" where
  "writable (YFloat f) = False"
| "writable (YOther s) = False"
| "writable (YSeq xs) = list_all writable xs"
| "writable (YMap m) = (gwf m \<and> list_all (\<lambda>(k, v). writable v) m)"
| "writable v = True"

fun depth :: "yaml \<Rightarrow> nat" where
  "depth (YSeq xs) = Suc (foldr max (map depth xs) 0)"
| "depth (YMap m) = Suc (foldr max (map (\<lambda>(k, v). depth v) m) 0)"
| "depth v = 1"

definition put_nat :: "nat \<Rightarrow> string" where
  "put_nat n = replicate n (CHR ''x'') @ ''.''"

definition get_nat :: "string \<Rightarrow> nat \<times> string" where
  "get_nat s = (let xs = takeWhile (\<lambda>c. c = CHR ''x'') s in (length xs, drop (Suc (length xs)) s))"

definition put_str :: "string \<Rightarrow> string" where
  "put_str s = put_nat (length s) @ s"

definition get_str :: "string \<Rightarrow> string \<times> string" where
  "get_str s = (case get_nat s of (n, r) \<Rightarrow> (take n r, drop n r))"

fun put_yaml :: "yaml \<Rightarrow> string" where
  "put_yaml (YBool b) = (if b then ''t'' else ''f'')"
| "put_yaml (YInt n) = (if n < 0 then ''m'' @ put_nat (nat (- n)) else ''p'' @ put_nat (nat n))"
| "put_yaml (YStr s) = ''s'' @ put_str s"
| "put_yaml (YSeq xs) = ''q'' @ put_nat (length xs) @ concat (map put_yaml xs)"
| "put_yaml (YMap m) = ''o'' @ put_nat (length m) @ concat (map (\<lambda>(k, v). put_str k @ put_yaml v) m)"
| "put_yaml v = ''z''"

fun get_many :: "nat \<Rightarrow> (string \<Rightarrow> ('a \<times> string) option) \<Rightarrow> string \<Rightarrow> ('a list \<times> string) option" where
  "get_many 0 g s = Some ([], s)"
| "get_many (Suc n) g s = (case g s of None \<Rightarrow> None
     | Some (x, r) \<Rightarrow> (case get_many n g r of None \<Rightarrow> None | Some (xs, r') \<Rightarrow> Some (x # xs, r')))"

primrec get_yaml :: "nat \<Rightarrow> string \<Rightarrow> (yaml \<times> string) option" where
  "get_yaml 0 s = None"
| "get_yaml (Suc fuel) s = (case s of [] \<Rightarrow> None | c # r \<Rightarrow>
     if c = CHR ''z'' then Some (YNull, r)
     else if c = CHR ''t'' then Some (YBool True, r)
     else if c = CHR ''f'' then Some (YBool False, r)
     else if c = CHR ''p'' then Some (YInt (int (fst (get_nat r))), snd (get_nat r))
     else if c = CHR ''m'' then Some (YInt (- int (fst (get_nat r))), snd (get_nat r))
     else if c = CHR ''s'' then Some (YStr (fst (get_str r)), snd (get_str r))
     else if c = CHR ''q'' then
       map_option (\<lambda>(xs, r'). (YSeq xs, r')) (get_many (fst (get_nat r)) (get_yaml fuel) (snd (get_nat r)))
     else if c = CHR ''o'' then
       map_option (\<lambda>(m, r'). (YMap m, r')) (get_many (fst (get_nat r))
         (\<lambda>u. map_option (\<lambda>(v, r'). ((fst (get_str u), v), r')) (get_yaml fuel (snd (get_str u)))) (snd (get_nat r)))
     else None)"

definition prefix_codec :: yaml_codec where
  "prefix_codec = \<lparr>
     yc_decode = (\<lambda>raw. case get_yaml (fst (get_nat raw)) (snd (get_nat raw)) of
        Some (YMap m, []) \<Rightarrow> if gwf m then Inr m else Inl (Msg ''duplicate key'' [])
      | _ \<Rightarrow> Inl (Msg ''syntax'' [])),
     yc_marshal = (\<lambda>d. let v = settle (YMap d) in
        if writable v then Inr (put_nat (depth v) @ put_yaml v) else Inl (Msg ''unsupported'' []))\<rparr>"

lemma get_put_nat [simp]: "get_nat (put_nat n @ r) = (n, r)"
  by (simp add: get_nat_def put_nat_def takeWhile_append)

lemma get_put_str [simp]: "get_str (put_str s @ r) = (s, r)"
  by (simp add: get_str_def put_str_def)

lemma get_many_put:
  assumes "\<And>x r. x \<in> set xs \<Longrightarrow> g (f x @ r) = Some (x, r)"
  shows "get_many (length xs) g (concat (map f xs) @ r) = Some (xs, r)"
  using assms by (induction xs) simp_all

lemma le_foldr_max: "x \<in> set xs \<Longrightarrow> x \<le> foldr max xs (0 :: nat)"
  by (induction xs) auto

lemma get_put_yaml: "writable v \<Longrightarrow> depth v \<le> fuel \<Longrightarrow> get_yaml fuel (put_yaml v @ r) = Some (v, r)"
proof (induction v arbitrary: fuel r)
  case (YSeq xs)
  then obtain g where g: "fuel = Suc g" "foldr max (map depth xs) 0 \<le> g" by (cases fuel) auto
  have "get_yaml g (put_yaml x @ s) = Some (x, s)" if "x \<in> set xs" for x s
    using YSeq.IH [OF that] YSeq.prems(1) that g(2) le_foldr_max [of "depth x" "map depth xs"] by (auto simp: list_all_iff)
  then show ?case by (simp add: g(1) get_many_put)
next
  case (YMap m)
  then obtain g where g: "fuel = Suc g" "foldr max (map (\<lambda>(k, v). depth v) m) 0 \<le> g" by (cases fuel) auto
  let ?get = "\<lambda>u. map_option (\<lambda>(v, r'). ((fst (get_str u), v), r')) (get_yaml g (snd (get_str u)))"
  have "?get ((\<lambda>(k, v). put_str k @ put_yaml v) kv @ s) = Some (kv, s)" if kv: "kv \<in> set m" for kv s
  proof -
    obtain k v where "kv = (k, v)" by (cases kv)
    moreover have "depth v \<le> g"
      using g(2) kv calculation le_foldr_max [of "depth v" "map (\<lambda>(k, v). depth v) m"] by force
    ultimately show ?thesis
      using YMap.IH [OF kv, of v g s] YMap.prems(1) kv by (auto simp: list_all_iff)
  qed
  then show ?case by (simp add: g(1) get_many_put)
next
  case (YInt n)
  then show ?case by (cases fuel) simp_all
qed (case_tac fuel; simp)+

lemma gwf_sort [simp]: "gwf (sort_key fst m) \<longleftrightarrow> gwf m"
  unfolding gwf_def by (rule mset_eq_imp_distinct_iff) (simp add: mset_map)

lemma gget_sort: "gwf m \<Longrightarrow> gget (sort_key fst m) = gget m"
  using gget_eq_iff_set [of "sort_key fst m" m] by simp

lemma gwf_map_snd [simp]: "gwf (map (\<lambda>(k, v). (k, f v)) m) \<longleftrightarrow> gwf m"
  by (simp add: gwf_def o_def case_prod_unfold)

lemma gget_map_snd: "gget (map (\<lambda>(k, v). (k, f v)) m) k = map_option f (gget m k)"
  by (simp add: gget_def map_of_map)

lemma settle_same: "writable (settle v) \<Longrightarrow> yaml_same v (settle v)"
proof (induction v)
  case (YFloat f)
  then show ?case
    by (cases f) (auto intro: yaml_same.number simp: yaml_number_def yaml_same.refl)
next
  case (YSeq xs)
  then show ?case
    by (auto intro!: yaml_same.seq simp: list_all_iff list_all2_map2 list.rel_refl_strong)
next
  case (YMap m)
  let ?m = "map (\<lambda>(k, v). (k, settle v)) m"
  have wf: "gwf m" and ok: "list_all (\<lambda>(k, v). writable v) ?m" using YMap.prems by (simp_all add: list_all_iff)
  have "rel_option yaml_same (gget m k) (gget (sort_key fst ?m) k)" for k
  proof (cases "gget m k")
    case (Some v)
    then have "(k, v) \<in> set m" using map_of_SomeD by (simp add: gget_def)
    then have "yaml_same v (settle v)" using YMap.IH [of "(k, v)" v] ok by (auto simp: list_all_iff)
    then show ?thesis using Some wf by (simp add: gget_sort gget_map_snd)
  qed (simp add: gget_sort gget_map_snd wf)
  then show ?case using wf by (simp add: yaml_same.mapping)
qed (simp_all add: yaml_same.refl)

lemma prefix_codec_reads_back: "reads_back prefix_codec"
  unfolding reads_back_def
proof (intro conjI allI impI)
  fix raw d
  assume "yc_decode prefix_codec raw = Inr d"
  then show "gwf d"
    by (auto simp: prefix_codec_def split: option.splits yaml.splits list.splits if_splits prod.splits)
next
  fix d t
  assume "gwf d \<and> yc_marshal prefix_codec d = Inr t"
  then have t: "t = put_nat (depth (settle (YMap d))) @ put_yaml (settle (YMap d))" and ok: "writable (settle (YMap d))"
    by (auto simp: prefix_codec_def Let_def split: if_splits)
  obtain m where m: "settle (YMap d) = YMap m" by simp
  have wf: "writable (YMap m)" using ok unfolding m .
  have "get_yaml (depth (YMap m)) (put_yaml (YMap m)) = Some (YMap m, [])"
    using get_put_yaml [OF wf order_refl, of "[]"] by (simp only: append_Nil2)
  then have "yc_decode prefix_codec t = Inr m"
    using wf unfolding t m prefix_codec_def
    by (simp only: yaml_codec.simps get_put_nat fst_conv snd_conv option.case prod.case yaml.case list.case writable.simps if_True)
  moreover have "mapping_same d m" using settle_same [OF ok] unfolding m yaml_same_map by simp
  ultimately show "\<exists>d'. yc_decode prefix_codec t = Inr d' \<and> mapping_same d d'" by blast
qed

definition demo_env :: yaml_doc where
  "demo_env = [(''pip'', YSeq [YStr ''ray==2.9''])]"

definition demo_text :: string where
  "demo_text = put_nat 3 @ put_yaml (YMap demo_env)"

lemma demo_text_decoded: "yc_decode prefix_codec demo_text = Inr demo_env"
proof -
  have wf: "writable (YMap demo_env)" "depth (YMap demo_env) = 3" by (simp_all add: demo_env_def gwf_def)
  then have "get_yaml 3 (put_yaml (YMap demo_env)) = Some (YMap demo_env, [])"
    using get_put_yaml [OF wf(1), of 3 "[]"] by (simp only: append_Nil2)
  then show ?thesis
    using wf(1) unfolding demo_text_def prefix_codec_def
    by (simp only: yaml_codec.simps get_put_nat fst_conv snd_conv option.case prod.case yaml.case list.case writable.simps if_True)
qed

lemma demo_text_plain: "TrimSpace demo_text = demo_text" "demo_text \<noteq> []" "length demo_text \<le> 65536"
proof -
  show "TrimSpace demo_text = demo_text"
    by (rule TrimSpace_plain) (simp_all add: demo_text_def put_nat_def demo_env_def put_str_def plain_char_def ascii_space_def)
qed (simp_all add: demo_text_def put_nat_def demo_env_def put_str_def)

theorem setup_timeout_bounded_witness:
  "\<exists>out doc. EnforceSetupTimeout prefix_codec RuntimeEnvPolicy_zero demo_text = Inr out
     \<and> yc_decode prefix_codec out = Inr doc \<and> timeout_of RuntimeEnvPolicy_zero demo_env doc"
proof -
  have d: "setupTimeoutDefault RuntimeEnvPolicy_zero = 600" "rp_MaxDocumentBytes RuntimeEnvPolicy_zero = 0"
    by (simp_all add: setupTimeoutDefault_def RuntimeEnvPolicy_zero_def DefaultSetupTimeoutSeconds_def)
  have valid: "RuntimeEnvPolicy_Validate prefix_codec ascii_case RuntimeEnvPolicy_zero demo_text = Inr ()"
    unfolding Validate_ok using demo_text_decoded demo_text_plain(3) pinned_ray
    by (simp add: d DefaultMaxDocumentBytes_def demo_env_def)
  have "writable (settle (YMap (gput ''config'' (YMap [(''setup_timeout_seconds'', YInt 600)]) demo_env)))"
    by (simp add: demo_env_def gput_def gwf_def)
  then obtain out where out: "EnforceSetupTimeout prefix_codec RuntimeEnvPolicy_zero demo_text = Inr out"
    using demo_text_decoded demo_text_plain(1,2)
    by (auto simp: EnforceSetupTimeout_def d doc_config_def demo_env_def gget_def gput_def prefix_codec_def Let_def)
  show ?thesis
    using setup_timeout_bounded [OF prefix_codec_reads_back _ valid demo_text_decoded] demo_text_plain(1,2) out
    by (auto simp: demo_env_def)
qed

end
