(* ===== verification/Registry_Props.thy ===== *)
theory Registry_Props
  imports Core_Registry
begin

text \<open>
  Two promises of the gateway's routing table (\<^verbatim>\<open>internal/core/registry.go\<close>).  Whatever workloads register and
  deregister while the gateway runs, every endpoint stays reachable under its own host name and id, and none
  takes over a route of the configuration file.  And no spelling of a dotted-decimal address gets past the
  screen of the southbound URLs.
\<close>


section \<open>Routing\<close>

inductive registered :: "(nat \<Rightarrow> nat) \<Rightarrow> ClusterEndpoint list \<Rightarrow> ClusterRegistry \<Rightarrow> bool"
  for fold_of :: "nat \<Rightarrow> nat" and cs :: "ClusterEndpoint list"
where
  loaded: "registered fold_of cs \<lparr>cr_Clusters = cs, cr_dynamic = []\<rparr>"
| register: "registered fold_of cs r \<Longrightarrow> registered fold_of cs (snd (Register fold_of c r))"
| deregister: "registered fold_of cs r \<Longrightarrow> registered fold_of cs (Deregister i r)"

definition routable :: "(nat \<Rightarrow> nat) \<Rightarrow> ClusterRegistry \<Rightarrow> string \<Rightarrow> ClusterEndpoint \<Rightarrow> bool" where
  "routable fold_of r i d =
     (ep_Id d = i \<and> dynamic_url_error d = None \<and> static_clash fold_of d (cr_Clusters r) = None \<and>
      (\<forall>j e. gget (cr_dynamic r) j = Some e \<longrightarrow> EqualFold fold_of (ep_Hostname e) (ep_Hostname d) \<longrightarrow> j = i))"

definition registry_inv :: "(nat \<Rightarrow> nat) \<Rightarrow> ClusterRegistry \<Rightarrow> bool" where
  "registry_inv fold_of r =
     (gwf (cr_dynamic r) \<and> (\<forall>i d. gget (cr_dynamic r) i = Some d \<longrightarrow> routable fold_of r i d))"

lemma static_clash_None:
  "static_clash fold_of c ss = None \<longleftrightarrow>
     (\<forall>s\<in>set ss. ep_Id s \<noteq> ep_Id c \<and> \<not> EqualFold fold_of (ep_Hostname s) (ep_Hostname c))"
  by (induction ss) auto

lemma EqualFold_trans:
  "EqualFold f a b \<Longrightarrow> EqualFold f c b \<Longrightarrow> EqualFold f a c"
  "EqualFold f a b \<Longrightarrow> EqualFold f b a"
  by (simp_all add: EqualFold_def)

lemma Upsert_cases:
  obtains (refused) e where "Upsert fold_of c r = (Inl e, r)"
  | (accepted) "Upsert fold_of c r = (Inr (), r\<lparr>cr_dynamic := gput (ep_Id c) c (cr_dynamic r)\<rparr>)"
      "dynamic_url_error c = None" "static_clash fold_of c (cr_Clusters r) = None"
      "\<And>i d. (i, d) \<in> set (cr_dynamic r) \<Longrightarrow> EqualFold fold_of (ep_Hostname d) (ep_Hostname c) \<Longrightarrow> i = ep_Id c"
proof -
  let ?taken = "list_ex (\<lambda>(i, d). i \<noteq> ep_Id c \<and> EqualFold fold_of (ep_Hostname d) (ep_Hostname c)) (cr_dynamic r)"
  consider "ep_Hostname c = [] \<or> hasInvalidHostnameChar (ep_Hostname c)"
    | reason where "\<not> (ep_Hostname c = [] \<or> hasInvalidHostnameChar (ep_Hostname c))" "dynamic_url_error c = Some reason"
    | e where "\<not> (ep_Hostname c = [] \<or> hasInvalidHostnameChar (ep_Hostname c))" "dynamic_url_error c = None"
        "static_clash fold_of c (cr_Clusters r) = Some e"
    | "\<not> (ep_Hostname c = [] \<or> hasInvalidHostnameChar (ep_Hostname c))" "dynamic_url_error c = None"
        "static_clash fold_of c (cr_Clusters r) = None" ?taken
    | "\<not> (ep_Hostname c = [] \<or> hasInvalidHostnameChar (ep_Hostname c))" "dynamic_url_error c = None"
        "static_clash fold_of c (cr_Clusters r) = None" "\<not> ?taken"
    by blast
  then show thesis
  proof cases
    case 5
    have "i = ep_Id c" if "(i, d) \<in> set (cr_dynamic r)" "EqualFold fold_of (ep_Hostname d) (ep_Hostname c)" for i d
      using 5(4) that by (auto simp: list_ex_iff)
    with 5 show ?thesis
      by (intro accepted) (simp_all add: Upsert_def)
  qed (rule refused, simp add: Upsert_def)+
qed

lemma registry_inv_Upsert:
  assumes "registry_inv fold_of r"
  shows "registry_inv fold_of (snd (Upsert fold_of c r))"
proof (cases rule: Upsert_cases [of fold_of c r])
  case accepted
  let ?r = "r\<lparr>cr_dynamic := gput (ep_Id c) c (cr_dynamic r)\<rparr>"
  have other: "i = ep_Id c" if "gget (cr_dynamic r) i = Some d" "EqualFold fold_of (ep_Hostname d) (ep_Hostname c)" for i d
    using accepted(4) gget_SomeD [OF that(1)] that(2) by blast
  have "routable fold_of ?r i d" if g: "gget (cr_dynamic ?r) i = Some d" for i d
  proof (cases "i = ep_Id c")
    case True
    then show ?thesis
      using g accepted(2,3) other by (auto simp: routable_def gget_gput)
  next
    case False
    then have "gget (cr_dynamic r) i = Some d" "routable fold_of r i d"
      using g assms by (auto simp: registry_inv_def gget_gput)
    then show ?thesis
      using False other [of i d] EqualFold_trans(2) [of fold_of "ep_Hostname c" "ep_Hostname d"]
      by (auto simp: routable_def gget_gput)
  qed
  then show ?thesis
    using assms accepted(1) by (simp add: registry_inv_def)
qed (use assms in simp)

lemma registry_inv_Remove: "registry_inv fold_of r \<Longrightarrow> registry_inv fold_of (snd (Remove i r))"
  by (auto simp: registry_inv_def routable_def Remove_def gget_gdel split: option.splits if_splits)

lemma registered_inv: "registered fold_of cs r \<Longrightarrow> registry_inv fold_of r \<and> cr_Clusters r = cs"
proof (induction rule: registered.induct)
  case (register r c)
  then show ?case
    using registry_inv_Upsert [of fold_of r c]
    by (cases rule: Upsert_cases [of fold_of c r]) (auto simp: Register_def)
next
  case (deregister r i)
  then show ?case
    using registry_inv_Remove [of fold_of r i] by (auto simp: Deregister_def Remove_def split: option.splits)
qed (simp add: registry_inv_def gget_Nil)

lemma find_unique:
  assumes "x \<in> set xs" "P x" "\<And>y. y \<in> set xs \<Longrightarrow> P y \<Longrightarrow> y = x"
  shows "find P xs = Some x"
proof (cases "find P xs")
  case None
  then show ?thesis using assms(1,2) by (auto simp: find_None_iff)
next
  case (Some y)
  then have "y \<in> set xs" "P y" by (auto simp: find_Some_iff)
  with Some assms(3) show ?thesis by simp
qed

lemma ByHostname_dynamic:
  assumes "registry_inv fold_of r" "gget (cr_dynamic r) i = Some d" "EqualFold fold_of (ep_Hostname d) (stripPort host)"
  shows "ByHostname fold_of host r = Some (stamp d RegistrySourceDynamic)"
proof -
  have wf: "gwf (cr_dynamic r)" and rd: "routable fold_of r i d"
    using assms by (auto simp: registry_inv_def)
  have "\<not> EqualFold fold_of (ep_Hostname s) (stripPort host)" if "s \<in> set (cr_Clusters r)" for s
    using that rd EqualFold_trans(1) [OF _ assms(3)] unfolding routable_def static_clash_None by blast
  then have no_static: "find (\<lambda>c. EqualFold fold_of (ep_Hostname c) (stripPort host)) (cr_Clusters r) = None"
    by (simp add: find_None_iff)
  have "find (\<lambda>e. EqualFold fold_of (ep_Hostname e) (stripPort host)) (gvals (cr_dynamic r)) = Some d"
  proof (rule find_unique)
    show "d \<in> set (gvals (cr_dynamic r))"
      using gget_SomeD [OF assms(2)] image_eqI [of d snd "(i, d)"] by (simp add: gvals_def)
    fix e
    assume "e \<in> set (gvals (cr_dynamic r))" and m: "EqualFold fold_of (ep_Hostname e) (stripPort host)"
    then obtain j where "gget (cr_dynamic r) j = Some e"
      by (auto simp: gvals_def gget_eq_Some [OF wf])
    moreover have "EqualFold fold_of (ep_Hostname e) (ep_Hostname d)"
      by (rule EqualFold_trans(1) [OF m assms(3)])
    ultimately have "j = i" "gget (cr_dynamic r) j = Some e"
      using rd unfolding routable_def by blast+
    then show "e = d"
      using assms(2) by simp
  qed (rule assms(3))
  then show ?thesis
    using no_static by (simp add: ByHostname_def)
qed

lemma ByID_dynamic:
  assumes "registry_inv fold_of r" "gget (cr_dynamic r) i = Some d"
  shows "ByID i r = Some (stamp d RegistrySourceDynamic)"
proof -
  have "routable fold_of r i d"
    using assms by (auto simp: registry_inv_def)
  then have "find (\<lambda>c. ep_Id c = i) (cr_Clusters r) = None"
    by (auto simp: find_None_iff routable_def static_clash_None)
  then show ?thesis
    using assms(2) by (simp add: ByID_def)
qed

text \<open>
  C21. In every registry reachable from the configuration file by registrations and deregistrations the file's
  own entries are untouched and every route they answer keeps its answer; a registered endpoint is what lookup
  by its id returns and what lookup by any spelling of its host name returns, whatever the iteration order of
  the map; and its URL has passed the southbound screen.
\<close>

theorem registry_routing:
  assumes "registered fold_of cs r"
  shows "cr_Clusters r = cs \<and>
    (\<forall>i d. gget (cr_dynamic r) i = Some d \<longrightarrow>
       ep_Id d = i \<and> dynamic_url_error d = None \<and> ByID i r = Some (stamp d RegistrySourceDynamic) \<and>
       (\<forall>host. EqualFold fold_of (ep_Hostname d) (stripPort host) \<longrightarrow>
          ByHostname fold_of host r = Some (stamp d RegistrySourceDynamic))) \<and>
    (\<forall>host c. ByHostname fold_of host \<lparr>cr_Clusters = cs, cr_dynamic = []\<rparr> = Some c \<longrightarrow>
       ByHostname fold_of host r = Some c) \<and>
    (\<forall>i c. ByID i \<lparr>cr_Clusters = cs, cr_dynamic = []\<rparr> = Some c \<longrightarrow> ByID i r = Some c)"
proof -
  have inv: "registry_inv fold_of r" and cs: "cr_Clusters r = cs"
    using registered_inv [OF assms] by auto
  have "ep_Id d = i \<and> dynamic_url_error d = None \<and> ByID i r = Some (stamp d RegistrySourceDynamic) \<and>
       (\<forall>host. EqualFold fold_of (ep_Hostname d) (stripPort host) \<longrightarrow>
          ByHostname fold_of host r = Some (stamp d RegistrySourceDynamic))"
    if "gget (cr_dynamic r) i = Some d" for i d
    using inv that ByID_dynamic [OF inv that] ByHostname_dynamic [OF inv that]
    by (auto simp: registry_inv_def routable_def)
  moreover have "ByHostname fold_of host r = Some c"
    if "ByHostname fold_of host \<lparr>cr_Clusters = cs, cr_dynamic = []\<rparr> = Some c" for host c
    using that by (auto simp: ByHostname_def Let_def cs gvals_def split: option.splits)
  moreover have "ByID i r = Some c" if "ByID i \<lparr>cr_Clusters = cs, cr_dynamic = []\<rparr> = Some c" for i c
    using that by (auto simp: ByID_def cs gget_Nil split: option.splits)
  ultimately show ?thesis
    using cs by blast
qed


section \<open>Southbound literals\<close>

definition dotted :: "nat \<Rightarrow> nat \<Rightarrow> nat \<Rightarrow> nat \<Rightarrow> string" where
  "dotted a b c d = nat_digits a @ CHR ''.'' # nat_digits b @ CHR ''.'' # nat_digits c @ CHR ''.'' # nat_digits d"

definition link_local :: "nat \<Rightarrow> nat \<Rightarrow> bool" where
  "link_local a b = (a = 169 \<and> b = 254 \<or> a = 100 \<and> 64 \<le> b \<and> b < 128)"

definition local_host :: "nat \<Rightarrow> nat \<Rightarrow> nat \<Rightarrow> nat \<Rightarrow> bool" where
  "local_host a b c d = (a = 127 \<or> a + b + c + d = 0)"

definition private_net :: "nat \<Rightarrow> nat \<Rightarrow> bool" where
  "private_net a b = (a = 10 \<or> a = 172 \<and> 16 \<le> b \<and> b < 32 \<or> a = 192 \<and> b = 168)"

lemma split_on_cut: "c \<notin> set x \<Longrightarrow> split_on c (x @ c # y) = x # split_on c y"
  by (induction x) (auto simp: split_on_def)

lemma split_on_plain: "c \<notin> set x \<Longrightarrow> split_on c x = [x]"
  by (induction x) (auto simp: split_on_def)

lemma length_split_on: "length (split_on c s) = Suc (length (filter (\<lambda>x. x = c) s))"
proof -
  have "foldr (\<lambda>x acc. if x = c then [] # acc else (x # hd acc) # tl acc) s [[]] \<noteq> [] \<and>
    length (foldr (\<lambda>x acc. if x = c then [] # acc else (x # hd acc) # tl acc) s [[]]) = Suc (length (filter (\<lambda>x. x = c) s))"
    by (induction s) (auto simp: neq_Nil_conv)
  then show ?thesis by (simp add: split_on_def)
qed

lemma digit_value: "n < 10 \<Longrightarrow> of_char (digit_char n) - 48 = n"
  by (simp add: digit_char_def of_char_of)

lemma nat_digits_value: "foldl (\<lambda>a c. a * 10 + (of_char c - 48)) 0 (nat_digits n) = n"
  by (induction n rule: nat_digits.induct) (subst nat_digits.simps, simp add: digit_value)

lemma nat_digits_lead: "n \<noteq> 0 \<Longrightarrow> hd (nat_digits n) \<noteq> CHR ''0''"
proof (induction n rule: nat_digits.induct)
  case (1 n)
  have "digit_char n \<noteq> CHR ''0''" if "n < 10"
  proof
    assume "digit_char n = CHR ''0''"
    then have "of_char (digit_char n) = (48 :: nat)" by simp
    then show False using that 1(2) by (simp add: digit_char_def of_char_of)
  qed
  then show ?case
    using 1 by (subst nat_digits.simps) (auto simp: hd_append)
qed

lemma nat_digits_single: "n < 10 \<Longrightarrow> length (nat_digits n) = 1"
  by (subst nat_digits.simps) simp

lemma nat_digits_short: "n < 256 \<Longrightarrow> length (nat_digits n) \<le> 3"
  using nat_digits_single [of n] nat_digits_single [of "n div 10"] nat_digits_single [of "n div 10 div 10"]
  by (subst nat_digits.simps, subst nat_digits.simps, subst nat_digits.simps) auto

lemma octet:
  assumes "n < 256"
  shows "ipv4_field (nat_digits n) = Some n" "list_all is_digit (nat_digits n)"
proof -
  show ds: "list_all is_digit (nat_digits n)"
    using nat_digits_digits by (auto simp: list_all_iff)
  have "1 < length (nat_digits n) \<Longrightarrow> hd (nat_digits n) \<noteq> CHR ''0''"
    using nat_digits_lead [of n] nat_digits_single [of n] by (cases "n = 0") auto
  then show "ipv4_field (nat_digits n) = Some n"
    using ds assms by (auto simp: ipv4_field_def isAllDigits_def nat_digits_value Let_def)
qed

lemma digits_plain:
  assumes "list_all is_digit xs" "\<not> is_digit k"
  shows "k \<notin> set xs"
  using assms by (auto simp: list_all_iff)

lemma not_digits: "\<not> is_digit CHR ''.''" "\<not> is_digit CHR '':''" "\<not> is_digit CHR ''%''" "\<not> is_digit CHR ''/''"
  "\<not> is_digit CHR ''?''" "\<not> is_digit CHR ''@''" "\<not> is_digit CHR ''#''" "\<not> is_digit CHR ''[''" "\<not> is_digit CHR '']''"
  by code_simp+

lemmas octet_plain = digits_plain [OF octet(2)] not_digits

lemma parseIPv4_dotted:
  assumes "a < 256" "b < 256" "c < 256" "d < 256"
  shows "parseIPv4 (dotted a b c d) = Some [a, b, c, d]"
proof -
  have "split_on CHR ''.'' (dotted a b c d) = [nat_digits a, nat_digits b, nat_digits c, nat_digits d]"
    using assms by (simp add: dotted_def split_on_cut split_on_plain octet_plain)
  then show ?thesis
    using assms by (simp add: parseIPv4_def octet)
qed

lemma set_dotted:
  assumes "a < 256" "b < 256" "c < 256" "d < 256" "\<not> is_digit k" "k \<noteq> CHR ''.''"
  shows "k \<notin> set (dotted a b c d)"
  using assms by (simp add: dotted_def octet_plain)

lemma find_append: "find P (xs @ ys) = (case find P xs of None \<Rightarrow> find P ys | Some x \<Rightarrow> Some x)"
  by (induction xs) auto

lemma ParseIP_dotted:
  assumes "a < 256" "b < 256" "c < 256" "d < 256"
  shows "ParseIP (dotted a b c d) = Some (v4_prefix @ [a, b, c, d])"
proof -
  have "find (\<lambda>k. k = CHR ''.'' \<or> k = CHR '':'' \<or> k = CHR ''%'') (nat_digits a) = None"
    using assms(1) octet_plain by (auto simp: find_None_iff)
  then have "find (\<lambda>k. k = CHR ''.'' \<or> k = CHR '':'' \<or> k = CHR ''%'') (dotted a b c d) = Some CHR ''.''"
    by (simp add: dotted_def find_append)
  then show ?thesis
    by (simp add: ParseIP_def parseIPv4_dotted assms)
qed

lemma ParseIP_trailing_dots:
  assumes "a < 256" "b < 256" "c < 256" "d < 256" "0 < n"
  shows "ParseIP (dotted a b c d @ replicate n CHR ''.'') = None"
proof -
  let ?x = "dotted a b c d @ replicate n CHR ''.''"
  have "filter (\<lambda>x. x = CHR ''.'') (nat_digits k) = []" if "k < 256" for k
    using octet_plain(1) [OF that, of "CHR ''.''"] not_digits by (auto simp: filter_empty_conv)
  then have "length (split_on CHR ''.'' ?x) = 4 + n"
    using assms by (simp add: length_split_on dotted_def)
  then have "parseIPv4 ?x = None"
    using assms(5) by (simp add: parseIPv4_def Let_def)
  moreover have "find (\<lambda>k. k = CHR ''.'' \<or> k = CHR '':'' \<or> k = CHR ''%'') (nat_digits a) = None"
    using assms(1) octet_plain by (auto simp: find_None_iff)
  then have "find (\<lambda>k. k = CHR ''.'' \<or> k = CHR '':'' \<or> k = CHR ''%'') ?x = Some CHR ''.''"
    by (simp add: dotted_def find_append)
  ultimately show ?thesis
    by (simp add: ParseIP_def)
qed

lemma hex_value_digit: "is_digit k \<Longrightarrow> hex_value k = Some (of_char k - 48)"
  by (simp add: hex_value_def)

lemma digit_first: "n < 256 \<Longrightarrow> \<not> is_digit k \<Longrightarrow> hd (nat_digits n) \<noteq> k"
  using octet_plain(1) [of n k] hd_in_set [OF nat_digits_not_Nil, of n] by auto

lemma mapped_group:
  assumes "v \<noteq> []" "hd v \<noteq> CHR '':''"
  shows "ipv6_groups (''ffff:'' @ v) [] (Some 0) = ipv6_groups v [255, 255] (Some 0)"
proof -
  have "hex_run (''ffff:'' @ v) = ''ffff''"
    by (simp add: hex_run_def hex_value_def is_digit_def)
  then show ?thesis
    using assms by (subst ipv6_groups.simps) (simp add: Let_def hex_value_def is_digit_def)
qed

lemma ParseIP_mapped:
  assumes "a < 256" "b < 256" "c < 256" "d < 256"
  shows "ParseIP (''::ffff:'' @ dotted a b c d) = Some (v4_prefix @ [a, b, c, d])"
proof -
  let ?v4 = "dotted a b c d"
  have run: "hex_run ?v4 = nat_digits a"
    using octet(2) [OF assms(1)] not_digits(1)
    by (auto simp: hex_run_def dotted_def takeWhile_append2 list_all_iff hex_value_digit)
      (simp add: hex_value_def takeWhile_append2 list_all_iff hex_value_digit)
  have rest: "drop (length (nat_digits a)) ?v4 = CHR ''.'' # nat_digits b @ CHR ''.'' # nat_digits c @ CHR ''.'' # nat_digits d"
    by (simp add: dotted_def)
  have "ipv6_groups ?v4 [255, 255] (Some 0) = Some ([255, 255, a, b, c, d], Some 0, [])"
    using nat_digits_short [OF assms(1)]
    by (subst ipv6_groups.simps) (simp add: Let_def run rest parseIPv4_dotted assms)
  then have "ipv6_groups (''ffff:'' @ ?v4) [] (Some 0) = Some ([255, 255, a, b, c, d], Some 0, [])"
    using mapped_group [of ?v4] digit_first [OF assms(1), of "CHR '':''"] not_digits(2)
    by (simp add: dotted_def hd_append)
  moreover have "CHR ''%'' \<notin> set ?v4"
    using set_dotted [OF assms, of "CHR ''%''"] not_digits by simp
  ultimately show ?thesis
    by (simp add: ParseIP_def parseIPv6_def HasPrefix_def ipv6_expand_def v4_prefix_def)
qed

lemma To4_mapped: "To4 (v4_prefix @ [a, b, c, d]) = Some [a, b, c, d]"
  by (simp add: To4_def v4_prefix_def)

lemma screened_address:
  "isDeniedSouthboundIP (v4_prefix @ [a, b, c, d]) = link_local a b"
  "(IsLoopback (v4_prefix @ [a, b, c, d]) \<or> IsUnspecified (v4_prefix @ [a, b, c, d])) = local_host a b c d"
  "isPrivateSouthboundIP (v4_prefix @ [a, b, c, d]) = (local_host a b c d \<or> private_net a b)"
proof -
  have "(v4_prefix @ [a, b, c, d]) ! 10 = 255"
    by (simp add: v4_prefix_def nth_append)
  then have other: "v4_prefix @ [a, b, c, d] \<noteq> replicate 16 0"
    using nth_replicate [of 10 16 "0 :: nat"] by auto
  have zero: "v4_prefix @ [a, b, c, d] = v4_prefix @ replicate 4 0 \<longleftrightarrow> a + b + c + d = 0"
    by (simp add: numeral_eq_Suc)
  show "isDeniedSouthboundIP (v4_prefix @ [a, b, c, d]) = link_local a b"
    by (simp add: isDeniedSouthboundIP_def To4_mapped link_local_def)
  show own: "(IsLoopback (v4_prefix @ [a, b, c, d]) \<or> IsUnspecified (v4_prefix @ [a, b, c, d])) = local_host a b c d"
    by (simp only: IsLoopback_def IsUnspecified_def To4_mapped other zero local_host_def option.case nth_Cons_0 simp_thms)
  show "isPrivateSouthboundIP (v4_prefix @ [a, b, c, d]) = (local_host a b c d \<or> private_net a b)"
    unfolding isPrivateSouthboundIP_def own by (simp add: To4_mapped private_net_def)
qed

text \<open>
  The spellings: a scheme, the address in dotted decimal followed by any number of dots, or in the IPv4-mapped
  form of IPv6, and then a port, a zone, a path or a query.  Numeric hosts of other shapes (fewer than four
  parts, octal or hexadecimal parts), which some resolvers also read as addresses, are no spellings here.
\<close>

definition url_tail :: "char list \<Rightarrow> string \<Rightarrow> bool" where
  "url_tail starts t = (CHR ''@'' \<notin> set t \<and> CHR ''#'' \<notin> set t \<and> (t = [] \<or> hd t \<in> set starts))"

definition spelled :: "string \<Rightarrow> nat \<Rightarrow> nat \<Rightarrow> nat \<Rightarrow> nat \<Rightarrow> nat \<Rightarrow> bool" where
  "spelled url n a b c d = (\<exists>scheme\<in>{''http://'', ''https://''}. \<exists>t.
     url_tail '':%/?'' t \<and> url = scheme @ dotted a b c d @ replicate n CHR ''.'' @ t \<or>
     url_tail '':/?'' t \<and> n = 0 \<and> url = scheme @ CHR ''['' # ''::ffff:'' @ dotted a b c d @ CHR '']'' # t)"

lemma scheme_cut:
  assumes "scheme \<in> {''http://'', ''https://''}"
  shows "HasPrefix (scheme @ s) ''https://'' \<or> HasPrefix (scheme @ s) ''http://''" "url_rest (scheme @ s) = s"
    "CHR ''#'' \<in> set (scheme @ s) \<longleftrightarrow> CHR ''#'' \<in> set s"
proof -
  have "\<not> HasPrefix (''http://'' @ s) ''https://''"
    by (simp add: HasPrefix_def)
  then show "HasPrefix (scheme @ s) ''https://'' \<or> HasPrefix (scheme @ s) ''http://''" "url_rest (scheme @ s) = s"
    "CHR ''#'' \<in> set (scheme @ s) \<longleftrightarrow> CHR ''#'' \<in> set s"
    using assms HasPrefix_append [of "''https://''" s] HasPrefix_append [of "''http://''" s]
    by (elim insertE; simp add: url_rest_def)+
qed

lemma cut_at_append: "\<not> list_ex p x \<Longrightarrow> cut_at p (x @ y) = x @ cut_at p y"
  by (simp add: cut_at_def list_ex_iff takeWhile_append2)

lemma cut_at_stop: "x = [] \<or> p (hd x) \<Longrightarrow> cut_at p x = []"
  by (cases x) (auto simp: cut_at_def)

lemma cut_at_shorter: "set (cut_at p x) \<subseteq> set x" "cut_at p x = [] \<or> hd (cut_at p x) = hd x"
  by (cases x; auto simp: cut_at_def dest: set_takeWhileD)+

abbreviation authority_end :: "char \<Rightarrow> bool" where
  "authority_end k \<equiv> k = CHR ''/'' \<or> k = CHR ''?'' \<or> k = CHR ''#''"

lemma screen_by_host:
  assumes "scheme \<in> {''http://'', ''https://''}" "url = scheme @ x @ t"
    and "x \<noteq> []" "\<not> list_ex authority_end x" "CHR ''@'' \<notin> set x" "url_tail starts t"
    and "authorityHost (x @ cut_at authority_end t) = host" "host \<noteq> []"
  shows "urlShapeError url =
     (let trimmed = rev (dropWhile (\<lambda>k. k = CHR ''.'') (rev host)) in
      if ParseIP host = None \<and> trimmed \<noteq> host \<and> ParseIP trimmed \<noteq> None
      then Inl ''trailing-dot FQDN form of a literal IP is not a cluster endpoint''
      else if ParseIP host = None \<and> isInetAtonShapedHost trimmed
      then Inl ''host is an inet_aton-style numeric form (e.g. 2130706433, 0x7f000001, 127.1), not a DNS name''
      else Inr (x @ cut_at authority_end t))"
proof -
  have au: "cut_at authority_end (url_rest url) = x @ cut_at authority_end t"
    by (simp add: assms(2) scheme_cut(2) [OF assms(1)] cut_at_append [OF assms(4)])
  have "CHR ''@'' \<notin> set (x @ cut_at authority_end t)"
    using assms(5,6) cut_at_shorter(1) [of authority_end t] by (auto simp: url_tail_def)
  moreover have "CHR ''#'' \<notin> set x" "CHR ''#'' \<notin> set t"
    using assms(4,6) by (auto simp: url_tail_def list_ex_iff)
  then have "CHR ''#'' \<notin> set url"
    unfolding assms(2) scheme_cut(3) [OF assms(1)] by simp
  moreover have "(\<not> HasPrefix url ''https://'' \<and> \<not> HasPrefix url ''http://'') = False"
    using scheme_cut(1) [OF assms(1), of "x @ t"] unfolding assms(2) by blast
  moreover have "x @ cut_at authority_end t \<noteq> []"
    using assms(3) by simp
  ultimately show ?thesis
    using assms(8) unfolding urlShapeError_def Let_def au assms(7) by (simp only: if_False simp_thms)
qed

lemma plain_host:
  assumes "x \<noteq> []" "hd x \<noteq> CHR ''[''" "CHR '':'' \<notin> set x" "CHR ''%'' \<notin> set x" "y = [] \<or> hd y = CHR '':'' \<or> hd y = CHR ''%''"
  shows "authorityHost (x @ y) = x"
proof -
  have "cut_at (\<lambda>k. k = CHR ''%'') (cut_at (\<lambda>k. k = CHR '':'') y) = []"
    using assms(5) cut_at_shorter(2) [of "\<lambda>k. k = CHR '':''" y] cut_at_stop [of y "\<lambda>k. k = CHR '':''"]
    by (intro cut_at_stop) auto
  moreover have "\<not> HasPrefix (x @ y) ''[''"
    using assms(1,2) by (cases x) (simp_all add: HasPrefix_def)
  ultimately show ?thesis
    using assms(3,4) by (simp add: authorityHost_def cut_at_append list_ex_iff)
qed

lemma trim_dots:
  assumes "x \<noteq> []" "last x \<noteq> k"
  shows "rev (dropWhile (\<lambda>c. c = k) (rev (x @ replicate n k))) = x"
proof -
  have "dropWhile (\<lambda>c. c = k) (replicate n k @ rev x) = rev x"
    using assms by (induction n) (auto simp: hd_rev neq_Nil_conv dropWhile_eq_self_iff)
  then show ?thesis by simp
qed

lemma tail_start:
  assumes "url_tail '':%/?'' t"
  shows "cut_at authority_end t = [] \<or> hd (cut_at authority_end t) = CHR '':'' \<or> hd (cut_at authority_end t) = CHR ''%''"
proof (cases "t = [] \<or> authority_end (hd t)")
  case True
  then show ?thesis using cut_at_stop [of t authority_end] by blast
next
  case False
  then show ?thesis
    using assms cut_at_shorter(2) [of authority_end t] by (auto simp: url_tail_def)
qed

lemma no_end: "CHR ''/'' \<notin> set x \<Longrightarrow> CHR ''?'' \<notin> set x \<Longrightarrow> CHR ''#'' \<notin> set x \<Longrightarrow> \<not> list_ex authority_end x"
  by (auto simp: list_ex_iff)

lemma dotted_screen:
  assumes "a < 256" "b < 256" "c < 256" "d < 256" "scheme \<in> {''http://'', ''https://''}"
    and "url_tail '':%/?'' t" "url = scheme @ dotted a b c d @ replicate n CHR ''.'' @ t"
  shows "if n = 0 then \<exists>au. urlShapeError url = Inr au \<and> ParseIP (authorityHost au) = Some (v4_prefix @ [a, b, c, d])
         else \<exists>reason. urlShapeError url = Inl reason"
proof -
  let ?x = "dotted a b c d @ replicate n CHR ''.''" and ?y = "cut_at authority_end t"
  have plain: "k \<notin> set ?x" if "\<not> is_digit k" "k \<noteq> CHR ''.''" for k
    using set_dotted [OF assms(1-4) that] that(2) by (cases "n = 0") auto
  have start: "?x \<noteq> []" "hd ?x \<noteq> CHR ''[''"
    using digit_first [OF assms(1) not_digits(8)] by (simp_all add: dotted_def hd_append)
  have host: "authorityHost (?x @ ?y) = ?x"
    by (intro plain_host start plain not_digits tail_start [OF assms(6)]; simp)
  have "last (nat_digits d) \<noteq> CHR ''.''"
    using octet_plain(1) [OF assms(4) not_digits(1)] last_in_set [OF nat_digits_not_Nil, of d] by metis
  then have "last (dotted a b c d) \<noteq> CHR ''.''" "dotted a b c d \<noteq> []"
    by (simp_all add: dotted_def)
  note trimmed = trim_dots [OF this(2,1), of n]
  have inside: "\<not> list_ex authority_end ?x" "CHR ''@'' \<notin> set ?x"
    by (intro no_end plain not_digits; simp)+
  have "url = scheme @ ?x @ t"
    using assms(7) by simp
  note shape = screen_by_host [OF assms(5) this start(1) inside assms(6) host start(1), unfolded trimmed Let_def]
  show ?thesis
  proof (cases "n = 0")
    case True
    then have "ParseIP ?x = Some (v4_prefix @ [a, b, c, d])"
      using ParseIP_dotted [OF assms(1-4)] by simp
    moreover from this have "urlShapeError url = Inr (?x @ ?y)"
      unfolding shape by (simp only: option.distinct simp_thms if_False)
    ultimately have "urlShapeError url = Inr (?x @ ?y) \<and> ParseIP (authorityHost (?x @ ?y)) = Some (v4_prefix @ [a, b, c, d])"
      unfolding host by blast
    with True show ?thesis by (simp only: refl if_True) blast
  next
    case False
    then have "ParseIP ?x = None" "dotted a b c d \<noteq> ?x" "ParseIP (dotted a b c d) \<noteq> None"
      using ParseIP_trailing_dots [OF assms(1-4)] ParseIP_dotted [OF assms(1-4)] by simp_all
    then have "\<exists>reason. urlShapeError url = Inl reason"
      unfolding shape by (simp only: simp_thms if_True sum.inject)
    with False show ?thesis by (simp only: if_False)
  qed
qed

lemma takeWhile_cut:
  "k \<notin> set x \<Longrightarrow> takeWhile (\<lambda>c. c \<noteq> k) (x @ k # y) = x"
  "k \<notin> set x \<Longrightarrow> takeWhile (\<lambda>c. c \<noteq> k) x = x"
  by (induction x) auto

lemma mapped_screen:
  assumes "a < 256" "b < 256" "c < 256" "d < 256" "scheme \<in> {''http://'', ''https://''}"
    and "url_tail '':/?'' t" "url = scheme @ CHR ''['' # ''::ffff:'' @ dotted a b c d @ CHR '']'' # t"
  shows "\<exists>au. urlShapeError url = Inr au \<and> ParseIP (authorityHost au) = Some (v4_prefix @ [a, b, c, d])"
proof -
  let ?h = "''::ffff:'' @ dotted a b c d" and ?y = "cut_at authority_end t"
  let ?x = "CHR ''['' # ?h @ '']''"
  have plain: "k \<notin> set (dotted a b c d)" if "\<not> is_digit k" "k \<noteq> CHR ''.''" for k
    by (rule set_dotted [OF assms(1-4) that])
  have host: "authorityHost (?x @ ?y) = ?h"
    by (simp add: authorityHost_def HasPrefix_def cut_at_def takeWhile_cut plain not_digits)
  have "\<not> list_ex authority_end ?x"
    by (intro no_end; simp add: plain not_digits)
  moreover have "CHR ''@'' \<notin> set ?x"
    by (simp add: plain not_digits)
  ultimately have inside: "\<not> list_ex authority_end ?x" "CHR ''@'' \<notin> set ?x" by blast+
  have "url = scheme @ ?x @ t"
    using assms(7) by simp
  note shape = screen_by_host [OF assms(5) this _ inside assms(6) host, unfolded Let_def]
  have "?x \<noteq> []" "?h \<noteq> []" by simp_all
  from shape [OF this] have "urlShapeError url = Inr (?x @ ?y)"
    unfolding ParseIP_mapped [OF assms(1-4)] by (simp only: option.distinct simp_thms if_False)
  then have "urlShapeError url = Inr (?x @ ?y) \<and> ParseIP (authorityHost (?x @ ?y)) = Some (v4_prefix @ [a, b, c, d])"
    unfolding host using ParseIP_mapped [OF assms(1-4)] by blast
  then show ?thesis by blast
qed

lemma spelled_screen:
  assumes "a < 256" "b < 256" "c < 256" "d < 256" "spelled url n a b c d"
  shows "if n = 0 then \<exists>au. urlShapeError url = Inr au \<and> ParseIP (authorityHost au) = Some (v4_prefix @ [a, b, c, d])
         else \<exists>reason. urlShapeError url = Inl reason"
proof -
  from assms(5) obtain scheme t where scheme: "scheme \<in> {''http://'', ''https://''}"
    and form: "url_tail '':%/?'' t \<and> url = scheme @ dotted a b c d @ replicate n CHR ''.'' @ t \<or>
      url_tail '':/?'' t \<and> n = 0 \<and> url = scheme @ CHR ''['' # ''::ffff:'' @ dotted a b c d @ CHR '']'' # t"
    unfolding spelled_def by blast
  from form show ?thesis
  proof
    assume "url_tail '':%/?'' t \<and> url = scheme @ dotted a b c d @ replicate n CHR ''.'' @ t"
    then show ?thesis
      using dotted_screen [OF assms(1-4) scheme] by blast
  next
    assume "url_tail '':/?'' t \<and> n = 0 \<and> url = scheme @ CHR ''['' # ''::ffff:'' @ dotted a b c d @ CHR '']'' # t"
    then have "n = 0" "\<exists>au. urlShapeError url = Inr au \<and> ParseIP (authorityHost au) = Some (v4_prefix @ [a, b, c, d])"
      using mapped_screen [OF assms(1-4) scheme] by blast+
    then show ?thesis by simp
  qed
qed

lemma validate_from_all:
  "validate_from lower opts ids hs cs = Inr () \<Longrightarrow> c \<in> set cs \<Longrightarrow> static_endpoint_error opts c = None"
  by (induction cs arbitrary: ids hs) (auto simp: Let_def split: if_splits option.splits)

lemma dynamic_screen:
  assumes "a < 256" "b < 256" "c < 256" "d < 256" "spelled (ep_ApiBaseUrl e) n a b c d"
  shows "dynamic_url_error e = None \<longleftrightarrow> n = 0 \<and> \<not> link_local a b \<and> \<not> local_host a b c d"
proof (cases "n = 0")
  case True
  then obtain au where "urlShapeError (ep_ApiBaseUrl e) = Inr au" "ParseIP (authorityHost au) = Some (v4_prefix @ [a, b, c, d])"
    using spelled_screen [OF assms] by auto
  then show ?thesis
    using True screened_address(1,2) [of a b c d] by (simp add: dynamic_url_error_def)
next
  case False
  then obtain reason where "urlShapeError (ep_ApiBaseUrl e) = Inl reason"
    using spelled_screen [OF assms] by auto
  then show ?thesis
    using False by (simp add: dynamic_url_error_def)
qed

lemma static_screen:
  assumes "a < 256" "b < 256" "c < 256" "d < 256" "spelled (ep_ApiBaseUrl e) n a b c d" "static_endpoint_error opts e = None"
  shows "n = 0 \<and> \<not> link_local a b \<and> (\<not> vo_AllowPrivateEndpoints opts \<longrightarrow> \<not> local_host a b c d \<and> \<not> private_net a b)"
proof -
  have host: "\<not> (ep_Hostname e = [] \<or> hasInvalidHostnameChar (ep_Hostname e))"
    using assms(6) unfolding static_endpoint_error_def by (auto split: if_splits)
  show ?thesis
  proof (cases "n = 0")
    case True
    then obtain au where "urlShapeError (ep_ApiBaseUrl e) = Inr au" "ParseIP (authorityHost au) = Some (v4_prefix @ [a, b, c, d])"
      using spelled_screen [OF assms(1-5)] by auto
    then show ?thesis
      using True assms(6) host screened_address(1,3) [of a b c d]
      by (auto simp: static_endpoint_error_def Let_def split: if_splits)
  next
    case False
    then obtain reason where "urlShapeError (ep_ApiBaseUrl e) = Inl reason"
      using spelled_screen [OF assms(1-5)] by auto
    then show ?thesis
      using False assms(6) host by (simp add: static_endpoint_error_def Let_def)
  qed
qed

text \<open>
  C22. However the dotted-decimal address of an endpoint is spelled in its URL, a workload's registration is
  screened exactly: it passes when there is no trailing dot and the address is neither link-local nor carrier
  NAT nor the gateway's own host, and a refusal leaves the table unchanged.  A configuration file that
  validates names no link-local or carrier-NAT address, and no private one unless the operator allowed it.
\<close>

theorem southbound_literals_screened:
  assumes "a < 256" "b < 256" "c < 256" "d < 256" "spelled (ep_ApiBaseUrl e) n a b c d"
  shows "(dynamic_url_error e = None \<longleftrightarrow> n = 0 \<and> \<not> link_local a b \<and> \<not> local_host a b c d) \<and>
    (dynamic_url_error e = None \<or> (\<exists>err. Register fold_of e r = (Inl err, r))) \<and>
    (e \<in> set (cr_Clusters r) \<longrightarrow> Validate lower opts r = Inr () \<longrightarrow>
       n = 0 \<and> \<not> link_local a b \<and> (\<not> vo_AllowPrivateEndpoints opts \<longrightarrow> \<not> local_host a b c d \<and> \<not> private_net a b))"
proof -
  have "\<exists>err. Register fold_of e r = (Inl err, r)" if "dynamic_url_error e \<noteq> None"
    using that by (auto simp: Register_def Upsert_def)
  then show ?thesis
    using dynamic_screen [OF assms] static_screen [OF assms, of opts] validate_from_all [of lower opts "[]" "[]" "cr_Clusters r" e]
    by (auto simp: Validate_def)
qed

lemma dotted_samples: "dotted 169 254 169 254 = ''169.254.169.254''" "dotted 8 8 4 4 = ''8.8.4.4''"
  by code_simp+

definition sample_endpoint :: "string \<Rightarrow> ClusterEndpoint" where
  "sample_endpoint n = \<lparr>ep_Id = n, ep_Hostname = n, ep_ApiBaseUrl = ''http://8.8.4.4'', ep_AuthToken = None,
     ep_AuthTokenEnv = None, ep_Project = [], ep_Target = [], ep_Source = []\<rparr>"

definition sample_registry :: ClusterRegistry where
  "sample_registry = snd (Register id (sample_endpoint ''ray'') \<lparr>cr_Clusters = [sample_endpoint ''static''], cr_dynamic = []\<rparr>)"

definition metadata_endpoint :: ClusterEndpoint where
  "metadata_endpoint = (sample_endpoint ''ray'')\<lparr>ep_ApiBaseUrl := ''http://169.254.169.254./latest''\<rparr>"

theorem southbound_literals_screened_witness:
  "spelled (ep_ApiBaseUrl metadata_endpoint) 1 169 254 169 254 \<and>
   (\<exists>err. Register id metadata_endpoint sample_registry = (Inl err, sample_registry))"
proof -
  have "ep_ApiBaseUrl metadata_endpoint = ''http://'' @ dotted 169 254 169 254 @ replicate 1 CHR ''.'' @ ''/latest''"
    "url_tail '':%/?'' ''/latest''"
    by (simp_all add: metadata_endpoint_def dotted_samples url_tail_def)
  then have "spelled (ep_ApiBaseUrl metadata_endpoint) 1 169 254 169 254"
    unfolding spelled_def by blast
  then show ?thesis
    using southbound_literals_screened [of 169 254 169 254 metadata_endpoint 1 id sample_registry id "\<lparr>vo_AllowInsecureTransport = False, vo_AllowPrivateEndpoints = False\<rparr>"] by auto
qed

lemma sample_endpoint_accepted: "dynamic_url_error (sample_endpoint n) = None"
proof -
  have "ep_ApiBaseUrl (sample_endpoint n) = ''http://'' @ dotted 8 8 4 4 @ replicate 0 CHR ''.'' @ []" "url_tail '':%/?'' []"
    by (simp_all add: sample_endpoint_def dotted_samples url_tail_def)
  then have "spelled (ep_ApiBaseUrl (sample_endpoint n)) 0 8 8 4 4"
    unfolding spelled_def by blast
  then show ?thesis
    using dynamic_screen [of 8 8 4 4 "sample_endpoint n" 0] by (simp add: link_local_def local_host_def)
qed

lemma sample_names: "runes ''ray'' = [114, 97, 121]" "runes ''static'' = [115, 116, 97, 116, 105, 99]"
  by code_simp+

theorem registry_routing_witness:
  "registered id [sample_endpoint ''static''] sample_registry \<and>
   ByHostname id ''ray'' sample_registry = Some (stamp (sample_endpoint ''ray'') RegistrySourceDynamic)"
proof -
  have "registered id [sample_endpoint ''static''] sample_registry"
    unfolding sample_registry_def by (intro registered.intros)
  moreover have "gget (cr_dynamic sample_registry) ''ray'' = Some (sample_endpoint ''ray'')"
    using sample_endpoint_accepted [of "''ray''"]
    by (simp add: sample_registry_def Register_def Upsert_def EqualFold_def hasInvalidHostnameChar_def sample_names
        unicode_space_def gget_gput) (simp add: sample_endpoint_def sample_names unicode_space_def gget_gput)
  moreover have "EqualFold id (ep_Hostname (sample_endpoint ''ray'')) (stripPort ''ray'')"
    by (simp add: EqualFold_def sample_endpoint_def stripPort_def HasPrefix_def)
  ultimately show ?thesis
    using registry_routing [of id "[sample_endpoint ''static'']" sample_registry] by blast
qed

end
