(* ===== verification/Owner_Label.thy ===== *)
theory Owner_Label
  imports Provisioner
begin

text \<open>
  The owner label (\<^verbatim>\<open>internal/provision/owner_label.go\<close>): every owner name becomes a label value Kubernetes
  accepts, names that already are one pass through, and two rewritten names share a label only when the
  64-bit suffixes of their digests agree.
\<close>

definition label_char :: "char \<Rightarrow> bool" where
  "label_char c = (is_lower c \<or> is_digit c \<or> c = CHR ''-'')"

definition label_value :: "string \<Rightarrow> bool" where
  "label_value s = (length s \<le> 63 \<and> list_all label_char s \<and>
     (s = [] \<or> hd s \<noteq> CHR ''-'' \<and> last s \<noteq> CHR ''-''))"

lemma owner_rune_label: "label_char (owner_rune r)"
  by (simp add: owner_rune_def label_char_def is_lower_def is_digit_def of_char_of)

lemma owner_rune_fixed: "label_char c \<Longrightarrow> owner_rune (of_char c) = c"
  by (auto simp: label_char_def owner_rune_def is_lower_def is_digit_def)

lemma rune_list_ascii: "list_all (\<lambda>b. b < 128) bs \<Longrightarrow> rune_list bs = bs"
proof (induction bs)
  case (Cons b bs)
  then have "decode_rune (b # bs) = (b, 1)"
    by (simp only: decode_rune.simps list.pred_inject if_True)
  with Cons show ?case by simp
qed simp

lemma label_runes: "list_all label_char s \<Longrightarrow> runes s = map of_char s"
  unfolding runes_def
  by (rule rune_list_ascii) (auto simp: list_all_iff label_char_def is_lower_def is_digit_def)

lemma trim_right_shape:
  "trim_right k s = [] \<or> last (trim_right k s) \<noteq> k" "set (trim_right k s) \<subseteq> set s"
  "length (trim_right k s) \<le> length s" "trim_right k s = [] \<or> hd (trim_right k s) = hd s"
proof -
  show "trim_right k s = [] \<or> last (trim_right k s) \<noteq> k"
    using hd_dropWhile [of "\<lambda>x. x = k" "rev s"] by (auto simp: trim_right_def last_rev)
  show "set (trim_right k s) \<subseteq> set s"
    by (auto simp: trim_right_def dest: set_dropWhileD)
  show "length (trim_right k s) \<le> length s"
    using length_dropWhile_le [of "\<lambda>x. x = k" "rev s"] by (simp add: trim_right_def)
  have "s = trim_right k s @ rev (takeWhile (\<lambda>x. x = k) (rev s))"
    by (simp add: trim_right_def flip: rev_append)
  then show "trim_right k s = [] \<or> hd (trim_right k s) = hd s"
    by (metis hd_append2)
qed

lemma trim_right_id: "s = [] \<or> last s \<noteq> k \<Longrightarrow> trim_right k s = s"
  by (cases s rule: rev_cases) (auto simp: trim_right_def)

lemma trim_shape:
  "trim k s = [] \<or> hd (trim k s) \<noteq> k \<and> last (trim k s) \<noteq> k" "set (trim k s) \<subseteq> set s"
proof -
  show "trim k s = [] \<or> hd (trim k s) \<noteq> k \<and> last (trim k s) \<noteq> k"
  proof (cases "dropWhile (\<lambda>x. x = k) s = []")
    case True
    then show ?thesis by (simp only: trim_def) (simp add: trim_right_def)
  next
    case False
    then show ?thesis
      using trim_right_shape(1,4) [of k "dropWhile (\<lambda>x. x = k) s"] hd_dropWhile [OF False]
      unfolding trim_def by metis
  qed
  show "set (trim k s) \<subseteq> set s"
    using trim_right_shape(2) [of k "dropWhile (\<lambda>x. x = k) s"] by (auto simp: trim_def dest: set_dropWhileD)
qed

lemma hex_encode_chars:
  assumes "list_all (\<lambda>b. 0 \<le> b \<and> b < 256) bs"
  shows "list_all (\<lambda>c. label_char c \<and> c \<noteq> CHR ''-'') (hex_encode bs)"
proof -
  have digit: "label_char (hex_digit n) \<and> hex_digit n \<noteq> CHR ''-''" if "0 \<le> n" "n < 16" for n
  proof -
    have "int (of_char (hex_digit n)) = (if n < 10 then 48 + n else 87 + n)"
      using that by (simp add: hex_digit_def of_nat_of_char)
    moreover have "int (of_char CHR ''-'') = 45" by simp
    ultimately show ?thesis
      using that by (auto simp: label_char_def is_lower_def is_digit_def split: if_splits)
  qed
  show ?thesis
    using assms
  proof (induction bs)
    case (Cons b bs)
    then have "0 \<le> b div 16" "b div 16 < 16" "0 \<le> b mod 16" "b mod 16 < 16" by auto
    with Cons digit [of "b div 16"] digit [of "b mod 16"] show ?case by (simp add: hex_encode_def)
  qed (simp add: hex_encode_def)
qed

lemma sha256_hex_chars: "list_all (\<lambda>c. label_char c \<and> c \<noteq> CHR ''-'') (sha256_hex s)"
  unfolding sha256_hex_def
  by (rule hex_encode_chars) (auto simp: sha256_sum_def Let_def be_bytes_def list_all_iff split: prod.split)

text \<open>The two parts of a rewritten label.\<close>

definition label_stem :: "string \<Rightarrow> string" where
  "label_stem owner =
     (let mapped = trim (CHR ''-'') (map owner_rune (runes owner));
          stem = (if 46 < length mapped then trim_right (CHR ''-'') (take 46 mapped) else mapped)
      in if stem = [] then ''owner'' else stem)"

lemma mapped_shape:
  fixes owner :: string
  defines "m \<equiv> trim (CHR ''-'') (map owner_rune (runes owner))"
  shows "list_all label_char m" "m = [] \<or> hd m \<noteq> CHR ''-'' \<and> last m \<noteq> CHR ''-''"
  using trim_shape [of "CHR ''-''" "map owner_rune (runes owner)"] owner_rune_label
  unfolding m_def by (auto simp: list_all_iff)

lemma label_stem_shape:
  "label_stem owner \<noteq> []" "length (label_stem owner) \<le> 46" "list_all label_char (label_stem owner)"
  "hd (label_stem owner) \<noteq> CHR ''-''"
proof -
  define m where "m = trim (CHR ''-'') (map owner_rune (runes owner))"
  define t where "t = trim_right (CHR ''-'') (take 46 m)"
  have m: "list_all label_char m" "m = [] \<or> hd m \<noteq> CHR ''-''"
    using mapped_shape [of owner] unfolding m_def by auto
  have t: "list_all label_char t" "length t \<le> 46" "t = [] \<or> hd t \<noteq> CHR ''-''"
    using trim_right_shape(2,3,4) [of "CHR ''-''" "take 46 m"] m
    by (auto simp: t_def list_all_iff dest!: in_set_takeD subsetD)
  have owner: "list_all label_char ''owner''" "hd ''owner'' \<noteq> CHR ''-''"
    by (simp_all add: label_char_def is_lower_def)
  have "label_stem owner = (let stem = (if 46 < length m then t else m) in if stem = [] then ''owner'' else stem)"
    by (simp add: label_stem_def m_def t_def Let_def)
  then show "label_stem owner \<noteq> []" "length (label_stem owner) \<le> 46" "list_all label_char (label_stem owner)"
    "hd (label_stem owner) \<noteq> CHR ''-''"
    using m t owner by (auto simp: Let_def split: if_splits)
qed

lemma passes_through: "trim (CHR ''-'') (map owner_rune (runes owner)) = owner \<and> length owner \<le> 63 \<longleftrightarrow> label_value owner"
proof
  assume "trim (CHR ''-'') (map owner_rune (runes owner)) = owner \<and> length owner \<le> 63"
  then show "label_value owner"
    using mapped_shape [of owner] by (simp add: label_value_def)
next
  assume lv: "label_value owner"
  then have "map owner_rune (runes owner) = owner"
    using owner_rune_fixed by (simp add: label_value_def label_runes list_all_iff map_idI)
  moreover have "trim (CHR ''-'') owner = owner"
    using lv by (cases owner) (auto simp: label_value_def trim_def intro!: trim_right_id)
  ultimately show "trim (CHR ''-'') (map owner_rune (runes owner)) = owner \<and> length owner \<le> 63"
    using lv by (simp add: label_value_def)
qed

lemma ownerLabelValue_cases:
  "ownerLabelValue owner = (if label_value owner then owner else label_stem owner @ ''-'' @ take 16 (sha256_hex owner))"
  unfolding ownerLabelValue_def label_stem_def Let_def passes_through [symmetric] by simp

lemma rewritten_label: "label_value (label_stem owner @ ''-'' @ take 16 (sha256_hex owner))"
proof -
  let ?suffix = "take 16 (sha256_hex owner)"
  have hex: "list_all (\<lambda>c. label_char c \<and> c \<noteq> CHR ''-'') ?suffix" "length ?suffix = 16"
    using sha256_hex_chars [of owner] by (auto simp: list_all_iff dest: in_set_takeD)
  then have "?suffix \<noteq> []"
    by (metis list.size(3) zero_neq_numeral)
  moreover have "last ?suffix \<noteq> CHR ''-''" "list_all label_char ?suffix"
    using last_in_set [OF calculation] hex(1) by (auto simp: list_all_iff)
  ultimately show ?thesis
    using label_stem_shape [of owner] hex(2) by (simp add: label_value_def last_append hd_append label_char_def [of "CHR ''-''"])
qed

text \<open>
  C38. The owner label is always a label value: at most 63 characters of lower-case letters, digits and dashes,
  with no dash at either end.  An owner that already is a label value is its own label, and two owners that
  are rewritten share a label only if the first 64 bits of their SHA-256 digests are the same.
\<close>

theorem owner_label_value:
  "label_value (ownerLabelValue owner) \<and>
   (ownerLabelValue owner = owner \<longleftrightarrow> label_value owner) \<and>
   (ownerLabelValue owner = ownerLabelValue other \<longrightarrow> label_value owner \<or> label_value other \<or>
      take 16 (sha256_hex owner) = take 16 (sha256_hex other))"
  using rewritten_label [of owner] by (auto simp: ownerLabelValue_cases)

theorem owner_label_value_witness:
  "\<not> label_value ''Jane'' \<and> label_value (ownerLabelValue ''Jane'') \<and> ownerLabelValue ''Jane'' \<noteq> ''Jane''"
proof -
  have "\<not> label_value ''Jane''"
    by (simp add: label_value_def label_char_def is_lower_def is_digit_def)
  then show ?thesis
    using owner_label_value [of "''Jane''" "''Jane''"] by simp
qed

text \<open>The label of a rewritten owner is itself a possible owner name, and shares the label.\<close>

lemma owner_label_taken:
  assumes "\<not> label_value owner"
  shows "ownerLabelValue (ownerLabelValue owner) = ownerLabelValue owner \<and> ownerLabelValue owner \<noteq> owner"
  using assms rewritten_label [of owner] by (auto simp: ownerLabelValue_cases)

end
