(* ===== verification/Spec2Isabelle.thy ===== *)
theory Spec2Isabelle
  imports Rbac Core_Audit Store_Contracts Audit_Seal Reconcile_Stale Metering_Props Job_Props Service_Props Pool_Props
    Api_Authz Setup_Timeout Registry_Props Owner_Label
begin

text \<open>
  A verification development of Bifrost, a control plane that runs Ray clusters, jobs and services on Kubernetes.
  Paths below are relative to \<^verbatim>\<open>src/internal\<close>.

  \<^bold>\<open>The program.\<close>  The API server (\<^verbatim>\<open>api\<close>) authenticates and authorizes requests, checks them against the
  governance policy (\<^verbatim>\<open>policy\<close>) and writes what is wanted into a store (\<^verbatim>\<open>controller/store.go\<close>, with an in-memory
  and two SQL implementations).  Four engines (\<^verbatim>\<open>controller/reconcile.go\<close>, \<^verbatim>\<open>job_reconcile.go\<close>,
  \<^verbatim>\<open>service_reconcile.go\<close>, \<^verbatim>\<open>pool_reconcile.go\<close>) read the store at every tick, observe the backend through a
  provisioner (\<^verbatim>\<open>provision\<close>), act on the difference, record what they saw, and keep the routing table of the
  gateway (\<^verbatim>\<open>core/registry.go\<close>) in step.  A metering pass (\<^verbatim>\<open>controller/metering.go\<close>) writes usage samples.
  Actuation is fenced by an outbox of intents keyed by row and generation, every decision is recorded in a
  hash-chained audit trail, and a control plane that finds itself older than its backend is quarantined: it
  observes but does not act.

  \<^bold>\<open>How code becomes definitions.\<close>  A struct is a record whose fields carry a short prefix and the source's name,
  an enumeration with methods is a datatype (a string type keeps the values outside its constants), a function
  is a definition of the same name (a method takes its receiver first; a name that occurs in two packages or
  clashes with the logic carries a prefix such as \<^verbatim>\<open>job_\<close> or \<^verbatim>\<open>service_\<close>).  Unsigned integers are words of their
  width, so that they wrap where Go wraps; \<^verbatim>\<open>float64\<close> is the rationals with infinities and NaN and a rounding
  function (\<^verbatim>\<open>Float64\<close>; zero has no sign); strings are byte lists; a Go map is an association list with
  distinct keys, and where the code depends on the order of iteration the theorems say so.  Fallible code
  returns a sum with the error on the left.  Stateful fallible code is a program of \<^verbatim>\<open>Effects\<close>: it takes a state
  to an error or value and the next state, so that what was written before an error stays written.  Mutexes
  make each store method one step; \<^verbatim>\<open>RecordLoginFailure\<close>, which takes the lock twice, is modelled as one step
  and says so.  The clock is a field of the state, or an argument where the source passes it.

  \<^bold>\<open>The theories.\<close>
  \<^item> \<^verbatim>\<open>Bifrost_Prelude\<close>, \<^verbatim>\<open>Effects\<close>: words, strings, maps, enumerations, programs, and the interfaces every other
    theory uses: \<^verbatim>\<open>kv_table\<close> (what a map promises), \<^verbatim>\<open>string_enum\<close> (what an enumeration promises, interpreted for
    each enumeration of the source) and \<^verbatim>\<open>frame\<close> (a relation of states that a program stays within).
  \<^item> \<^verbatim>\<open>Float64\<close>, \<^verbatim>\<open>Strconv\<close>, \<^verbatim>\<open>Net_Url\<close>, \<^verbatim>\<open>Sha256\<close>, \<^verbatim>\<open>Json_Text\<close>, \<^verbatim>\<open>Json_Float\<close>: what the source uses of the Go
    standard library.  \<^verbatim>\<open>Json_Inject\<close> shows that the text of a JSON value determines the value when its strings
    are valid UTF-8.
  \<^item> \<^verbatim>\<open>Core_Catalog\<close>, \<^verbatim>\<open>Core_Cluster\<close>, \<^verbatim>\<open>Core_Workload\<close>, \<^verbatim>\<open>Core_Pool\<close>, \<^verbatim>\<open>Core_Audit\<close>, \<^verbatim>\<open>Core_Registry\<close>, \<^verbatim>\<open>Core_Json\<close>: the
    types of \<^verbatim>\<open>core\<close> with their validators, defaults and wire forms.  \<^verbatim>\<open>Spec_Facts\<close>: the outbox fingerprint
    determines the spec.
  \<^item> \<^verbatim>\<open>Rbac\<close> (\<^verbatim>\<open>auth/rbac.go\<close>): roles, scopes, and the grants derived from groups.
  \<^item> \<^verbatim>\<open>Policy\<close> (\<^verbatim>\<open>policy\<close>): quantity parsing, demand, quota, budget, usage integration, GPU isolation.
  \<^item> \<^verbatim>\<open>Store\<close> (\<^verbatim>\<open>controller/store.go\<close>): rows, change detection, lockout, audit chain; \<^verbatim>\<open>Memory_Store\<close>
    (\<^verbatim>\<open>controller/store_memory.go\<close>): every method of the in-memory store.
  \<^item> \<^verbatim>\<open>Provisioner\<close> (\<^verbatim>\<open>provision\<close>): the backend as records of functions over a world of its own, owner labels,
    queue names, the owned-spec fingerprint.
  \<^item> \<^verbatim>\<open>Reconcile\<close>, \<^verbatim>\<open>Metering\<close>, \<^verbatim>\<open>Job_Reconcile\<close>, \<^verbatim>\<open>Service_Reconcile\<close>, \<^verbatim>\<open>Pool_Reconcile\<close>: the engines, each method a
    program over a state that holds the store, the backend's world, the routing table and the engine's own
    memory.  They run over the store interface (\<^verbatim>\<open>StoreI\<close>: the methods of \<^verbatim>\<open>Store\<close> the engines call), of which the
    in-memory store is one value.
  \<^item> \<^verbatim>\<open>Api_Authz\<close> (\<^verbatim>\<open>api/authz.go\<close>) over the same store interface extended by what the API calls (\<^verbatim>\<open>ApiStore\<close>), and
    \<^verbatim>\<open>Runtime_Env\<close> (\<^verbatim>\<open>api/runtimeenv.go\<close>).

  \<^bold>\<open>What is shown.\<close>
  \<^item> The cluster engine (\<^verbatim>\<open>Reconcile_Props\<close>, \<^verbatim>\<open>Reconcile_Live\<close>, \<^verbatim>\<open>Reconcile_Stale\<close>): the sequences of provider calls
    one pass can make and the open intent behind each apply; that quarantine only observes; convergence in one
    pass, with every later pass quiet, against a backend that keeps its promises to the row; the refusal of an
    intent key held for other parameters; the exact reach of the lifecycle reaper and of the stale-restore
    check; the backoff schedule without wrap-around.
  \<^item> The other engines (\<^verbatim>\<open>Job_Props\<close>, \<^verbatim>\<open>Service_Props\<close>, \<^verbatim>\<open>Pool_Props\<close>, \<^verbatim>\<open>Metering_Props\<close>): what one pass calls, records,
    reports and routes, in every branch; that a finished job is never run again; the order of writes that makes
    the end of a job survive a crash; which pool states share an outbox key.
  \<^item> The store (\<^verbatim>\<open>Store_Runs\<close>, \<^verbatim>\<open>Store_Contracts\<close>, \<^verbatim>\<open>Audit_Seal\<close>): an invariant of all reachable stores; the cluster
    table as a refinement of a versioned register; the generation and the outbox as fences; complete audit pages;
    permanent revocation; listings independent of map order; audit windows that verify, and that fix every field
    of every event unless SHA-256 collides.
  \<^item> Admission (\<^verbatim>\<open>Rbac\<close>, \<^verbatim>\<open>Api_Authz\<close>, \<^verbatim>\<open>Policy\<close>, \<^verbatim>\<open>Runtime_Env_Props\<close>, \<^verbatim>\<open>Setup_Timeout\<close>, \<^verbatim>\<open>Core_Pool\<close>, \<^verbatim>\<open>Core_Cluster\<close>):
    who may do what, exactly; quota, budget, GPU and runtime-environment rules, exactly; parsed quantities; the
    lifecycle guard.
  \<^item> The gateway and labels (\<^verbatim>\<open>Registry_Props\<close>, \<^verbatim>\<open>Owner_Label\<close>): stable routing, no static route taken over, the
    southbound address screen; owner labels.

  \<^bold>\<open>Hypotheses.\<close>  The backend, the YAML library, Unicode case mapping and the tokens in the environment are not
  part of the repository.  They are parameters, and a theorem that relies on their behaviour names it:
  \<^verbatim>\<open>keeps_promises\<close> (an apply brings the row up and an observation of a live row stays live) and \<^verbatim>\<open>reads_back\<close>
  (a written document is read back as the same value).  Each such theorem is followed by an instance with a
  concrete backend or codec.  Collision resistance is never assumed: the statements have a collision as an
  alternative.  Where a counter could wrap, the run is bounded by the width of the counter.

  \<^bold>\<open>Termination and bounds.\<close>  Every loop of the modelled code ranges over a finite list or consumes its input, so
  every definition is a total function and no fuel is used in the model; the reader of the concrete codec in
  \<^verbatim>\<open>Setup_Timeout\<close> is bounded by the nesting depth written in front of its text, which \<^verbatim>\<open>get_put_yaml\<close> shows to be
  enough.  The loops that wait for a timer are modelled by one tick.

  \<^bold>\<open>Where the code and its comments part.\<close>  Some theorems state behaviour that a comment in the source describes
  otherwise; the text at the theorem says so, and a lemma gives the case: \<^verbatim>\<open>uppercase_scope_valid\<close>, \<^verbatim>\<open>unfenced_edit\<close>,
  \<^verbatim>\<open>busy_zero_window_due\<close>, \<^verbatim>\<open>reverted_allocations_not_applied\<close>, \<^verbatim>\<open>attached_index_option_accepted\<close>,
  \<^verbatim>\<open>owner_label_taken\<close>, \<^verbatim>\<open>two_clusters_samples\<close>.

  \<^bold>\<open>Not modelled.\<close>  The SQL stores (SQL text run by a database), the Kubernetes manifests and clients, the HTTP
  handlers other than the shared authorization helpers, the reverse proxy, the authentication flows, the image
  registry client, the generated client, the commands, log lines, timers, and concurrency inside a store method.
\<close>

end
